(* ===== verification/Prelude.thy ===== *)
theory Prelude
  imports Main "HOL-Library.Word"
begin

text \<open>
  Shared vocabulary of the development: the C integer types as machine words, the
  bit-test and flag-building idioms of the source, and the lemmas on words and loops that
  the component theories use.

  A C cast between unsigned types is \<open>ucast\<close>, a read as a signed value is \<open>sint\<close>,
  \<open>x << n\<close> is \<open>push_bit n x\<close> and \<open>x >> n\<close> is \<open>drop_bit n x\<close>.
  A C array of fixed size \<open>2 ^ k\<close> indexed by a masked value is a function from
  \<open>k word\<close>, so every index is in range by its type.
\<close>

unbundle bit_operations_syntax

type_synonym u8 = "8 word"
type_synonym u16 = "16 word"
type_synonym u32 = "32 word"
type_synonym u64 = "64 word"
type_synonym nib = "4 word"

text \<open>Lemma collections: evaluation of state-monad code, register-file algebra, and
  preservation (frame) facts.\<close>

named_theorems run_simps
named_theorems reg_simps
named_theorems frame_simps

subsection \<open>Tests and flags\<close>

text \<open>\<open>if (x & m)\<close> of the source.\<close>

definition tst :: "'a::len word \<Rightarrow> 'a word \<Rightarrow> bool" where
  "tst x m \<longleftrightarrow> x AND m \<noteq> 0"

text \<open>\<open>if (b) f |= m\<close> of the source, one summand of the flag word.\<close>

definition flag_if :: "bool \<Rightarrow> 'a::len word \<Rightarrow> 'a word" where
  "flag_if b m = (if b then m else 0)"

lemma flag_if_simps [simp]: "flag_if True m = m" "flag_if False m = 0"
  by (simp_all add: flag_if_def)

lemma bit_flag_if: "bit (flag_if b m) i \<longleftrightarrow> b \<and> bit m i"
  by (simp add: flag_if_def)

lemma and_mask_zero_iff: "x AND m = 0 \<longleftrightarrow> (\<forall>i. bit m i \<longrightarrow> \<not> bit x i)" for x :: "'a::len word"
  by (auto simp: bit_eq_iff bit_simps dest: bit_imp_le_length)

lemma tst_iff: "tst x m \<longleftrightarrow> (\<exists>i. bit m i \<and> bit x i)" for x :: "'a::len word"
  by (auto simp: tst_def and_mask_zero_iff)

text \<open>A test of one bit.\<close>

lemma tst_bit: "tst x (push_bit n 1) \<longleftrightarrow> bit x n" for x :: "'a::len word"
  by (auto simp: tst_iff bit_simps dest: bit_imp_le_length)

lemma tst_or [simp]: "tst (x OR y) m \<longleftrightarrow> tst x m \<or> tst y m" for x :: "'a::len word"
  by (auto simp: tst_iff bit_simps)

lemma tst_0 [simp]: "\<not> tst 0 m" "\<not> tst x 0"
  by (simp_all add: tst_def)

lemma tst_and [simp]: "tst (x AND y) m \<longleftrightarrow> tst x (y AND m)"
  by (simp add: tst_def ac_simps)

lemma tst_flag_if [simp]: "tst (flag_if b x) m \<longleftrightarrow> b \<and> tst x m"
  by (simp add: flag_if_def)

lemma tst_numeral [simp]: "tst (numeral k) m \<longleftrightarrow> numeral k AND m \<noteq> 0" "tst 1 m \<longleftrightarrow> 1 AND m \<noteq> 0"
  by (simp_all add: tst_def)

lemma tst_push_bit_numeral: "tst x (push_bit (numeral n) 1) \<longleftrightarrow> bit x (numeral n)" for x :: "'a::len word"
  by (rule tst_bit)

subsection \<open>Words as numbers\<close>

lemma uint_take_Suc:
  "take_bit (Suc n) (k :: int) = take_bit n k + of_bool (bit k n) * 2 ^ n"
  by (simp add: take_bit_Suc_from_most)

lemma bit_uint_eq: "bit (uint x) n \<longleftrightarrow> bit x n" for x :: "'a::len word"
  by (auto simp: bit_uint_iff dest: bit_imp_le_length)

lemma unat_drop_bit_Suc0: "unat (drop_bit (Suc 0) v) = unat v div 2" for v :: "'a::len word"
  by (simp only: unat_drop_bit_eq) (simp add: drop_bit_Suc)

lemma or_eq_plus_disjoint:
  fixes a b :: "'a::len word"
  assumes "a AND b = 0"
  shows "a OR b = a + b"
  using assms by (simp add: disjunctive_add_eq_or)

lemma byte_widen [simp]:
  "(ucast (ucast (x :: u8) :: u16) :: u8) = x" "(ucast (ucast (x :: u8) :: u32) :: u8) = x"
  "(ucast (ucast (y :: u16) :: u32) :: u16) = y"
  by (rule bit_word_eqI, auto simp: bit_simps)+

text \<open>The bits of the byte masks; the library reads a word numeral's bits off the integer.\<close>

lemma bit_byte_masks:
  "bit (255 :: int) i \<longleftrightarrow> i < 8" "bit (65280 :: int) i \<longleftrightarrow> 8 \<le> i \<and> i < 16"
  "bit (65535 :: int) i \<longleftrightarrow> i < 16" "bit (4294901760 :: int) i \<longleftrightarrow> 16 \<le> i \<and> i < 32"
  "bit (15 :: int) i \<longleftrightarrow> i < 4"
proof -
  have "(255 :: int) = mask 8" "(65280 :: int) = push_bit 8 (mask 8)" "(65535 :: int) = mask 16"
    "(4294901760 :: int) = push_bit 16 (mask 16)" "(15 :: int) = mask 4"
    by (simp_all add: mask_eq_exp_minus_1)
  then show "bit (255 :: int) i \<longleftrightarrow> i < 8" "bit (65280 :: int) i \<longleftrightarrow> 8 \<le> i \<and> i < 16"
    "bit (65535 :: int) i \<longleftrightarrow> i < 16" "bit (4294901760 :: int) i \<longleftrightarrow> 16 \<le> i \<and> i < 32"
    "bit (15 :: int) i \<longleftrightarrow> i < 4"
    by (simp_all only: bit_mask_iff bit_push_bit_iff) auto
qed

subsection \<open>Loops\<close>

text \<open>A loop that undoes another, pass by pass, on the states both keep.\<close>

lemma funpow_inverse:
  assumes "\<And>x. P x \<Longrightarrow> P (f x)" and "\<And>x. P x \<Longrightarrow> g (f x) = x"
  shows "P x \<Longrightarrow> (g ^^ n) ((f ^^ n) x) = x \<and> P ((f ^^ n) x)"
proof (induction n)
  case (Suc n)
  have "(g ^^ Suc n) ((f ^^ Suc n) x) = (g ^^ n) (g (f ((f ^^ n) x)))"
    by (simp add: funpow_swap1)
  with Suc assms show ?case by simp
qed simp

lemma funpow_invariant:
  assumes "\<And>x. P x \<Longrightarrow> P (f x)"
  shows "P x \<Longrightarrow> P ((f ^^ n) x)"
  by (induction n) (auto intro: assms)

subsection \<open>Interfaces\<close>

text \<open>
  A named part of a state: a register of the register file, a byte of a descriptor, a cell
  of a chip's register set.  The laws are what its clients rely on: a read gives the last
  write, writing back what was read changes nothing, and the last write wins.
\<close>

locale lens =
  fixes get :: "'s \<Rightarrow> 'v"
    and put :: "'v \<Rightarrow> 's \<Rightarrow> 's"
  assumes get_put: "get (put v s) = v"
    and put_get: "put (get s) s = s"
    and put_put: "put v (put w s) = put v s"
begin

lemma put_same: "get s = v \<Longrightarrow> put v s = s"
  using put_get by auto

lemma put_eq_iff: "put v s = put w s \<longleftrightarrow> v = w"
  using get_put by metis

end

text \<open>Two parts of one state that do not overlap.\<close>

locale lens_pair = a: lens geta puta + b: lens getb putb
  for geta :: "'s \<Rightarrow> 'v" and puta :: "'v \<Rightarrow> 's \<Rightarrow> 's"
    and getb :: "'s \<Rightarrow> 'w" and putb :: "'w \<Rightarrow> 's \<Rightarrow> 's" +
  assumes geta_putb: "geta (putb w s) = geta s"
    and getb_puta: "getb (puta v s) = getb s"
    and put_commute: "puta v (putb w s) = putb w (puta v s)"

text \<open>Exchange of two parts that hold the same kind of value.\<close>

locale lens_swap = lens_pair geta puta getb putb
  for geta :: "'s \<Rightarrow> 'v" and puta :: "'v \<Rightarrow> 's \<Rightarrow> 's"
    and getb :: "'s \<Rightarrow> 'v" and putb :: "'v \<Rightarrow> 's \<Rightarrow> 's"
begin

lemma swap_gets:
  "geta (putb (geta s) (puta (getb s) s)) = getb s"
  "getb (putb (geta s) (puta (getb s) s)) = geta s"
  by (simp_all add: geta_putb a.get_put b.get_put)

lemma swap_twice:
  assumes "t = putb (geta s) (puta (getb s) s)"
  shows "putb (geta t) (puta (getb t) t) = s"
  using assms by (simp add: swap_gets put_commute a.put_put b.put_put a.put_get b.put_get)

end

end
