(* ===== verification/Emu_Types.thy ===== *)
theory Emu_Types
  imports Prelude
begin

text \<open>
  The shared declarations of \<open>src/src/emu.h\<close>: FCW flag bits, the enumerations that a
  decoded instruction is made of, and the control word itself.  Constructor names are the
  source's enumerators; record fields carry a prefix because Isabelle record fields are
  global names.
\<close>

subsection \<open>FCW bits\<close>

abbreviation (input) F_C :: u16 where "F_C \<equiv> 0x0080"
abbreviation (input) F_Z :: u16 where "F_Z \<equiv> 0x0040"
abbreviation (input) F_S :: u16 where "F_S \<equiv> 0x0020"
abbreviation (input) F_PV :: u16 where "F_PV \<equiv> 0x0010"
abbreviation (input) F_DA :: u16 where "F_DA \<equiv> 0x0008"
abbreviation (input) F_H :: u16 where "F_H \<equiv> 0x0004"

abbreviation (input) FCW_SEG :: u16 where "FCW_SEG \<equiv> 0x8000"
abbreviation (input) FCW_SN :: u16 where "FCW_SN \<equiv> 0x4000"
abbreviation (input) FCW_EPA :: u16 where "FCW_EPA \<equiv> 0x2000"
abbreviation (input) FCW_VIE :: u16 where "FCW_VIE \<equiv> 0x1000"
abbreviation (input) FCW_NVIE :: u16 where "FCW_NVIE \<equiv> 0x0800"

subsection \<open>Enumerations\<close>

datatype AluOp =
    OpAdd | OpAdc | OpSub | OpSbc | OpAnd | OpOr | OpXor | OpCom | OpNeg
  | OpTest | OpCp | OpInc | OpDec | OpSla | OpSra | OpSll | OpSrl | OpRl | OpRr
  | OpRlc | OpRrc | OpDab | OpExts | OpLd | OpBit | OpSet | OpRes | OpTset

datatype Width = WByte | WWord | WLong

datatype InstrClass =
    ClsUnified | ClsFcwOp | ClsExts | ClsStack | ClsBranch | ClsTCC | ClsDAB
  | ClsExchange | ClsBCDRotate | ClsBitDynamic | ClsLEA | ClsIO | ClsLDCTL
  | ClsShift | ClsBlockTransfer | ClsBlockCompare | ClsBlockString | ClsBlockIO
  | ClsLDM | ClsMultiProc | ClsMul | ClsDiv | ClsLDPS | ClsHalt | ClsSysCall
  | ClsIRET | ClsTranslate

datatype BranchMode =
    BranchJP_DA | BranchJP_X | BranchJP_IR | BranchJR | BranchCALL_DA
  | BranchCALL_X | BranchCALL_IR | BranchCALR | BranchCALR12 | BranchRET | BranchDJNZ

datatype FcwOpKind = FcwSet | FcwClear | FcwToggle | FcwLoadLo | FcwStoreLo

datatype StackMode =
    StackPush | StackPop | StackPushL | StackPopL | StackPushSrc | StackPopDst
  | StackPushLSrc | StackPopLDst | StackPushImm

datatype SrcSel =
    SrcNone | SrcReg | SrcImm | SrcIR | SrcDA | SrcX | SrcOne | SrcTwo | SrcNib3Cnt
  | SrcZero | SrcImm2 | SrcPCRel | SrcBased | SrcBX | SrcNib3Bit | SrcNib3CntPlus1
  | SrcOpLoByte

datatype DstSel =
    DstReg | DstNone | DstFlagsOnly | DstIR | DstDA | DstX | DstPCRel | DstBased | DstBX

datatype RegSel = RegNib3 | RegNib2 | RegNib1

datatype MPOpKind = MPBit | MPRes | MPSet | MPReq

subsection \<open>The control word\<close>

record CtrlWord =
  cw_name :: string
  cw_exec :: InstrClass
  cw_alu_op :: AluOp
  cw_width :: Width
  cw_words :: nat
  cw_priv :: bool
  cw_src2 :: SrcSel
  cw_dst :: DstSel
  cw_count :: SrcSel
  cw_src1_nib :: RegSel
  cw_src2_nib :: RegSel
  cw_dst_nib :: RegSel
  cw_fcw_op :: FcwOpKind
  cw_fcw_mask :: u16
  cw_stk_mode :: StackMode
  cw_br_mode :: BranchMode
  cw_io_write :: bool
  cw_io_spec :: bool
  cw_block_decr :: bool
  cw_block_rept :: bool
  cw_mp_op :: MPOpKind
  cw_valid :: bool

text \<open>\<open>(int) w\<close> for a width: the enumerators are 1, 2 and 4.\<close>

definition width_num :: "Width \<Rightarrow> nat" where
  "width_num w = (case w of WByte \<Rightarrow> 1 | WWord \<Rightarrow> 2 | WLong \<Rightarrow> 4)"

lemma width_num_simps [simp]:
  "width_num WByte = 1" "width_num WWord = 2" "width_num WLong = 4"
  by (simp_all add: width_num_def)

end
