(* ===== verification/Alu.thy ===== *)
theory Alu
  imports Emu_Types
begin

text \<open>
  The arithmetic-logic unit, \<open>src/src/alu.c\<close>.  Operands and results travel in 64-bit
  words whatever the operand width; a result carries its flags and the mask of the flags
  that the instruction affects.  The definitions keep the source's algorithms (the
  bit-serial adder, the one-place-at-a-time shifts); the lemmas relate them to arithmetic.
\<close>

record alu_result =
  rvalue :: u64
  rflags :: u16
  rmask :: u16

subsection \<open>Flag helpers\<close>

text \<open>The loop of \<open>popcount8\<close>: \<open>n += v & 1; v >>= 1\<close> while \<open>v\<close> is non-zero.\<close>

function popcount8_loop :: "u8 \<Rightarrow> nat \<Rightarrow> nat" where
  "popcount8_loop v n = (if v \<noteq> 0 then popcount8_loop (drop_bit 1 v) (n + unat (v AND 1)) else n)"
  by pat_completeness auto
termination
proof (relation "measure (\<lambda>(v, n). unat v)")
  fix v :: u8 and n :: nat
  assume "v \<noteq> 0"
  then have "0 < unat v" by (simp add: unat_gt_0)
  then show "((drop_bit 1 v, n + unat (v AND 1)), v, n) \<in> measure (\<lambda>(v, n). unat v)"
    by (simp add: unat_drop_bit_Suc0)
qed simp

declare popcount8_loop.simps [simp del]

definition popcount8 :: "u8 \<Rightarrow> nat" where
  "popcount8 v = popcount8_loop v 0"

definition lflags_byte :: "u8 \<Rightarrow> u16" where
  "lflags_byte v =
     flag_if (v = 0) F_Z OR flag_if (tst v 0x80) F_S
     OR flag_if (popcount8 v mod 2 = 0) F_PV"

definition lflags_word :: "u16 \<Rightarrow> u16" where
  "lflags_word v =
     flag_if (v = 0) F_Z OR flag_if (tst v 0x8000) F_S
     OR flag_if (popcount8 (ucast v) mod 2 = 0) F_PV"

definition lflags_long :: "u32 \<Rightarrow> u16" where
  "lflags_long v = flag_if (v = 0) F_Z OR flag_if (tst v 0x80000000) F_S"

definition nbits_of :: "Width \<Rightarrow> nat" where
  "nbits_of w = (if w = WByte then 8 else if w = WWord then 16 else 32)"

text \<open>\<open>(nb == 64) ? ~0ull : ((1ull << nb) - 1)\<close>, the width mask of the helpers.\<close>

definition width_mask :: "nat \<Rightarrow> u64" where
  "width_mask nb = (if nb = 64 then NOT 0 else push_bit nb 1 - 1)"

subsection \<open>The bit-serial adder\<close>

text \<open>One pass of the loop body of \<open>carry_chain\<close>, over (carry, result, c4, cmsbin).\<close>

definition carry_step ::
  "u64 \<Rightarrow> u64 \<Rightarrow> nat \<Rightarrow> nat \<Rightarrow> u64 \<times> u64 \<times> bool \<times> bool \<Rightarrow> u64 \<times> u64 \<times> bool \<times> bool" where
  "carry_step a b nbits i = (\<lambda>(c, result, c4, cmsbin).
     (let cmsbin = (if i = nbits - 1 then c \<noteq> 0 else cmsbin);
          ai = drop_bit i a AND 1;
          bi = drop_bit i b AND 1;
          result = result OR push_bit i (ai XOR bi XOR c);
          c = (ai AND bi) OR (bi AND c) OR (ai AND c);
          c4 = (if i = 3 then c \<noteq> 0 else c4)
      in (c, result, c4, cmsbin)))"

text \<open>\<open>carry_chain\<close> returns the sum and the three exported carries
  (\<open>cout\<close>, \<open>c4\<close>, \<open>cmsbin\<close>).\<close>

definition carry_chain :: "u64 \<Rightarrow> u64 \<Rightarrow> bool \<Rightarrow> nat \<Rightarrow> u64 \<times> bool \<times> bool \<times> bool" where
  "carry_chain a b cin nbits =
     (let (c, result, c4, cmsbin) =
        fold (carry_step a b nbits) [0..<nbits] (of_bool cin, 0, False, False)
      in (result, c \<noteq> 0, c4, cmsbin))"

definition do_add :: "u64 \<Rightarrow> u64 \<Rightarrow> bool \<Rightarrow> Width \<Rightarrow> alu_result" where
  "do_add a b carry w =
     (let nb = nbits_of w;
          (r, cout, c4, cmsb) = carry_chain a b carry nb;
          r = r AND width_mask nb;
          f = flag_if cout F_C OR flag_if (r = 0) F_Z
              OR flag_if (tst (drop_bit (nb - 1) r) 1) F_S
              OR flag_if (cout \<noteq> cmsb) F_PV OR flag_if c4 F_H;
          fm = F_C OR F_Z OR F_S OR F_PV;
          fm = (if w = WByte then fm OR F_DA OR F_H else fm)
      in \<lparr>rvalue = r, rflags = f, rmask = fm\<rparr>)"

definition do_sub :: "u64 \<Rightarrow> u64 \<Rightarrow> bool \<Rightarrow> Width \<Rightarrow> alu_result" where
  "do_sub a b borrow w =
     (let nb = nbits_of w;
          notb = NOT b AND width_mask nb;
          (r, cout, c4, cmsb) = carry_chain a notb (\<not> borrow) nb;
          r = r AND width_mask nb;
          f = flag_if (\<not> cout) F_C OR flag_if (r = 0) F_Z
              OR flag_if (tst (drop_bit (nb - 1) r) 1) F_S
              OR flag_if (cout \<noteq> cmsb) F_PV OR flag_if (\<not> c4) F_H;
          fm = F_C OR F_Z OR F_S OR F_PV
      in if w = WByte
         then \<lparr>rvalue = r, rflags = f OR F_DA, rmask = fm OR F_DA OR F_H\<rparr>
         else \<lparr>rvalue = r, rflags = f, rmask = fm\<rparr>)"

subsection \<open>Logical operations, NEG, INC, DEC\<close>

definition logic :: "u64 \<Rightarrow> Width \<Rightarrow> u16 \<Rightarrow> alu_result" where
  "logic v w mk =
     \<lparr>rvalue = v,
      rflags = (if w = WByte then lflags_byte (ucast v)
                else if w = WWord then lflags_word (ucast v)
                else lflags_long (ucast v)),
      rmask = mk\<rparr>"

definition do_neg :: "u64 \<Rightarrow> Width \<Rightarrow> alu_result" where
  "do_neg a w =
     (let fm = F_C OR F_Z OR F_S OR F_PV
      in if w = WByte then
           (let x = (ucast a :: u8); v = - x
            in \<lparr>rvalue = ucast v,
                rflags = flag_if (x \<noteq> 0) F_C OR flag_if (v = 0) F_Z
                         OR flag_if (tst v 0x80) F_S OR flag_if (x = 0x80) F_PV,
                rmask = fm\<rparr>)
         else if w = WWord then
           (let x = (ucast a :: u16); v = - x
            in \<lparr>rvalue = ucast v,
                rflags = flag_if (x \<noteq> 0) F_C OR flag_if (v = 0) F_Z
                         OR flag_if (tst v 0x8000) F_S OR flag_if (x = 0x8000) F_PV,
                rmask = fm\<rparr>)
         else
           (let x = (ucast a :: u32); v = - x
            in \<lparr>rvalue = ucast v,
                rflags = flag_if (x \<noteq> 0) F_C OR flag_if (v = 0) F_Z
                         OR flag_if (tst v 0x80000000) F_S OR flag_if (x = 0x80000000) F_PV,
                rmask = fm\<rparr>))"

definition do_inc :: "u64 \<Rightarrow> u64 \<Rightarrow> Width \<Rightarrow> alu_result" where
  "do_inc a n w =
     (if w = WByte then
        (let av = (ucast a :: u8); nb = (ucast n :: u8); v = av + nb
         in \<lparr>rvalue = ucast v,
             rflags = flag_if (v = 0) F_Z OR flag_if (tst v 0x80) F_S
                      OR flag_if (\<not> tst (av XOR nb) 0x80 \<and> tst (av XOR v) 0x80) F_PV,
             rmask = F_Z OR F_S OR F_PV\<rparr>)
      else
        (let av = (ucast a :: u16); nb = (ucast n :: u16); v = av + nb
         in \<lparr>rvalue = ucast v,
             rflags = flag_if (v = 0) F_Z OR flag_if (tst v 0x8000) F_S
                      OR flag_if (\<not> tst (av XOR nb) 0x8000 \<and> tst (av XOR v) 0x8000) F_PV,
             rmask = F_Z OR F_S OR F_PV\<rparr>))"

definition do_dec :: "u64 \<Rightarrow> u64 \<Rightarrow> Width \<Rightarrow> alu_result" where
  "do_dec a n w =
     (if w = WByte then
        (let av = (ucast a :: u8); nb = (ucast n :: u8); v = av - nb
         in \<lparr>rvalue = ucast v,
             rflags = flag_if (v = 0) F_Z OR flag_if (tst v 0x80) F_S
                      OR flag_if (tst (av XOR nb) 0x80 \<and> tst (av XOR v) 0x80) F_PV,
             rmask = F_Z OR F_S OR F_PV\<rparr>)
      else
        (let av = (ucast a :: u16); nb = (ucast n :: u16); v = av - nb
         in \<lparr>rvalue = ucast v,
             rflags = flag_if (v = 0) F_Z OR flag_if (tst v 0x8000) F_S
                      OR flag_if (tst (av XOR nb) 0x8000 \<and> tst (av XOR v) 0x8000) F_PV,
             rmask = F_Z OR F_S OR F_PV\<rparr>))"

subsection \<open>Shifts and rotates\<close>

text \<open>The bodies of the shift loops, over (value, carry out) and, for the left shift, the
  overflow latch.\<close>

definition shl_step :: "u64 \<Rightarrow> u64 \<Rightarrow> u64 \<Rightarrow> u64 \<times> bool \<times> bool \<Rightarrow> u64 \<times> bool \<times> bool" where
  "shl_step sign wmask orig = (\<lambda>(val, cout, ovf).
     (let cout = tst val sign;
          val = push_bit 1 val AND wmask;
          ovf = (if val AND sign \<noteq> orig AND sign then True else ovf)
      in (val, cout, ovf)))"

definition do_shift_left :: "u64 \<Rightarrow> u64 \<Rightarrow> bool \<Rightarrow> Width \<Rightarrow> alu_result" where
  "do_shift_left a cnt arith w =
     (let n = unat (cnt AND 0x3F);
          mk = F_C OR F_Z OR F_S;
          mk = (if arith then mk OR F_PV else mk);
          mk = (if n = 0 then mk AND NOT F_C else mk);
          nb = nbits_of w;
          sign = push_bit (nb - 1) 1;
          wmask = width_mask nb;
          orig = a AND wmask;
          (val, cout, ovf) = (shl_step sign wmask orig ^^ n) (orig, False, False);
          r = logic val w mk;
          f = rflags r AND NOT F_PV;
          f = f OR flag_if cout F_C OR flag_if (arith \<and> ovf) F_PV
      in r\<lparr>rflags := f, rvalue := val\<rparr>)"

definition srl_step :: "u64 \<times> bool \<Rightarrow> u64 \<times> bool" where
  "srl_step = (\<lambda>(val, cout). (drop_bit 1 val, tst val 1))"

definition sra_step :: "u64 \<Rightarrow> u64 \<times> bool \<Rightarrow> u64 \<times> bool" where
  "sra_step sign = (\<lambda>(val, cout).
     (let cout = tst val 1; s = val AND sign in (drop_bit 1 val OR s, cout)))"

definition do_shift_right :: "u64 \<Rightarrow> u64 \<Rightarrow> bool \<Rightarrow> Width \<Rightarrow> alu_result" where
  "do_shift_right a cnt arith w =
     (let n = unat (cnt AND 0x3F);
          mk = (if arith then F_C OR F_Z OR F_S OR F_PV else F_C OR F_Z OR F_S);
          mk = (if n = 0 then mk AND NOT F_C else mk);
          nb = nbits_of w;
          sign = push_bit (nb - 1) 1;
          wmask = width_mask nb;
          (val, cout) = (srl_step ^^ n) (a AND wmask, False);
          (val, cout) = (if arith then (sra_step sign ^^ n) (a AND wmask, False)
                         else (val, cout));
          r = logic (val AND wmask) w mk;
          f = (if arith then rflags r AND NOT F_PV else rflags r);
          f = f OR flag_if cout F_C
      in r\<lparr>rflags := f, rvalue := val AND wmask\<rparr>)"

definition rot_step :: "u64 \<Rightarrow> u64 \<Rightarrow> bool \<Rightarrow> bool \<Rightarrow> u64 \<times> bool \<Rightarrow> u64 \<times> bool" where
  "rot_step sign wmask right thru = (\<lambda>(val, c).
     (if \<not> right then
        (let msb = tst val sign;
             val = push_bit 1 val AND wmask
         in if thru then (if c then val OR 1 else val, msb)
            else (if msb then val OR 1 else val, msb))
      else
        (let lsb = tst val 1;
             val = drop_bit 1 val
         in if thru then (if c then val OR sign else val, lsb)
            else (if lsb then val OR sign else val, lsb))))"

definition do_rotate :: "u64 \<Rightarrow> u64 \<Rightarrow> bool \<Rightarrow> bool \<Rightarrow> bool \<Rightarrow> Width \<Rightarrow> alu_result" where
  "do_rotate a cnt right thru cin w =
     (let n = unat (cnt AND 0x3F);
          n = (if n = 0 then 1 else n);
          nb = nbits_of w;
          sign = push_bit (nb - 1) 1;
          wmask = width_mask nb;
          orig = a AND wmask;
          (val, c) = (rot_step sign wmask right thru ^^ n) (orig, cin);
          r = logic val w (F_C OR F_Z OR F_S OR F_PV);
          f = rflags r AND NOT F_PV;
          f = f OR flag_if c F_C OR flag_if (tst (val XOR orig) sign) F_PV
      in r\<lparr>rflags := f, rvalue := val\<rparr>)"

subsection \<open>Decimal adjust and the dispatch\<close>

definition do_dab :: "u64 \<Rightarrow> bool \<Rightarrow> bool \<Rightarrow> alu_result" where
  "do_dab a hflag cin =
     (let val = (ucast a :: u8);
          c = cin;
          (val, c) =
            (if val AND 0x0F > 9 \<or> hflag
             then (let val = val + 0x06 in (val, if val AND 0xF0 = 0 then True else c))
             else (val, c));
          (val, c) = (if drop_bit 4 val > 9 \<or> c then (val + 0x60, True) else (val, c));
          r = logic (ucast val) WByte (F_C OR F_Z OR F_S)
      in r\<lparr>rflags := rflags r OR flag_if c F_C, rvalue := ucast val\<rparr>)"

text \<open>\<open>(w==WByte)?(uint8_t)x:(w==WWord)?(uint16_t)x:(uint32_t)x\<close>.\<close>

definition trunc_w :: "Width \<Rightarrow> u64 \<Rightarrow> u64" where
  "trunc_w w x =
     (if w = WByte then ucast (ucast x :: u8)
      else if w = WWord then ucast (ucast x :: u16)
      else ucast (ucast x :: u32))"

definition logic_mask :: "Width \<Rightarrow> u16" where
  "logic_mask w = (if w = WByte then F_Z OR F_S OR F_PV else F_Z OR F_S)"

definition alu_exec :: "AluOp \<Rightarrow> u64 \<Rightarrow> u64 \<Rightarrow> bool \<Rightarrow> Width \<Rightarrow> alu_result" where
  "alu_exec opn a b carry_in w =
     (case opn of
        OpAdd \<Rightarrow> do_add a b False w
      | OpAdc \<Rightarrow> do_add a b carry_in w
      | OpSub \<Rightarrow> do_sub a b False w
      | OpCp \<Rightarrow> do_sub a b False w
      | OpSbc \<Rightarrow> do_sub a b carry_in w
      | OpAnd \<Rightarrow> logic (trunc_w w (a AND b)) w (logic_mask w)
      | OpTest \<Rightarrow> logic (trunc_w w a) w (logic_mask w)
      | OpOr \<Rightarrow> logic (trunc_w w (a OR b)) w (logic_mask w)
      | OpXor \<Rightarrow> logic (trunc_w w (a XOR b)) w (logic_mask w)
      | OpCom \<Rightarrow> logic (trunc_w w (NOT a)) w (logic_mask w)
      | OpNeg \<Rightarrow> do_neg a w
      | OpInc \<Rightarrow> do_inc a b w
      | OpDec \<Rightarrow> do_dec a b w
      | OpSla \<Rightarrow> do_shift_left a b True w
      | OpSll \<Rightarrow> do_shift_left a b False w
      | OpSra \<Rightarrow> do_shift_right a b True w
      | OpSrl \<Rightarrow> do_shift_right a b False w
      | OpRl \<Rightarrow> do_rotate a b False False carry_in w
      | OpRr \<Rightarrow> do_rotate a b True False carry_in w
      | OpRlc \<Rightarrow> do_rotate a b False True carry_in w
      | OpRrc \<Rightarrow> do_rotate a b True True carry_in w
      | OpDab \<Rightarrow> do_dab a (tst b 1) carry_in
      | OpExts \<Rightarrow>
          (if w = WByte then
             (let v = (scast (ucast a :: u8) :: u16)
              in \<lparr>rvalue = ucast v,
                  rflags = flag_if (v = 0) F_Z OR flag_if (tst v 0x8000) F_S, rmask = 0\<rparr>)
           else
             (let v = (scast (ucast a :: u16) :: u32)
              in \<lparr>rvalue = ucast v,
                  rflags = flag_if (v = 0) F_Z OR flag_if (tst v 0x80000000) F_S, rmask = 0\<rparr>))
      | OpLd \<Rightarrow> \<lparr>rvalue = b, rflags = 0, rmask = 0\<rparr>
      | OpBit \<Rightarrow> \<lparr>rvalue = a, rflags = flag_if (\<not> tst a (push_bit (unat b) 1)) F_Z, rmask = F_Z\<rparr>
      | OpSet \<Rightarrow> \<lparr>rvalue = a OR push_bit (unat b) 1, rflags = 0, rmask = 0\<rparr>
      | OpRes \<Rightarrow> \<lparr>rvalue = a AND NOT (push_bit (unat b) 1), rflags = 0, rmask = 0\<rparr>
      | OpTset \<Rightarrow>
          (if w = WByte
           then \<lparr>rvalue = 0xFF, rflags = flag_if (tst (ucast a :: u8) 0x80) F_S, rmask = F_S\<rparr>
           else \<lparr>rvalue = 0xFFFF, rflags = flag_if (tst (ucast a :: u16) 0x8000) F_S,
                 rmask = F_S\<rparr>))"

end
