(* ===== verification/Alu_Arith.thy ===== *)
theory Alu_Arith
  imports Alu
begin

text \<open>
  Arithmetic meaning of the adder of \<open>src/src/alu.c\<close>: the bit-serial \<open>carry_chain\<close>
  is addition, its exported carries are the carries out of the word, out of bit 3 and into
  the sign bit, and the flags of ADD, SUB and CP are unsigned overflow, zero, sign and signed
  overflow.
\<close>

subsection \<open>The adder invariant\<close>

text \<open>The sum of the low \<open>n\<close> bits, carry-in included.\<close>

definition low_sum :: "u64 \<Rightarrow> u64 \<Rightarrow> bool \<Rightarrow> nat \<Rightarrow> int" where
  "low_sum a b cin n = take_bit n (uint a) + take_bit n (uint b) + of_bool cin"

lemma low_sum_0: "low_sum a b cin 0 = of_bool cin"
  by (simp add: low_sum_def)

lemma low_sum_Suc:
  "low_sum a b cin (Suc n) =
     low_sum a b cin n + (of_bool (bit a n) + of_bool (bit b n)) * 2 ^ n"
  by (simp add: low_sum_def uint_take_Suc bit_uint_iff bit_imp_le_length algebra_simps
      conj_absorb cong: conj_cong) (auto dest: bit_imp_le_length)

lemma low_sum_nonneg: "0 \<le> low_sum a b cin n"
  by (simp add: low_sum_def)

lemma low_sum_less: "low_sum a b cin n < 2 * 2 ^ n"
proof -
  have "take_bit n (uint a) < 2 ^ n" "take_bit n (uint b) < 2 ^ n"
    by (rule take_bit_int_less_exp)+
  moreover have "(of_bool cin :: int) \<le> 1" by simp
  ultimately show ?thesis unfolding low_sum_def by linarith
qed

definition carry_at :: "u64 \<Rightarrow> u64 \<Rightarrow> bool \<Rightarrow> nat \<Rightarrow> bool" where
  "carry_at a b cin n \<longleftrightarrow> 2 ^ n \<le> low_sum a b cin n"

lemma low_sum_div: "low_sum a b cin n div 2 ^ n = of_bool (carry_at a b cin n)"
proof (cases "carry_at a b cin n")
  case True
  then have "(low_sum a b cin n - 2 ^ n) div 2 ^ n = 0"
    using low_sum_less[of a b cin n] by (intro div_pos_pos_trivial) (auto simp: carry_at_def)
  moreover have "low_sum a b cin n div 2 ^ n = (low_sum a b cin n - 2 ^ n) div 2 ^ n + 1"
    using div_add_self2[of "2 ^ n" "low_sum a b cin n - 2 ^ n"] by simp
  ultimately show ?thesis using True by simp
next
  case False
  then show ?thesis
    using low_sum_nonneg[of a b cin n] by (simp add: carry_at_def div_pos_pos_trivial)
qed

lemma carry_at_0: "carry_at a b cin 0 = cin"
  by (simp add: carry_at_def low_sum_0)

text \<open>The majority recurrence of the ripple carry.\<close>

lemma carry_at_Suc:
  "carry_at a b cin (Suc n) \<longleftrightarrow>
     (bit a n \<and> bit b n) \<or> (bit b n \<and> carry_at a b cin n) \<or> (bit a n \<and> carry_at a b cin n)"
  using low_sum_nonneg[of a b cin n] low_sum_less[of a b cin n]
  by (cases "bit a n"; cases "bit b n")
    (auto simp: carry_at_def low_sum_Suc algebra_simps)

lemma bit_low_sum_Suc:
  "bit (low_sum a b cin (Suc n)) n \<longleftrightarrow> (bit a n \<noteq> bit b n) \<noteq> carry_at a b cin n"
proof -
  have "low_sum a b cin (Suc n) div 2 ^ n
        = of_bool (carry_at a b cin n) + of_bool (bit a n) + of_bool (bit b n)"
    by (simp add: low_sum_Suc low_sum_div)
  then show ?thesis by (auto simp: bit_iff_odd)
qed

lemma take_bit_low_sum_Suc:
  "take_bit n (low_sum a b cin (Suc n)) = take_bit n (low_sum a b cin n)"
  by (simp add: low_sum_Suc take_bit_eq_mod)

lemma bit_low_sum_less:
  "k < n \<Longrightarrow> bit (low_sum a b cin (Suc n)) k \<longleftrightarrow> bit (low_sum a b cin n) k"
  using take_bit_low_sum_Suc[of n a b cin] by (metis bit_take_bit_iff)

text \<open>What the loop holds after \<open>n\<close> passes.\<close>

definition sum_word :: "u64 \<Rightarrow> u64 \<Rightarrow> bool \<Rightarrow> nat \<Rightarrow> u64" where
  "sum_word a b cin n = word_of_int (take_bit n (low_sum a b cin n))"

lemma bit_sum_word: "bit (sum_word a b cin n) k \<longleftrightarrow> k < 64 \<and> k < n \<and> bit (low_sum a b cin n) k"
  by (simp add: sum_word_def bit_simps)

lemma drop_bit_and_1: "drop_bit i x AND 1 = (if bit x i then 1 else 0)" for x :: "'a::len word"
  by (rule bit_word_eqI) (auto simp: bit_simps intro!: gr0I)

text \<open>One pass of the loop, in closed form.\<close>

lemma carry_step_eq:
  "carry_step a b nbits n (of_bool (carry_at a b cin n), r, c4, cm) =
     (of_bool (carry_at a b cin (Suc n)),
      r OR push_bit n (of_bool ((bit a n \<noteq> bit b n) \<noteq> carry_at a b cin n)),
      if n = 3 then carry_at a b cin 4 else c4,
      if n = nbits - 1 then carry_at a b cin n else cm)"
proof -
  let ?a = "if bit a n then 1 else (0 :: u64)" and ?b = "if bit b n then 1 else (0 :: u64)"
  let ?c = "of_bool (carry_at a b cin n) :: u64"
  have maj: "(?a AND ?b) OR (?b AND ?c) OR (?a AND ?c) = of_bool (carry_at a b cin (Suc n))"
    by (cases "bit a n"; cases "bit b n"; cases "carry_at a b cin n") (simp_all add: carry_at_Suc)
  have parity: "?a XOR ?b XOR ?c = of_bool ((bit a n \<noteq> bit b n) \<noteq> carry_at a b cin n)"
    by (cases "bit a n"; cases "bit b n"; cases "carry_at a b cin n") simp_all
  show ?thesis
    unfolding carry_step_def Let_def drop_bit_and_1 case_prod_conv maj parity
    by (cases "n = 3") simp_all
qed

lemma carry_fold:
  assumes "n \<le> nbits" "nbits \<le> 64"
  shows "fold (carry_step a b nbits) [0..<n] (of_bool cin, 0, False, False) =
     (of_bool (carry_at a b cin n), sum_word a b cin n,
      3 < n \<and> carry_at a b cin 4, nbits - 1 < n \<and> carry_at a b cin (nbits - 1))"
  using assms(1)
proof (induction n)
  case 0
  show ?case by (simp add: carry_at_0 sum_word_def)
next
  case (Suc n)
  let ?c = "carry_at a b cin n"
  have r: "sum_word a b cin n OR push_bit n (of_bool ((bit a n \<noteq> bit b n) \<noteq> ?c))
           = sum_word a b cin (Suc n)"
    using Suc.prems assms(2)
    by (intro bit_word_eqI)
      (auto simp: bit_simps bit_sum_word bit_low_sum_Suc bit_low_sum_less less_Suc_eq)
  have "fold (carry_step a b nbits) [0..<Suc n] (of_bool cin, 0, False, False) =
        carry_step a b nbits n (of_bool ?c, sum_word a b cin n,
          3 < n \<and> carry_at a b cin 4, nbits - 1 < n \<and> carry_at a b cin (nbits - 1))"
    using Suc by simp
  also have "\<dots> = (of_bool (carry_at a b cin (Suc n)), sum_word a b cin (Suc n),
      3 < Suc n \<and> carry_at a b cin 4, nbits - 1 < Suc n \<and> carry_at a b cin (nbits - 1))"
    unfolding carry_step_eq r by (auto simp: less_Suc_eq)
  finally show ?case .
qed

text \<open>\<open>carry_chain\<close> in closed form.\<close>

theorem carry_chain_eq:
  assumes "4 \<le> nbits" "nbits \<le> 64"
  shows "carry_chain a b cin nbits =
     (sum_word a b cin nbits, carry_at a b cin nbits, carry_at a b cin 4,
      carry_at a b cin (nbits - 1))"
  using carry_fold[of nbits nbits a b cin] assms
  by (simp add: carry_chain_def Let_def)

subsection \<open>ADD, SUB and CP as arithmetic\<close>

text \<open>The unsigned and the two's-complement reading of an operand of a given width.\<close>

definition uval :: "Width \<Rightarrow> u64 \<Rightarrow> int" where
  "uval w x = take_bit (nbits_of w) (uint x)"

definition sval :: "Width \<Rightarrow> u64 \<Rightarrow> int" where
  "sval w x = signed_take_bit (nbits_of w - 1) (uint x)"

lemma nbits_of_cases: "nbits_of w = 8 \<or> nbits_of w = 16 \<or> nbits_of w = 32"
  by (cases w) (simp_all add: nbits_of_def)

lemma nbits_of_bounds [simp]:
  "4 \<le> nbits_of w" "nbits_of w \<le> 64" "nbits_of w < 64" "\<not> 64 \<le> nbits_of w" "0 < nbits_of w" "1 \<le> nbits_of w"
  using nbits_of_cases[of w] by auto

lemma less_nbits_of: "n < nbits_of w \<Longrightarrow> n < 64" "n < 4 \<Longrightarrow> n < nbits_of w"
  using nbits_of_cases[of w] by auto

lemma min_nbits_of: "min (nbits_of w - Suc 0) n < nbits_of w" "min (nbits_of w - Suc 0) n < 64"
  using nbits_of_cases[of w] by auto

lemma width_mask_eq: "width_mask (nbits_of w) = mask (nbits_of w)"
  by (simp add: width_mask_def mask_eq_exp_minus_1 push_bit_of_1 flip: nat_neq_iff)

lemma and_width_mask: "x AND width_mask (nbits_of w) = take_bit (nbits_of w) x"
  by (simp add: width_mask_eq take_bit_eq_mask)

lemma sval_split:
  "sval w x = take_bit (nbits_of w - 1) (uint x) - of_bool (bit x (nbits_of w - 1)) * 2 ^ (nbits_of w - 1)"
proof -
  define n where "n = nbits_of w - 1"
  show ?thesis
    unfolding sval_def n_def [symmetric]
    by (simp add: signed_take_bit_eq_take_bit_minus uint_take_Suc bit_uint_eq)
qed

lemma sval_neg_iff: "sval w x < 0 \<longleftrightarrow> bit x (nbits_of w - 1)"
  using take_bit_int_less_exp[of "nbits_of w - 1" "uint x"] by (simp add: sval_split)

lemma low_sum_uval: "low_sum a b c (nbits_of w) = uval w a + uval w b + of_bool c"
  by (simp add: low_sum_def uval_def)

lemma carry_at_uval: "carry_at a b c (nbits_of w) \<longleftrightarrow> 2 ^ nbits_of w \<le> uval w a + uval w b + of_bool c"
  by (simp add: carry_at_def low_sum_uval)

text \<open>Signed overflow: the carry into the sign bit differs from the carry out of it.\<close>

lemma overflow_iff:
  "(carry_at a b c (nbits_of w) \<noteq> carry_at a b c (nbits_of w - 1)) \<longleftrightarrow>
     sval w a + sval w b + of_bool c \<notin> {- (2 ^ (nbits_of w - 1)) ..< 2 ^ (nbits_of w - 1)}"
proof -
  define n where "n = nbits_of w - 1"
  have nb: "nbits_of w = Suc n" by (simp add: n_def)
  let ?S = "low_sum a b c n"
  have T: "sval w a + sval w b + of_bool c
           = ?S - (of_bool (bit a n) + of_bool (bit b n)) * 2 ^ n"
    by (simp add: sval_split low_sum_def nb algebra_simps)
  show ?thesis
    unfolding T nb carry_at_def low_sum_Suc diff_Suc_1
    using low_sum_nonneg[of a b c n] low_sum_less[of a b c n]
    by (cases "bit a n"; cases "bit b n") auto
qed

lemma sum_word_uint:
  "uint (sum_word a b c (nbits_of w)) = (uval w a + uval w b + of_bool c) mod 2 ^ nbits_of w"
proof -
  have "uint (sum_word a b c (nbits_of w)) = take_bit 64 (take_bit (nbits_of w) (low_sum a b c (nbits_of w)))"
    by (simp only: sum_word_def uint_word_of_int_eq len_num1 len_bit0 mult_1_right)
      (simp add: min_def)
  also have "\<dots> = take_bit (nbits_of w) (low_sum a b c (nbits_of w))"
    by (simp add: min_def)
  finally show ?thesis by (simp add: take_bit_eq_mod low_sum_uval)
qed

lemma sum_word_fits: "take_bit (nbits_of w) (sum_word a b c (nbits_of w)) = sum_word a b c (nbits_of w)"
  by (rule bit_word_eqI) (auto simp: bit_simps bit_sum_word)

text \<open>The result of an addition, with its flags given by arithmetic on the operands.\<close>


lemma bit_sum_word_top:
  "tst (drop_bit (nbits_of w - 1) x) 1 \<longleftrightarrow> sval w x < 0"
  by (simp add: sval_neg_iff tst_def drop_bit_and_1)

text \<open>\<open>do_add\<close> is addition with carry-in.\<close>

lemma do_add_eq:
  "do_add a b c w =
     \<lparr>rvalue = sum_word a b c (nbits_of w),
      rflags = flag_if (carry_at a b c (nbits_of w)) F_C
        OR flag_if (sum_word a b c (nbits_of w) = 0) F_Z
        OR flag_if (sval w (sum_word a b c (nbits_of w)) < 0) F_S
        OR flag_if (carry_at a b c (nbits_of w) \<noteq> carry_at a b c (nbits_of w - 1)) F_PV
        OR flag_if (carry_at a b c 4) F_H,
      rmask = (if w = WByte then 0x00FC else 0x00F0)\<rparr>"
  unfolding do_add_def Let_def carry_chain_eq[OF nbits_of_bounds(1,2)] case_prod_conv
    and_width_mask sum_word_fits bit_sum_word_top
  by simp

theorem do_add_arith:
  "uint (rvalue (do_add a b c w)) = (uval w a + uval w b + of_bool c) mod 2 ^ nbits_of w"
  "tst (rflags (do_add a b c w)) F_C \<longleftrightarrow> 2 ^ nbits_of w \<le> uval w a + uval w b + of_bool c"
  "tst (rflags (do_add a b c w)) F_Z \<longleftrightarrow> rvalue (do_add a b c w) = 0"
  "tst (rflags (do_add a b c w)) F_S \<longleftrightarrow> sval w (rvalue (do_add a b c w)) < 0"
  "tst (rflags (do_add a b c w)) F_PV \<longleftrightarrow>
     sval w a + sval w b + of_bool c \<notin> {- (2 ^ (nbits_of w - 1)) ..< 2 ^ (nbits_of w - 1)}"
  "tst (rflags (do_add a b c w)) F_H \<longleftrightarrow> 16 \<le> take_bit 4 (uint a) + take_bit 4 (uint b) + of_bool c"
  "\<not> tst (rflags (do_add a b c w)) F_DA"
  "rmask (do_add a b c w) = (if w = WByte then 0x00FC else 0x00F0)"
  unfolding do_add_eq alu_result.simps overflow_iff
  unfolding carry_at_uval sum_word_uint
  by (simp_all add: carry_at_def low_sum_def)

text \<open>\<open>do_sub\<close> is subtraction with borrow-in; C is the borrow.\<close>

lemma uval_compl: "uval w (take_bit (nbits_of w) (NOT b)) = 2 ^ nbits_of w - 1 - uval w b"
proof -
  have "uval w (take_bit (nbits_of w) (NOT b)) = take_bit (nbits_of w) (NOT (uint b))"
    by (intro bit_eqI) (auto simp: uval_def bit_simps bit_uint_eq dest: less_nbits_of(1))
  also have "\<dots> = 2 ^ nbits_of w - 1 - uval w b"
    by (simp add: take_bit_not_eq_mask_diff mask_eq_exp_minus_1 uval_def)
  finally show ?thesis .
qed

lemma sval_compl: "sval w (take_bit (nbits_of w) (NOT b)) = - 1 - sval w b"
proof -
  have "sval w (take_bit (nbits_of w) (NOT b)) = NOT (sval w b)"
    by (intro bit_eqI) (auto simp: sval_def bit_simps bit_uint_eq min_nbits_of)
  then show ?thesis by (simp add: not_eq_complement)
qed

lemma low_nibble_compl:
  fixes b :: u64
  shows "take_bit 4 (uint (take_bit (nbits_of w) (NOT b))) = 15 - take_bit 4 (uint b)"
proof -
  have "take_bit 4 (uint (take_bit (nbits_of w) (NOT b))) = take_bit 4 (NOT (uint b))"
    by (intro bit_eqI) (auto simp: bit_simps bit_uint_eq intro: less_nbits_of)
  also have "\<dots> = 15 - take_bit 4 (uint b)"
    by (simp add: take_bit_not_eq_mask_diff mask_eq_exp_minus_1)
  finally show ?thesis .
qed

lemma do_sub_eq:
  "do_sub a b c w =
     (let notb = take_bit (nbits_of w) (NOT b); r = sum_word a notb (\<not> c) (nbits_of w)
      in \<lparr>rvalue = r,
          rflags = flag_if (\<not> carry_at a notb (\<not> c) (nbits_of w)) F_C
            OR flag_if (r = 0) F_Z OR flag_if (sval w r < 0) F_S
            OR flag_if (carry_at a notb (\<not> c) (nbits_of w)
                        \<noteq> carry_at a notb (\<not> c) (nbits_of w - 1)) F_PV
            OR flag_if (\<not> carry_at a notb (\<not> c) 4) F_H OR flag_if (w = WByte) F_DA,
          rmask = (if w = WByte then 0x00FC else 0x00F0)\<rparr>)"
  unfolding do_sub_def Let_def carry_chain_eq[OF nbits_of_bounds(1,2)] case_prod_conv
    and_width_mask sum_word_fits bit_sum_word_top
  by (simp add: or.assoc)

theorem do_sub_arith:
  "uint (rvalue (do_sub a b c w)) = (uval w a - uval w b - of_bool c) mod 2 ^ nbits_of w"
  "tst (rflags (do_sub a b c w)) F_C \<longleftrightarrow> uval w a < uval w b + of_bool c"
  "tst (rflags (do_sub a b c w)) F_Z \<longleftrightarrow> rvalue (do_sub a b c w) = 0"
  "tst (rflags (do_sub a b c w)) F_S \<longleftrightarrow> sval w (rvalue (do_sub a b c w)) < 0"
  "tst (rflags (do_sub a b c w)) F_PV \<longleftrightarrow>
     sval w a - sval w b - of_bool c \<notin> {- (2 ^ (nbits_of w - 1)) ..< 2 ^ (nbits_of w - 1)}"
  "tst (rflags (do_sub a b c w)) F_H \<longleftrightarrow> take_bit 4 (uint a) < take_bit 4 (uint b) + of_bool c"
  "tst (rflags (do_sub a b c w)) F_DA \<longleftrightarrow> w = WByte"
  "rmask (do_sub a b c w) = (if w = WByte then 0x00FC else 0x00F0)"
proof -
  have "(uval w a + (2 ^ nbits_of w - 1 - uval w b) + of_bool (\<not> c))
        = (uval w a - uval w b - of_bool c + 2 ^ nbits_of w)"
    by (simp add: algebra_simps)
  then show "uint (rvalue (do_sub a b c w)) = (uval w a - uval w b - of_bool c) mod 2 ^ nbits_of w"
    unfolding do_sub_eq Let_def alu_result.simps sum_word_uint uval_compl
    by (metis mod_add_self2)
  show "tst (rflags (do_sub a b c w)) F_H \<longleftrightarrow> take_bit 4 (uint a) < take_bit 4 (uint b) + of_bool c"
    unfolding do_sub_eq Let_def alu_result.simps carry_at_def low_sum_def low_nibble_compl
    by simp linarith
  show "tst (rflags (do_sub a b c w)) F_C \<longleftrightarrow> uval w a < uval w b + of_bool c"
    unfolding do_sub_eq Let_def alu_result.simps carry_at_uval uval_compl by simp linarith
  show "tst (rflags (do_sub a b c w)) F_PV \<longleftrightarrow>
     sval w a - sval w b - of_bool c \<notin> {- (2 ^ (nbits_of w - 1)) ..< 2 ^ (nbits_of w - 1)}"
    unfolding do_sub_eq Let_def alu_result.simps overflow_iff sval_compl
    by simp (auto simp: algebra_simps)
qed (simp_all add: do_sub_eq Let_def)

end
