(* ===== verification/Alu_Shift.thy ===== *)
theory Alu_Shift
  imports Alu_Arith
begin

text \<open>
  Arithmetic meaning of the shift and rotate loops of \<open>src/src/alu.c\<close>, which move one
  place per pass: SLL and SLA multiply by a power of two, SRL and SRA divide by it (the
  latter with sign), SLA's overflow latch is signed overflow, and the rotates are inverse to
  each other.
\<close>

subsection \<open>Left shifts\<close>

lemma tst_sign: "tst x (push_bit (nbits_of w - 1) 1) \<longleftrightarrow> bit x (nbits_of w - 1)"
  by (rule tst_bit)

lemma and_sign: "x AND push_bit (nbits_of w - 1) 1 = (if bit x (nbits_of w - 1) then push_bit (nbits_of w - 1) 1 else 0)"
  for x :: u64
  by (rule bit_word_eqI) (auto simp: bit_simps)

lemma sign_nonzero: "push_bit (nbits_of w - 1) (1 :: u64) \<noteq> 0"
  using nbits_of_cases[of w] by auto

lemma and_sign_eq_iff:
  "x AND push_bit (nbits_of w - 1) 1 = y AND push_bit (nbits_of w - 1) 1 \<longleftrightarrow>
   bit x (nbits_of w - 1) = bit y (nbits_of w - 1)"
  for x y :: u64
  unfolding and_sign using sign_nonzero[of w] by (simp split: if_splits)

lemma sval_take_bit [simp]: "sval w (take_bit (nbits_of w) x) = sval w x"
  by (rule bit_eqI) (auto simp: sval_def bit_simps bit_uint_eq min_nbits_of)

lemma sval_range: "- (2 ^ (nbits_of w - 1)) \<le> sval w x" "sval w x < 2 ^ (nbits_of w - 1)"
  by (simp_all add: sval_def signed_take_bit_int_greater_eq_minus_exp signed_take_bit_int_less_exp)

lemma bit_times2: "bit (x * 2) n \<longleftrightarrow> n < LENGTH('a) \<and> 0 < n \<and> bit x (n - 1)" for x :: "'a::len word"
  using bit_push_bit_iff[of 1 x n] by (simp add: Suc_le_eq) blast

lemma take_bit_uint_double:
  fixes x :: u64
  assumes "Suc m < 64"
  shows "take_bit (Suc m) (uint (push_bit 1 x)) = 2 * take_bit m (uint x)"
proof -
  have "take_bit (Suc m) (uint (push_bit 1 x)) = take_bit (Suc m) (2 * uint x)"
    using assms by (simp only: unsigned_push_bit_eq take_bit_take_bit) (simp add: min_def mult.commute)
  also have "\<dots> = 2 * take_bit m (uint x)" by (simp add: take_bit_Suc)
  finally show ?thesis .
qed

text \<open>Doubling: the top two bits decide whether the signed value survives.\<close>

lemma sval_top2:
  fixes x :: u64
  assumes "nbits_of w = Suc (Suc m)"
  shows "sval w x = take_bit m (uint x) + of_bool (bit x m) * 2 ^ m - of_bool (bit x (Suc m)) * 2 ^ Suc m"
    and "sval w (push_bit 1 x) = 2 * take_bit m (uint x) - of_bool (bit x m) * 2 ^ Suc m"
proof -
  show "sval w x = take_bit m (uint x) + of_bool (bit x m) * 2 ^ m - of_bool (bit x (Suc m)) * 2 ^ Suc m"
    using assms by (simp add: sval_split uint_take_Suc bit_uint_eq)
  have "Suc m < 64" using assms nbits_of_bounds(3)[of w] by linarith
  then show "sval w (push_bit 1 x) = 2 * take_bit m (uint x) - of_bool (bit x m) * 2 ^ Suc m"
    using assms take_bit_uint_double[of m x]
    by (simp only: sval_split) (simp add: bit_times2)
qed

lemma nbits_of_Suc_Suc: obtains m where "nbits_of w = Suc (Suc m)"
proof -
  have "nbits_of w = Suc (Suc (nbits_of w - 2))" using nbits_of_cases[of w] by auto
  then show thesis by (rule that)
qed

lemma sval_double:
  fixes x :: u64
  assumes "bit x (nbits_of w - 1) = bit (push_bit 1 x) (nbits_of w - 1)"
  shows "sval w (push_bit 1 x) = 2 * sval w x"
proof -
  obtain m where m: "nbits_of w = Suc (Suc m)" by (rule nbits_of_Suc_Suc)
  have "Suc m < 64" using m nbits_of_bounds(3)[of w] by linarith
  with assms m have "bit x (Suc m) = bit x m" by (simp add: bit_times2)
  then show ?thesis
    unfolding sval_top2(2)[OF m] sval_top2(1)[OF m, of x] by simp
qed

lemma sval_double_range:
  fixes x :: u64
  shows "2 * sval w x \<in> {- (2 ^ (nbits_of w - 1)) ..< 2 ^ (nbits_of w - 1)} \<longleftrightarrow>
   bit x (nbits_of w - 1) = bit (push_bit 1 x) (nbits_of w - 1)"
proof -
  obtain m where m: "nbits_of w = Suc (Suc m)" by (rule nbits_of_Suc_Suc)
  have "Suc m < 64" using m nbits_of_bounds(3)[of w] by linarith
  moreover define t where "t = take_bit m (uint x)"
  moreover from t_def have "0 \<le> t" "t < 2 ^ m" by (simp_all add: take_bit_int_less_exp)
  ultimately show ?thesis
    unfolding sval_top2(1)[OF m] t_def [symmetric]
    by (cases "bit x m"; cases "bit x (Suc m)") (auto simp: m bit_times2)
qed

text \<open>The left-shift loop: value, last bit out, and whether the signed product left the range.\<close>

lemma shl_fold:
  assumes "orig = take_bit (nbits_of w) a"
  shows "(shl_step (push_bit (nbits_of w - 1) 1) (width_mask (nbits_of w)) orig ^^ n) (orig, False, False)
    = (take_bit (nbits_of w) (push_bit n a),
       0 < n \<and> bit (push_bit (n - 1) a) (nbits_of w - 1),
       sval w a * 2 ^ n \<notin> {- (2 ^ (nbits_of w - 1)) ..< 2 ^ (nbits_of w - 1)})"
proof (induction n)
  case 0
  show ?case using assms sval_range[of w a] by simp
next
  case (Suc n)
  let ?v = "take_bit (nbits_of w) (push_bit n a)" and ?lo = "- (2 ^ (nbits_of w - 1)) :: int"
  let ?R = "{?lo ..< 2 ^ (nbits_of w - 1)}"
  have next_v: "push_bit 1 ?v AND width_mask (nbits_of w) = take_bit (nbits_of w) (push_bit (Suc n) a)"
    unfolding and_width_mask
    by (intro bit_word_eqI) (auto simp: bit_simps bit_times2 Suc_le_eq)
  have step: "sval w (push_bit k a) = sval w a * 2 ^ k" if "sval w a * 2 ^ k \<in> ?R" for k
    using that
  proof (induction k)
    case (Suc k)
    have "sval w a * 2 ^ k \<in> ?R" using Suc.prems by (auto simp: abs_if) 
    then have k: "sval w (push_bit k a) = sval w a * 2 ^ k" by (rule Suc.IH)
    with Suc.prems have "2 * sval w (push_bit k a) \<in> ?R" by (simp add: algebra_simps)
    then have "sval w (push_bit 1 (push_bit k a)) = 2 * sval w (push_bit k a)"
      by (intro sval_double) (simp only: sval_double_range)
    then show ?case using k by (simp add: ac_simps)
  qed simp
  have ovf: "(if take_bit (nbits_of w) (push_bit (Suc n) a) AND push_bit (nbits_of w - 1) 1
                 \<noteq> orig AND push_bit (nbits_of w - 1) 1 then True else sval w a * 2 ^ n \<notin> ?R)
             \<longleftrightarrow> sval w a * 2 ^ Suc n \<notin> ?R"
  proof (cases "sval w a * 2 ^ n \<in> ?R")
    case True
    have "bit (push_bit n a) (nbits_of w - 1) = bit a (nbits_of w - 1)"
      using step[OF True] sval_neg_iff[of w "push_bit n a"] sval_neg_iff[of w a]
      by (simp add: mult_less_0_iff)
    moreover have "2 * sval w (push_bit n a) \<in> ?R \<longleftrightarrow>
        bit (push_bit n a) (nbits_of w - 1) = bit (push_bit 1 (push_bit n a)) (nbits_of w - 1)"
      by (rule sval_double_range)
    ultimately show ?thesis
      using True unfolding and_sign_eq_iff step[OF True] assms
      by (auto simp: bit_take_bit_iff ac_simps)
  next
    case False
    then show ?thesis using abs_ge_zero[of "sval w a"] by (auto simp: zero_le_mult_iff)
  qed
  show ?case
    unfolding funpow.simps comp_apply Suc.IH
    unfolding shl_step_def Let_def case_prod_conv next_v ovf tst_sign
    by (simp add: bit_take_bit_iff)
qed

text \<open>Right shifts: the value, and the last bit out.\<close>

lemma srl_fold:
  "(srl_step ^^ n) (x, c0) = (drop_bit n x, if n = 0 then c0 else bit x (n - 1))"
proof (induction n)
  case (Suc n)
  have "tst (drop_bit n x) 1 = bit x n"
    using tst_bit[of "drop_bit n x" 0] by (simp add: bit_drop_bit_eq)
  with Suc show ?case by (simp add: srl_step_def)
qed simp

definition sra_word :: "Width \<Rightarrow> nat \<Rightarrow> u64 \<Rightarrow> u64" where
  "sra_word w n a = take_bit (nbits_of w) (word_of_int (sval w a div 2 ^ n))"

lemma bit_sval: "bit (sval w a) k \<longleftrightarrow> bit a (min (nbits_of w - 1) k)"
  by (simp add: sval_def bit_signed_take_bit_iff bit_uint_eq)

lemma bit_sra_word:
  "bit (sra_word w n a) k \<longleftrightarrow> k < nbits_of w \<and> bit a (min (nbits_of w - 1) (n + k))"
  unfolding sra_word_def drop_bit_eq_div [symmetric]
  by (auto simp: bit_simps bit_sval dest: less_nbits_of)

lemma min_less_nbits: "k < nbits_of w \<Longrightarrow> min (nbits_of w - Suc 0) k = k"
  by auto

lemma sra_fold:
  "(sra_step (push_bit (nbits_of w - 1) 1) ^^ n) (take_bit (nbits_of w) a, c0)
   = (sra_word w n a, if n = 0 then c0 else bit a (min (nbits_of w - 1) (n - 1)))"
proof (induction n)
  case 0
  have "sra_word w 0 a = take_bit (nbits_of w) a"
    by (rule bit_word_eqI) (auto simp: bit_simps bit_sra_word min_less_nbits)
  then show ?case by simp
next
  case (Suc n)
  have top: "Suc (nbits_of w - Suc 0) = nbits_of w" using nbits_of_cases[of w] by auto
  have "drop_bit 1 (sra_word w n a) OR sra_word w n a AND push_bit (nbits_of w - 1) 1
        = sra_word w (Suc n) a"
    unfolding and_sign
    by (rule bit_word_eqI) (auto simp: bit_simps bit_sra_word min_def)
  moreover have "tst (sra_word w n a) 1 = bit a (min (nbits_of w - 1) n)"
    using tst_bit[of "sra_word w n a" 0] by (simp add: bit_sra_word)
  ultimately show ?case
    unfolding funpow.simps comp_apply Suc.IH
    unfolding sra_step_def Let_def case_prod_conv by simp
qed

subsection \<open>Flags of a packaged logical result\<close>

lemma top_bit_tests:
  "tst (x8 :: u8) 0x80 \<longleftrightarrow> bit x8 7"
  "tst (x16 :: u16) 0x8000 \<longleftrightarrow> bit x16 15"
  "tst (x32 :: u32) 0x80000000 \<longleftrightarrow> bit x32 31"
  using tst_bit[of x8 7] tst_bit[of x16 15] tst_bit[of x32 31] by simp_all

lemma ucast_zero_iff:
  "(ucast (v :: u64) :: 'a::len word) = 0 \<longleftrightarrow> take_bit (LENGTH('a)) v = 0"
proof
  assume *: "(ucast v :: 'a word) = 0"
  show "take_bit (LENGTH('a)) v = 0"
  proof (rule bit_word_eqI)
    fix k show "bit (take_bit (LENGTH('a)) v) k = bit 0 k"
      using arg_cong[OF *, of "\<lambda>x. bit x k"] by (auto simp: bit_simps)
  qed
next
  assume *: "take_bit (LENGTH('a)) v = 0"
  show "(ucast v :: 'a word) = 0"
  proof (rule bit_word_eqI)
    show "bit (ucast v :: 'a word) k = bit 0 k" if "k < LENGTH('a)" for k
      using that arg_cong[OF *, of "\<lambda>x. bit x k"] by (auto simp: bit_simps)
  qed
qed

lemma logic_flags:
  "tst (rflags (logic v w mk)) F_Z \<longleftrightarrow> take_bit (nbits_of w) v = 0"
  "tst (rflags (logic v w mk)) F_S \<longleftrightarrow> sval w v < 0"
  "\<not> tst (rflags (logic v w mk)) F_C"
  "\<not> tst (rflags (logic v w mk)) F_DA" "\<not> tst (rflags (logic v w mk)) F_H"
  "rvalue (logic v w mk) = v" "rmask (logic v w mk) = mk"
  by (cases w; simp add: logic_def lflags_byte_def lflags_word_def lflags_long_def nbits_of_def
      ucast_zero_iff sval_neg_iff top_bit_tests bit_simps)+

subsection \<open>The shift operations\<close>

theorem do_shift_left_arith:
  assumes "n = unat (cnt AND 0x3F)"
  shows "rvalue (do_shift_left a cnt arith w) = take_bit (nbits_of w) (push_bit n a)"
    "tst (rflags (do_shift_left a cnt arith w)) F_C \<longleftrightarrow>
       0 < n \<and> bit (push_bit (n - 1) a) (nbits_of w - 1)"
    "tst (rflags (do_shift_left a cnt arith w)) F_Z \<longleftrightarrow> rvalue (do_shift_left a cnt arith w) = 0"
    "tst (rflags (do_shift_left a cnt arith w)) F_S \<longleftrightarrow> sval w (rvalue (do_shift_left a cnt arith w)) < 0"
    "tst (rflags (do_shift_left a cnt arith w)) F_PV \<longleftrightarrow>
       arith \<and> sval w a * 2 ^ n \<notin> {- (2 ^ (nbits_of w - 1)) ..< 2 ^ (nbits_of w - 1)}"
  unfolding do_shift_left_def Let_def assms [symmetric] shl_fold[OF and_width_mask] case_prod_conv
  by (simp_all add: logic_flags)

theorem do_shift_right_arith:
  assumes "n = unat (cnt AND 0x3F)"
  shows "rvalue (do_shift_right a cnt arith w) =
       (if arith then sra_word w n a else drop_bit n (take_bit (nbits_of w) a))"
    "tst (rflags (do_shift_right a cnt arith w)) F_Z \<longleftrightarrow> rvalue (do_shift_right a cnt arith w) = 0"
    "tst (rflags (do_shift_right a cnt arith w)) F_S \<longleftrightarrow> sval w (rvalue (do_shift_right a cnt arith w)) < 0"
    "arith \<Longrightarrow> \<not> tst (rflags (do_shift_right a cnt arith w)) F_PV"
proof -
  have t: "take_bit (nbits_of w) (drop_bit n (take_bit (nbits_of w) a)) = drop_bit n (take_bit (nbits_of w) a)"
    by (rule bit_word_eqI) (auto simp: bit_simps)
  have s: "take_bit (nbits_of w) (sra_word w n a) = sra_word w n a"
    by (simp add: sra_word_def)
  note unf = do_shift_right_def Let_def assms [symmetric] and_width_mask srl_fold sra_fold
    case_prod_conv
  show "rvalue (do_shift_right a cnt arith w) =
       (if arith then sra_word w n a else drop_bit n (take_bit (nbits_of w) a))"
    unfolding unf by (simp add: t s)
  show "tst (rflags (do_shift_right a cnt arith w)) F_Z \<longleftrightarrow> rvalue (do_shift_right a cnt arith w) = 0"
    unfolding unf by (simp add: t s logic_flags)
  show "tst (rflags (do_shift_right a cnt arith w)) F_S \<longleftrightarrow> sval w (rvalue (do_shift_right a cnt arith w)) < 0"
    unfolding unf by (simp add: t s logic_flags)
  show "arith \<Longrightarrow> \<not> tst (rflags (do_shift_right a cnt arith w)) F_PV"
    unfolding unf by simp
qed

text \<open>SRA is signed division rounding down.\<close>

lemma sval_sra_word: "sval w (sra_word w n a) = sval w a div 2 ^ n"
  unfolding drop_bit_eq_div [symmetric]
  by (rule bit_eqI)
    (auto simp: bit_sval bit_sra_word bit_drop_bit_eq min_nbits_of min_def)

subsection \<open>Rotates\<close>

lemma top_bit_64 [simp]: "nbits_of w - Suc 0 < 64"
  by (cases w) (simp_all add: nbits_of_def)

abbreviation fits :: "Width \<Rightarrow> u64 \<Rightarrow> bool" where
  "fits w x \<equiv> take_bit (nbits_of w) x = x"

lemma fits_bit: "fits w x \<Longrightarrow> bit x k \<Longrightarrow> k < nbits_of w"
  by (metis bit_take_bit_iff)

definition rot_left :: "Width \<Rightarrow> bool \<Rightarrow> u64 \<times> bool \<Rightarrow> u64 \<times> bool" where
  "rot_left w thru = rot_step (push_bit (nbits_of w - 1) 1) (width_mask (nbits_of w)) False thru"

definition rot_right :: "Width \<Rightarrow> bool \<Rightarrow> u64 \<times> bool \<Rightarrow> u64 \<times> bool" where
  "rot_right w thru = rot_step (push_bit (nbits_of w - 1) 1) (width_mask (nbits_of w)) True thru"

lemma bit_rot_left:
  "bit (fst (rot_left w thru (x, c))) k \<longleftrightarrow>
     (if k = 0 then (if thru then c else bit x (nbits_of w - 1)) else k < nbits_of w \<and> bit x (k - 1))"
  "snd (rot_left w thru (x, c)) \<longleftrightarrow> bit x (nbits_of w - 1)"
  unfolding rot_left_def rot_step_def Let_def tst_sign and_width_mask
  by (auto simp: bit_simps bit_times2 bit_1_iff dest: less_nbits_of)

lemma bit_rot_right:
  "fits w x \<Longrightarrow> bit (fst (rot_right w thru (x, c))) k \<longleftrightarrow>
     (if k = nbits_of w - 1 then (if thru then c else bit x 0) else bit x (Suc k))"
  "snd (rot_right w thru (x, c)) \<longleftrightarrow> bit x 0"
  using tst_bit[of x 0] unfolding rot_right_def rot_step_def Let_def
  by (auto simp: bit_simps bit_1_iff dest: less_nbits_of fits_bit)

lemma fits_rot: "fits w x \<Longrightarrow> fits w (fst (rot_left w thru (x, c)))"
  "fits w x \<Longrightarrow> fits w (fst (rot_right w thru (x, c)))"
proof -
  show "fits w x \<Longrightarrow> fits w (fst (rot_left w thru (x, c)))"
    using nbits_of_bounds[of w]
    by (intro bit_word_eqI) (auto simp: bit_take_bit_iff bit_rot_left dest: fits_bit)
  show "fits w x \<Longrightarrow> fits w (fst (rot_right w thru (x, c)))"
    using nbits_of_bounds[of w]
    by (intro bit_word_eqI) (auto simp: bit_take_bit_iff bit_rot_right dest: fits_bit split: if_splits)
qed

text \<open>One place left and one place right undo each other, on (value, carry) when the
  rotation is through the carry, on the value alone when it is not.\<close>

lemma rot_right_left_thru:
  assumes "fits w (fst st)"
  shows "rot_right w True (rot_left w True st) = st"
proof (cases st)
  case (Pair x c)
  have f: "fits w (fst (rot_left w True (x, c)))" using assms Pair by (simp add: fits_rot)
  have "fst (rot_right w True (fst (rot_left w True (x, c)), snd (rot_left w True (x, c)))) = x"
    using assms Pair f by (intro bit_word_eqI) (auto simp: bit_rot_left bit_rot_right dest: fits_bit)
  moreover have "snd (rot_right w True (fst (rot_left w True (x, c)), snd (rot_left w True (x, c)))) = c"
    by (simp only: bit_rot_right(2)) (simp add: bit_rot_left)
  ultimately show ?thesis by (simp add: Pair prod_eq_iff)
qed

lemma rot_left_right_thru:
  assumes "fits w (fst st)"
  shows "rot_left w True (rot_right w True st) = st"
proof (cases st)
  case (Pair x c)
  have top: "0 < nbits_of w - Suc 0" by (cases w) (simp_all add: nbits_of_def)
  have "fst (rot_left w True (fst (rot_right w True (x, c)), snd (rot_right w True (x, c)))) = x"
    using assms Pair top
    by (intro bit_word_eqI) (auto simp: bit_rot_left bit_rot_right dest: fits_bit)
  moreover have "snd (rot_left w True (fst (rot_right w True (x, c)), snd (rot_right w True (x, c)))) = c"
    using assms Pair by (simp only: bit_rot_left(2)) (simp add: bit_rot_right)
  ultimately show ?thesis by (simp add: Pair prod_eq_iff)
qed

lemma rot_right_left_plain:
  assumes "fits w (fst st)"
  shows "fst (rot_right w False (fst (rot_left w False st), c)) = fst st"
proof (cases st)
  case (Pair x d)
  have f: "fits w (fst (rot_left w False (x, d)))" using assms Pair by (simp add: fits_rot)
  show ?thesis
    using assms Pair f by (intro bit_word_eqI) (auto simp: bit_rot_left bit_rot_right dest: fits_bit)
qed

text \<open>The places rotated: the count modulo 64, with 0 read as 1.\<close>

definition rot_count :: "u64 \<Rightarrow> nat" where
  "rot_count cnt = (let n = unat (cnt AND 0x3F) in if n = 0 then 1 else n)"

lemma do_rotate_eq:
  "rvalue (do_rotate a cnt right thru cin w) =
     fst (((if right then rot_right w thru else rot_left w thru) ^^ rot_count cnt)
       (take_bit (nbits_of w) a, cin))"
  "tst (rflags (do_rotate a cnt right thru cin w)) F_C \<longleftrightarrow>
     snd (((if right then rot_right w thru else rot_left w thru) ^^ rot_count cnt)
       (take_bit (nbits_of w) a, cin))"
  unfolding do_rotate_def rot_left_def rot_right_def rot_count_def Let_def and_width_mask
  by (cases right; simp add: logic_flags case_prod_beta)+

lemma fits_rot_funpow:
  "fits w (fst st) \<Longrightarrow> fits w (fst ((rot_left w thru ^^ n) st))"
  "fits w (fst st) \<Longrightarrow> fits w (fst ((rot_right w thru ^^ n) st))"
  by (induction n) (auto, (metis fits_rot prod.collapse)+)

lemma rot_thru_funpow:
  "fits w (fst st) \<Longrightarrow> (rot_right w True ^^ n) ((rot_left w True ^^ n) st) = st"
  "fits w (fst st) \<Longrightarrow> (rot_left w True ^^ n) ((rot_right w True ^^ n) st) = st"
  using funpow_inverse[where P = "\<lambda>st. fits w (fst st)" and f = "rot_left w True" and g = "rot_right w True"]
    funpow_inverse[where P = "\<lambda>st. fits w (fst st)" and f = "rot_right w True" and g = "rot_left w True"]
    fits_rot_funpow[where n = 1] rot_right_left_thru rot_left_right_thru
  by simp_all

text \<open>Without the carry the value evolves on its own.\<close>

lemma rot_plain_fst:
  "fst (rot_left w False (x, c)) = fst (rot_left w False (x, d))"
  "fst (rot_right w False (x, c)) = fst (rot_right w False (x, d))"
  by (simp_all add: rot_left_def rot_right_def rot_step_def Let_def)

lemma rot_plain_funpow:
  "fst ((rot_left w False ^^ n) (x, c)) = ((\<lambda>y. fst (rot_left w False (y, False))) ^^ n) x"
  "fst ((rot_right w False ^^ n) (x, c)) = ((\<lambda>y. fst (rot_right w False (y, False))) ^^ n) x"
proof (induction n)
  case (Suc n)
  { case 1 show ?case using Suc(1) by simp (metis prod.collapse rot_plain_fst(1)) }
  { case 2 show ?case using Suc(2) by simp (metis prod.collapse rot_plain_fst(2)) }
qed simp_all

lemma rot_plain_inverse:
  assumes "fits w x"
  shows "fst ((rot_right w False ^^ n) (fst ((rot_left w False ^^ n) (x, c)), d)) = x"
  unfolding rot_plain_funpow
  using assms funpow_inverse[where P = "fits w" and f = "\<lambda>y. fst (rot_left w False (y, False))"
      and g = "\<lambda>y. fst (rot_right w False (y, False))" and n = n and x = x]
    rot_right_left_plain[of w "(_, False)"] fits_rot(1)[where thru = False and c = False]
  by simp

end
