(* ===== verification/Alu_Misc.thy ===== *)
theory Alu_Misc
  imports Alu_Shift
begin

text \<open>
  The remaining ALU operations of \<open>src/src/alu.c\<close> against arithmetic: INC, DEC and
  NEG, which compute their overflow flag from sign bits, agree with the bit-serial adder;
  the parity flag counts bits; every result stays inside its width and every flag mask inside
  the six arithmetic flags.
\<close>

subsection \<open>Overflow from sign bits\<close>

lemma sint_add_wrap:
  fixes x y :: "'a::len word"
  shows "sint x + sint y \<notin> {- (2 ^ (LENGTH('a) - 1)) ..< 2 ^ (LENGTH('a) - 1)} \<longleftrightarrow>
    bit x (LENGTH('a) - 1) = bit y (LENGTH('a) - 1) \<and> bit x (LENGTH('a) - 1) \<noteq> bit (x + y) (LENGTH('a) - 1)"
proof -
  define n where "n = LENGTH('a) - 1"
  have L: "LENGTH('a) = Suc n" by (simp add: n_def)
  have b: "bit z n \<longleftrightarrow> sint z < 0" for z :: "'a word"
    by (simp add: bit_last_iff n_def)
  have r: "- (2 ^ n) \<le> sint z" "sint z < 2 ^ n" for z :: "'a word"
    using sint_greater_eq[of z] sint_less[of z] by (simp_all add: n_def)
  have s: "sint (x + y) = signed_take_bit n (sint x + sint y)"
    by (simp add: n_def signed_take_bit_add sint_word_ariths)
  have e: "signed_take_bit n k = (k + 2 ^ n) mod 2 ^ Suc n - 2 ^ n" for k :: int
    by (simp add: signed_take_bit_eq_take_bit_shift take_bit_eq_mod)
  have m: "signed_take_bit n k = (if k < - (2 ^ n) then k + 2 * 2 ^ n
      else if k < 2 ^ n then k else k - 2 * 2 ^ n)"
    if "- 2 * (2 ^ n) \<le> k" "k < 2 * 2 ^ n" for k :: int
  proof -
    have "(k + 2 ^ n) mod (2 * 2 ^ n) = j" if "j = k + 2 ^ n + i * (2 * 2 ^ n)" "0 \<le> j" "j < 2 * 2 ^ n" for i j
      using that by (metis mod_mult_self1 mod_pos_pos_trivial)
    from this[where i = 1] this[where i = 0] this[where i = "-1"] show ?thesis
      using that by (simp add: e)
  qed
  have arith: "(i + j < - p \<or> p \<le> i + j) \<longleftrightarrow>
      (i < 0) = (j < 0) \<and> (i < 0) \<noteq> ((if i + j < - p then i + j + 2 * p
        else if i + j < p then i + j else i + j - 2 * p) < 0)"
    if "- p \<le> i" "i < p" "- p \<le> j" "j < p" for i j p :: int
    using that by auto
  have "- 2 * (2 ^ n) \<le> sint x + sint y" "sint x + sint y < 2 * 2 ^ n"
    using r[of x] r[of y] by auto
  moreover have "sint x + sint y \<notin> {- (2 ^ n) ..< 2 ^ n} \<longleftrightarrow> sint x + sint y < - (2 ^ n) \<or> 2 ^ n \<le> sint x + sint y"
    by auto
  ultimately show ?thesis
    unfolding b s n_def [symmetric] by (simp only: m arith[OF r r])
qed

text \<open>Subtraction: \<open>x - y = x + (- y - 1) + 1\<close>, or directly by negating the operand.\<close>

lemma sint_diff_wrap:
  fixes x y :: "'a::len word"
  shows "sint x - sint y \<notin> {- (2 ^ (LENGTH('a) - 1)) ..< 2 ^ (LENGTH('a) - 1)} \<longleftrightarrow>
    bit x (LENGTH('a) - 1) \<noteq> bit y (LENGTH('a) - 1) \<and> bit x (LENGTH('a) - 1) \<noteq> bit (x - y) (LENGTH('a) - 1)"
proof -
  have top: "LENGTH('a) - 1 < LENGTH('a)" by simp
  have eq: "NOT (x - y) = NOT x + y"
    by (simp add: not_eq_complement)
  have "sint (NOT x) = NOT (sint x)"
    by (rule bit_eqI) (simp add: bit_simps min_def, linarith)
  then have n: "sint (NOT x) = - 1 - sint x" by (simp add: not_eq_complement)
  have "sint x - sint y \<in> {- (2 ^ (LENGTH('a) - 1)) ..< 2 ^ (LENGTH('a) - 1)} \<longleftrightarrow>
        sint (NOT x) + sint y \<in> {- (2 ^ (LENGTH('a) - 1)) ..< 2 ^ (LENGTH('a) - 1)}"
    unfolding n by auto
  with sint_add_wrap[of "NOT x" y] top show ?thesis
    unfolding eq [symmetric] by (auto simp: bit_not_iff)
qed

subsection \<open>INC, DEC and NEG\<close>

lemma sval_ucast:
  "sval WByte x = sint (ucast x :: u8)" "sval WWord x = sint (ucast x :: u16)"
  "sval WLong x = sint (ucast x :: u32)"
  unfolding sval_def nbits_of_def
  by (rule bit_eqI, simp add: bit_simps bit_uint_eq min_def)+

lemma uval_ucast:
  "uval WByte x = uint (ucast x :: u8)" "uval WWord x = uint (ucast x :: u16)"
  "uval WLong x = uint (ucast x :: u32)"
  unfolding uval_def nbits_of_def
  by (rule bit_eqI, auto simp: bit_simps bit_uint_eq)+

lemma xor_tst_top: "tst (x XOR y) m \<longleftrightarrow> tst x m \<noteq> tst y m" if "m = push_bit k 1" for x y :: "'a::len word"
  unfolding that tst_bit by (simp add: bit_simps)

lemma uint_widen:
  "uint (ucast (x :: u8) :: u64) = uint x" "uint (ucast (y :: u16) :: u64) = uint y"
  "uint (ucast (z :: u32) :: u64) = uint z"
  by (rule bit_eqI, auto simp: bit_simps bit_uint_eq dest: bit_imp_le_length)+

lemma add_value:
  "rvalue (do_add a b False WByte) = ucast (ucast a + ucast b :: u8)"
  "rvalue (do_add a b False WWord) = ucast (ucast a + ucast b :: u16)"
  by (simp_all add: word_uint_eq_iff do_add_arith(1) uint_widen uval_ucast uint_word_ariths nbits_of_def)

lemma sub_value:
  "rvalue (do_sub a b False WByte) = ucast (ucast a - ucast b :: u8)"
  "rvalue (do_sub a b False WWord) = ucast (ucast a - ucast b :: u16)"
  "rvalue (do_sub a b False WLong) = ucast (ucast a - ucast b :: u32)"
  by (simp_all add: word_uint_eq_iff do_sub_arith(1) uint_widen uval_ucast uint_word_ariths nbits_of_def)

lemma ucast_widen [simp]:
  "ucast (ucast (x :: u8) :: u64) = x" "ucast (ucast (y :: u16) :: u64) = y"
  "ucast (ucast (z :: u32) :: u64) = z"
  by (rule bit_word_eqI, auto simp: bit_simps)+

lemma widen_zero [simp]:
  "(ucast (x :: u8) :: u64) = 0 \<longleftrightarrow> x = 0" "(ucast (y :: u16) :: u64) = 0 \<longleftrightarrow> y = 0"
  "(ucast (z :: u32) :: u64) = 0 \<longleftrightarrow> z = 0"
  using uint_widen by (simp_all add: word_uint_eq_iff)

lemma sint_neg_top: "sint (x :: u8) < 0 \<longleftrightarrow> bit x 7" "sint (y :: u16) < 0 \<longleftrightarrow> bit y 15"
  "sint (z :: u32) < 0 \<longleftrightarrow> bit z 31"
  using bit_last_iff[of x] bit_last_iff[of y] bit_last_iff[of z] by simp_all

theorem do_inc_add:
  assumes "w \<noteq> WLong"
  shows "rvalue (do_inc a n w) = rvalue (do_add a n False w)"
    "tst (rflags (do_inc a n w)) F_Z \<longleftrightarrow> tst (rflags (do_add a n False w)) F_Z"
    "tst (rflags (do_inc a n w)) F_S \<longleftrightarrow> tst (rflags (do_add a n False w)) F_S"
    "tst (rflags (do_inc a n w)) F_PV \<longleftrightarrow> tst (rflags (do_add a n False w)) F_PV"
    "rmask (do_inc a n w) = 0x0070"
  using assms sint_add_wrap[of "ucast a :: u8" "ucast n"] sint_add_wrap[of "ucast a :: u16" "ucast n"]
  by (cases w; simp add: do_add_arith add_value do_inc_def Let_def sval_ucast sint_neg_top
      top_bit_tests nbits_of_def bit_xor_iff; blast)+

theorem do_dec_sub:
  assumes "w \<noteq> WLong"
  shows "rvalue (do_dec a n w) = rvalue (do_sub a n False w)"
    "tst (rflags (do_dec a n w)) F_Z \<longleftrightarrow> tst (rflags (do_sub a n False w)) F_Z"
    "tst (rflags (do_dec a n w)) F_S \<longleftrightarrow> tst (rflags (do_sub a n False w)) F_S"
    "tst (rflags (do_dec a n w)) F_PV \<longleftrightarrow> tst (rflags (do_sub a n False w)) F_PV"
    "rmask (do_dec a n w) = 0x0070"
  using assms sint_diff_wrap[of "ucast a :: u8" "ucast n"] sint_diff_wrap[of "ucast a :: u16" "ucast n"]
  by (cases w; simp add: do_sub_arith sub_value do_dec_def Let_def sval_ucast sint_neg_top
      top_bit_tests nbits_of_def bit_xor_iff; blast)+

theorem do_neg_sub:
  shows "rvalue (do_neg a w) = rvalue (do_sub 0 a False w)"
    "tst (rflags (do_neg a w)) F_C \<longleftrightarrow> tst (rflags (do_sub 0 a False w)) F_C"
    "tst (rflags (do_neg a w)) F_Z \<longleftrightarrow> tst (rflags (do_sub 0 a False w)) F_Z"
    "tst (rflags (do_neg a w)) F_S \<longleftrightarrow> tst (rflags (do_sub 0 a False w)) F_S"
    "tst (rflags (do_neg a w)) F_PV \<longleftrightarrow> tst (rflags (do_sub 0 a False w)) F_PV"
    "rmask (do_neg a w) = 0x00F0"
proof -
  have sint_inj: "x = y \<longleftrightarrow> sint x = sint y" for x y :: "'a::len word"
    by (rule word_eq_iff_signed)
  have min8: "(x = 0x80) \<longleftrightarrow> - sint x \<notin> {- 128..<128}" for x :: u8
    using sint_greater_eq[of x] sint_less[of x] sint_inj[of x "0x80"] by auto
  have min16: "(x = 0x8000) \<longleftrightarrow> - sint x \<notin> {- 32768..<32768}" for x :: u16
    using sint_greater_eq[of x] sint_less[of x] sint_inj[of x "0x8000"] by auto
  have min32: "(x = 0x80000000) \<longleftrightarrow> - sint x \<notin> {- 2147483648..<2147483648}" for x :: u32
    using sint_greater_eq[of x] sint_less[of x] sint_inj[of x "0x80000000"] by auto
  have pos: "0 < uint x \<longleftrightarrow> x \<noteq> 0" for x :: "'a::len word"
    using uint_0_iff[of x] uint_ge_0[of x] by linarith
  note unf = do_sub_arith sub_value do_neg_def Let_def sval_ucast uval_ucast sint_neg_top
      top_bit_tests nbits_of_def min8 min16 min32 pos
  show "rvalue (do_neg a w) = rvalue (do_sub 0 a False w)" by (cases w; simp add: unf)
  show "tst (rflags (do_neg a w)) F_C \<longleftrightarrow> tst (rflags (do_sub 0 a False w)) F_C" by (cases w; simp add: unf)
  show "tst (rflags (do_neg a w)) F_Z \<longleftrightarrow> tst (rflags (do_sub 0 a False w)) F_Z" by (cases w; simp add: unf)
  show "tst (rflags (do_neg a w)) F_S \<longleftrightarrow> tst (rflags (do_sub 0 a False w)) F_S" by (cases w; simp add: unf)
  show "tst (rflags (do_neg a w)) F_PV \<longleftrightarrow> tst (rflags (do_sub 0 a False w)) F_PV" by (cases w; simp add: unf)
  show "rmask (do_neg a w) = 0x00F0" by (cases w; simp add: unf)
qed

subsection \<open>Parity\<close>

lemma popcount8_loop_eq: "popcount8_loop v n = n + card {i. bit v i}"
proof (induction v n rule: popcount8_loop.induct)
  case (1 v n)
  show ?case
  proof (cases "v = 0")
    case True then show ?thesis by (subst popcount8_loop.simps) (simp add: bot_fun_def)
  next
    case False
    have split: "{i. bit v i} = (if bit v 0 then {0} else {}) \<union> Suc ` {i. bit (drop_bit 1 v) i}"
      by (auto simp: bit_simps image_iff) (metis not0_implies_Suc)+
    have fin: "finite {i. bit x i}" for x :: u8
      by (rule finite_subset[of _ "{..<8}"]) (auto dest: bit_imp_le_length)
    have "card {i. bit v i} = of_bool (bit v 0) + card {i. bit (drop_bit 1 v) i}"
      unfolding split by (subst card_Un_disjoint) (auto simp: fin card_image)
    moreover have "unat (v AND 1) = of_bool (bit v 0)"
      by (simp add: and_one_eq bit_0 of_bool_def odd_iff_mod_2_eq_one)
    ultimately show ?thesis
      using 1[OF False] False by (subst popcount8_loop.simps) simp
  qed
qed

lemma popcount8_eq: "popcount8 v = card {i. bit v i}"
  by (simp add: popcount8_def popcount8_loop_eq)

lemma logic_parity: "tst (rflags (logic v WByte mk)) F_PV \<longleftrightarrow> even (card {i. bit (take_bit (nbits_of WByte) v) i})"
proof -
  have "{i. bit (ucast v :: u8) i} = {i. bit (take_bit (nbits_of WByte) v) i}"
    by (auto simp: bit_simps nbits_of_def)
  then show ?thesis
    by (simp add: logic_def lflags_byte_def popcount8_eq even_iff_mod_2_eq_zero)
qed

subsection \<open>Decimal adjust\<close>

text \<open>\<open>do_dab\<close> on integers.\<close>

definition dab_int :: "int \<Rightarrow> bool \<Rightarrow> bool \<Rightarrow> int \<times> bool" where
  "dab_int v h c =
    (let (v, c) = (if 9 < v mod 16 \<or> h then ((v + 6) mod 256, (v + 6) mod 256 < 16 \<or> c) else (v, c))
     in if 9 < v div 16 \<or> c then ((v + 96) mod 256, True) else (v, c))"

lemma dab_table:
  "\<forall>u \<in> set [0..18]. \<forall>t \<in> set [0..19].
     dab_int ((16 * u + t) mod 256) (16 \<le> t) (256 \<le> 16 * u + t) =
       (let s = (10 * u + t) mod 100 in 16 * (s div 10) + s mod 10, 100 \<le> 10 * u + t)"
  by code_simp

lemma nib_high: "9 < drop_bit 4 v \<longleftrightarrow> 9 < uint v div 16" for v :: u8
  by (simp add: word_less_def drop_bit_eq_div uint_div)

lemma nib_low: "9 < v AND 0x0F \<longleftrightarrow> 9 < uint v mod 16" for v :: u8
proof -
  have "v AND 0x0F = take_bit 4 v" by (simp add: take_bit_eq_mask mask_eq_exp_minus_1)
  then show ?thesis by (simp add: word_less_def take_bit_eq_mod uint_mod)
qed

lemma nib_top: "v AND 0xF0 = 0 \<longleftrightarrow> uint v < 16" for v :: u8
proof -
  have "v AND 0xF0 = v AND push_bit 4 (mask 4)" by (simp add: mask_eq_exp_minus_1)
  also have "\<dots> = push_bit 4 (drop_bit 4 v)" by (rule bit_word_eqI) (auto simp: bit_simps)
  finally have 1: "v AND 0xF0 = push_bit 4 (drop_bit 4 v)" .
  have 2: "drop_bit 4 (push_bit 4 (drop_bit 4 v)) = drop_bit 4 v"
    by (rule bit_word_eqI) (auto simp: bit_simps dest: bit_imp_le_length)
  have "v AND 0xF0 = 0 \<longleftrightarrow> drop_bit 4 v = 0" unfolding 1 using 2 by (metis drop_bit_of_0 push_bit_of_0)
  also have "\<dots> \<longleftrightarrow> uint v div 16 = 0" by (simp add: word_uint_eq_iff drop_bit_eq_div uint_div)
  also have "\<dots> \<longleftrightarrow> uint v < 16" using uint_ge_0[of v] by (auto simp: zdiv_eq_0_iff simp del: uint_ge_0)
  finally show ?thesis .
qed

lemma do_dab_int:
  "uint (rvalue (do_dab a h c)) = fst (dab_int (uval WByte a) h c)"
  "tst (rflags (do_dab a h c)) F_C = snd (dab_int (uval WByte a) h c)"
proof -
  have add: "uint (v + 6) = (uint v + 6) mod 256" "uint (v + 96) = (uint v + 96) mod 256"
    "uint (102 + v) = ((uint v + 6) mod 256 + 96) mod 256" for v :: u8
    by (simp_all add: uint_word_ariths mod_simps)
  show "uint (rvalue (do_dab a h c)) = fst (dab_int (uval WByte a) h c)"
    by (simp add: do_dab_def dab_int_def Let_def uval_ucast nib_high nib_low nib_top add uint_widen case_prod_beta)
  show "tst (rflags (do_dab a h c)) F_C = snd (dab_int (uval WByte a) h c)"
    by (simp add: do_dab_def dab_int_def Let_def uval_ucast nib_high nib_low nib_top add logic_flags case_prod_beta)
qed

text \<open>A byte holding two decimal digits, and the number it stands for.\<close>

definition bcd :: "nat \<Rightarrow> u64" where
  "bcd n = word_of_nat (16 * (n div 10) + n mod 10)"

lemma uint_bcd: "n < 100 \<Longrightarrow> uint (bcd n) = 16 * (int n div 10) + int n mod 10"
  
proof -
  assume "n < 100"
  then have "16 * (n div 10) + n mod 10 < 256" by simp
  then show ?thesis
    unfolding bcd_def by (subst unsigned_of_nat) (simp add: take_bit_nat_eq_self zdiv_int zmod_int)
qed

theorem dab_after_add:
  fixes c :: bool
  assumes "m < 100" "n < 100"
  defines "s \<equiv> do_add (bcd m) (bcd n) c WByte"
  defines "d \<equiv> do_dab (rvalue s) (tst (rflags s) F_H) (tst (rflags s) F_C)"
  shows "rvalue d = bcd ((m + n + of_bool c) mod 100)"
    "tst (rflags d) F_C \<longleftrightarrow> 100 \<le> m + n + of_bool c"
proof -
  define u where "u = int m div 10 + int n div 10"
  define t where "t = int m mod 10 + int n mod 10 + of_bool c"
  have dig: "0 \<le> int k div 10 \<and> int k div 10 \<le> 9 \<and> 0 \<le> int k mod 10 \<and> int k mod 10 \<le> 9"
    if "k < 100" for k using that by auto
  have bound: "u \<in> set [0..18]" "t \<in> set [0..19]"
    unfolding set_upto u_def t_def using dig[OF assms(1)] dig[OF assms(2)] by (cases c; simp)+
  have um: "uval WByte (bcd k) = 16 * (int k div 10) + int k mod 10" if "k < 100" for k
    using that by (simp add: uval_def nbits_of_def uint_bcd take_bit_eq_mod)
  have lo: "take_bit 4 (uint (bcd k)) = int k mod 10" if "k < 100" for k
    using that by (simp add: uint_bcd take_bit_eq_mod) 
  have sum: "uval WByte (bcd m) + uval WByte (bcd n) + of_bool c = 16 * u + t"
    using assms(1,2) by (simp add: um u_def t_def)
  have dec: "int m + int n + of_bool c = 10 * u + t" by (simp add: u_def t_def)
  have H: "tst (rflags s) F_H \<longleftrightarrow> 16 \<le> t" using assms(1,2) by (simp only: s_def do_add_arith lo t_def)
  have C: "tst (rflags s) F_C \<longleftrightarrow> 256 \<le> 16 * u + t" 
    unfolding s_def do_add_arith sum by (simp add: nbits_of_def)
  have "uint (rvalue s) = (16 * u + t) mod 256"
    unfolding s_def do_add_arith sum by (simp add: nbits_of_def)
  then have V: "uval WByte (rvalue s) = (16 * u + t) mod 256"
    by (simp add: uval_def nbits_of_def take_bit_eq_mod)
  have tab: "dab_int ((16 * u + t) mod 256) (16 \<le> t) (256 \<le> 16 * u + t)
      = (16 * ((10 * u + t) mod 100 div 10) + (10 * u + t) mod 100 mod 10, 100 \<le> 10 * u + t)"
    using dab_table bound unfolding Let_def by blast
  have "uint (rvalue d) = uint (bcd ((m + n + of_bool c) mod 100))"
    by (simp add: d_def do_dab_int H C V tab uint_bcd zmod_int flip: dec)
  then show "rvalue d = bcd ((m + n + of_bool c) mod 100)"
    by (simp only: word_uint_eq_iff)
  show "tst (rflags d) F_C \<longleftrightarrow> 100 \<le> m + n + of_bool c"
    unfolding d_def do_dab_int H C V tab snd_conv dec [symmetric] by (cases c) auto
qed

subsection \<open>What an ALU operation may touch\<close>

lemma rmask_shift [simp]:
  "rmask (do_shift_left a b ar w) AND 0xFF03 = 0"
  "rmask (do_shift_right a b ar w) AND 0xFF03 = 0"
  "rmask (do_rotate a b r t c w) AND 0xFF03 = 0"
  "rmask (do_dab a h c) AND 0xFF03 = 0"
  by (simp_all add: do_shift_left_def do_shift_right_def do_rotate_def do_dab_def Let_def
      logic_flags case_prod_beta)

lemma do_shift_left_mask:
  "tst (rmask (do_shift_left a b ar w)) F_C \<longleftrightarrow> 0 < unat (b AND 0x3F)"
  "tst (rmask (do_shift_left a b ar w)) F_PV \<longleftrightarrow> ar"
  by (simp_all add: do_shift_left_def Let_def logic_flags case_prod_beta)

theorem alu_mask:
  "rmask (alu_exec opn a b c w) AND 0xFF03 = 0"
  by (cases opn)
    (simp_all add: alu_exec_def do_add_arith do_sub_arith do_neg_sub logic_flags logic_mask_def
      do_inc_def do_dec_def Let_def)

lemma take_bit_widen [simp]:
  "take_bit 8 (ucast (x :: u8) :: u64) = ucast x" "take_bit 16 (ucast (y :: u16) :: u64) = ucast y"
  "take_bit 32 (ucast (z :: u32) :: u64) = ucast z"
  by (rule bit_word_eqI, auto simp: bit_simps dest: bit_imp_le_length)+

lemma trunc_w_eq: "trunc_w w x = take_bit (nbits_of w) x"
  by (cases w; rule bit_word_eqI) (auto simp: trunc_w_def nbits_of_def bit_simps)

end
