(* ===== verification/Alu_Props.thy ===== *)
theory Alu_Props
  imports Alu_Misc
begin

text \<open>
  What \<open>alu_exec\<close> (\<open>src/src/alu.c\<close>) promises the execute engine, operation by operation.
  \<open>uval w x\<close> and \<open>sval w x\<close> are the unsigned and the two's-complement reading of the low
  byte, word or long word of \<open>x\<close>.
\<close>

subsection \<open>Flag words\<close>

lemma and_one_bit: "x AND push_bit k 1 = flag_if (tst x (push_bit k 1)) (push_bit k 1)" for x :: u16
proof (rule bit_word_eqI)
  fix i
  have b: "bit (push_bit k (1 :: u16)) i \<longleftrightarrow> i = k \<and> k < 16" by (auto simp: bit_simps)
  show "bit (x AND push_bit k 1) i = bit (flag_if (tst x (push_bit k 1)) (push_bit k 1) :: u16) i"
    unfolding tst_bit bit_and_iff bit_flag_if b by blast
qed

lemma and_flag:
  "x AND F_C = flag_if (tst x F_C) F_C" "x AND F_Z = flag_if (tst x F_Z) F_Z"
  "x AND F_S = flag_if (tst x F_S) F_S" "x AND F_PV = flag_if (tst x F_PV) F_PV"
  using and_one_bit[of x 7] and_one_bit[of x 6] and_one_bit[of x 5] and_one_bit[of x 4] by simp_all

lemma flags_agree:
  fixes x y :: u16
  shows "x AND 0x0070 = y AND 0x0070 \<longleftrightarrow>
     tst x F_Z = tst y F_Z \<and> tst x F_S = tst y F_S \<and> tst x F_PV = tst y F_PV"
    "x AND 0x00F0 = y AND 0x00F0 \<longleftrightarrow>
     tst x F_C = tst y F_C \<and> tst x F_Z = tst y F_Z \<and> tst x F_S = tst y F_S \<and> tst x F_PV = tst y F_PV"
proof -
  have eq: "(0x0070 :: u16) = F_Z OR F_S OR F_PV" "(0x00F0 :: u16) = F_C OR F_Z OR F_S OR F_PV"
    by simp_all
  have d: "z AND 0x0070 = flag_if (tst z F_Z) F_Z OR flag_if (tst z F_S) F_S OR flag_if (tst z F_PV) F_PV"
    "z AND 0x00F0 = flag_if (tst z F_C) F_C OR flag_if (tst z F_Z) F_Z OR flag_if (tst z F_S) F_S
       OR flag_if (tst z F_PV) F_PV" for z
    by (simp_all only: eq bit.conj_disj_distrib and_flag)
  have t: "tst z F_C = tst (z AND 0x00F0) F_C" "tst z F_Z = tst (z AND 0x00F0) F_Z"
    "tst z F_S = tst (z AND 0x00F0) F_S" "tst z F_PV = tst (z AND 0x00F0) F_PV"
    "tst z F_Z = tst (z AND 0x0070) F_Z" "tst z F_S = tst (z AND 0x0070) F_S"
    "tst z F_PV = tst (z AND 0x0070) F_PV" for z
    by simp_all
  show "x AND 0x0070 = y AND 0x0070 \<longleftrightarrow>
     tst x F_Z = tst y F_Z \<and> tst x F_S = tst y F_S \<and> tst x F_PV = tst y F_PV"
  proof
    assume e: "x AND 0x0070 = y AND 0x0070"
    show "tst x F_Z = tst y F_Z \<and> tst x F_S = tst y F_S \<and> tst x F_PV = tst y F_PV"
      unfolding t(5-7)[of x] t(5-7)[of y] e by (intro conjI refl)
  qed (simp only: d)
  show "x AND 0x00F0 = y AND 0x00F0 \<longleftrightarrow>
     tst x F_C = tst y F_C \<and> tst x F_Z = tst y F_Z \<and> tst x F_S = tst y F_S \<and> tst x F_PV = tst y F_PV"
  proof
    assume e: "x AND 0x00F0 = y AND 0x00F0"
    show "tst x F_C = tst y F_C \<and> tst x F_Z = tst y F_Z \<and> tst x F_S = tst y F_S \<and> tst x F_PV = tst y F_PV"
      unfolding t(1-4)[of x] t(1-4)[of y] e by (intro conjI refl)
  qed (simp only: d)
qed

lemma tst_of_bool: "tst (of_bool b :: u64) 1 \<longleftrightarrow> b"
  by (cases b) simp_all

lemma control_bits: "NOT (F_C OR F_Z OR F_S OR F_PV OR F_DA OR F_H) = 0xFF03"
  by simp

lemma uval_take_bit [simp]: "uval w (take_bit (nbits_of w) x) = uval w x"
  by (rule bit_eqI) (auto simp: uval_def bit_simps bit_uint_eq)

lemma uval_push_bit: "uval w (push_bit n x) = uval w x * 2 ^ n mod 2 ^ nbits_of w"
proof -
  have "uval w (push_bit n x) = take_bit (nbits_of w) (push_bit n (uval w x))"
    by (rule bit_eqI) (auto simp: uval_def bit_simps bit_uint_eq dest: less_nbits_of)
  then show ?thesis by (simp add: take_bit_eq_mod push_bit_eq_mult)
qed

lemma uval_drop_bit: "uval w (drop_bit n (take_bit (nbits_of w) x)) = uval w x div 2 ^ n"
proof -
  have "uval w (drop_bit n (take_bit (nbits_of w) x)) = drop_bit n (uval w x)"
    by (rule bit_eqI) (auto simp: uval_def bit_simps bit_uint_eq dest: less_nbits_of)
  then show ?thesis by (simp add: drop_bit_eq_div)
qed

subsection \<open>The operations\<close>

text \<open>C34: ADD and ADC at every width compute the sum modulo \<open>2 ^ width\<close>; C is the unsigned carry
  out, PV the signed overflow, Z and S the zero and sign of the result, H the carry out of the
  low nibble, and DA is cleared; H and DA are written by the byte form only.\<close>

theorem alu_add_correct:
  "alu_exec OpAdd a b k w = alu_exec OpAdc a b False w \<and>
   (let r = alu_exec OpAdc a b c w; s = uval w a + uval w b + of_bool c;
        t = sval w a + sval w b + of_bool c
    in uint (rvalue r) = s mod 2 ^ nbits_of w
       \<and> (tst (rflags r) F_C \<longleftrightarrow> 2 ^ nbits_of w \<le> s)
       \<and> (tst (rflags r) F_Z \<longleftrightarrow> rvalue r = 0)
       \<and> (tst (rflags r) F_S \<longleftrightarrow> sval w (rvalue r) < 0)
       \<and> (tst (rflags r) F_PV \<longleftrightarrow> t \<notin> {- (2 ^ (nbits_of w - 1)) ..< 2 ^ (nbits_of w - 1)})
       \<and> (tst (rflags r) F_H \<longleftrightarrow> 16 \<le> take_bit 4 (uint a) + take_bit 4 (uint b) + of_bool c)
       \<and> \<not> tst (rflags r) F_DA
       \<and> rmask r = (if w = WByte then 0x00FC else 0x00F0))"
  by (simp only: alu_exec_def AluOp.case Let_def do_add_arith simp_thms)

text \<open>C35: SUB, SBC and CP compute the difference modulo \<open>2 ^ width\<close>; C is the unsigned borrow, PV the
  signed overflow, H the borrow from the low nibble, and DA records that the byte operation
  was a subtraction.\<close>

theorem alu_sub_correct:
  "alu_exec OpSub a b k w = alu_exec OpSbc a b False w \<and>
   alu_exec OpCp a b k w = alu_exec OpSbc a b False w \<and>
   (let r = alu_exec OpSbc a b c w; s = uval w a - uval w b - of_bool c;
        t = sval w a - sval w b - of_bool c
    in uint (rvalue r) = s mod 2 ^ nbits_of w
       \<and> (tst (rflags r) F_C \<longleftrightarrow> s < 0)
       \<and> (tst (rflags r) F_Z \<longleftrightarrow> rvalue r = 0)
       \<and> (tst (rflags r) F_S \<longleftrightarrow> sval w (rvalue r) < 0)
       \<and> (tst (rflags r) F_PV \<longleftrightarrow> t \<notin> {- (2 ^ (nbits_of w - 1)) ..< 2 ^ (nbits_of w - 1)})
       \<and> (tst (rflags r) F_H \<longleftrightarrow> take_bit 4 (uint a) < take_bit 4 (uint b) + of_bool c)
       \<and> (tst (rflags r) F_DA \<longleftrightarrow> w = WByte)
       \<and> rmask r = (if w = WByte then 0x00FC else 0x00F0))"
  by (simp only: alu_exec_def AluOp.case Let_def do_sub_arith simp_thms) linarith

text \<open>C36: SLA and SLL by the count modulo 64 multiply by a power of two modulo \<open>2 ^ width\<close>; C is the
  last bit shifted out and is left alone by a zero count, and SLA reports in PV exactly the
  signed overflow of the whole shift although it only ever compares sign bits one place at a
  time.\<close>

theorem alu_shift_left_correct:
  "let r = (if arith then alu_exec OpSla a cnt k w else alu_exec OpSll a cnt k w);
       n = unat (cnt AND 0x3F)
   in uval w (rvalue r) = uval w a * 2 ^ n mod 2 ^ nbits_of w
      \<and> take_bit (nbits_of w) (rvalue r) = rvalue r
      \<and> (tst (rflags r) F_C \<longleftrightarrow> 0 < n \<and> bit (push_bit (n - 1) a) (nbits_of w - 1))
      \<and> (tst (rmask r) F_C \<longleftrightarrow> 0 < n)
      \<and> (tst (rflags r) F_Z \<longleftrightarrow> rvalue r = 0)
      \<and> (tst (rflags r) F_S \<longleftrightarrow> sval w (rvalue r) < 0)
      \<and> (tst (rmask r) F_PV \<longleftrightarrow> arith)
      \<and> (tst (rflags r) F_PV \<longleftrightarrow>
           arith \<and> sval w a * 2 ^ n \<notin> {- (2 ^ (nbits_of w - 1)) ..< 2 ^ (nbits_of w - 1)})"
proof -
  have "(if arith then alu_exec OpSla a cnt k w else alu_exec OpSll a cnt k w)
        = do_shift_left a cnt arith w"
    by (simp add: alu_exec_def)
  then show ?thesis
    by (simp only: Let_def do_shift_left_arith[OF refl] do_shift_left_mask uval_take_bit uval_push_bit) simp
qed

text \<open>C37: SRA and SRL by the count modulo 64 divide by a power of two: SRA the signed operand, rounding
  towards minus infinity, SRL the unsigned one; Z and S describe the result and SRA never
  reports overflow.\<close>

theorem alu_shift_right_correct:
  "let r = alu_exec OpSra a cnt k w; u = alu_exec OpSrl a cnt k w; n = unat (cnt AND 0x3F)
   in sval w (rvalue r) = sval w a div 2 ^ n
      \<and> uval w (rvalue u) = uval w a div 2 ^ n
      \<and> (tst (rflags r) F_Z \<longleftrightarrow> rvalue r = 0) \<and> (tst (rflags u) F_Z \<longleftrightarrow> rvalue u = 0)
      \<and> (tst (rflags r) F_S \<longleftrightarrow> sval w (rvalue r) < 0) \<and> (tst (rflags u) F_S \<longleftrightarrow> sval w (rvalue u) < 0)
      \<and> \<not> tst (rflags r) F_PV"
  by (simp only: alu_exec_def AluOp.case Let_def do_shift_right_arith[OF refl] if_True if_False
      sval_sra_word uval_drop_bit simp_thms)

text \<open>the rotates are permutations of what they rotate.  RRC undoes RLC and RLC undoes RRC on the
  operand together with the carry flag, and RR undoes RL on the operand, for every count.\<close>

theorem alu_rotate_roundtrip:
  "(let r = alu_exec OpRlc a cnt c w; q = alu_exec OpRrc (rvalue r) cnt (tst (rflags r) F_C) w
    in rvalue q = take_bit (nbits_of w) a \<and> (tst (rflags q) F_C \<longleftrightarrow> c)) \<and>
   (let r = alu_exec OpRrc a cnt c w; q = alu_exec OpRlc (rvalue r) cnt (tst (rflags r) F_C) w
    in rvalue q = take_bit (nbits_of w) a \<and> (tst (rflags q) F_C \<longleftrightarrow> c)) \<and>
   (let r = alu_exec OpRl a cnt c w
    in rvalue (alu_exec OpRr (rvalue r) cnt d w) = take_bit (nbits_of w) a)"
proof -
  have f: "fits w (fst (take_bit (nbits_of w) a, c))" by simp
  note rl = fits_rot_funpow(1)[OF f, where thru = True and n = "rot_count cnt"]
  note rr = fits_rot_funpow(2)[OF f, where thru = True and n = "rot_count cnt"]
  note pl = fits_rot_funpow(1)[OF f, where thru = False and n = "rot_count cnt"]
  show ?thesis
    using rot_thru_funpow[OF f, of "rot_count cnt"] rl rr pl
    by (simp add: alu_exec_def Let_def do_rotate_eq rot_plain_inverse)
qed

text \<open>INC and DEC by \<open>n\<close> (bytes and words, the widths the decoder gives them) are ADD and SUB of
  \<open>n\<close> in the value and in Z, S and PV, and leave C, DA and H alone.\<close>

theorem alu_inc_dec_correct:
  assumes "w \<noteq> WLong"
  shows "let i = alu_exec OpInc a n k w; s = alu_exec OpAdd a n k w;
             d = alu_exec OpDec a n k w; t = alu_exec OpSub a n k w
         in rvalue i = rvalue s \<and> rflags i AND 0x0070 = rflags s AND 0x0070 \<and> rmask i = 0x0070
            \<and> rvalue d = rvalue t \<and> rflags d AND 0x0070 = rflags t AND 0x0070 \<and> rmask d = 0x0070"
  using do_inc_add[OF assms] do_dec_sub[OF assms] by (simp add: alu_exec_def Let_def flags_agree)

theorem alu_inc_dec_correct_witness:
  "let i = alu_exec OpInc 0x7F 1 True WByte; s = alu_exec OpAdd 0x7F 1 True WByte;
       d = alu_exec OpDec 0x7F 1 True WByte; t = alu_exec OpSub 0x7F 1 True WByte
   in rvalue i = rvalue s \<and> rflags i AND 0x0070 = rflags s AND 0x0070 \<and> rmask i = 0x0070
      \<and> rvalue d = rvalue t \<and> rflags d AND 0x0070 = rflags t AND 0x0070 \<and> rmask d = 0x0070"
  by (rule alu_inc_dec_correct) simp

text \<open>C38: DAB after ADDB or ADCB of two packed-decimal bytes gives the packed decimal of the sum
  modulo 100, with the decimal carry in C.\<close>

theorem alu_dab_after_add:
  assumes "m < 100" "n < 100"
  shows "let s = alu_exec OpAdc (bcd m) (bcd n) c WByte;
             d = alu_exec OpDab (rvalue s) (of_bool (tst (rflags s) F_H)) (tst (rflags s) F_C) WByte
         in rvalue d = bcd ((m + n + of_bool c) mod 100)
            \<and> (tst (rflags d) F_C \<longleftrightarrow> 100 \<le> m + n + of_bool c)"
  using dab_after_add[OF assms, of c] by (simp only: alu_exec_def AluOp.case Let_def tst_of_bool simp_thms)

theorem alu_dab_after_add_witness:
  "let s = alu_exec OpAdc (bcd 58) (bcd 67) True WByte;
       d = alu_exec OpDab (rvalue s) (of_bool (tst (rflags s) F_H)) (tst (rflags s) F_C) WByte
   in rvalue d = bcd ((58 + 67 + of_bool True) mod 100)
      \<and> (tst (rflags d) F_C \<longleftrightarrow> 100 \<le> (58 + 67 + of_bool True :: nat))"
  by (rule alu_dab_after_add) simp_all

text \<open>The logical operations act bit by bit on the operands cut to the width, set Z and S from the
  result, and for bytes alone set PV to even parity: PV holds exactly when the result has an
  even number of one bits.\<close>

theorem alu_logic_correct:
  "rvalue (alu_exec OpAnd a b k w) = take_bit (nbits_of w) (a AND b) \<and>
   rvalue (alu_exec OpOr a b k w) = take_bit (nbits_of w) (a OR b) \<and>
   rvalue (alu_exec OpXor a b k w) = take_bit (nbits_of w) (a XOR b) \<and>
   rvalue (alu_exec OpCom a b k w) = take_bit (nbits_of w) (NOT a) \<and>
   rvalue (alu_exec OpTest a b k w) = take_bit (nbits_of w) a \<and>
   list_all (\<lambda>opn. let r = alu_exec opn a b k w in
      (tst (rflags r) F_Z \<longleftrightarrow> rvalue r = 0) \<and> (tst (rflags r) F_S \<longleftrightarrow> sval w (rvalue r) < 0) \<and>
      (tst (rmask r) F_PV \<longleftrightarrow> w = WByte) \<and>
      (tst (rflags r AND rmask r) F_PV \<longleftrightarrow> w = WByte \<and> even (card {i. bit (rvalue r) i})))
     [OpAnd, OpOr, OpXor, OpCom, OpTest]"
  by (cases w) (simp_all add: alu_exec_def Let_def logic_flags logic_mask_def trunc_w_eq logic_parity)

text \<open>NEG is subtraction from zero, in value and in C, Z, S and PV, although the code derives C and
  PV by comparing the operand with zero and with the most negative number.\<close>

theorem alu_neg_correct:
  "let r = alu_exec OpNeg a b k w; s = alu_exec OpSub 0 a k w
   in rvalue r = rvalue s \<and> rflags r AND 0x00F0 = rflags s AND 0x00F0 \<and> rmask r = 0x00F0"
  by (simp add: alu_exec_def Let_def do_neg_sub flags_agree)

text \<open>No ALU operation, whatever its operands, can reach a control bit of the FCW: the flag mask
  of every result lies within the six arithmetic flags.\<close>

theorem alu_mask_within_flags:
  "rmask (alu_exec opn a b c w) AND NOT (F_C OR F_Z OR F_S OR F_PV OR F_DA OR F_H) = 0"
  unfolding control_bits by (rule alu_mask)

end
