(* ===== verification/Mmu.thy ===== *)
theory Mmu
  imports Prelude
begin

text \<open>
  The Z8010 memory-management unit, \<open>src/src/mmu.c\<close>: 64 segment descriptors, the
  violation registers, segmented translation with its attribute and limit checks, and the
  command port.  A \<open>6 word\<close> indexes the descriptor table, so that the source's
  \<open>& 0x3F\<close> is the cast to the index type.  The \<open>CSIM_MMU_DEBUG\<close> prints to stderr
  are left out.
\<close>

abbreviation (input) VT_FATL :: u8 where "VT_FATL \<equiv> 0x80"
abbreviation (input) VT_SWW :: u8 where "VT_SWW \<equiv> 0x40"
abbreviation (input) VT_PWW :: u8 where "VT_PWW \<equiv> 0x20"
abbreviation (input) VT_EXCV :: u8 where "VT_EXCV \<equiv> 0x10"
abbreviation (input) VT_CPUIV :: u8 where "VT_CPUIV \<equiv> 0x08"
abbreviation (input) VT_SLV :: u8 where "VT_SLV \<equiv> 0x04"
abbreviation (input) VT_SYSV :: u8 where "VT_SYSV \<equiv> 0x02"
abbreviation (input) VT_RDV :: u8 where "VT_RDV \<equiv> 0x01"

abbreviation (input) A_REF :: u8 where "A_REF \<equiv> 0x80"
abbreviation (input) A_CHG :: u8 where "A_CHG \<equiv> 0x40"
abbreviation (input) A_DIRW :: u8 where "A_DIRW \<equiv> 0x20"
abbreviation (input) A_DMAI :: u8 where "A_DMAI \<equiv> 0x10"
abbreviation (input) A_EXC :: u8 where "A_EXC \<equiv> 0x08"
abbreviation (input) A_CPU :: u8 where "A_CPU \<equiv> 0x04"
abbreviation (input) A_SYS :: u8 where "A_SYS \<equiv> 0x02"
abbreviation (input) A_RD :: u8 where "A_RD \<equiv> 0x01"

abbreviation (input) MODE_MSEN :: u8 where "MODE_MSEN \<equiv> 0x80"
abbreviation (input) MODE_TRNS :: u8 where "MODE_TRNS \<equiv> 0x40"
abbreviation (input) MODE_URS :: u8 where "MODE_URS \<equiv> 0x20"

record MmuDesc =
  d_base :: u16
  d_limit :: u8
  d_attr :: u8

record MMU =
  u_desc :: "6 word \<Rightarrow> MmuDesc"
  u_mode :: u8
  u_sar :: u8
  u_dsc :: u8
  u_viol_type :: u8
  u_viol_sn :: u8
  u_viol_off :: u16
  u_bcsr :: u8
  u_isn :: u8
  u_ioff :: u8
  u_viol_captured :: bool
  u_segt :: bool
  u_warn_pending :: bool
  u_fast_base :: "6 word \<Rightarrow> u32"
  u_fast_ok :: "6 word \<Rightarrow> bool"

text \<open>The unit inside a freshly allocated machine: all zero (\<open>calloc\<close> in \<open>machine_new\<close>).\<close>

definition mmu_zero :: MMU where
  "mmu_zero =
     \<lparr>u_desc = \<lambda>_. \<lparr>d_base = 0, d_limit = 0, d_attr = 0\<rparr>, u_mode = 0, u_sar = 0, u_dsc = 0,
      u_viol_type = 0, u_viol_sn = 0, u_viol_off = 0, u_bcsr = 0, u_isn = 0, u_ioff = 0,
      u_viol_captured = False, u_segt = False, u_warn_pending = False,
      u_fast_base = \<lambda>_. 0, u_fast_ok = \<lambda>_. False\<rparr>"

definition A_RESTRICT :: u8 where
  "A_RESTRICT = A_CPU OR A_RD OR A_SYS OR A_EXC OR A_DIRW"

subsection \<open>Reset and the fast-path cache\<close>

definition mmu_refresh_fast :: "6 word \<Rightarrow> MMU \<Rightarrow> MMU" where
  "mmu_refresh_fast seg u =
     (let d = u_desc u seg
      in u\<lparr>u_fast_ok := (u_fast_ok u)(seg := d_limit d = 0xFF \<and> d_attr d AND A_RESTRICT = 0),
           u_fast_base := (u_fast_base u)(seg := push_bit 8 (ucast (d_base d)))\<rparr>)"

text \<open>The descriptor indices in the order of the source's \<open>for (int i = 0; i < 64; i++)\<close>.\<close>

definition seg_indices :: "6 word list" where
  "seg_indices = map word_of_nat [0..<64]"

definition mmu_reset :: "MMU \<Rightarrow> MMU" where
  "mmu_reset u =
     (let u = fold (\<lambda>i u. u\<lparr>u_desc := (u_desc u)(i := \<lparr>d_base = 0, d_limit = 0, d_attr = 0\<rparr>)\<rparr>)
                seg_indices u;
          u = u\<lparr>u_mode := MODE_MSEN, u_sar := 0, u_dsc := 0, u_viol_type := 0, u_viol_sn := 0,
                u_viol_off := 0, u_bcsr := 0, u_isn := 0, u_ioff := 0,
                u_viol_captured := False, u_segt := False, u_warn_pending := False\<rparr>
      in fold mmu_refresh_fast seg_indices u)"

subsection \<open>Violations\<close>

definition latch_viol ::
  "u8 \<Rightarrow> u8 \<Rightarrow> u16 \<Rightarrow> bool \<Rightarrow> bool \<Rightarrow> u8 \<Rightarrow> bool \<Rightarrow> MMU \<Rightarrow> MMU" where
  "latch_viol viol sn off is_write is_normal st suppress u =
     (let is_warn = (\<not> suppress);
          fatal = (u_viol_captured u \<and> (suppress \<or> (is_warn \<and> is_normal)));
          sww = (is_warn \<and> \<not> is_normal \<and> tst (u_viol_type u) VT_PWW \<and> \<not> fatal);
          u = (if \<not> u_viol_captured u
               then u\<lparr>u_viol_type := viol, u_viol_sn := sn, u_viol_off := off,
                      u_bcsr := (st AND 0x0F) OR flag_if is_write 0x10 OR flag_if is_normal 0x20,
                      u_viol_captured := True\<rparr>
               else u\<lparr>u_viol_type := u_viol_type u OR viol\<rparr>);
          u = (if fatal then u\<lparr>u_viol_type := u_viol_type u OR VT_FATL\<rparr> else u);
          u = (if sww then u\<lparr>u_viol_type := u_viol_type u OR VT_SWW\<rparr> else u)
      in if u_viol_type u AND (VT_FATL OR VT_SWW) = 0
         then (let u = u\<lparr>u_segt := True\<rparr>
               in if is_warn then u\<lparr>u_warn_pending := True\<rparr> else u)
         else u)"

subsection \<open>Translation\<close>

definition set_attr :: "6 word \<Rightarrow> u8 \<Rightarrow> MMU \<Rightarrow> MMU" where
  "set_attr seg v u = u\<lparr>u_desc := (u_desc u)(seg := (u_desc u seg)\<lparr>d_attr := v\<rparr>)\<rparr>"

text \<open>\<open>d->attr |= A_REF; if (is_write) d->attr |= A_CHG;\<close>\<close>

definition account :: "6 word \<Rightarrow> bool \<Rightarrow> MMU \<Rightarrow> MMU" where
  "account seg is_write u =
     (let u = set_attr seg (d_attr (u_desc u seg) OR A_REF) u
      in if is_write then set_attr seg (d_attr (u_desc u seg) OR A_CHG) u else u)"

text \<open>\<open>mmu_translate\<close> returns the physical address, the \<open>*fault\<close> output and the
  updated unit.\<close>

definition mmu_translate ::
  "u8 \<Rightarrow> u16 \<Rightarrow> bool \<Rightarrow> bool \<Rightarrow> bool \<Rightarrow> MMU \<Rightarrow> u32 \<times> bool \<times> MMU" where
  "mmu_translate sn off is_write is_normal is_fetch u =
     (let identity = push_bit 16 (ucast (sn AND 0x7F) :: u32) OR ucast off
      in if \<not> tst (u_mode u) MODE_MSEN then (identity, False, u)
         else if \<not> tst (u_mode u) MODE_TRNS then (identity, False, u)
         else if drop_bit 6 sn AND 1 \<noteq> drop_bit 5 (u_mode u) AND 1 then (identity, False, u)
         else
           (let seg = ucast sn :: 6 word
            in if u_fast_ok u seg
               then (let u' = account seg is_write u
                     in ((u_fast_base u' seg + ucast off) AND 0x00FFFFFF, False, u'))
               else
                 (let d = u_desc u seg;
                      page = ucast (drop_bit 8 off) :: u8;
                      st = (if is_fetch then 0x0D else if is_write then 0x0A else 0x09);
                      fault = (\<lambda>viol. (identity, True,
                                 latch_viol viol sn off is_write is_normal st True u))
                  in if tst (d_attr d) A_CPU then fault VT_CPUIV
                     else if tst (d_attr d) A_DIRW \<and> page < d_limit d then fault VT_SLV
                     else if \<not> tst (d_attr d) A_DIRW \<and> d_limit d < page then fault VT_SLV
                     else if tst (d_attr d) A_RD \<and> is_write then fault VT_RDV
                     else if tst (d_attr d) A_SYS \<and> is_normal then fault VT_SYSV
                     else if tst (d_attr d) A_EXC \<and> \<not> is_fetch then fault VT_EXCV
                     else
                       (let u = account seg is_write u;
                            d = u_desc u seg;
                            u = (if tst (d_attr d) A_DIRW \<and> is_write \<and> page = d_limit d
                                 then latch_viol VT_PWW sn off is_write is_normal st False u
                                 else u)
                        in ((push_bit 8 (ucast (d_base d)) + ucast off) AND 0x00FFFFFF,
                            False, u)))))"

subsection \<open>The command port\<close>

definition read_desc_byte :: "nat \<Rightarrow> MMU \<Rightarrow> u16" where
  "read_desc_byte which u =
     (let d = u_desc u (ucast (u_sar u))
      in if which = 0 then drop_bit 8 (d_base d) AND 0xFF
         else if which = 1 then d_base d AND 0xFF
         else if which = 2 then ucast (d_limit d)
         else ucast (d_attr d))"

definition write_desc_byte :: "nat \<Rightarrow> u8 \<Rightarrow> MMU \<Rightarrow> MMU" where
  "write_desc_byte which v u =
     (let i = ucast (u_sar u) :: 6 word; d = u_desc u i;
          d = (if which = 0 then d\<lparr>d_base := (d_base d AND 0x00FF) OR push_bit 8 (ucast v)\<rparr>
               else if which = 1 then d\<lparr>d_base := (d_base d AND 0xFF00) OR ucast v\<rparr>
               else if which = 2 then d\<lparr>d_limit := v\<rparr>
               else d\<lparr>d_attr := v\<rparr>)
      in u\<lparr>u_desc := (u_desc u)(i := d)\<rparr>)"

text \<open>\<open>u->sar = (u->sar + 1) & 0x3F\<close>.\<close>

definition sar_step :: "MMU \<Rightarrow> MMU" where
  "sar_step u = u\<lparr>u_sar := (u_sar u + 1) AND 0x3F\<rparr>"

definition mmu_cmd_read :: "u8 \<Rightarrow> MMU \<Rightarrow> u16 \<times> MMU" where
  "mmu_cmd_read cmd u =
     (if cmd = 0x00 then (ucast (u_mode u), u)
      else if cmd = 0x01 then (ucast (u_sar u), u)
      else if cmd = 0x20 then (ucast (u_dsc u), u)
      else if cmd = 0x08 \<or> cmd = 0x0C then
        (read_desc_byte (unat (u_dsc u AND 1)) u,
         if u_dsc u AND 1 = 1
         then (let u = u\<lparr>u_dsc := 0\<rparr> in if cmd = 0x0C then sar_step u else u)
         else u\<lparr>u_dsc := 1\<rparr>)
      else if cmd = 0x09 \<or> cmd = 0x0D then
        (read_desc_byte 2 u, if cmd = 0x0D then sar_step u else u)
      else if cmd = 0x0A \<or> cmd = 0x0E then
        (read_desc_byte 3 u, if cmd = 0x0E then sar_step u else u)
      else if cmd = 0x0B \<or> cmd = 0x0F then
        (read_desc_byte (unat (u_dsc u AND 3)) u,
         (let nd = (u_dsc u + 1) AND 3;
              u = (if nd = 0 \<and> cmd = 0x0F then sar_step u else u)
          in u\<lparr>u_dsc := nd\<rparr>))
      else if cmd = 0x02 then (ucast (u_viol_type u), u)
      else if cmd = 0x03 then (ucast (u_viol_sn u), u)
      else if cmd = 0x04 then (drop_bit 8 (u_viol_off u) AND 0xFF, u)
      else if cmd = 0x05 then (ucast (u_bcsr u), u)
      else if cmd = 0x06 then (ucast (u_isn u), u)
      else if cmd = 0x07 then (ucast (u_ioff u), u)
      else (0, u))"

text \<open>\<open>for (i...) { u->desc[i].attr |= m; mmu_refresh_fast(u, i); }\<close>\<close>

definition set_all_attr :: "u8 \<Rightarrow> MMU \<Rightarrow> MMU" where
  "set_all_attr m u =
     fold (\<lambda>i u. mmu_refresh_fast i (set_attr i (d_attr (u_desc u i) OR m) u)) seg_indices u"

definition mmu_cmd_write :: "u8 \<Rightarrow> u8 \<Rightarrow> MMU \<Rightarrow> MMU" where
  "mmu_cmd_write cmd data u =
     (let tgt = ucast (u_sar u) :: 6 word
      in if cmd = 0x00 then u\<lparr>u_mode := data\<rparr>
         else if cmd = 0x01 then u\<lparr>u_sar := data AND 0x3F, u_dsc := 0\<rparr>
         else if cmd = 0x20 then u\<lparr>u_dsc := data AND 0x03\<rparr>
         else if cmd = 0x08 \<or> cmd = 0x0C then
           (let u = write_desc_byte (unat (u_dsc u AND 1)) data u;
                u = (if u_dsc u AND 1 = 1
                     then (let u = u\<lparr>u_dsc := 0\<rparr> in if cmd = 0x0C then sar_step u else u)
                     else u\<lparr>u_dsc := 1\<rparr>)
            in mmu_refresh_fast tgt u)
         else if cmd = 0x09 \<or> cmd = 0x0D then
           (let u = write_desc_byte 2 data u; u = (if cmd = 0x0D then sar_step u else u)
            in mmu_refresh_fast tgt u)
         else if cmd = 0x0A \<or> cmd = 0x0E then
           (let u = write_desc_byte 3 data u; u = (if cmd = 0x0E then sar_step u else u)
            in mmu_refresh_fast tgt u)
         else if cmd = 0x0B \<or> cmd = 0x0F then
           (let u = write_desc_byte (unat (u_dsc u AND 3)) data u;
                nd = (u_dsc u + 1) AND 3;
                u = (if nd = 0 \<and> cmd = 0x0F then sar_step u else u);
                u = u\<lparr>u_dsc := nd\<rparr>
            in mmu_refresh_fast tgt u)
         else if cmd = 0x11
           then u\<lparr>u_viol_type := 0, u_viol_captured := False, u_segt := False\<rparr>
         else if cmd = 0x13 then u\<lparr>u_viol_type := u_viol_type u AND NOT VT_SWW\<rparr>
         else if cmd = 0x14 then u\<lparr>u_viol_type := u_viol_type u AND NOT VT_FATL\<rparr>
         else if cmd = 0x15 then set_all_attr A_CPU u
         else if cmd = 0x16 then set_all_attr A_DMAI u
         else u)"

end
