(* ===== verification/Mmu_Lemmas.thy ===== *)
theory Mmu_Lemmas
  imports Mmu
begin

text \<open>
  The invariant of the MMU (\<open>src/src/mmu.c\<close>) and the case analysis of its operations:
  the fast-path cache agrees with the descriptors, the segment address register keeps to six
  bits and the descriptor selection counter to two, in every state that resets, port
  commands and translations can reach.
\<close>

subsection \<open>The whole-table loops\<close>

lemma set_seg_indices [simp]: "set seg_indices = UNIV"
proof -
  have "i \<in> word_of_nat ` {0..<64}" for i :: "6 word"
  proof (rule image_eqI[of _ _ "unat i"])
    have "unat i < 2 ^ LENGTH(6)" by (rule unsigned_less)
    then show "unat i \<in> {0..<64}" by simp
  qed simp
  then show ?thesis by (auto simp: seg_indices_def)
qed

lemma fold_clear_desc:
  "fold (\<lambda>i u. u\<lparr>u_desc := (u_desc u)(i := d)\<rparr>) xs u =
   u\<lparr>u_desc := \<lambda>j. if j \<in> set xs then d else u_desc u j\<rparr>"
  by (induction xs arbitrary: u) (auto simp: fun_eq_iff)

definition simple_desc :: "MmuDesc \<Rightarrow> bool" where
  "simple_desc d \<longleftrightarrow> d_limit d = 0xFF \<and> d_attr d AND A_RESTRICT = 0"

lemma refresh_eq:
  "mmu_refresh_fast i u =
     u\<lparr>u_fast_ok := (u_fast_ok u)(i := simple_desc (u_desc u i)),
       u_fast_base := (u_fast_base u)(i := push_bit 8 (ucast (d_base (u_desc u i))))\<rparr>"
  by (simp add: mmu_refresh_fast_def simple_desc_def Let_def)

lemma fold_refresh:
  "fold mmu_refresh_fast xs u =
   u\<lparr>u_fast_ok := \<lambda>j. if j \<in> set xs then simple_desc (u_desc u j) else u_fast_ok u j,
     u_fast_base := \<lambda>j. if j \<in> set xs then push_bit 8 (ucast (d_base (u_desc u j))) else u_fast_base u j\<rparr>"
  by (induction xs arbitrary: u) (auto simp: refresh_eq fun_eq_iff)

lemma fold_set_attr:
  "fold (\<lambda>i u. mmu_refresh_fast i (set_attr i (d_attr (u_desc u i) OR m) u)) xs u =
   (let ds = \<lambda>j. if j \<in> set xs then (u_desc u j)\<lparr>d_attr := d_attr (u_desc u j) OR m\<rparr> else u_desc u j
    in u\<lparr>u_desc := ds,
         u_fast_ok := \<lambda>j. if j \<in> set xs then simple_desc (ds j) else u_fast_ok u j,
         u_fast_base := \<lambda>j. if j \<in> set xs then push_bit 8 (ucast (d_base (u_desc u j))) else u_fast_base u j\<rparr>)"
  by (induction xs arbitrary: u) (auto simp: refresh_eq set_attr_def fun_eq_iff Let_def or.assoc)

lemma mmu_reset_eq:
  "mmu_reset u =
     \<lparr>u_desc = \<lambda>_. \<lparr>d_base = 0, d_limit = 0, d_attr = 0\<rparr>, u_mode = MODE_MSEN, u_sar = 0, u_dsc = 0,
      u_viol_type = 0, u_viol_sn = 0, u_viol_off = 0, u_bcsr = 0, u_isn = 0, u_ioff = 0,
      u_viol_captured = False, u_segt = False, u_warn_pending = False,
      u_fast_base = \<lambda>_. 0, u_fast_ok = \<lambda>_. False\<rparr>"
  by (simp add: mmu_reset_def fold_clear_desc fold_refresh simple_desc_def Let_def)

lemma set_all_attr_eq:
  "set_all_attr m u =
   (let ds = \<lambda>j. (u_desc u j)\<lparr>d_attr := d_attr (u_desc u j) OR m\<rparr>
    in u\<lparr>u_desc := ds, u_fast_ok := \<lambda>j. simple_desc (ds j),
         u_fast_base := \<lambda>j. push_bit 8 (ucast (d_base (u_desc u j)))\<rparr>)"
  by (simp add: set_all_attr_def fold_set_attr Let_def)

subsection \<open>Invariant\<close>

definition cache_ok :: "MMU \<Rightarrow> bool" where
  "cache_ok u \<longleftrightarrow> (\<forall>i. u_fast_ok u i = simple_desc (u_desc u i)
                       \<and> u_fast_base u i = push_bit 8 (ucast (d_base (u_desc u i))))"

text \<open>An armed unit (nothing captured) shows no violation and requests no trap.\<close>

definition latch_ok :: "MMU \<Rightarrow> bool" where
  "latch_ok u \<longleftrightarrow> (\<not> u_viol_captured u \<longrightarrow> u_viol_type u = 0 \<and> \<not> u_segt u)"

definition mmu_inv :: "MMU \<Rightarrow> bool" where
  "mmu_inv u \<longleftrightarrow> cache_ok u \<and> latch_ok u \<and> u_sar u < 64 \<and> u_dsc u < 4"

lemma restrict_accounting [simp]:
  "(a OR A_REF) AND A_RESTRICT = a AND A_RESTRICT" "(a OR A_CHG) AND A_RESTRICT = a AND A_RESTRICT"
  by (simp_all add: A_RESTRICT_def bit.conj_disj_distrib2)

lemma account_eq:
  "account i wr u = set_attr i (d_attr (u_desc u i) OR (if wr then A_REF OR A_CHG else A_REF)) u"
  by (simp add: account_def set_attr_def Let_def or.assoc)

lemma cache_ok_account [simp]: "cache_ok (account i wr u) \<longleftrightarrow> cache_ok u"
proof -
  have "(a OR (A_REF OR A_CHG)) AND A_RESTRICT = a AND A_RESTRICT" for a :: u8
    by (simp add: A_RESTRICT_def bit.conj_disj_distrib2)
  then show ?thesis
    by (auto simp: cache_ok_def account_eq set_attr_def simple_desc_def)
qed

lemma account_fields [simp]:
  "u_mode (account i wr u) = u_mode u" "u_sar (account i wr u) = u_sar u"
  "u_dsc (account i wr u) = u_dsc u" "u_viol_type (account i wr u) = u_viol_type u"
  "u_viol_sn (account i wr u) = u_viol_sn u" "u_viol_off (account i wr u) = u_viol_off u"
  "u_bcsr (account i wr u) = u_bcsr u" "u_viol_captured (account i wr u) = u_viol_captured u"
  "u_segt (account i wr u) = u_segt u" "u_warn_pending (account i wr u) = u_warn_pending u"
  "u_fast_ok (account i wr u) = u_fast_ok u" "u_fast_base (account i wr u) = u_fast_base u"
  "d_base (u_desc (account i wr u) j) = d_base (u_desc u j)"
  "d_limit (u_desc (account i wr u) j) = d_limit (u_desc u j)"
  by (simp_all add: account_eq set_attr_def)

lemma latch_fields [simp]:
  "u_desc (latch_viol v sn off wr nm st sp u) = u_desc u" "u_mode (latch_viol v sn off wr nm st sp u) = u_mode u"
  "u_sar (latch_viol v sn off wr nm st sp u) = u_sar u" "u_dsc (latch_viol v sn off wr nm st sp u) = u_dsc u"
  "u_fast_ok (latch_viol v sn off wr nm st sp u) = u_fast_ok u"
  "u_fast_base (latch_viol v sn off wr nm st sp u) = u_fast_base u"
  "u_viol_captured (latch_viol v sn off wr nm st sp u)"
  by (simp_all add: latch_viol_def Let_def)

lemma latch_ok_latch [simp]: "latch_ok (latch_viol v sn off wr nm st sp u)"
  by (simp add: latch_ok_def)

lemma latch_ok_account [simp]: "latch_ok (account i wr u) \<longleftrightarrow> latch_ok u"
  by (simp add: latch_ok_def)

lemma cache_ok_latch [simp]: "cache_ok (latch_viol v sn off wr nm st sp u) \<longleftrightarrow> cache_ok u"
  by (simp add: cache_ok_def)

lemma translate_fields [simp]:
  "u_mode (snd (snd (mmu_translate sn off wr nm fe u))) = u_mode u"
  "u_sar (snd (snd (mmu_translate sn off wr nm fe u))) = u_sar u"
  "u_dsc (snd (snd (mmu_translate sn off wr nm fe u))) = u_dsc u"
  by (simp_all add: mmu_translate_def Let_def)

lemma cache_ok_translate: "cache_ok u \<Longrightarrow> cache_ok (snd (snd (mmu_translate sn off wr nm fe u)))"
  by (simp add: mmu_translate_def Let_def)

lemma latch_ok_translate: "latch_ok u \<Longrightarrow> latch_ok (snd (snd (mmu_translate sn off wr nm fe u)))"
  by (simp add: mmu_translate_def Let_def)

subsection \<open>Operation sequences\<close>

text \<open>What the rest of the machine does to the unit: reset, port commands, bus cycles, and the
  processor's consumption of a pending write warning (\<open>cpu_step\<close>, src/src/cpu.c).\<close>

datatype mmu_op =
    MmuReset
  | CmdRead u8
  | CmdWrite u8 u8
  | Translate u8 u16 bool bool bool
  | WarnTaken

fun mmu_apply :: "mmu_op \<Rightarrow> MMU \<Rightarrow> MMU" where
  "mmu_apply MmuReset u = mmu_reset u"
| "mmu_apply (CmdRead cmd) u = snd (mmu_cmd_read cmd u)"
| "mmu_apply (CmdWrite cmd v) u = mmu_cmd_write cmd v u"
| "mmu_apply (Translate sn off wr nm fe) u = snd (snd (mmu_translate sn off wr nm fe u))"
| "mmu_apply WarnTaken u = u\<lparr>u_warn_pending := False\<rparr>"

inductive mmu_reachable :: "MMU \<Rightarrow> bool" where
  mmu_init: "mmu_reachable (mmu_reset u)"
| mmu_step: "mmu_reachable u \<Longrightarrow> mmu_reachable (mmu_apply opn u)"

inductive_cases mmu_reachableE: "mmu_reachable u"

lemma and_3F_less [simp]: "x AND 0x3F < 64" for x :: u8
proof -
  have "x AND 0x3F = take_bit 6 x" by (simp add: take_bit_eq_mask mask_eq_exp_minus_1)
  then show ?thesis by (simp add: word_less_def take_bit_eq_mod uint_mod)
qed

lemma and_3_less [simp]: "x AND 3 < 4" for x :: u8
proof -
  have "x AND 3 = take_bit 2 x" by (simp add: take_bit_eq_mask mask_eq_exp_minus_1)
  then show ?thesis by (simp add: word_less_def take_bit_eq_mod uint_mod)
qed

lemma sar_step_fields [simp]:
  "u_desc (sar_step u) = u_desc u" "u_fast_ok (sar_step u) = u_fast_ok u"
  "u_fast_base (sar_step u) = u_fast_base u" "u_dsc (sar_step u) = u_dsc u" "u_sar (sar_step u) < 64"
  "u_viol_captured (sar_step u) = u_viol_captured u" "u_viol_type (sar_step u) = u_viol_type u"
  "u_segt (sar_step u) = u_segt u" "latch_ok (sar_step u) = latch_ok u"
  by (simp_all add: sar_step_def latch_ok_def)

lemma mmu_inv_cmd_read: "mmu_inv u \<Longrightarrow> mmu_inv (snd (mmu_cmd_read cmd u))"
  by (simp add: mmu_inv_def cache_ok_def latch_ok_def mmu_cmd_read_def Let_def)

text \<open>A descriptor write followed by the refresh of the descriptor written restores the cache.\<close>

lemma refresh_after_write:
  assumes "cache_ok u" "u_fast_ok v = u_fast_ok u" "u_fast_base v = u_fast_base u"
    "\<And>j. j \<noteq> i \<Longrightarrow> u_desc v j = u_desc u j"
  shows "cache_ok (mmu_refresh_fast i v)"
  using assms by (auto simp: cache_ok_def refresh_eq)

lemma write_desc_fields [simp]:
  "u_fast_ok (write_desc_byte k v u) = u_fast_ok u" "u_fast_base (write_desc_byte k v u) = u_fast_base u"
  "u_sar (write_desc_byte k v u) = u_sar u" "u_dsc (write_desc_byte k v u) = u_dsc u"
  "u_viol_captured (write_desc_byte k v u) = u_viol_captured u"
  "u_viol_type (write_desc_byte k v u) = u_viol_type u" "u_segt (write_desc_byte k v u) = u_segt u"
  "j \<noteq> ucast (u_sar u) \<Longrightarrow> u_desc (write_desc_byte k v u) j = u_desc u j"
  by (simp_all add: write_desc_byte_def Let_def)

lemma refresh_fields [simp]:
  "u_sar (mmu_refresh_fast i u) = u_sar u" "u_dsc (mmu_refresh_fast i u) = u_dsc u"
  "u_desc (mmu_refresh_fast i u) = u_desc u" "u_viol_captured (mmu_refresh_fast i u) = u_viol_captured u"
  "u_viol_type (mmu_refresh_fast i u) = u_viol_type u" "u_segt (mmu_refresh_fast i u) = u_segt u"
  by (simp_all add: refresh_eq)

lemma mmu_inv_cmd_write:
  assumes "mmu_inv u"
  shows "mmu_inv (mmu_cmd_write cmd v u)"
proof -
  have c: "cache_ok u" and l: "latch_ok u" and s: "u_sar u < 64" and d: "u_dsc u < 4"
    using assms by (simp_all add: mmu_inv_def)
  have plain: "cache_ok w" if "u_desc w = u_desc u" "u_fast_ok w = u_fast_ok u" "u_fast_base w = u_fast_base u" for w
    using that c by (simp add: cache_ok_def)
  have all: "cache_ok (set_all_attr m u)" "u_sar (set_all_attr m u) = u_sar u"
    "u_dsc (set_all_attr m u) = u_dsc u" "latch_ok (set_all_attr m u)" for m
    using l by (simp_all add: set_all_attr_eq cache_ok_def latch_ok_def Let_def)
  have latch: "latch_ok (mmu_cmd_write cmd v u)"
    using l all(4) unfolding mmu_cmd_write_def Let_def by (simp add: latch_ok_def)
  have "cache_ok (mmu_cmd_write cmd v u)" "u_sar (mmu_cmd_write cmd v u) < 64"
    "u_dsc (mmu_cmd_write cmd v u) < 4"
    unfolding mmu_cmd_write_def Let_def
    by (simp_all add: s d all plain refresh_after_write[OF c])
  with latch show ?thesis by (simp add: mmu_inv_def)
qed

lemma mmu_inv_apply: "mmu_inv u \<Longrightarrow> mmu_inv (mmu_apply opn u)"
proof (cases opn)
  case MmuReset
  then show ?thesis by (simp add: mmu_inv_def mmu_reset_eq cache_ok_def latch_ok_def simple_desc_def)
next
  case (Translate sn off wr nm fe)
  then show "mmu_inv u \<Longrightarrow> mmu_inv (mmu_apply opn u)"
    by (simp add: mmu_inv_def cache_ok_translate latch_ok_translate)
qed (simp_all add: mmu_inv_cmd_read mmu_inv_cmd_write, simp add: mmu_inv_def cache_ok_def latch_ok_def)

lemma mmu_inv_reset: "mmu_inv (mmu_reset u)"
  by (simp add: mmu_inv_def mmu_reset_eq cache_ok_def latch_ok_def simple_desc_def)

lemma mmu_reachable_inv: "mmu_reachable u \<Longrightarrow> mmu_inv u"
  by (induction rule: mmu_reachable.induct) (simp_all add: mmu_inv_reset mmu_inv_apply)

subsection \<open>Descriptor bytes\<close>

definition desc_byte :: "nat \<Rightarrow> MMU \<Rightarrow> u8" where
  "desc_byte which u = ucast (read_desc_byte which u)"

lemma desc_byte_laws:
  "desc_byte k (write_desc_byte k v u) = v"
  "write_desc_byte k (desc_byte k u) u = u"
  "write_desc_byte k v (write_desc_byte k w u) = write_desc_byte k v u"
proof -
  show "desc_byte k (write_desc_byte k v u) = v"
    by (rule bit_word_eqI)
      (auto simp: desc_byte_def read_desc_byte_def write_desc_byte_def Let_def bit_simps bit_byte_masks)
  have hi: "(b AND 0x00FF) OR push_bit 8 (ucast (ucast (drop_bit 8 b AND 0xFF) :: u8)) = b"
    "(b AND 0xFF00) OR ucast (ucast (b AND 0xFF) :: u8) = b" for b :: u16
    by (rule bit_word_eqI, auto simp: bit_simps bit_byte_masks dest: bit_imp_le_length)+
  show "write_desc_byte k (desc_byte k u) u = u"
    by (simp add: desc_byte_def read_desc_byte_def write_desc_byte_def Let_def hi)
  have "(((b AND 0x00FF) OR push_bit 8 (ucast w)) AND 0x00FF) OR push_bit 8 (ucast v) = (b AND 0x00FF) OR push_bit 8 (ucast v)"
     "(((b AND 0xFF00) OR ucast w) AND 0xFF00) OR ucast v = (b AND 0xFF00) OR ucast v" for b :: u16
    by (rule bit_word_eqI, auto simp: bit_simps bit_byte_masks dest: bit_imp_le_length)+
  then show "write_desc_byte k v (write_desc_byte k w u) = write_desc_byte k v u"
    by (simp add: write_desc_byte_def Let_def)
qed

interpretation desc_byte: lens "desc_byte k" "write_desc_byte k" for k
  by unfold_locales (rule desc_byte_laws)+

lemma desc_byte_fields:
  "desc_byte 0 u = ucast (drop_bit 8 (d_base (u_desc u (ucast (u_sar u)))))"
  "desc_byte 1 u = ucast (d_base (u_desc u (ucast (u_sar u))))"
  "desc_byte 2 u = d_limit (u_desc u (ucast (u_sar u)))"
  "desc_byte 3 u = d_attr (u_desc u (ucast (u_sar u)))"
  by (auto simp: desc_byte_def read_desc_byte_def Let_def bit_simps bit_byte_masks intro!: bit_word_eqI)

text \<open>Loading a descriptor through command \<open>0x0F\<close>, byte by byte, and reading one back.\<close>

definition desc_bytes :: "MmuDesc \<Rightarrow> u8 list" where
  "desc_bytes d = [ucast (drop_bit 8 (d_base d)), ucast (d_base d), d_limit d, d_attr d]"

definition load_desc :: "MmuDesc \<Rightarrow> MMU \<Rightarrow> MMU" where
  "load_desc d u = fold (mmu_cmd_write 0x0F) (desc_bytes d) u"

fun read_bytes :: "nat \<Rightarrow> MMU \<Rightarrow> u16 list \<times> MMU" where
  "read_bytes 0 u = ([], u)"
| "read_bytes (Suc n) u =
     (let (b, u) = mmu_cmd_read 0x0F u; (bs, u) = read_bytes n u in (b # bs, u))"

lemma ucast_and_3F [simp]: "(ucast (x AND 0x3F :: u8) :: 6 word) = ucast x"
proof -
  have "x AND 0x3F = take_bit 6 x" by (simp add: take_bit_eq_mask mask_eq_exp_minus_1)
  then show ?thesis by (auto intro!: bit_word_eqI simp: bit_simps simp del: take_bit_of_exp)
qed

lemma base_of_bytes:
  "((((b AND 0x00FF) OR push_bit 8 (ucast (ucast (drop_bit 8 c) :: u8))) AND 0xFF00)
     OR ucast (ucast c :: u8)) = c" for b c :: u16
  by (rule bit_word_eqI) (auto simp: bit_simps bit_byte_masks dest: bit_imp_le_length)

lemma desc_all_fields: "e\<lparr>d_base := d_base d, d_limit := d_limit d, d_attr := d_attr d\<rparr> = d" for d e :: MmuDesc
  by (cases d; cases e) simp

lemma load_desc_eq:
  assumes "u_dsc u = 0"
  shows "u_desc (load_desc d u) = (u_desc u)(ucast (u_sar u) := d)"
    "u_sar (load_desc d u) = (u_sar u + 1) AND 0x3F" "u_dsc (load_desc d u) = 0"
  using assms
  by (simp_all add: load_desc_def desc_bytes_def mmu_cmd_write_def write_desc_byte_def
      refresh_eq sar_step_def base_of_bytes desc_all_fields Let_def)


lemma sar_next:
  "((word_of_nat n AND 0x3F) + 1) AND 0x3F = (word_of_nat (Suc n) AND 0x3F :: u8)"
proof -
  have six: "x AND 0x3F = take_bit 6 x" for x :: u8
    by (simp add: take_bit_eq_mask mask_eq_exp_minus_1)
  have "take_bit 6 (take_bit 6 (word_of_nat n) + 1) = (take_bit 6 (word_of_nat (Suc (take_bit 6 n))) :: u8)"
    by (simp add: take_bit_of_nat add.commute)
  also have "\<dots> = take_bit 6 (word_of_nat (Suc n))"
    unfolding take_bit_of_nat by (simp add: take_bit_eq_mod mod_Suc_eq)
  finally show ?thesis unfolding six .
qed

lemma seg_of_nat: "(ucast (word_of_nat n :: u8) :: 6 word) = word_of_nat n"
  by (rule bit_word_eqI) (auto simp: bit_simps)

lemma load_descs_eq:
  assumes len: "length ds \<le> 64" and start: "u_sar u = 0" "u_dsc u = 0"
  shows "u_dsc (fold load_desc ds u) = 0 \<and> u_sar (fold load_desc ds u) = word_of_nat (length ds) AND 0x3F
    \<and> (\<forall>k < 64. u_desc (fold load_desc ds u) (word_of_nat k) =
          (if k < length ds then ds ! k else u_desc u (word_of_nat k)))"
  using len
proof (induction ds rule: rev_induct)
  case (snoc d ds)
  let ?v = "fold load_desc ds u"
  have short: "length ds < 64" using snoc.prems by simp
  have IH: "u_dsc ?v = 0" "u_sar ?v = word_of_nat (length ds) AND 0x3F"
    "\<And>k. k < 64 \<Longrightarrow> u_desc ?v (word_of_nat k) = (if k < length ds then ds ! k else u_desc u (word_of_nat k))"
    using snoc.IH snoc.prems by simp_all
  have inj: "word_of_nat k = (word_of_nat n :: 6 word) \<longleftrightarrow> k = n" if "k < 64" "n < 64" for k n
  proof -
    have "unat (word_of_nat k :: 6 word) = k" "unat (word_of_nat n :: 6 word) = n"
      using that by (simp_all add: unsigned_of_nat take_bit_nat_eq_self)
    then show ?thesis by metis
  qed
  have fold: "fold load_desc (ds @ [d]) u = load_desc d ?v" by simp
  have at: "u_desc (load_desc d ?v) (word_of_nat k) =
      (if k < length (ds @ [d]) then (ds @ [d]) ! k else u_desc u (word_of_nat k))" if "k < 64" for k
    unfolding load_desc_eq(1)[OF IH(1)] IH(2) ucast_and_3F seg_of_nat fun_upd_apply inj[OF that short] IH(3)[OF that]
    by (simp add: nth_append)
  show ?case
    unfolding fold using at load_desc_eq(3)[OF IH(1)]
    by (simp only: load_desc_eq(2)[OF IH(1)] IH(2) sar_next length_append list.size One_nat_def add_Suc_right add_0_right) simp
qed (simp add: start)

lemma read_desc_step:
  assumes "u_dsc u = 0" "u_sar u = word_of_nat i AND 0x3F"
  defines "v \<equiv> u\<lparr>u_sar := word_of_nat (Suc i) AND 0x3F\<rparr>"
  shows "fst (read_bytes (4 + n) u) = map ucast (desc_bytes (u_desc u (word_of_nat i))) @ fst (read_bytes n v)"
proof -
  have b: "drop_bit 8 b AND 0xFF = (ucast (ucast (drop_bit 8 b) :: u8) :: u16)"
    "b AND 0xFF = (ucast (ucast b :: u8) :: u16)" for b :: u16
    by (rule bit_word_eqI, auto simp: bit_simps bit_byte_masks)+
  have v: "u\<lparr>u_sar := ((word_of_nat i AND 0x3F) + 1) AND 0x3F, u_dsc := 0\<rparr> = v"
    unfolding v_def sar_next using assms(1) by simp
  have r: "mmu_cmd_read 0x0F u = (drop_bit 8 (d_base (u_desc u (ucast (u_sar u)))) AND 0xFF, u\<lparr>u_dsc := 1\<rparr>)"
    "mmu_cmd_read 0x0F (u\<lparr>u_dsc := 1\<rparr>) = (d_base (u_desc u (ucast (u_sar u))) AND 0xFF, u\<lparr>u_dsc := 2\<rparr>)"
    "mmu_cmd_read 0x0F (u\<lparr>u_dsc := 2\<rparr>) = (ucast (d_limit (u_desc u (ucast (u_sar u)))), u\<lparr>u_dsc := 3\<rparr>)"
    "mmu_cmd_read 0x0F (u\<lparr>u_dsc := 3\<rparr>) = (ucast (d_attr (u_desc u (ucast (u_sar u)))),
       u\<lparr>u_sar := (u_sar u + 1) AND 0x3F, u_dsc := 0\<rparr>)"
    using assms(1) by (simp_all add: mmu_cmd_read_def read_desc_byte_def sar_step_def Let_def)
  have four: "4 + n = Suc (Suc (Suc (Suc n)))" by simp
  show ?thesis
    unfolding four read_bytes.simps r Let_def case_prod_conv assms(2) v ucast_and_3F seg_of_nat b
    by (simp add: desc_bytes_def case_prod_beta)
qed

lemma read_descs:
  "u_dsc u = 0 \<Longrightarrow> u_sar u = word_of_nat i AND 0x3F \<Longrightarrow>
   fst (read_bytes (4 * n) u) =
     concat (map (\<lambda>k. map ucast (desc_bytes (u_desc u (word_of_nat (i + k))))) [0..<n])"
proof (induction n arbitrary: i u)
  case (Suc n)
  have "[0..<Suc n] = 0 # map Suc [0..<n]" by (simp add: map_Suc_upt upt_conv_Cons del: upt_Suc)
  with Suc.IH[of "u\<lparr>u_sar := word_of_nat (Suc i) AND 0x3F\<rparr>" "Suc i"] Suc.prems
    read_desc_step[OF Suc.prems, of "4 * n"] show ?case
    by (simp add: comp_def ac_simps del: upt_Suc)
qed simp

end
