(* ===== verification/Mmu_Props.thy ===== *)
theory Mmu_Props
  imports Mmu_Lemmas
begin

text \<open>
  What the MMU (\<open>src/src/mmu.c\<close>) promises its users: the invariant of every reachable
  state, translation as arithmetic on the descriptor, the access checks in their order of
  precedence, the violation registers across sequences of operations, and the descriptor
  programming sequence of the command port.
\<close>

subsection \<open>Access checks and addresses\<close>

text \<open>The first violation of an access, by the descriptor alone.\<close>

definition access_violation :: "MmuDesc \<Rightarrow> u8 \<Rightarrow> bool \<Rightarrow> bool \<Rightarrow> bool \<Rightarrow> u8 option" where
  "access_violation d page wr nm fe =
     (if tst (d_attr d) A_CPU then Some VT_CPUIV
      else if (if tst (d_attr d) A_DIRW then page < d_limit d else d_limit d < page) then Some VT_SLV
      else if tst (d_attr d) A_RD \<and> wr then Some VT_RDV
      else if tst (d_attr d) A_SYS \<and> nm then Some VT_SYSV
      else if tst (d_attr d) A_EXC \<and> \<not> fe then Some VT_EXCV
      else None)"

definition translating :: "u8 \<Rightarrow> MMU \<Rightarrow> bool" where
  "translating sn u \<longleftrightarrow> tst (u_mode u) MODE_MSEN \<and> tst (u_mode u) MODE_TRNS
     \<and> (bit sn 6 \<longleftrightarrow> bit (u_mode u) 5)"

definition identity_addr :: "u8 \<Rightarrow> u16 \<Rightarrow> u32" where
  "identity_addr sn off = push_bit 16 (ucast (sn AND 0x7F)) OR ucast off"

definition physical_addr :: "MmuDesc \<Rightarrow> u16 \<Rightarrow> u32" where
  "physical_addr d off = (push_bit 8 (ucast (d_base d)) + ucast off) AND 0x00FFFFFF"

text \<open>Translation without the fast path.\<close>

definition translate_slow :: "u8 \<Rightarrow> u16 \<Rightarrow> bool \<Rightarrow> bool \<Rightarrow> bool \<Rightarrow> MMU \<Rightarrow> u32 \<times> bool \<times> MMU" where
  "translate_slow sn off wr nm fe u =
     (if \<not> translating sn u then (identity_addr sn off, False, u)
      else
        (let seg = ucast sn; page = ucast (drop_bit 8 off);
             st = (if fe then 0x0D else if wr then 0x0A else 0x09)
         in case access_violation (u_desc u seg) page wr nm fe of
              Some viol \<Rightarrow> (identity_addr sn off, True, latch_viol viol sn off wr nm st True u)
            | None \<Rightarrow>
                (physical_addr (u_desc u seg) off, False,
                 (if tst (d_attr (u_desc u seg)) A_DIRW \<and> wr \<and> page = d_limit (u_desc u seg)
                  then latch_viol VT_PWW sn off wr nm st False (account seg wr u)
                  else account seg wr u))))"

lemma simple_desc_checks:
  assumes "simple_desc d"
  shows "access_violation d page wr nm fe = None" "\<not> tst (d_attr d) A_DIRW"
proof -
  have "\<not> tst (d_attr d) A_CPU" "\<not> tst (d_attr d) A_RD" "\<not> tst (d_attr d) A_SYS"
    "\<not> tst (d_attr d) A_EXC" "\<not> tst (d_attr d) A_DIRW"
  proof -
    have z: "d_attr d AND A_RESTRICT AND m = 0" for m
      using assms by (simp add: simple_desc_def flip: and.assoc)
    show "\<not> tst (d_attr d) A_CPU" "\<not> tst (d_attr d) A_RD" "\<not> tst (d_attr d) A_SYS"
      "\<not> tst (d_attr d) A_EXC" "\<not> tst (d_attr d) A_DIRW"
      using z[of A_CPU] z[of A_RD] z[of A_SYS] z[of A_EXC] z[of A_DIRW]
      by (simp_all add: tst_def A_RESTRICT_def and.assoc)
  qed
  moreover have "\<not> d_limit d < page"
  proof -
    have "unat page < 2 ^ LENGTH(8)" by (rule unsigned_less)
    then have "page \<le> 0xFF" by (simp add: word_le_nat_alt)
    with assms show ?thesis by (simp add: simple_desc_def not_less)
  qed
  ultimately show "access_violation d page wr nm fe = None" "\<not> tst (d_attr d) A_DIRW"
    by (simp_all add: access_violation_def)
qed

lemma half_select: "drop_bit 6 sn AND 1 \<noteq> drop_bit 5 mode AND 1 \<longleftrightarrow> bit sn 6 \<noteq> bit mode 5"
  for sn mode :: u8
proof -
  have "drop_bit k x AND 1 = (of_bool (bit x k) :: u8)" for k and x :: u8
    by (simp add: and_one_eq bit_iff_odd_drop_bit odd_iff_mod_2_eq_one of_bool_def)
  then show ?thesis by simp
qed

lemma not_translating:
  "\<not> translating sn u \<Longrightarrow> mmu_translate sn off wr nm fe u = (identity_addr sn off, False, u)"
  unfolding translating_def mmu_translate_def half_select Let_def identity_addr_def by auto

lemma translate_eq_slow:
  assumes "cache_ok u"
  shows "mmu_translate sn off wr nm fe u = translate_slow sn off wr nm fe u"
proof (cases "translating sn u")
  case False
  then show ?thesis by (simp add: translate_slow_def not_translating)
next
  case True
  let ?i = "ucast sn :: 6 word"
  have fast: "u_fast_ok u ?i = simple_desc (u_desc u ?i)"
    "u_fast_base u ?i = push_bit 8 (ucast (d_base (u_desc u ?i)))"
    using assms by (simp_all add: cache_ok_def)
  have dirw: "tst (d_attr (u_desc (account ?i wr u) ?i)) A_DIRW = tst (d_attr (u_desc u ?i)) A_DIRW"
    by (simp add: account_eq set_attr_def)
  show ?thesis
  proof (cases "simple_desc (u_desc u ?i)")
    case True
    with \<open>translating sn u\<close> simple_desc_checks[OF True] show ?thesis
      unfolding mmu_translate_def translate_slow_def Let_def half_select fast account_fields
      by (simp add: translating_def physical_addr_def)
  next
    case False
    with \<open>translating sn u\<close> show ?thesis
      unfolding mmu_translate_def translate_slow_def Let_def half_select fast account_fields dirw
      by (auto simp: translating_def access_violation_def identity_addr_def physical_addr_def)
  qed
qed

lemma uint_physical_addr:
  "uint (physical_addr d off) = (uint (d_base d) * 256 + uint off) mod 2 ^ 24"
proof -
  have w: "uint (ucast x :: u32) = uint x" for x :: u16
    by (rule bit_eqI) (auto simp: bit_simps bit_uint_eq dest: bit_imp_le_length)
  have b: "uint x < 2 ^ 16" for x :: u16
    using unsigned_less[of x] by simp
  have "physical_addr d off = take_bit 24 (push_bit 8 (ucast (d_base d)) + ucast off)"
    by (simp add: physical_addr_def take_bit_eq_mask mask_eq_exp_minus_1)
  then have "uint (physical_addr d off) = take_bit 24 (uint (push_bit 8 (ucast (d_base d)) + ucast off :: u32))"
    by (simp add: unsigned_take_bit_eq)
  also have "\<dots> = (uint (push_bit 8 (ucast (d_base d)) :: u32) + uint (ucast off :: u32)) mod 2 ^ 24"
    by (simp add: uint_word_ariths take_bit_eq_mod mod_mod_cancel)
  also have "uint (push_bit 8 (ucast (d_base d)) :: u32) = uint (d_base d) * 256"
    using b[of "d_base d"] by (simp only: unsigned_push_bit_eq w) (simp add: push_bit_eq_mult take_bit_eq_mod)
  finally show ?thesis by (simp add: w)
qed

lemma uint_identity_addr: "uint (identity_addr sn off) = uint (sn AND 0x7F) * 2 ^ 16 + uint off"
proof -
  have w: "uint (ucast x :: u32) = uint x" for x :: u16
    by (rule bit_eqI) (auto simp: bit_simps bit_uint_eq dest: bit_imp_le_length)
  have v: "uint (ucast x :: u32) = uint x" for x :: u8
    by (rule bit_eqI) (auto simp: bit_simps bit_uint_eq dest: bit_imp_le_length)
  have b: "uint x < 2 ^ 16" for x :: u16
    using unsigned_less[of x] by simp
  have c: "uint x < 2 ^ 8" for x :: u8
    using unsigned_less[of x] by simp
  have disj: "push_bit 16 (ucast (sn AND 0x7F)) AND (ucast off :: u32) = 0"
    by (rule bit_word_eqI) (auto simp: bit_simps dest: bit_imp_le_length)
  have p: "uint (push_bit 16 (ucast (sn AND 0x7F)) :: u32) = uint (sn AND 0x7F) * 2 ^ 16"
    using c[of "sn AND 0x7F"]
    by (simp only: unsigned_push_bit_eq v) (simp add: push_bit_eq_mult take_bit_eq_mod)
  have "uint (identity_addr sn off) = (uint (sn AND 0x7F) * 2 ^ 16 + uint off) mod 2 ^ 32"
    unfolding identity_addr_def or_eq_plus_disjoint[OF disj] uint_word_ariths(1) p w by simp
  also have "\<dots> = uint (sn AND 0x7F) * 2 ^ 16 + uint off"
    using b[of off] c[of "sn AND 0x7F"] by (intro mod_pos_pos_trivial) auto
  finally show ?thesis .
qed

lemma access_violation_bit:
  "access_violation d page wr nm fe = Some viol \<Longrightarrow> viol \<in> {VT_CPUIV, VT_SLV, VT_RDV, VT_SYSV, VT_EXCV}"
  by (auto simp: access_violation_def split: if_splits)

subsection \<open>Violation registers\<close>

text \<open>The operations after which the latched context is still the first violation's.\<close>

fun keeps_context :: "mmu_op \<Rightarrow> bool" where
  "keeps_context MmuReset = False"
| "keeps_context (CmdWrite cmd v) = (cmd \<noteq> 0x11)"
| "keeps_context _ = True"

definition same_context :: "MMU \<Rightarrow> MMU \<Rightarrow> bool" where
  "same_context u v \<longleftrightarrow> u_viol_captured v \<and> u_viol_sn v = u_viol_sn u \<and> u_viol_off v = u_viol_off u
     \<and> u_bcsr v = u_bcsr u \<and> (if u_segt u then u_segt v else True)"

lemma same_context_trans: "same_context u v \<Longrightarrow> same_context v w \<Longrightarrow> same_context u w"
  by (auto simp: same_context_def split: if_splits)

lemma latch_same_context:
  "u_viol_captured u \<Longrightarrow> same_context u (latch_viol viol sn off wr nm st sp u)"
  by (simp add: same_context_def latch_viol_def Let_def)

lemma account_same_context: "u_viol_captured u \<Longrightarrow> same_context u (account i wr u)"
  by (simp add: same_context_def)

lemma translate_same_context:
  assumes "u_viol_captured u"
  shows "same_context u (snd (snd (mmu_translate sn off wr nm fe u)))"
proof -
  have r: "same_context u u" using assms by (simp add: same_context_def)
  have w: "same_context u (latch_viol viol sn off wr' nm st sp (account i wr'' u))" for viol st sp i wr' wr''
    using same_context_trans[OF account_same_context latch_same_context] assms by simp
  show ?thesis
    unfolding mmu_translate_def Let_def
    by (simp add: r w latch_same_context[OF assms] account_same_context[OF assms])
qed

lemma apply_same_context:
  assumes "u_viol_captured u" "keeps_context opn"
  shows "same_context u (mmu_apply opn u)"
proof (cases opn)
  case (CmdRead cmd)
  with assms show ?thesis
    by (simp add: mmu_cmd_read_def same_context_def sar_step_def Let_def)
next
  case (CmdWrite cmd v)
  with assms show ?thesis
    by (simp add: mmu_cmd_write_def same_context_def sar_step_def refresh_eq write_desc_byte_def
        set_all_attr_eq Let_def)
next
  case (Translate sn off wr nm fe)
  with assms show ?thesis by (simp add: translate_same_context)
qed (use assms in \<open>simp_all add: same_context_def\<close>)

lemma run_same_context:
  "u_viol_captured u \<Longrightarrow> list_all keeps_context ops \<Longrightarrow> same_context u (fold mmu_apply ops u)"
proof (induction ops arbitrary: u)
  case (Cons x xs)
  then have 1: "same_context u (mmu_apply x u)" by (simp add: apply_same_context)
  then have "u_viol_captured (mmu_apply x u)" by (simp add: same_context_def)
  with Cons have "same_context (mmu_apply x u) (fold mmu_apply xs (mmu_apply x u))" by simp
  from same_context_trans[OF 1 this] show ?case by simp
qed (simp add: same_context_def)

lemma latch_first:
  assumes "\<not> u_viol_captured u" "viol AND (VT_FATL OR VT_SWW) = 0" "u_viol_type u = 0"
  shows "latch_viol viol sn off wr nm st sp u =
     u\<lparr>u_viol_type := viol, u_viol_sn := sn, u_viol_off := off,
       u_bcsr := (st AND 0x0F) OR flag_if wr 0x10 OR flag_if nm 0x20, u_viol_captured := True,
       u_segt := True, u_warn_pending := (\<not> sp \<or> u_warn_pending u)\<rparr>"
  using assms by (simp add: latch_viol_def Let_def)

lemma not_fatal_types: "viol \<in> {VT_CPUIV, VT_SLV, VT_RDV, VT_SYSV, VT_EXCV, VT_PWW} \<Longrightarrow>
    viol AND (VT_FATL OR VT_SWW) = 0"
  by auto

subsection \<open>Properties\<close>

text \<open>C11: In every state that reset, port commands, bus cycles and warning consumption can reach, in any
  order, the fast-path cache (\<open>fast_ok\<close>, \<open>fast_base\<close>) agrees with the descriptor table, the
  SAR holds a descriptor number and the DSC a byte number.\<close>

theorem mmu_reachable_invariant:
  assumes "mmu_reachable u"
  shows "mmu_inv u"
  using assms by (rule mmu_reachable_inv)

theorem mmu_reachable_invariant_witness:
  "mmu_inv (mmu_apply (CmdWrite 0x0F 0x12) (mmu_reset mmu_zero))"
  by (rule mmu_reachable_invariant) (intro mmu_step mmu_init)

text \<open>C13: The check-free fast path is invisible: in every reachable state the unit translates, faults and
  records exactly as the protection ladder alone would.\<close>

theorem mmu_fast_path_equivalent:
  assumes "mmu_reachable u"
  shows "mmu_translate sn off wr nm fe u = translate_slow sn off wr nm fe u"
  using mmu_reachable_inv[OF assms] by (simp add: mmu_inv_def translate_eq_slow)

theorem mmu_fast_path_equivalent_witness:
  "mmu_translate 3 0x1234 True False False (mmu_apply (CmdWrite 0x00 0xC0) (mmu_reset mmu_zero))
   = translate_slow 3 0x1234 True False False (mmu_apply (CmdWrite 0x00 0xC0) (mmu_reset mmu_zero))"
  by (rule mmu_fast_path_equivalent) (intro mmu_step mmu_init)

text \<open>C12: Translation, as arithmetic.  An access faults exactly when the unit is translating this segment's
  half and the descriptor forbids it; a fault returns the untranslated address and latches; a
  permitted access goes to \<open>(base * 256 + offset) mod 2 ^ 24\<close> and marks the descriptor
  referenced, and changed when written, leaving its base and limit and every other descriptor
  alone; and every address is below 16 MiB.\<close>

theorem mmu_translate_correct:
  assumes "mmu_reachable u"
  shows "let d = u_desc u (ucast sn);
             v = access_violation d (ucast (drop_bit 8 off)) wr nm fe;
             (p, fault, u') = mmu_translate sn off wr nm fe u
         in fault = (translating sn u \<and> v \<noteq> None)
            \<and> uint p = (if translating sn u \<and> v = None then (uint (d_base d) * 256 + uint off) mod 2 ^ 24
                        else uint (sn AND 0x7F) * 2 ^ 16 + uint off)
            \<and> u_desc u' = (if translating sn u \<and> v = None
                then (u_desc u)(ucast sn := d\<lparr>d_attr := d_attr d OR (if wr then A_REF OR A_CHG else A_REF)\<rparr>)
                else u_desc u)
            \<and> (if fault then u_viol_captured u' else True)
            \<and> uint p < 2 ^ 24"
proof -
  have sn: "uint (sn AND 0x7F) < 2 ^ 7"
  proof -
    have "sn AND 0x7F = take_bit 7 sn" by (simp add: take_bit_eq_mask mask_eq_exp_minus_1)
    then show ?thesis by (simp add: take_bit_eq_mod uint_mod)
  qed
  have off: "uint off < 2 ^ 16" using unsigned_less[of off] by simp
  have id: "uint (sn AND 0x7F) * 2 ^ 16 + uint off < 2 ^ 24" using sn off by simp
  note slow = translate_eq_slow[of u] mmu_reachable_inv[OF assms, unfolded mmu_inv_def]
  show ?thesis
    using id slow
    by (cases "translating sn u"; cases "access_violation (u_desc u (ucast sn)) (ucast (drop_bit 8 off)) wr nm fe")
      (simp_all add: translate_slow_def Let_def uint_identity_addr uint_physical_addr
        account_eq set_attr_def)
qed

theorem mmu_translate_correct_witness:
  "let (p, fault, u') = mmu_translate 3 0x0112 True False False
     (mmu_apply (CmdWrite 0x00 0xC0) (mmu_reset mmu_zero))
   in fault \<and> uint p = 0x030112 \<and> u_viol_captured u'"
proof -
  have "mmu_reachable (mmu_apply (CmdWrite 0x00 0xC0) (mmu_reset mmu_zero))"
    by (intro mmu_step mmu_init)
  from mmu_translate_correct[OF this, of 3 "0x0112" True False False]
  show ?thesis
    by (simp add: mmu_cmd_write_def mmu_reset_eq translating_def access_violation_def bit_iff_odd
        Let_def split: prod.splits)
qed

text \<open>C39: The first violation of an armed unit is recorded exactly: VTR holds the one violation that the
  access check reports, VSN and VOFF the logical address, BCSR the status code with the write and normal-mode
  flags, and a segment trap is requested.\<close>

theorem mmu_first_violation_recorded:
  assumes "mmu_reachable u" "translating sn u" "\<not> u_viol_captured u"
    and "access_violation (u_desc u (ucast sn)) (ucast (drop_bit 8 off)) wr nm fe = Some viol"
  shows "mmu_translate sn off wr nm fe u =
    (identity_addr sn off, True,
     u\<lparr>u_viol_type := viol, u_viol_sn := sn, u_viol_off := off,
       u_bcsr := (if fe then 0x0D else if wr then 0x0A else 0x09) OR flag_if wr 0x10 OR flag_if nm 0x20,
       u_viol_captured := True, u_segt := True\<rparr>)"
proof -
  have inv: "cache_ok u" "u_viol_type u = 0"
    using mmu_reachable_inv[OF assms(1)] assms(3) by (auto simp: mmu_inv_def latch_ok_def)
  have "viol AND (VT_FATL OR VT_SWW) = 0"
    using access_violation_bit[OF assms(4)] by (intro not_fatal_types) auto
  with assms(2-4) inv show ?thesis
    by (simp add: translate_eq_slow translate_slow_def latch_first Let_def)
qed

theorem mmu_first_violation_recorded_witness:
  "let (p, fault, u') = mmu_translate 3 0x0112 True True False
     (mmu_apply (CmdWrite 0x00 0xC0) (mmu_reset mmu_zero))
   in fault \<and> u_viol_type u' = VT_SLV \<and> u_viol_sn u' = 3 \<and> u_bcsr u' = 0x3A \<and> u_segt u'"
proof -
  have r: "mmu_reachable (mmu_apply (CmdWrite 0x00 0xC0) (mmu_reset mmu_zero))"
    by (intro mmu_step mmu_init)
  from mmu_first_violation_recorded[OF r, of 3 "0x0112" True True False VT_SLV]
  show ?thesis
    by (simp add: mmu_cmd_write_def mmu_reset_eq translating_def access_violation_def bit_iff_odd
        Let_def)
qed

text \<open>C40: Once a violation is captured its context stays for the trap handler: whatever bus cycles,
  commands and descriptor writes follow, in any order, VSN, VOFF and BCSR do not change and a
  requested segment trap stays requested, until the handler issues command 0x11 or the unit is reset.\<close>

theorem mmu_first_violation_frozen:
  assumes "u_viol_captured u" "list_all keeps_context ops"
  shows "let v = fold mmu_apply ops u
         in u_viol_captured v \<and> u_viol_sn v = u_viol_sn u \<and> u_viol_off v = u_viol_off u
            \<and> u_bcsr v = u_bcsr u \<and> (if u_segt u then u_segt v else True)"
  using run_same_context[OF assms] by (simp add: same_context_def Let_def)

theorem mmu_first_violation_frozen_witness:
  "let u = mmu_zero\<lparr>u_mode := 0xC0, u_viol_captured := True, u_viol_sn := 5, u_segt := True\<rparr>;
       v = fold mmu_apply [Translate 3 0x0112 True True False, CmdWrite 0x14 0, CmdRead 0x02] u
   in u_viol_captured v \<and> u_viol_sn v = 5 \<and> u_segt v"
  using mmu_first_violation_frozen
    [of "mmu_zero\<lparr>u_mode := 0xC0, u_viol_captured := True, u_viol_sn := 5, u_segt := True\<rparr>"
        "[Translate 3 0x0112 True True False, CmdWrite 0x14 0, CmdRead 0x02]"]
  by (simp add: Let_def del: mmu_apply.simps)

text \<open>Stack growth: a permitted write to the boundary page of a descending segment goes through, to the
  address of the descriptor, and requests the segment trap with the write-warning type and the one-shot
  pending mark that the processor consumes after the instruction.\<close>

theorem mmu_stack_boundary_warns:
  assumes "mmu_reachable u" "translating sn u" "\<not> u_viol_captured u"
    and "access_violation (u_desc u (ucast sn)) (ucast (drop_bit 8 off)) True nm False = None"
    and "tst (d_attr (u_desc u (ucast sn))) A_DIRW" "ucast (drop_bit 8 off) = d_limit (u_desc u (ucast sn))"
  shows "let (p, fault, v) = mmu_translate sn off True nm False u
         in \<not> fault \<and> p = physical_addr (u_desc u (ucast sn)) off
            \<and> u_segt v \<and> u_warn_pending v \<and> u_viol_type v = VT_PWW \<and> u_viol_sn v = sn \<and> u_viol_off v = off"
proof -
  have inv: "cache_ok u" "u_viol_type u = 0"
    using mmu_reachable_inv[OF assms(1)] assms(3) by (auto simp: mmu_inv_def latch_ok_def)
  with assms(2-6) show ?thesis
    by (simp add: translate_eq_slow translate_slow_def latch_first Let_def)
qed

theorem mmu_stack_boundary_warns_witness:
  "let u = fold mmu_apply [CmdWrite 0x01 2, CmdWrite 0x0A A_DIRW, CmdWrite 0x00 0xC0] (mmu_reset mmu_zero);
       (p, fault, v) = mmu_translate 2 0x0034 True True False u
   in \<not> fault \<and> u_segt v \<and> u_warn_pending v"
proof -
  let ?u = "mmu_apply (CmdWrite 0x00 0xC0) (mmu_apply (CmdWrite 0x0A A_DIRW)
              (mmu_apply (CmdWrite 0x01 2) (mmu_reset mmu_zero)))"
  have r: "mmu_reachable ?u" by (intro mmu_step mmu_init)
  from mmu_stack_boundary_warns[OF r, of 2 "0x0034" True]
  show ?thesis
    by (simp add: mmu_cmd_write_def mmu_reset_eq translating_def access_violation_def bit_iff_odd
        write_desc_byte_def refresh_eq Let_def split: prod.splits)
qed

text \<open>The descriptor table can be programmed and read back: after SAR := 0, any list of up to 64
  descriptors written byte by byte through command 0x0F lands in consecutive entries, leaves the others alone, and
  the same number of reads through command 0x0F returns exactly the bytes written.\<close>

theorem mmu_table_roundtrip:
  assumes "length ds \<le> 64"
  shows "let v = fold load_desc ds (mmu_cmd_write 0x01 0 u);
             bytes = fst (read_bytes (4 * length ds) (mmu_cmd_write 0x01 0 v))
         in map (\<lambda>k. u_desc v (word_of_nat k)) [0..<64]
              = ds @ map (\<lambda>k. u_desc u (word_of_nat k)) [length ds..<64]
            \<and> bytes = concat (map (map ucast \<circ> desc_bytes) ds)"
proof -
  define u0 where "u0 = mmu_cmd_write 0x01 0 u"
  define v where "v = fold load_desc ds u0"
  define v0 where "v0 = mmu_cmd_write 0x01 0 v"
  have start: "u_sar u0 = 0" "u_dsc u0 = 0" "u_desc u0 = u_desc u"
    "u_sar v0 = word_of_nat 0 AND 0x3F" "u_dsc v0 = 0" "u_desc v0 = u_desc v"
    by (simp_all add: u0_def v0_def mmu_cmd_write_def)
  have at: "u_desc v (word_of_nat k) = (if k < length ds then ds ! k else u_desc u (word_of_nat k))" if "k < 64" for k
    using load_descs_eq[OF assms start(1,2)] that by (simp add: v_def start(3))
  have "map (\<lambda>k. u_desc v (word_of_nat k)) [0..<64]
        = ds @ map (\<lambda>k. u_desc u (word_of_nat k)) [length ds..<64]"
    using assms by (intro nth_equalityI) (auto simp: at nth_append)
  moreover have "fst (read_bytes (4 * length ds) v0) = concat (map (map ucast \<circ> desc_bytes) ds)"
  proof -
    have "map (\<lambda>k. map ucast (desc_bytes (u_desc v (word_of_nat k)))) [0..<length ds]
          = (map (map ucast \<circ> desc_bytes) ds :: u16 list list)"
      using assms by (intro nth_equalityI) (auto simp: at)
    then show ?thesis by (simp only: read_descs[OF start(5,4)] start(6) add_0)
  qed
  ultimately show ?thesis by (simp add: Let_def v_def v0_def u0_def)
qed

theorem mmu_table_roundtrip_witness:
  "let ds = [\<lparr>d_base = 0x1234, d_limit = 7, d_attr = 1\<rparr>, \<lparr>d_base = 0xFF00, d_limit = 0, d_attr = 0x20\<rparr>];
       v = fold load_desc ds (mmu_cmd_write 0x01 0 mmu_zero)
   in fst (read_bytes (4 * length ds) (mmu_cmd_write 0x01 0 v)) = [0x12, 0x34, 7, 1, 0xFF, 0, 0, 0x20]"
  using mmu_table_roundtrip
    [of "[\<lparr>d_base = 0x1234, d_limit = 7, d_attr = 1\<rparr>, \<lparr>d_base = 0xFF00, d_limit = 0, d_attr = 0x20\<rparr>]" mmu_zero]
  by (simp add: Let_def desc_bytes_def)

end
