(* ===== verification/Decode.thy ===== *)
theory Decode
  imports Emu_Types
begin

text \<open>
  The instruction decoder, \<open>src/src/decode.c\<close>.  \<open>decode_init\<close> fills a 256-entry table
  indexed by the high opcode byte; its blocks are the lists below, in the order the function
  runs them, each entry written as the source writes it: the default control word of \<open>cw()\<close>
  with the assigned fields updated.  A slot holds one control word, a two-way fork with its
  two alternatives, or a sub-decoder.  The pool of statically allocated control words is the
  control words themselves.  A sub-decoder sees the following words \<open>w\<close> and how many of them
  are available; \<open>None\<close> is the source's \<open>NULL\<close>.
\<close>

definition NIB2 :: "u16 \<Rightarrow> u16" where "NIB2 op = drop_bit 4 op AND 0x0F"
definition NIB3 :: "u16 \<Rightarrow> u16" where "NIB3 op = op AND 0x0F"

datatype RomEntry =
    Ctrl CtrlWord
  | ImmIr CtrlWord CtrlWord
  | DaX CtrlWord CtrlWord
  | Nib2Fork CtrlWord CtrlWord
  | Nib3Fork CtrlWord CtrlWord
  | Sub "u16 \<Rightarrow> (nat \<Rightarrow> u16) \<Rightarrow> nat \<Rightarrow> CtrlWord option"
  | NoEntry

text \<open>\<open>cw()\<close>: all zero, then valid, word width, one word.\<close>

definition cw :: CtrlWord where
  "cw = \<lparr>cw_name = [], cw_exec = ClsUnified, cw_alu_op = OpAdd, cw_width = WWord, cw_words = 1,
         cw_priv = False, cw_src2 = SrcNone, cw_dst = DstReg, cw_count = SrcNone,
         cw_src1_nib = RegNib3, cw_src2_nib = RegNib3, cw_dst_nib = RegNib3,
         cw_fcw_op = FcwSet, cw_fcw_mask = 0, cw_stk_mode = StackPush, cw_br_mode = BranchJP_DA,
         cw_io_write = False, cw_io_spec = False, cw_block_decr = False, cw_block_rept = False,
         cw_mp_op = MPBit, cw_valid = True\<rparr>"

definition mk_reg :: "string \<Rightarrow> AluOp \<Rightarrow> Width \<Rightarrow> CtrlWord" where
  "mk_reg name aop w =
     cw\<lparr>cw_name := name, cw_exec := ClsUnified, cw_alu_op := aop, cw_width := w, cw_words := 1,
        cw_src1_nib := RegNib3, cw_src2 := SrcReg, cw_src2_nib := RegNib2,
        cw_dst := (if aop = OpCp then DstNone else DstReg), cw_dst_nib := RegNib3\<rparr>"

subsection \<open>Tables of the multi-way sub-decoders\<close>

definition tbl8C :: "(u16 \<times> CtrlWord) list" where
  "tbl8C =
     [(0x00, cw\<lparr>cw_name := ''COMB'', cw_exec := ClsUnified, cw_alu_op := OpCom,
        cw_width := WByte, cw_src1_nib := RegNib2, cw_dst := DstReg, cw_dst_nib := RegNib2\<rparr>),
      (0x02, cw\<lparr>cw_name := ''NEGB'', cw_exec := ClsUnified, cw_alu_op := OpNeg,
        cw_width := WByte, cw_src1_nib := RegNib2, cw_dst := DstReg, cw_dst_nib := RegNib2\<rparr>),
      (0x04, cw\<lparr>cw_name := ''TESTB'', cw_exec := ClsUnified, cw_alu_op := OpTest,
        cw_width := WByte, cw_src1_nib := RegNib2, cw_dst := DstNone, cw_dst_nib := RegNib2\<rparr>),
      (0x06, cw\<lparr>cw_name := ''TSETB'', cw_exec := ClsUnified, cw_alu_op := OpTset,
        cw_width := WByte, cw_src1_nib := RegNib2, cw_src2 := SrcNone, cw_dst := DstReg,
        cw_dst_nib := RegNib2\<rparr>),
      (0x08, cw\<lparr>cw_name := ''CLRB'', cw_exec := ClsUnified, cw_alu_op := OpLd,
        cw_width := WByte, cw_src2 := SrcZero, cw_dst := DstReg, cw_dst_nib := RegNib2\<rparr>),
      (0x01, cw\<lparr>cw_name := ''LDCTLB'', cw_exec := ClsFcwOp, cw_fcw_op := FcwStoreLo\<rparr>),
      (0x09, cw\<lparr>cw_name := ''LDCTLB'', cw_exec := ClsFcwOp, cw_fcw_op := FcwLoadLo\<rparr>)]"

definition tbl8D :: "u16 \<Rightarrow> (u16 \<times> CtrlWord) list" where
  "tbl8D n2 =
     [(0x00, cw\<lparr>cw_name := ''COM'', cw_exec := ClsUnified, cw_alu_op := OpCom,
        cw_width := WWord, cw_src1_nib := RegNib2, cw_dst := DstReg, cw_dst_nib := RegNib2\<rparr>),
      (0x02, cw\<lparr>cw_name := ''NEG'', cw_exec := ClsUnified, cw_alu_op := OpNeg,
        cw_width := WWord, cw_src1_nib := RegNib2, cw_dst := DstReg, cw_dst_nib := RegNib2\<rparr>),
      (0x04, cw\<lparr>cw_name := ''TEST'', cw_exec := ClsUnified, cw_alu_op := OpTest,
        cw_width := WWord, cw_src1_nib := RegNib2, cw_dst := DstNone, cw_dst_nib := RegNib2\<rparr>),
      (0x06, cw\<lparr>cw_name := ''TSET'', cw_exec := ClsUnified, cw_alu_op := OpTset,
        cw_width := WWord, cw_src1_nib := RegNib2, cw_src2 := SrcNone, cw_dst := DstReg,
        cw_dst_nib := RegNib2\<rparr>),
      (0x07, cw\<lparr>cw_name := ''NOP'', cw_exec := ClsUnified, cw_alu_op := OpLd,
        cw_width := WWord, cw_src2 := SrcZero, cw_dst := DstNone\<rparr>),
      (0x08, cw\<lparr>cw_name := ''CLR'', cw_exec := ClsUnified, cw_alu_op := OpLd,
        cw_width := WWord, cw_src2 := SrcZero, cw_dst := DstReg, cw_dst_nib := RegNib2\<rparr>),
      (0x01, cw\<lparr>cw_name := ''SETFLG'', cw_exec := ClsFcwOp, cw_fcw_op := FcwSet,
        cw_fcw_mask := push_bit 4 n2\<rparr>),
      (0x03, cw\<lparr>cw_name := ''RESFLG'', cw_exec := ClsFcwOp, cw_fcw_op := FcwClear,
        cw_fcw_mask := push_bit 4 n2\<rparr>),
      (0x05, cw\<lparr>cw_name := ''COMFLG'', cw_exec := ClsFcwOp, cw_fcw_op := FcwToggle,
        cw_fcw_mask := push_bit 4 n2\<rparr>)]"

definition tbl0C :: "(u16 \<times> CtrlWord) list" where
  "tbl0C =
     [(0x00, cw\<lparr>cw_name := ''COMB'', cw_exec := ClsUnified, cw_alu_op := OpCom,
        cw_width := WByte, cw_src2 := SrcIR, cw_src2_nib := RegNib2, cw_dst := DstIR,
        cw_dst_nib := RegNib2\<rparr>),
      (0x01, cw\<lparr>cw_name := ''CPB'', cw_exec := ClsUnified, cw_alu_op := OpCp,
        cw_width := WByte, cw_src2 := SrcIR, cw_src2_nib := RegNib2, cw_count := SrcImm,
        cw_dst := DstFlagsOnly, cw_words := 2\<rparr>),
      (0x02, cw\<lparr>cw_name := ''NEGB'', cw_exec := ClsUnified, cw_alu_op := OpNeg,
        cw_width := WByte, cw_src2 := SrcIR, cw_src2_nib := RegNib2, cw_dst := DstIR,
        cw_dst_nib := RegNib2\<rparr>),
      (0x04, cw\<lparr>cw_name := ''TESTB'', cw_exec := ClsUnified, cw_alu_op := OpTest,
        cw_width := WByte, cw_src2 := SrcIR, cw_src2_nib := RegNib2, cw_dst := DstFlagsOnly\<rparr>),
      (0x05, cw\<lparr>cw_name := ''LDB'', cw_exec := ClsUnified, cw_alu_op := OpLd,
        cw_width := WByte, cw_src2 := SrcImm, cw_dst := DstIR, cw_dst_nib := RegNib2,
        cw_words := 2\<rparr>),
      (0x06, cw\<lparr>cw_name := ''TSETB'', cw_exec := ClsUnified, cw_alu_op := OpTset,
        cw_width := WByte, cw_src2 := SrcIR, cw_src2_nib := RegNib2, cw_dst := DstIR,
        cw_dst_nib := RegNib2\<rparr>),
      (0x08, cw\<lparr>cw_name := ''CLRB'', cw_exec := ClsUnified, cw_alu_op := OpLd,
        cw_width := WByte, cw_src2 := SrcZero, cw_dst := DstIR, cw_dst_nib := RegNib2\<rparr>)]"

definition tbl0D :: "(u16 \<times> CtrlWord) list" where
  "tbl0D =
     [(0x00, cw\<lparr>cw_name := ''COM'', cw_exec := ClsUnified, cw_alu_op := OpCom,
        cw_width := WWord, cw_src2 := SrcIR, cw_src2_nib := RegNib2, cw_dst := DstIR,
        cw_dst_nib := RegNib2\<rparr>),
      (0x01, cw\<lparr>cw_name := ''CP'', cw_exec := ClsUnified, cw_alu_op := OpCp, cw_width := WWord,
        cw_src2 := SrcIR, cw_src2_nib := RegNib2, cw_count := SrcImm, cw_dst := DstFlagsOnly,
        cw_words := 2\<rparr>),
      (0x02, cw\<lparr>cw_name := ''NEG'', cw_exec := ClsUnified, cw_alu_op := OpNeg,
        cw_width := WWord, cw_src2 := SrcIR, cw_src2_nib := RegNib2, cw_dst := DstIR,
        cw_dst_nib := RegNib2\<rparr>),
      (0x04, cw\<lparr>cw_name := ''TEST'', cw_exec := ClsUnified, cw_alu_op := OpTest,
        cw_width := WWord, cw_src2 := SrcIR, cw_src2_nib := RegNib2, cw_dst := DstFlagsOnly\<rparr>),
      (0x05, cw\<lparr>cw_name := ''LD'', cw_exec := ClsUnified, cw_alu_op := OpLd, cw_width := WWord,
        cw_src2 := SrcImm, cw_dst := DstIR, cw_dst_nib := RegNib2, cw_words := 2\<rparr>),
      (0x06, cw\<lparr>cw_name := ''TSET'', cw_exec := ClsUnified, cw_alu_op := OpTset,
        cw_width := WWord, cw_src2 := SrcIR, cw_src2_nib := RegNib2, cw_dst := DstIR,
        cw_dst_nib := RegNib2\<rparr>),
      (0x08, cw\<lparr>cw_name := ''CLR'', cw_exec := ClsUnified, cw_alu_op := OpLd,
        cw_width := WWord, cw_src2 := SrcZero, cw_dst := DstIR, cw_dst_nib := RegNib2\<rparr>),
      (0x09, cw\<lparr>cw_name := ''PUSH'', cw_exec := ClsStack, cw_stk_mode := StackPushImm,
        cw_words := 2\<rparr>)]"

definition tbl4C :: "nat \<Rightarrow> (u16 \<times> CtrlWord) list" where
  "tbl4C i =
     (let s2 = (if i \<noteq> 0 then SrcX else SrcDA); dm = (if i \<noteq> 0 then DstX else DstDA) in
     [(0x00, cw\<lparr>cw_name := ''COMB'', cw_exec := ClsUnified, cw_alu_op := OpCom,
        cw_width := WByte, cw_src2 := s2, cw_src2_nib := RegNib2, cw_dst := dm, cw_dst_nib := RegNib2,
        cw_words := 2\<rparr>),
      (0x01, cw\<lparr>cw_name := ''CPB'', cw_exec := ClsUnified, cw_alu_op := OpCp,
        cw_width := WByte, cw_src2 := s2, cw_src2_nib := RegNib2, cw_count := SrcImm2,
        cw_dst := DstFlagsOnly, cw_words := 2\<rparr>),
      (0x02, cw\<lparr>cw_name := ''NEGB'', cw_exec := ClsUnified, cw_alu_op := OpNeg,
        cw_width := WByte, cw_src2 := s2, cw_src2_nib := RegNib2, cw_dst := dm, cw_dst_nib := RegNib2,
        cw_words := 2\<rparr>),
      (0x04, cw\<lparr>cw_name := ''TESTB'', cw_exec := ClsUnified, cw_alu_op := OpTest,
        cw_width := WByte, cw_src2 := s2, cw_src2_nib := RegNib2, cw_dst := DstFlagsOnly,
        cw_words := 2\<rparr>),
      (0x05, cw\<lparr>cw_name := ''LDB'', cw_exec := ClsUnified, cw_alu_op := OpLd,
        cw_width := WByte, cw_src2 := SrcImm2, cw_dst := dm, cw_dst_nib := RegNib2,
        cw_words := 2\<rparr>),
      (0x06, cw\<lparr>cw_name := ''TSETB'', cw_exec := ClsUnified, cw_alu_op := OpTset,
        cw_width := WByte, cw_src2 := s2, cw_src2_nib := RegNib2, cw_dst := dm, cw_dst_nib := RegNib2,
        cw_words := 2\<rparr>),
      (0x08, cw\<lparr>cw_name := ''CLRB'', cw_exec := ClsUnified, cw_alu_op := OpLd,
        cw_width := WByte, cw_src2 := SrcZero, cw_dst := dm, cw_dst_nib := RegNib2,
        cw_words := 2\<rparr>)])"

definition tbl4D :: "nat \<Rightarrow> (u16 \<times> CtrlWord) list" where
  "tbl4D i =
     (let s2 = (if i \<noteq> 0 then SrcX else SrcDA); dm = (if i \<noteq> 0 then DstX else DstDA) in
     [(0x00, cw\<lparr>cw_name := ''COM'', cw_exec := ClsUnified, cw_alu_op := OpCom,
        cw_width := WWord, cw_src2 := s2, cw_src2_nib := RegNib2, cw_dst := dm, cw_dst_nib := RegNib2,
        cw_words := 2\<rparr>),
      (0x01, cw\<lparr>cw_name := ''CP'', cw_exec := ClsUnified, cw_alu_op := OpCp, cw_width := WWord,
        cw_src2 := s2, cw_src2_nib := RegNib2, cw_count := SrcImm2, cw_dst := DstFlagsOnly,
        cw_words := 2\<rparr>),
      (0x02, cw\<lparr>cw_name := ''NEG'', cw_exec := ClsUnified, cw_alu_op := OpNeg,
        cw_width := WWord, cw_src2 := s2, cw_src2_nib := RegNib2, cw_dst := dm, cw_dst_nib := RegNib2,
        cw_words := 2\<rparr>),
      (0x04, cw\<lparr>cw_name := ''TEST'', cw_exec := ClsUnified, cw_alu_op := OpTest,
        cw_width := WWord, cw_src2 := s2, cw_src2_nib := RegNib2, cw_dst := DstFlagsOnly,
        cw_words := 2\<rparr>),
      (0x05, cw\<lparr>cw_name := ''LD'', cw_exec := ClsUnified, cw_alu_op := OpLd, cw_width := WWord,
        cw_src2 := SrcImm2, cw_dst := dm, cw_dst_nib := RegNib2, cw_words := 2\<rparr>),
      (0x06, cw\<lparr>cw_name := ''TSET'', cw_exec := ClsUnified, cw_alu_op := OpTset,
        cw_width := WWord, cw_src2 := s2, cw_src2_nib := RegNib2, cw_dst := dm, cw_dst_nib := RegNib2,
        cw_words := 2\<rparr>),
      (0x08, cw\<lparr>cw_name := ''CLR'', cw_exec := ClsUnified, cw_alu_op := OpLd,
        cw_width := WWord, cw_src2 := SrcZero, cw_dst := dm, cw_dst_nib := RegNib2,
        cw_words := 2\<rparr>)])"

definition tbl3A :: "((u16 \<times> nat) \<times> CtrlWord) list" where
  "tbl3A =
     [((0x04, 0), cw\<lparr>cw_name := ''INB'', cw_exec := ClsIO, cw_width := WByte,
        cw_words := 2\<rparr>),
      ((0x04, 1), cw\<lparr>cw_name := ''INB'', cw_exec := ClsIO, cw_width := WByte,
        cw_words := 2\<rparr>),
      ((0x05, 0), cw\<lparr>cw_name := ''SINB'', cw_exec := ClsIO, cw_width := WByte,
        cw_io_spec := True, cw_words := 2\<rparr>),
      ((0x05, 1), cw\<lparr>cw_name := ''SINB'', cw_exec := ClsIO, cw_width := WByte,
        cw_io_spec := True, cw_words := 2\<rparr>),
      ((0x06, 0), cw\<lparr>cw_name := ''OUTB'', cw_exec := ClsIO, cw_width := WByte,
        cw_io_write := True, cw_words := 2\<rparr>),
      ((0x06, 1), cw\<lparr>cw_name := ''OUTB'', cw_exec := ClsIO, cw_width := WByte,
        cw_io_write := True, cw_words := 2\<rparr>),
      ((0x07, 0), cw\<lparr>cw_name := ''SOUTB'', cw_exec := ClsIO, cw_width := WByte,
        cw_io_write := True, cw_io_spec := True, cw_words := 2\<rparr>),
      ((0x07, 1), cw\<lparr>cw_name := ''SOUTB'', cw_exec := ClsIO, cw_width := WByte,
        cw_io_write := True, cw_io_spec := True, cw_words := 2\<rparr>),
      ((0x00, 0), cw\<lparr>cw_name := ''INIRB'', cw_exec := ClsBlockIO, cw_width := WByte,
        cw_io_write := False, cw_block_decr := False, cw_block_rept := True, cw_io_spec := False,
        cw_words := 2\<rparr>),
      ((0x00, 1), cw\<lparr>cw_name := ''INDB'', cw_exec := ClsBlockIO, cw_width := WByte,
        cw_io_write := False, cw_block_decr := True, cw_block_rept := False, cw_io_spec := False,
        cw_words := 2\<rparr>),
      ((0x01, 0), cw\<lparr>cw_name := ''SINIRB'', cw_exec := ClsBlockIO, cw_width := WByte,
        cw_io_write := False, cw_block_decr := False, cw_block_rept := True, cw_io_spec := True,
        cw_words := 2\<rparr>),
      ((0x01, 1), cw\<lparr>cw_name := ''SINDB'', cw_exec := ClsBlockIO, cw_width := WByte,
        cw_io_write := False, cw_block_decr := True, cw_block_rept := False, cw_io_spec := True,
        cw_words := 2\<rparr>),
      ((0x02, 0), cw\<lparr>cw_name := ''OTIRB'', cw_exec := ClsBlockIO, cw_width := WByte,
        cw_io_write := True, cw_block_decr := False, cw_block_rept := True, cw_io_spec := False,
        cw_words := 2\<rparr>),
      ((0x02, 1), cw\<lparr>cw_name := ''OUTIB'', cw_exec := ClsBlockIO, cw_width := WByte,
        cw_io_write := True, cw_block_decr := False, cw_block_rept := False, cw_io_spec := False,
        cw_words := 2\<rparr>),
      ((0x03, 0), cw\<lparr>cw_name := ''SOTIRB'', cw_exec := ClsBlockIO, cw_width := WByte,
        cw_io_write := True, cw_block_decr := False, cw_block_rept := True, cw_io_spec := True,
        cw_words := 2\<rparr>),
      ((0x03, 1), cw\<lparr>cw_name := ''SOUTIB'', cw_exec := ClsBlockIO, cw_width := WByte,
        cw_io_write := True, cw_block_decr := False, cw_block_rept := False, cw_io_spec := True,
        cw_words := 2\<rparr>),
      ((0x08, 0), cw\<lparr>cw_name := ''INDRB'', cw_exec := ClsBlockIO, cw_width := WByte,
        cw_io_write := False, cw_block_decr := True, cw_block_rept := True, cw_io_spec := False,
        cw_words := 2\<rparr>),
      ((0x08, 1), cw\<lparr>cw_name := ''INIB'', cw_exec := ClsBlockIO, cw_width := WByte,
        cw_io_write := False, cw_block_decr := False, cw_block_rept := False, cw_io_spec := False,
        cw_words := 2\<rparr>),
      ((0x09, 0), cw\<lparr>cw_name := ''SINDRB'', cw_exec := ClsBlockIO, cw_width := WByte,
        cw_io_write := False, cw_block_decr := True, cw_block_rept := True, cw_io_spec := True,
        cw_words := 2\<rparr>),
      ((0x09, 1), cw\<lparr>cw_name := ''SINIB'', cw_exec := ClsBlockIO, cw_width := WByte,
        cw_io_write := False, cw_block_decr := False, cw_block_rept := False, cw_io_spec := True,
        cw_words := 2\<rparr>),
      ((0x0A, 0), cw\<lparr>cw_name := ''OTDRB'', cw_exec := ClsBlockIO, cw_width := WByte,
        cw_io_write := True, cw_block_decr := True, cw_block_rept := True, cw_io_spec := False,
        cw_words := 2\<rparr>),
      ((0x0A, 1), cw\<lparr>cw_name := ''OUTDB'', cw_exec := ClsBlockIO, cw_width := WByte,
        cw_io_write := True, cw_block_decr := True, cw_block_rept := False, cw_io_spec := False,
        cw_words := 2\<rparr>),
      ((0x0B, 0), cw\<lparr>cw_name := ''SOTDRB'', cw_exec := ClsBlockIO, cw_width := WByte,
        cw_io_write := True, cw_block_decr := True, cw_block_rept := True, cw_io_spec := True,
        cw_words := 2\<rparr>),
      ((0x0B, 1), cw\<lparr>cw_name := ''SOUTDB'', cw_exec := ClsBlockIO, cw_width := WByte,
        cw_io_write := True, cw_block_decr := True, cw_block_rept := False, cw_io_spec := True,
        cw_words := 2\<rparr>)]"

definition tbl3B :: "((u16 \<times> nat) \<times> CtrlWord) list" where
  "tbl3B =
     [((0x04, 0), cw\<lparr>cw_name := ''IN'', cw_exec := ClsIO, cw_width := WWord,
        cw_words := 2\<rparr>),
      ((0x04, 1), cw\<lparr>cw_name := ''IN'', cw_exec := ClsIO, cw_width := WWord,
        cw_words := 2\<rparr>),
      ((0x05, 0), cw\<lparr>cw_name := ''SIN'', cw_exec := ClsIO, cw_width := WWord,
        cw_io_spec := True, cw_words := 2\<rparr>),
      ((0x05, 1), cw\<lparr>cw_name := ''SIN'', cw_exec := ClsIO, cw_width := WWord,
        cw_io_spec := True, cw_words := 2\<rparr>),
      ((0x06, 0), cw\<lparr>cw_name := ''OUT'', cw_exec := ClsIO, cw_width := WWord,
        cw_io_write := True, cw_words := 2\<rparr>),
      ((0x06, 1), cw\<lparr>cw_name := ''OUT'', cw_exec := ClsIO, cw_width := WWord,
        cw_io_write := True, cw_words := 2\<rparr>),
      ((0x07, 0), cw\<lparr>cw_name := ''SOUT'', cw_exec := ClsIO, cw_width := WWord,
        cw_io_write := True, cw_io_spec := True, cw_words := 2\<rparr>),
      ((0x07, 1), cw\<lparr>cw_name := ''SOUT'', cw_exec := ClsIO, cw_width := WWord,
        cw_io_write := True, cw_io_spec := True, cw_words := 2\<rparr>),
      ((0x00, 0), cw\<lparr>cw_name := ''INIR'', cw_exec := ClsBlockIO, cw_width := WWord,
        cw_io_write := False, cw_block_decr := False, cw_block_rept := True, cw_io_spec := False,
        cw_words := 2\<rparr>),
      ((0x00, 1), cw\<lparr>cw_name := ''IND'', cw_exec := ClsBlockIO, cw_width := WWord,
        cw_io_write := False, cw_block_decr := True, cw_block_rept := False, cw_io_spec := False,
        cw_words := 2\<rparr>),
      ((0x01, 0), cw\<lparr>cw_name := ''SINIR'', cw_exec := ClsBlockIO, cw_width := WWord,
        cw_io_write := False, cw_block_decr := False, cw_block_rept := True, cw_io_spec := True,
        cw_words := 2\<rparr>),
      ((0x01, 1), cw\<lparr>cw_name := ''SIND'', cw_exec := ClsBlockIO, cw_width := WWord,
        cw_io_write := False, cw_block_decr := True, cw_block_rept := False, cw_io_spec := True,
        cw_words := 2\<rparr>),
      ((0x02, 0), cw\<lparr>cw_name := ''OTIR'', cw_exec := ClsBlockIO, cw_width := WWord,
        cw_io_write := True, cw_block_decr := False, cw_block_rept := True, cw_io_spec := False,
        cw_words := 2\<rparr>),
      ((0x02, 1), cw\<lparr>cw_name := ''OUTI'', cw_exec := ClsBlockIO, cw_width := WWord,
        cw_io_write := True, cw_block_decr := False, cw_block_rept := False, cw_io_spec := False,
        cw_words := 2\<rparr>),
      ((0x03, 0), cw\<lparr>cw_name := ''SOTIR'', cw_exec := ClsBlockIO, cw_width := WWord,
        cw_io_write := True, cw_block_decr := False, cw_block_rept := True, cw_io_spec := True,
        cw_words := 2\<rparr>),
      ((0x03, 1), cw\<lparr>cw_name := ''SOUTI'', cw_exec := ClsBlockIO, cw_width := WWord,
        cw_io_write := True, cw_block_decr := False, cw_block_rept := False, cw_io_spec := True,
        cw_words := 2\<rparr>),
      ((0x08, 0), cw\<lparr>cw_name := ''INDR'', cw_exec := ClsBlockIO, cw_width := WWord,
        cw_io_write := False, cw_block_decr := True, cw_block_rept := True, cw_io_spec := False,
        cw_words := 2\<rparr>),
      ((0x08, 1), cw\<lparr>cw_name := ''INI'', cw_exec := ClsBlockIO, cw_width := WWord,
        cw_io_write := False, cw_block_decr := False, cw_block_rept := False, cw_io_spec := False,
        cw_words := 2\<rparr>),
      ((0x09, 0), cw\<lparr>cw_name := ''SINDR'', cw_exec := ClsBlockIO, cw_width := WWord,
        cw_io_write := False, cw_block_decr := True, cw_block_rept := True, cw_io_spec := True,
        cw_words := 2\<rparr>),
      ((0x09, 1), cw\<lparr>cw_name := ''SINI'', cw_exec := ClsBlockIO, cw_width := WWord,
        cw_io_write := False, cw_block_decr := False, cw_block_rept := False, cw_io_spec := True,
        cw_words := 2\<rparr>),
      ((0x0A, 0), cw\<lparr>cw_name := ''OTDR'', cw_exec := ClsBlockIO, cw_width := WWord,
        cw_io_write := True, cw_block_decr := True, cw_block_rept := True, cw_io_spec := False,
        cw_words := 2\<rparr>),
      ((0x0A, 1), cw\<lparr>cw_name := ''OUTD'', cw_exec := ClsBlockIO, cw_width := WWord,
        cw_io_write := True, cw_block_decr := True, cw_block_rept := False, cw_io_spec := False,
        cw_words := 2\<rparr>),
      ((0x0B, 0), cw\<lparr>cw_name := ''SOTDR'', cw_exec := ClsBlockIO, cw_width := WWord,
        cw_io_write := True, cw_block_decr := True, cw_block_rept := True, cw_io_spec := True,
        cw_words := 2\<rparr>),
      ((0x0B, 1), cw\<lparr>cw_name := ''SOUTD'', cw_exec := ClsBlockIO, cw_width := WWord,
        cw_io_write := True, cw_block_decr := True, cw_block_rept := False, cw_io_spec := True,
        cw_words := 2\<rparr>)]"

definition tblB2 :: "(u16 \<times> CtrlWord) list" where
  "tblB2 =
     [(0x00, cw\<lparr>cw_name := ''RLB'', cw_exec := ClsUnified, cw_alu_op := OpRl,
        cw_width := WByte, cw_src1_nib := RegNib2, cw_src2 := SrcOne, cw_dst := DstReg,
        cw_dst_nib := RegNib2\<rparr>),
      (0x02, cw\<lparr>cw_name := ''RLB'', cw_exec := ClsUnified, cw_alu_op := OpRl,
        cw_width := WByte, cw_src1_nib := RegNib2, cw_src2 := SrcTwo, cw_dst := DstReg,
        cw_dst_nib := RegNib2\<rparr>),
      (0x04, cw\<lparr>cw_name := ''RRB'', cw_exec := ClsUnified, cw_alu_op := OpRr,
        cw_width := WByte, cw_src1_nib := RegNib2, cw_src2 := SrcOne, cw_dst := DstReg,
        cw_dst_nib := RegNib2\<rparr>),
      (0x06, cw\<lparr>cw_name := ''RRB'', cw_exec := ClsUnified, cw_alu_op := OpRr,
        cw_width := WByte, cw_src1_nib := RegNib2, cw_src2 := SrcTwo, cw_dst := DstReg,
        cw_dst_nib := RegNib2\<rparr>),
      (0x08, cw\<lparr>cw_name := ''RLCB'', cw_exec := ClsUnified, cw_alu_op := OpRlc,
        cw_width := WByte, cw_src1_nib := RegNib2, cw_src2 := SrcOne, cw_dst := DstReg,
        cw_dst_nib := RegNib2\<rparr>),
      (0x0A, cw\<lparr>cw_name := ''RLCB'', cw_exec := ClsUnified, cw_alu_op := OpRlc,
        cw_width := WByte, cw_src1_nib := RegNib2, cw_src2 := SrcTwo, cw_dst := DstReg,
        cw_dst_nib := RegNib2\<rparr>),
      (0x0C, cw\<lparr>cw_name := ''RRCB'', cw_exec := ClsUnified, cw_alu_op := OpRrc,
        cw_width := WByte, cw_src1_nib := RegNib2, cw_src2 := SrcOne, cw_dst := DstReg,
        cw_dst_nib := RegNib2\<rparr>),
      (0x0E, cw\<lparr>cw_name := ''RRCB'', cw_exec := ClsUnified, cw_alu_op := OpRrc,
        cw_width := WByte, cw_src1_nib := RegNib2, cw_src2 := SrcTwo, cw_dst := DstReg,
        cw_dst_nib := RegNib2\<rparr>),
      (0x01, cw\<lparr>cw_name := ''SLLB'', cw_exec := ClsShift, cw_alu_op := OpSll,
        cw_width := WByte, cw_count := SrcImm, cw_words := 2\<rparr>),
      (0x03, cw\<lparr>cw_name := ''SDLB'', cw_exec := ClsShift, cw_alu_op := OpSll,
        cw_width := WByte, cw_count := SrcReg, cw_words := 2\<rparr>),
      (0x09, cw\<lparr>cw_name := ''SLAB'', cw_exec := ClsShift, cw_alu_op := OpSla,
        cw_width := WByte, cw_count := SrcImm, cw_words := 2\<rparr>),
      (0x0B, cw\<lparr>cw_name := ''SDAB'', cw_exec := ClsShift, cw_alu_op := OpSla,
        cw_width := WByte, cw_count := SrcReg, cw_words := 2\<rparr>)]"

definition tblB3 :: "(u16 \<times> CtrlWord) list" where
  "tblB3 =
     [(0x00, cw\<lparr>cw_name := ''RL'', cw_exec := ClsUnified, cw_alu_op := OpRl, cw_width := WWord,
        cw_src1_nib := RegNib2, cw_src2 := SrcOne, cw_dst := DstReg, cw_dst_nib := RegNib2\<rparr>),
      (0x02, cw\<lparr>cw_name := ''RL'', cw_exec := ClsUnified, cw_alu_op := OpRl, cw_width := WWord,
        cw_src1_nib := RegNib2, cw_src2 := SrcTwo, cw_dst := DstReg, cw_dst_nib := RegNib2\<rparr>),
      (0x04, cw\<lparr>cw_name := ''RR'', cw_exec := ClsUnified, cw_alu_op := OpRr, cw_width := WWord,
        cw_src1_nib := RegNib2, cw_src2 := SrcOne, cw_dst := DstReg, cw_dst_nib := RegNib2\<rparr>),
      (0x06, cw\<lparr>cw_name := ''RR'', cw_exec := ClsUnified, cw_alu_op := OpRr, cw_width := WWord,
        cw_src1_nib := RegNib2, cw_src2 := SrcTwo, cw_dst := DstReg, cw_dst_nib := RegNib2\<rparr>),
      (0x08, cw\<lparr>cw_name := ''RLC'', cw_exec := ClsUnified, cw_alu_op := OpRlc,
        cw_width := WWord, cw_src1_nib := RegNib2, cw_src2 := SrcOne, cw_dst := DstReg,
        cw_dst_nib := RegNib2\<rparr>),
      (0x0A, cw\<lparr>cw_name := ''RLC'', cw_exec := ClsUnified, cw_alu_op := OpRlc,
        cw_width := WWord, cw_src1_nib := RegNib2, cw_src2 := SrcTwo, cw_dst := DstReg,
        cw_dst_nib := RegNib2\<rparr>),
      (0x0C, cw\<lparr>cw_name := ''RRC'', cw_exec := ClsUnified, cw_alu_op := OpRrc,
        cw_width := WWord, cw_src1_nib := RegNib2, cw_src2 := SrcOne, cw_dst := DstReg,
        cw_dst_nib := RegNib2\<rparr>),
      (0x0E, cw\<lparr>cw_name := ''RRC'', cw_exec := ClsUnified, cw_alu_op := OpRrc,
        cw_width := WWord, cw_src1_nib := RegNib2, cw_src2 := SrcTwo, cw_dst := DstReg,
        cw_dst_nib := RegNib2\<rparr>),
      (0x01, cw\<lparr>cw_name := ''SLL'', cw_exec := ClsShift, cw_alu_op := OpSll, cw_width := WWord,
        cw_count := SrcImm, cw_words := 2\<rparr>),
      (0x03, cw\<lparr>cw_name := ''SDL'', cw_exec := ClsShift, cw_alu_op := OpSll, cw_width := WWord,
        cw_count := SrcReg, cw_words := 2\<rparr>),
      (0x05, cw\<lparr>cw_name := ''SLLL'', cw_exec := ClsShift, cw_alu_op := OpSll,
        cw_width := WLong, cw_count := SrcImm, cw_words := 2\<rparr>),
      (0x07, cw\<lparr>cw_name := ''SDLL'', cw_exec := ClsShift, cw_alu_op := OpSll,
        cw_width := WLong, cw_count := SrcReg, cw_words := 2\<rparr>),
      (0x09, cw\<lparr>cw_name := ''SLA'', cw_exec := ClsShift, cw_alu_op := OpSla, cw_width := WWord,
        cw_count := SrcImm, cw_words := 2\<rparr>),
      (0x0B, cw\<lparr>cw_name := ''SDA'', cw_exec := ClsShift, cw_alu_op := OpSla, cw_width := WWord,
        cw_count := SrcReg, cw_words := 2\<rparr>),
      (0x0D, cw\<lparr>cw_name := ''SLAL'', cw_exec := ClsShift, cw_alu_op := OpSla,
        cw_width := WLong, cw_count := SrcImm, cw_words := 2\<rparr>),
      (0x0F, cw\<lparr>cw_name := ''SDAL'', cw_exec := ClsShift, cw_alu_op := OpSla,
        cw_width := WLong, cw_count := SrcReg, cw_words := 2\<rparr>)]"

definition tblBB :: "((u16 \<times> nat) \<times> CtrlWord) list" where
  "tblBB =
     [((0x0, 0), cw\<lparr>cw_name := ''CPI'', cw_exec := ClsBlockCompare, cw_width := WWord,
        cw_words := 2\<rparr>),
      ((0x0, 1), cw\<lparr>cw_name := ''CPI'', cw_exec := ClsBlockCompare, cw_width := WWord,
        cw_words := 2\<rparr>),
      ((0x1, 0), cw\<lparr>cw_name := ''LDIR'', cw_exec := ClsBlockTransfer, cw_width := WWord,
        cw_block_rept := True, cw_words := 2\<rparr>),
      ((0x1, 1), cw\<lparr>cw_name := ''LDI'', cw_exec := ClsBlockTransfer, cw_width := WWord,
        cw_words := 2\<rparr>),
      ((0x2, 0), cw\<lparr>cw_name := ''CPSI'', cw_exec := ClsBlockString, cw_width := WWord,
        cw_words := 2\<rparr>),
      ((0x2, 1), cw\<lparr>cw_name := ''CPSI'', cw_exec := ClsBlockString, cw_width := WWord,
        cw_words := 2\<rparr>),
      ((0x4, 0), cw\<lparr>cw_name := ''CPIR'', cw_exec := ClsBlockCompare, cw_width := WWord,
        cw_block_rept := True, cw_words := 2\<rparr>),
      ((0x4, 1), cw\<lparr>cw_name := ''CPIR'', cw_exec := ClsBlockCompare, cw_width := WWord,
        cw_block_rept := True, cw_words := 2\<rparr>),
      ((0x6, 0), cw\<lparr>cw_name := ''CPSIR'', cw_exec := ClsBlockString, cw_width := WWord,
        cw_block_rept := True, cw_words := 2\<rparr>),
      ((0x6, 1), cw\<lparr>cw_name := ''CPSIR'', cw_exec := ClsBlockString, cw_width := WWord,
        cw_block_rept := True, cw_words := 2\<rparr>),
      ((0x8, 0), cw\<lparr>cw_name := ''CPD'', cw_exec := ClsBlockCompare, cw_width := WWord,
        cw_block_decr := True, cw_words := 2\<rparr>),
      ((0x8, 1), cw\<lparr>cw_name := ''CPD'', cw_exec := ClsBlockCompare, cw_width := WWord,
        cw_block_decr := True, cw_words := 2\<rparr>),
      ((0x9, 0), cw\<lparr>cw_name := ''LDDR'', cw_exec := ClsBlockTransfer, cw_width := WWord,
        cw_block_decr := True, cw_block_rept := True, cw_words := 2\<rparr>),
      ((0x9, 1), cw\<lparr>cw_name := ''LDD'', cw_exec := ClsBlockTransfer, cw_width := WWord,
        cw_block_decr := True, cw_words := 2\<rparr>),
      ((0xA, 0), cw\<lparr>cw_name := ''CPSD'', cw_exec := ClsBlockString, cw_width := WWord,
        cw_block_decr := True, cw_words := 2\<rparr>),
      ((0xA, 1), cw\<lparr>cw_name := ''CPSD'', cw_exec := ClsBlockString, cw_width := WWord,
        cw_block_decr := True, cw_words := 2\<rparr>),
      ((0xC, 0), cw\<lparr>cw_name := ''CPDR'', cw_exec := ClsBlockCompare, cw_width := WWord,
        cw_block_decr := True, cw_block_rept := True, cw_words := 2\<rparr>),
      ((0xC, 1), cw\<lparr>cw_name := ''CPDR'', cw_exec := ClsBlockCompare, cw_width := WWord,
        cw_block_decr := True, cw_block_rept := True, cw_words := 2\<rparr>),
      ((0xE, 0), cw\<lparr>cw_name := ''CPSDR'', cw_exec := ClsBlockString, cw_width := WWord,
        cw_block_decr := True, cw_block_rept := True, cw_words := 2\<rparr>),
      ((0xE, 1), cw\<lparr>cw_name := ''CPSDR'', cw_exec := ClsBlockString, cw_width := WWord,
        cw_block_decr := True, cw_block_rept := True, cw_words := 2\<rparr>)]"

definition tblBA :: "((u16 \<times> nat) \<times> CtrlWord) list" where
  "tblBA =
     [((0x0, 0), cw\<lparr>cw_name := ''CPIB'', cw_exec := ClsBlockCompare, cw_width := WByte,
        cw_words := 2\<rparr>),
      ((0x0, 1), cw\<lparr>cw_name := ''CPIB'', cw_exec := ClsBlockCompare, cw_width := WByte,
        cw_words := 2\<rparr>),
      ((0x1, 0), cw\<lparr>cw_name := ''LDIRB'', cw_exec := ClsBlockTransfer, cw_width := WByte,
        cw_block_rept := True, cw_words := 2\<rparr>),
      ((0x1, 1), cw\<lparr>cw_name := ''LDIB'', cw_exec := ClsBlockTransfer, cw_width := WByte,
        cw_words := 2\<rparr>),
      ((0x2, 0), cw\<lparr>cw_name := ''CPSIB'', cw_exec := ClsBlockString, cw_width := WByte,
        cw_words := 2\<rparr>),
      ((0x2, 1), cw\<lparr>cw_name := ''CPSIB'', cw_exec := ClsBlockString, cw_width := WByte,
        cw_words := 2\<rparr>),
      ((0x4, 0), cw\<lparr>cw_name := ''CPIRB'', cw_exec := ClsBlockCompare, cw_width := WByte,
        cw_block_rept := True, cw_words := 2\<rparr>),
      ((0x4, 1), cw\<lparr>cw_name := ''CPIRB'', cw_exec := ClsBlockCompare, cw_width := WByte,
        cw_block_rept := True, cw_words := 2\<rparr>),
      ((0x6, 0), cw\<lparr>cw_name := ''CPSIRB'', cw_exec := ClsBlockString, cw_width := WByte,
        cw_block_rept := True, cw_words := 2\<rparr>),
      ((0x6, 1), cw\<lparr>cw_name := ''CPSIRB'', cw_exec := ClsBlockString, cw_width := WByte,
        cw_block_rept := True, cw_words := 2\<rparr>),
      ((0x8, 0), cw\<lparr>cw_name := ''CPDB'', cw_exec := ClsBlockCompare, cw_width := WByte,
        cw_block_decr := True, cw_words := 2\<rparr>),
      ((0x8, 1), cw\<lparr>cw_name := ''CPDB'', cw_exec := ClsBlockCompare, cw_width := WByte,
        cw_block_decr := True, cw_words := 2\<rparr>),
      ((0x9, 0), cw\<lparr>cw_name := ''LDDRB'', cw_exec := ClsBlockTransfer, cw_width := WByte,
        cw_block_decr := True, cw_block_rept := True, cw_words := 2\<rparr>),
      ((0x9, 1), cw\<lparr>cw_name := ''LDDB'', cw_exec := ClsBlockTransfer, cw_width := WByte,
        cw_block_decr := True, cw_words := 2\<rparr>),
      ((0xA, 0), cw\<lparr>cw_name := ''CPSDB'', cw_exec := ClsBlockString, cw_width := WByte,
        cw_block_decr := True, cw_words := 2\<rparr>),
      ((0xA, 1), cw\<lparr>cw_name := ''CPSDB'', cw_exec := ClsBlockString, cw_width := WByte,
        cw_block_decr := True, cw_words := 2\<rparr>),
      ((0xC, 0), cw\<lparr>cw_name := ''CPDRB'', cw_exec := ClsBlockCompare, cw_width := WByte,
        cw_block_decr := True, cw_block_rept := True, cw_words := 2\<rparr>),
      ((0xC, 1), cw\<lparr>cw_name := ''CPDRB'', cw_exec := ClsBlockCompare, cw_width := WByte,
        cw_block_decr := True, cw_block_rept := True, cw_words := 2\<rparr>),
      ((0xE, 0), cw\<lparr>cw_name := ''CPSDRB'', cw_exec := ClsBlockString, cw_width := WByte,
        cw_block_decr := True, cw_block_rept := True, cw_words := 2\<rparr>),
      ((0xE, 1), cw\<lparr>cw_name := ''CPSDRB'', cw_exec := ClsBlockString, cw_width := WByte,
        cw_block_decr := True, cw_block_rept := True, cw_words := 2\<rparr>)]"

subsection \<open>Sub-decoders\<close>

definition sub_3A :: "u16 \<Rightarrow> (nat \<Rightarrow> u16) \<Rightarrow> nat \<Rightarrow> CtrlWord option" where
  "sub_3A op w n =
     (if n < 1 then None else map_of tbl3A (op AND 0x0F, if w 0 AND 0x0F = 8 then 1 else 0))"

definition sub_3B :: "u16 \<Rightarrow> (nat \<Rightarrow> u16) \<Rightarrow> nat \<Rightarrow> CtrlWord option" where
  "sub_3B op w n =
     (if n < 1 then None else map_of tbl3B (op AND 0x0F, if w 0 AND 0x0F = 8 then 1 else 0))"

text \<open>The nib3 values whose two-word forms need word 1.\<close>

definition oddB2 :: "u16 set" where "oddB2 = {0x01, 0x03, 0x09, 0x0B}"
definition oddB3 :: "u16 set" where
  "oddB3 = {0x01, 0x03, 0x05, 0x07, 0x09, 0x0B, 0x0D, 0x0F}"

definition sub_B2 :: "u16 \<Rightarrow> (nat \<Rightarrow> u16) \<Rightarrow> nat \<Rightarrow> CtrlWord option" where
  "sub_B2 op w n =
     (let nib3 = op AND 0x0F in if nib3 \<in> oddB2 \<and> n < 1 then None else map_of tblB2 nib3)"

definition sub_B3 :: "u16 \<Rightarrow> (nat \<Rightarrow> u16) \<Rightarrow> nat \<Rightarrow> CtrlWord option" where
  "sub_B3 op w n =
     (let nib3 = op AND 0x0F in if nib3 \<in> oddB3 \<and> n < 1 then None else map_of tblB3 nib3)"

definition sub_BA :: "u16 \<Rightarrow> (nat \<Rightarrow> u16) \<Rightarrow> nat \<Rightarrow> CtrlWord option" where
  "sub_BA op w n =
     (if n < 1 then None else map_of tblBA (op AND 0x0F, if tst (w 0) 0x08 then 1 else 0))"

definition sub_BB :: "u16 \<Rightarrow> (nat \<Rightarrow> u16) \<Rightarrow> nat \<Rightarrow> CtrlWord option" where
  "sub_BB op w n =
     (if n < 1 then None else map_of tblBB (op AND 0x0F, if tst (w 0) 0x08 then 1 else 0))"

definition sub_4C :: "u16 \<Rightarrow> (nat \<Rightarrow> u16) \<Rightarrow> nat \<Rightarrow> CtrlWord option" where
  "sub_4C op w n =
     map_of (tbl4C (if NIB2 op \<noteq> 0 then 1 else 0)) (op AND 0x0F)"

definition sub_4D :: "u16 \<Rightarrow> (nat \<Rightarrow> u16) \<Rightarrow> nat \<Rightarrow> CtrlWord option" where
  "sub_4D op w n =
     map_of (tbl4D (if NIB2 op \<noteq> 0 then 1 else 0)) (op AND 0x0F)"

definition sub_0C :: "u16 \<Rightarrow> (nat \<Rightarrow> u16) \<Rightarrow> nat \<Rightarrow> CtrlWord option" where
  "sub_0C op w n =
     map_of tbl0C (op AND 0x0F)"

definition sub_0D :: "u16 \<Rightarrow> (nat \<Rightarrow> u16) \<Rightarrow> nat \<Rightarrow> CtrlWord option" where
  "sub_0D op w n =
     map_of tbl0D (op AND 0x0F)"

definition sub_8C :: "u16 \<Rightarrow> (nat \<Rightarrow> u16) \<Rightarrow> nat \<Rightarrow> CtrlWord option" where
  "sub_8C op w n =
     map_of tbl8C (op AND 0x0F)"

definition sub_8D :: "u16 \<Rightarrow> (nat \<Rightarrow> u16) \<Rightarrow> nat \<Rightarrow> CtrlWord option" where
  "sub_8D op w n =
     map_of (tbl8D (NIB2 op)) (op AND 0x0F)"

definition sub_9C :: "u16 \<Rightarrow> (nat \<Rightarrow> u16) \<Rightarrow> nat \<Rightarrow> CtrlWord option" where
  "sub_9C op w n =
     (if op AND 0x0F = 0x08
      then Some (cw\<lparr>cw_name := ''TESTL'', cw_exec := ClsUnified, cw_alu_op := OpTest,
          cw_width := WLong, cw_src1_nib := RegNib2, cw_src2 := SrcNone, cw_dst := DstNone\<rparr>)
      else None)"

definition sub_B1 :: "u16 \<Rightarrow> (nat \<Rightarrow> u16) \<Rightarrow> nat \<Rightarrow> CtrlWord option" where
  "sub_B1 op w n =
     (let b = (cw\<lparr>cw_name := ''EXTSB'', cw_exec := ClsExts, cw_width := WByte\<rparr>);
          l = (cw\<lparr>cw_name := ''EXTSL'', cw_exec := ClsExts, cw_width := WLong\<rparr>);
          ww = (cw\<lparr>cw_name := ''EXTS'', cw_exec := ClsExts, cw_width := WWord\<rparr>)
      in if op AND 0x0F = 0x00 then Some b else if op AND 0x0F = 0x07 then Some l
         else if op AND 0x0F = 0x0A then Some ww else None)"

definition sub_1C :: "u16 \<Rightarrow> (nat \<Rightarrow> u16) \<Rightarrow> nat \<Rightarrow> CtrlWord option" where
  "sub_1C op w n =
     (let ld = (cw\<lparr>cw_name := ''LDM'', cw_exec := ClsLDM, cw_src2 := SrcIR, cw_words := 2\<rparr>);
          st = (cw\<lparr>cw_name := ''LDM'', cw_exec := ClsLDM, cw_src2 := SrcIR, cw_io_write := True,
          cw_words := 2\<rparr>);
          tl = (cw\<lparr>cw_name := ''TESTL'', cw_exec := ClsUnified, cw_alu_op := OpTest,
          cw_width := WLong, cw_src2 := SrcIR, cw_src2_nib := RegNib2, cw_dst := DstFlagsOnly\<rparr>)
      in if op AND 0x0F = 0x01 then (if 1 \<le> n then Some ld else None)
         else if op AND 0x0F = 0x09 then (if 1 \<le> n then Some st else None)
         else if op AND 0x0F = 0x08 then Some tl else None)"

definition sub_5C :: "u16 \<Rightarrow> (nat \<Rightarrow> u16) \<Rightarrow> nat \<Rightarrow> CtrlWord option" where
  "sub_5C op w n =
     (let tlDA = (cw\<lparr>cw_name := ''TESTL'', cw_exec := ClsUnified, cw_alu_op := OpTest,
          cw_width := WLong, cw_src2 := SrcDA, cw_dst := DstFlagsOnly, cw_words := 2\<rparr>);
          tlX = (cw\<lparr>cw_name := ''TESTL'', cw_exec := ClsUnified, cw_alu_op := OpTest,
          cw_width := WLong, cw_src2 := SrcX, cw_src2_nib := RegNib2, cw_dst := DstFlagsOnly,
          cw_words := 2\<rparr>);
          ldDA = (cw\<lparr>cw_name := ''LDM'', cw_exec := ClsLDM, cw_src2 := SrcDA, cw_words := 3\<rparr>);
          ldX = (cw\<lparr>cw_name := ''LDM'', cw_exec := ClsLDM, cw_src2 := SrcX, cw_src2_nib := RegNib2,
          cw_words := 3\<rparr>);
          stDA = (cw\<lparr>cw_name := ''LDM'', cw_exec := ClsLDM, cw_src2 := SrcDA, cw_io_write := True,
          cw_words := 3\<rparr>);
          stX = (cw\<lparr>cw_name := ''LDM'', cw_exec := ClsLDM, cw_src2 := SrcX, cw_src2_nib := RegNib2,
          cw_io_write := True, cw_words := 3\<rparr>)
      in if op AND 0x0F = 0x08 then (if 1 \<le> n then Some (if NIB2 op = 0 then tlDA else tlX) else None)
         else if op AND 0x0F = 0x01 then (if 2 \<le> n then Some (if NIB2 op = 0 then ldDA else ldX) else None)
         else if op AND 0x0F = 0x09 then (if 2 \<le> n then Some (if NIB2 op = 0 then stDA else stX) else None)
         else None)"

definition sub_7B :: "u16 \<Rightarrow> (nat \<Rightarrow> u16) \<Rightarrow> nat \<Rightarrow> CtrlWord option" where
  "sub_7B op w n =
     (let mreq = (cw\<lparr>cw_name := ''MREQ'', cw_exec := ClsMultiProc, cw_mp_op := MPReq\<rparr>);
          iret = (cw\<lparr>cw_name := ''IRET'', cw_exec := ClsIRET\<rparr>);
          mset = (cw\<lparr>cw_name := ''MSET'', cw_exec := ClsMultiProc, cw_mp_op := MPSet\<rparr>);
          mres = (cw\<lparr>cw_name := ''MRES'', cw_exec := ClsMultiProc, cw_mp_op := MPRes\<rparr>);
          mbit = (cw\<lparr>cw_name := ''MBIT'', cw_exec := ClsMultiProc, cw_mp_op := MPBit\<rparr>)
      in if op AND 0x0F = 0x0D \<and> NIB2 op \<noteq> 0 then Some mreq
         else if op AND 0xFF = 0x00 then Some iret
         else if op AND 0xFF = 0x08 then Some mset
         else if op AND 0xFF = 0x09 then Some mres
         else if op AND 0xFF = 0x0A then Some mbit
         else None)"

text \<open>\<open>tblDIEI\<close>, filled by a loop over its eight indices.\<close>

definition tblDIEI :: "u16 \<Rightarrow> CtrlWord" where
  "tblDIEI i =
     (let mask = flag_if (i AND 0x02 = 0) FCW_VIE OR flag_if (i AND 0x01 = 0) FCW_NVIE
      in if tst i 0x04
         then cw\<lparr>cw_name := ''EI'', cw_exec := ClsFcwOp, cw_fcw_op := FcwSet, cw_fcw_mask := mask\<rparr>
         else cw\<lparr>cw_name := ''DI'', cw_exec := ClsFcwOp, cw_fcw_op := FcwClear, cw_fcw_mask := mask\<rparr>)"

definition sub_7C :: "u16 \<Rightarrow> (nat \<Rightarrow> u16) \<Rightarrow> nat \<Rightarrow> CtrlWord option" where
  "sub_7C op w n =
     Some (tblDIEI (op AND 0x07))"

definition sub_7D :: "u16 \<Rightarrow> (nat \<Rightarrow> u16) \<Rightarrow> nat \<Rightarrow> CtrlWord option" where
  "sub_7D op w n =
     Some (cw\<lparr>cw_name := ''LDCTL'', cw_exec := ClsLDCTL\<rparr>)"

text \<open>\<open>tblB8\<close>: the translate variants, from the four columns of the source.\<close>

definition tblB8 :: "(u16 \<times> CtrlWord) list" where
  "tblB8 = map (\<lambda>(i, nm, iow, dec, rep).
      (i, cw\<lparr>cw_name := nm, cw_exec := ClsTranslate, cw_io_write := iow, cw_block_decr := dec,
             cw_block_rept := rep, cw_words := 2\<rparr>))
     [(0, ''TRIB'', True, False, False), (1, ''TRTIB'', False, False, False),
      (2, ''TRIRB'', True, False, True), (3, ''TRTIRB'', False, False, True),
      (4, ''TRDB'', True, True, False), (5, ''TRTDB'', False, True, False),
      (6, ''TRDRB'', True, True, True), (7, ''TRTDRB'', False, True, True)]"

definition sub_B8 :: "u16 \<Rightarrow> (nat \<Rightarrow> u16) \<Rightarrow> nat \<Rightarrow> CtrlWord option" where
  "sub_B8 op w n =
     (if tst op 0x01 then None else map_of tblB8 (drop_bit 1 op AND 0x07))"

subsection \<open>The decode table\<close>

text \<open>0x80-0x8B register-register ALU.\<close>

definition rom_alu_reg :: "(u16 \<times> RomEntry) list" where
  "rom_alu_reg =
     [(0x80, Ctrl (mk_reg ''ADDB'' OpAdd WByte)),
      (0x81, Ctrl (mk_reg ''ADD'' OpAdd WWord)),
      (0x82, Ctrl (mk_reg ''SUBB'' OpSub WByte)),
      (0x83, Ctrl (mk_reg ''SUB'' OpSub WWord)),
      (0x84, Ctrl (mk_reg ''ORB'' OpOr WByte)),
      (0x85, Ctrl (mk_reg ''OR'' OpOr WWord)),
      (0x86, Ctrl (mk_reg ''ANDB'' OpAnd WByte)),
      (0x87, Ctrl (mk_reg ''AND'' OpAnd WWord)),
      (0x88, Ctrl (mk_reg ''XORB'' OpXor WByte)),
      (0x89, Ctrl (mk_reg ''XOR'' OpXor WWord)),
      (0x8A, Ctrl (mk_reg ''CPB'' OpCp WByte)),
      (0x8B, Ctrl (mk_reg ''CP'' OpCp WWord))]"

text \<open>0x00-0x0B ALU with an immediate or a pointer register.\<close>

definition rom_alu_immir :: "(u16 \<times> RomEntry) list" where
  "rom_alu_immir = concat (map (\<lambda>(b, wd, nm, aop).
     (let d = (if aop = OpCp then DstNone else DstReg);
          bi = cw\<lparr>cw_name := nm, cw_exec := ClsUnified, cw_alu_op := aop, cw_width := WByte,
            cw_words := 2, cw_src1_nib := RegNib3, cw_src2 := SrcImm, cw_dst := d,
            cw_dst_nib := RegNib3\<rparr>;
          br = cw\<lparr>cw_name := nm, cw_exec := ClsUnified, cw_alu_op := aop, cw_width := WByte,
            cw_words := 1, cw_src1_nib := RegNib3, cw_src2 := SrcIR, cw_src2_nib := RegNib2, cw_dst := d,
            cw_dst_nib := RegNib3\<rparr>;
          wi = cw\<lparr>cw_name := nm, cw_exec := ClsUnified, cw_alu_op := aop, cw_width := WWord,
            cw_words := 2, cw_src1_nib := RegNib3, cw_src2 := SrcImm, cw_dst := d,
            cw_dst_nib := RegNib3\<rparr>;
          wr = cw\<lparr>cw_name := nm, cw_exec := ClsUnified, cw_alu_op := aop, cw_width := WWord,
            cw_words := 1, cw_src1_nib := RegNib3, cw_src2 := SrcIR, cw_src2_nib := RegNib2, cw_dst := d,
            cw_dst_nib := RegNib3\<rparr>
      in [(b, ImmIr bi br), (wd, ImmIr wi wr)]))
     [(0x00, 0x01, ''ADD'', OpAdd),
      (0x02, 0x03, ''SUB'', OpSub),
      (0x04, 0x05, ''OR'', OpOr),
      (0x06, 0x07, ''AND'', OpAnd),
      (0x08, 0x09, ''XOR'', OpXor),
      (0x0A, 0x0B, ''CP'', OpCp)])"

text \<open>0xA0/0xA1 LD register to register; the 0x8C and 0x8D groups.\<close>

definition rom_ld_reg :: "(u16 \<times> RomEntry) list" where
  "rom_ld_reg =
     [(0xA0, Ctrl (cw\<lparr>cw_name := ''LDB'', cw_exec := ClsUnified, cw_alu_op := OpLd,
        cw_width := WByte, cw_src2 := SrcReg, cw_src2_nib := RegNib2, cw_dst := DstReg,
        cw_dst_nib := RegNib3\<rparr>)),
      (0xA1, Ctrl (cw\<lparr>cw_name := ''LD'', cw_exec := ClsUnified, cw_alu_op := OpLd,
        cw_width := WWord, cw_src2 := SrcReg, cw_src2_nib := RegNib2, cw_dst := DstReg,
        cw_dst_nib := RegNib3\<rparr>)),
      (0x8C, Sub sub_8C),
      (0x8D, Sub sub_8D)]"

text \<open>0x40-0x4B ALU with a direct or indexed address.\<close>

definition rom_alu_dax :: "(u16 \<times> RomEntry) list" where
  "rom_alu_dax = concat (map (\<lambda>(b, w, nm, aop).
     (let d = (if aop = OpCp then DstNone else DstReg);
          bd = cw\<lparr>cw_name := nm, cw_exec := ClsUnified, cw_alu_op := aop, cw_width := WByte,
            cw_words := 2, cw_src1_nib := RegNib3, cw_src2 := SrcDA, cw_dst := d,
            cw_dst_nib := RegNib3\<rparr>;
          bx = cw\<lparr>cw_name := nm, cw_exec := ClsUnified, cw_alu_op := aop, cw_width := WByte,
            cw_words := 2, cw_src1_nib := RegNib3, cw_src2 := SrcX, cw_src2_nib := RegNib2, cw_dst := d,
            cw_dst_nib := RegNib3\<rparr>;
          wd = cw\<lparr>cw_name := nm, cw_exec := ClsUnified, cw_alu_op := aop, cw_width := WWord,
            cw_words := 2, cw_src1_nib := RegNib3, cw_src2 := SrcDA, cw_dst := d,
            cw_dst_nib := RegNib3\<rparr>;
          wx = cw\<lparr>cw_name := nm, cw_exec := ClsUnified, cw_alu_op := aop, cw_width := WWord,
            cw_words := 2, cw_src1_nib := RegNib3, cw_src2 := SrcX, cw_src2_nib := RegNib2, cw_dst := d,
            cw_dst_nib := RegNib3\<rparr>
      in [(b, DaX bd bx), (w, DaX wd wx)]))
     [(0x40, 0x41, ''ADD'', OpAdd),
      (0x42, 0x43, ''SUB'', OpSub),
      (0x44, 0x45, ''OR'', OpOr),
      (0x46, 0x47, ''AND'', OpAnd),
      (0x48, 0x49, ''XOR'', OpXor),
      (0x4A, 0x4B, ''CP'', OpCp)])"

text \<open>LD with an address, stores through a pointer and to an address.\<close>

definition rom_ld_store :: "(u16 \<times> RomEntry) list" where
  "rom_ld_store =
     [(0x60, Nib2Fork (cw\<lparr>cw_name := ''LDB'', cw_exec := ClsUnified, cw_alu_op := OpLd,
        cw_width := WByte, cw_words := 2, cw_src2 := SrcDA, cw_dst := DstReg,
        cw_dst_nib := RegNib3\<rparr>) (cw\<lparr>cw_name := ''LDB'', cw_exec := ClsUnified,
        cw_alu_op := OpLd, cw_width := WByte, cw_words := 2, cw_src2 := SrcX, cw_src2_nib := RegNib2,
        cw_dst := DstReg, cw_dst_nib := RegNib3\<rparr>)),
      (0x61, Nib2Fork (cw\<lparr>cw_name := ''LD'', cw_exec := ClsUnified, cw_alu_op := OpLd,
        cw_width := WWord, cw_words := 2, cw_src2 := SrcDA, cw_dst := DstReg,
        cw_dst_nib := RegNib3\<rparr>) (cw\<lparr>cw_name := ''LD'', cw_exec := ClsUnified,
        cw_alu_op := OpLd, cw_width := WWord, cw_words := 2, cw_src2 := SrcX, cw_src2_nib := RegNib2,
        cw_dst := DstReg, cw_dst_nib := RegNib3\<rparr>)),
      (0x2E, Ctrl (cw\<lparr>cw_name := ''LDB'', cw_exec := ClsUnified, cw_alu_op := OpLd,
        cw_width := WByte, cw_src2 := SrcReg, cw_src2_nib := RegNib3, cw_dst := DstIR,
        cw_dst_nib := RegNib2\<rparr>)),
      (0x2F, Ctrl (cw\<lparr>cw_name := ''LD'', cw_exec := ClsUnified, cw_alu_op := OpLd,
        cw_width := WWord, cw_src2 := SrcReg, cw_src2_nib := RegNib3, cw_dst := DstIR,
        cw_dst_nib := RegNib2\<rparr>)),
      (0x6E, Nib2Fork (cw\<lparr>cw_name := ''LDB'', cw_exec := ClsUnified, cw_alu_op := OpLd,
        cw_width := WByte, cw_words := 2, cw_src2 := SrcReg, cw_src2_nib := RegNib3,
        cw_dst := DstDA\<rparr>) (cw\<lparr>cw_name := ''LDB'', cw_exec := ClsUnified,
        cw_alu_op := OpLd, cw_width := WByte, cw_words := 2, cw_src2 := SrcReg, cw_src2_nib := RegNib3,
        cw_dst := DstX, cw_dst_nib := RegNib2\<rparr>)),
      (0x6F, Nib2Fork (cw\<lparr>cw_name := ''LD'', cw_exec := ClsUnified, cw_alu_op := OpLd,
        cw_width := WWord, cw_words := 2, cw_src2 := SrcReg, cw_src2_nib := RegNib3,
        cw_dst := DstDA\<rparr>) (cw\<lparr>cw_name := ''LD'', cw_exec := ClsUnified,
        cw_alu_op := OpLd, cw_width := WWord, cw_words := 2, cw_src2 := SrcReg, cw_src2_nib := RegNib3,
        cw_dst := DstX, cw_dst_nib := RegNib2\<rparr>))]"

text \<open>PUSH and POP.\<close>

definition rom_stack :: "(u16 \<times> RomEntry) list" where
  "rom_stack =
     [(0x93, Ctrl (cw\<lparr>cw_name := ''PUSH'', cw_exec := ClsStack,
        cw_stk_mode := StackPush\<rparr>)),
      (0x97, Ctrl (cw\<lparr>cw_name := ''POP'', cw_exec := ClsStack,
        cw_stk_mode := StackPop\<rparr>)),
      (0x91, Ctrl (cw\<lparr>cw_name := ''PUSHL'', cw_exec := ClsStack,
        cw_stk_mode := StackPushL\<rparr>)),
      (0x95, Ctrl (cw\<lparr>cw_name := ''POPL'', cw_exec := ClsStack,
        cw_stk_mode := StackPopL\<rparr>)),
      (0x13, Ctrl (cw\<lparr>cw_name := ''PUSH'', cw_exec := ClsStack, cw_stk_mode := StackPushSrc,
        cw_src2 := SrcIR\<rparr>)),
      (0x17, Ctrl (cw\<lparr>cw_name := ''POP'', cw_exec := ClsStack, cw_stk_mode := StackPopDst,
        cw_dst := DstIR\<rparr>)),
      (0x11, Ctrl (cw\<lparr>cw_name := ''PUSHL'', cw_exec := ClsStack,
        cw_stk_mode := StackPushLSrc, cw_src2 := SrcIR\<rparr>)),
      (0x15, Ctrl (cw\<lparr>cw_name := ''POPL'', cw_exec := ClsStack, cw_stk_mode := StackPopLDst,
        cw_dst := DstIR\<rparr>)),
      (0x53, Nib3Fork (cw\<lparr>cw_name := ''PUSH'', cw_exec := ClsStack,
        cw_stk_mode := StackPushSrc, cw_src2 := SrcDA, cw_words := 2\<rparr>)
        (cw\<lparr>cw_name := ''PUSH'', cw_exec := ClsStack, cw_stk_mode := StackPushSrc,
        cw_src2 := SrcX, cw_words := 2\<rparr>)),
      (0x57, Nib3Fork (cw\<lparr>cw_name := ''POP'', cw_exec := ClsStack,
        cw_stk_mode := StackPopDst, cw_dst := DstDA, cw_words := 2\<rparr>)
        (cw\<lparr>cw_name := ''POP'', cw_exec := ClsStack, cw_stk_mode := StackPopDst,
        cw_dst := DstX, cw_words := 2\<rparr>)),
      (0x51, Nib3Fork (cw\<lparr>cw_name := ''PUSHL'', cw_exec := ClsStack,
        cw_stk_mode := StackPushLSrc, cw_src2 := SrcDA, cw_words := 2\<rparr>)
        (cw\<lparr>cw_name := ''PUSHL'', cw_exec := ClsStack, cw_stk_mode := StackPushLSrc,
        cw_src2 := SrcX, cw_words := 2\<rparr>)),
      (0x55, Nib3Fork (cw\<lparr>cw_name := ''POPL'', cw_exec := ClsStack,
        cw_stk_mode := StackPopLDst, cw_dst := DstDA, cw_words := 2\<rparr>)
        (cw\<lparr>cw_name := ''POPL'', cw_exec := ClsStack, cw_stk_mode := StackPopLDst,
        cw_dst := DstX, cw_words := 2\<rparr>))]"

text \<open>JP, CALL and RET.\<close>

definition rom_branch :: "(u16 \<times> RomEntry) list" where
  "rom_branch =
     [(0x1E, Ctrl (cw\<lparr>cw_name := ''JP'', cw_exec := ClsBranch,
        cw_br_mode := BranchJP_IR\<rparr>)),
      (0x5E, Nib2Fork (cw\<lparr>cw_name := ''JP'', cw_exec := ClsBranch,
        cw_br_mode := BranchJP_DA, cw_words := 2\<rparr>) (cw\<lparr>cw_name := ''JP'',
        cw_exec := ClsBranch, cw_br_mode := BranchJP_X, cw_words := 2\<rparr>)),
      (0x1F, Ctrl (cw\<lparr>cw_name := ''CALL'', cw_exec := ClsBranch,
        cw_br_mode := BranchCALL_IR\<rparr>)),
      (0x5F, Nib2Fork (cw\<lparr>cw_name := ''CALL'', cw_exec := ClsBranch,
        cw_br_mode := BranchCALL_DA, cw_words := 2\<rparr>) (cw\<lparr>cw_name := ''CALL'',
        cw_exec := ClsBranch, cw_br_mode := BranchCALL_X, cw_words := 2\<rparr>)),
      (0x9E, Ctrl (cw\<lparr>cw_name := ''RET'', cw_exec := ClsBranch,
        cw_br_mode := BranchRET\<rparr>))]"

text \<open>Long ALU, multiply and divide on registers, the block groups, LDL.\<close>

definition rom_long_reg :: "(u16 \<times> RomEntry) list" where
  "rom_long_reg =
     [(0x90, Ctrl (cw\<lparr>cw_name := ''CPL'', cw_exec := ClsUnified, cw_alu_op := OpCp,
        cw_width := WLong, cw_src1_nib := RegNib3, cw_src2 := SrcReg, cw_src2_nib := RegNib2,
        cw_dst := DstNone, cw_dst_nib := RegNib3\<rparr>)),
      (0x92, Ctrl (cw\<lparr>cw_name := ''SUBL'', cw_exec := ClsUnified, cw_alu_op := OpSub,
        cw_width := WLong, cw_src1_nib := RegNib3, cw_src2 := SrcReg, cw_src2_nib := RegNib2,
        cw_dst := DstReg, cw_dst_nib := RegNib3\<rparr>)),
      (0x96, Ctrl (cw\<lparr>cw_name := ''ADDL'', cw_exec := ClsUnified, cw_alu_op := OpAdd,
        cw_width := WLong, cw_src1_nib := RegNib3, cw_src2 := SrcReg, cw_src2_nib := RegNib2,
        cw_dst := DstReg, cw_dst_nib := RegNib3\<rparr>)),
      (0x98, Ctrl (cw\<lparr>cw_name := ''MULTL'', cw_exec := ClsMul, cw_width := WLong,
        cw_src2 := SrcReg\<rparr>)),
      (0x99, Ctrl (cw\<lparr>cw_name := ''MULT'', cw_exec := ClsMul, cw_width := WWord,
        cw_src2 := SrcReg\<rparr>)),
      (0x9A, Ctrl (cw\<lparr>cw_name := ''DIVL'', cw_exec := ClsDiv, cw_width := WLong,
        cw_src2 := SrcReg\<rparr>)),
      (0x9B, Ctrl (cw\<lparr>cw_name := ''DIV'', cw_exec := ClsDiv, cw_width := WWord,
        cw_src2 := SrcReg\<rparr>)),
      (0x9C, Sub sub_9C),
      (0xBA, Sub sub_BA),
      (0xBB, Sub sub_BB),
      (0x3A, Sub sub_3A),
      (0x3B, Sub sub_3B),
      (0x94, Ctrl (cw\<lparr>cw_name := ''LDL'', cw_exec := ClsUnified, cw_alu_op := OpLd,
        cw_width := WLong, cw_src2 := SrcReg, cw_src2_nib := RegNib2, cw_dst := DstReg,
        cw_dst_nib := RegNib3\<rparr>)),
      (0x1D, Ctrl (cw\<lparr>cw_name := ''LDL'', cw_exec := ClsUnified, cw_alu_op := OpLd,
        cw_width := WLong, cw_src2 := SrcReg, cw_src2_nib := RegNib3, cw_dst := DstIR,
        cw_dst_nib := RegNib2\<rparr>))]"

text \<open>Long ALU with an immediate or a pointer register.\<close>

definition rom_long_imm :: "(u16 \<times> RomEntry) list" where
  "rom_long_imm = concat (map (\<lambda>(hi, nm, aop).
     (let d = (if aop = OpCp then DstNone else DstReg);
          z = cw\<lparr>cw_name := nm, cw_exec := ClsUnified, cw_alu_op := aop, cw_width := WLong,
            cw_words := 3, cw_src1_nib := RegNib3, cw_src2 := SrcImm, cw_dst := d,
            cw_dst_nib := RegNib3\<rparr>;
          nz = cw\<lparr>cw_name := nm, cw_exec := ClsUnified, cw_alu_op := aop, cw_width := WLong,
            cw_words := 1, cw_src1_nib := RegNib3, cw_src2 := SrcIR, cw_src2_nib := RegNib2, cw_dst := d,
            cw_dst_nib := RegNib3\<rparr>
      in [(hi, Nib2Fork z nz)]))
     [(0x10, ''CPL'', OpCp),
      (0x12, ''SUBL'', OpSub),
      (0x14, ''LDL'', OpLd),
      (0x16, ''ADDL'', OpAdd)])"

text \<open>Multiply and divide with an immediate or a pointer register, LDM, LD immediate.\<close>

definition rom_muldiv_imm :: "(u16 \<times> RomEntry) list" where
  "rom_muldiv_imm =
     [(0x18, Nib2Fork (cw\<lparr>cw_name := ''MULTL'', cw_exec := ClsMul, cw_width := WLong,
        cw_src2 := SrcImm, cw_words := 3\<rparr>) (cw\<lparr>cw_name := ''MULTL'', cw_exec := ClsMul,
        cw_width := WLong, cw_src2 := SrcIR, cw_src2_nib := RegNib2, cw_words := 1\<rparr>)),
      (0x19, Nib2Fork (cw\<lparr>cw_name := ''MULT'', cw_exec := ClsMul, cw_width := WWord,
        cw_src2 := SrcImm, cw_words := 2\<rparr>) (cw\<lparr>cw_name := ''MULT'', cw_exec := ClsMul,
        cw_width := WWord, cw_src2 := SrcIR, cw_src2_nib := RegNib2, cw_words := 1\<rparr>)),
      (0x1A, Nib2Fork (cw\<lparr>cw_name := ''DIVL'', cw_exec := ClsDiv, cw_width := WLong,
        cw_src2 := SrcImm, cw_words := 3\<rparr>) (cw\<lparr>cw_name := ''DIVL'', cw_exec := ClsDiv,
        cw_width := WLong, cw_src2 := SrcIR, cw_src2_nib := RegNib2, cw_words := 1\<rparr>)),
      (0x1B, Nib2Fork (cw\<lparr>cw_name := ''DIV'', cw_exec := ClsDiv, cw_width := WWord,
        cw_src2 := SrcImm, cw_words := 2\<rparr>) (cw\<lparr>cw_name := ''DIV'', cw_exec := ClsDiv,
        cw_width := WWord, cw_src2 := SrcIR, cw_src2_nib := RegNib2, cw_words := 1\<rparr>)),
      (0x1C, Sub sub_1C),
      (0x20, Nib2Fork (cw\<lparr>cw_name := ''LDB'', cw_exec := ClsUnified, cw_alu_op := OpLd,
        cw_width := WByte, cw_words := 2, cw_src2 := SrcImm, cw_dst := DstReg,
        cw_dst_nib := RegNib3\<rparr>) (cw\<lparr>cw_name := ''LDB'', cw_exec := ClsUnified,
        cw_alu_op := OpLd, cw_width := WByte, cw_words := 1, cw_src2 := SrcIR, cw_src2_nib := RegNib2,
        cw_dst := DstReg, cw_dst_nib := RegNib3\<rparr>)),
      (0x21, Nib2Fork (cw\<lparr>cw_name := ''LD'', cw_exec := ClsUnified, cw_alu_op := OpLd,
        cw_width := WWord, cw_words := 2, cw_src2 := SrcImm, cw_dst := DstReg,
        cw_dst_nib := RegNib3\<rparr>) (cw\<lparr>cw_name := ''LD'', cw_exec := ClsUnified,
        cw_alu_op := OpLd, cw_width := WWord, cw_words := 1, cw_src2 := SrcIR, cw_src2_nib := RegNib2,
        cw_dst := DstReg, cw_dst_nib := RegNib3\<rparr>))]"

text \<open>0x22-0x27 bit operations: dynamic for nib2 = 0, through a pointer otherwise.\<close>

definition rom_bit_ir :: "(u16 \<times> RomEntry) list" where
  "rom_bit_ir = concat (map (\<lambda>(hi, nm, aop, w, ro).
     (let dst = (if ro then DstFlagsOnly else DstIR);
          st = cw\<lparr>cw_name := nm, cw_exec := ClsUnified, cw_alu_op := aop, cw_width := w,
            cw_words := 1, cw_src2 := SrcIR, cw_src2_nib := RegNib2, cw_count := SrcNib3Bit,
            cw_dst := dst, cw_dst_nib := RegNib2\<rparr>;
          dy = cw\<lparr>cw_name := nm, cw_exec := ClsBitDynamic, cw_alu_op := aop, cw_width := w,
            cw_words := 2\<rparr>
      in [(hi, Nib2Fork dy st)]))
     [(0x22, ''RESB'', OpRes, WByte, False),
      (0x23, ''RES'', OpRes, WWord, False),
      (0x24, ''SETB'', OpSet, WByte, False),
      (0x25, ''SET'', OpSet, WWord, False),
      (0x26, ''BITB'', OpBit, WByte, True),
      (0x27, ''BIT'', OpBit, WWord, True)])"

text \<open>0x28-0x2B INC and DEC through a pointer.\<close>

definition rom_incdec_ir :: "(u16 \<times> RomEntry) list" where
  "rom_incdec_ir = concat (map (\<lambda>(hi, nm, aop, w).
     (let c = cw\<lparr>cw_name := nm, cw_exec := ClsUnified, cw_alu_op := aop, cw_width := w,
            cw_words := 1, cw_src2 := SrcIR, cw_src2_nib := RegNib2, cw_count := SrcNib3CntPlus1,
            cw_dst := DstIR, cw_dst_nib := RegNib2\<rparr>
      in [(hi, Ctrl c)]))
     [(0x28, ''INCB'', OpInc, WByte),
      (0x29, ''INC'', OpInc, WWord),
      (0x2A, ''DECB'', OpDec, WByte),
      (0x2B, ''DEC'', OpDec, WWord)])"

text \<open>EX, LDPS and I/O through a pointer register.\<close>

definition rom_ex_io_ir :: "(u16 \<times> RomEntry) list" where
  "rom_ex_io_ir =
     [(0x2C, Ctrl (cw\<lparr>cw_name := ''EXB'', cw_exec := ClsExchange, cw_width := WByte,
        cw_src2 := SrcIR\<rparr>)),
      (0x2D, Ctrl (cw\<lparr>cw_name := ''EX'', cw_exec := ClsExchange, cw_width := WWord,
        cw_src2 := SrcIR\<rparr>)),
      (0x39, Ctrl (cw\<lparr>cw_name := ''LDPS'', cw_exec := ClsLDPS, cw_src2 := SrcIR\<rparr>)),
      (0x3C, Ctrl (cw\<lparr>cw_name := ''INB'', cw_exec := ClsIO, cw_width := WByte,
        cw_src2 := SrcIR\<rparr>)),
      (0x3D, Ctrl (cw\<lparr>cw_name := ''IN'', cw_exec := ClsIO, cw_width := WWord,
        cw_src2 := SrcIR\<rparr>)),
      (0x3E, Ctrl (cw\<lparr>cw_name := ''OUTB'', cw_exec := ClsIO, cw_width := WByte,
        cw_src2 := SrcIR, cw_io_write := True\<rparr>)),
      (0x3F, Ctrl (cw\<lparr>cw_name := ''OUT'', cw_exec := ClsIO, cw_width := WWord,
        cw_src2 := SrcIR, cw_io_write := True\<rparr>)),
      (0x0C, Sub sub_0C),
      (0x0D, Sub sub_0D)]"

text \<open>PC-relative and based addressing, 0x30-0x37.\<close>

definition rom_relative :: "(u16 \<times> RomEntry) list" where
  "rom_relative =
     [(0x30, Nib2Fork (cw\<lparr>cw_name := ''LDB'', cw_exec := ClsUnified, cw_alu_op := OpLd,
        cw_width := WByte, cw_words := 2, cw_src2 := SrcPCRel, cw_dst := DstReg,
        cw_dst_nib := RegNib3\<rparr>) (cw\<lparr>cw_name := ''LDB'', cw_exec := ClsUnified,
        cw_alu_op := OpLd, cw_width := WByte, cw_words := 2, cw_src2 := SrcBased, cw_src2_nib := RegNib2,
        cw_dst := DstReg, cw_dst_nib := RegNib3\<rparr>)),
      (0x31, Nib2Fork (cw\<lparr>cw_name := ''LD'', cw_exec := ClsUnified, cw_alu_op := OpLd,
        cw_width := WWord, cw_words := 2, cw_src2 := SrcPCRel, cw_dst := DstReg,
        cw_dst_nib := RegNib3\<rparr>) (cw\<lparr>cw_name := ''LD'', cw_exec := ClsUnified,
        cw_alu_op := OpLd, cw_width := WWord, cw_words := 2, cw_src2 := SrcBased, cw_src2_nib := RegNib2,
        cw_dst := DstReg, cw_dst_nib := RegNib3\<rparr>)),
      (0x32, Nib2Fork (cw\<lparr>cw_name := ''LDB'', cw_exec := ClsUnified, cw_alu_op := OpLd,
        cw_width := WByte, cw_words := 2, cw_src2 := SrcReg, cw_src2_nib := RegNib3,
        cw_dst := DstPCRel\<rparr>) (cw\<lparr>cw_name := ''LDB'', cw_exec := ClsUnified,
        cw_alu_op := OpLd, cw_width := WByte, cw_words := 2, cw_src2 := SrcReg, cw_src2_nib := RegNib3,
        cw_dst := DstBased, cw_dst_nib := RegNib2\<rparr>)),
      (0x33, Nib2Fork (cw\<lparr>cw_name := ''LD'', cw_exec := ClsUnified, cw_alu_op := OpLd,
        cw_width := WWord, cw_words := 2, cw_src2 := SrcReg, cw_src2_nib := RegNib3,
        cw_dst := DstPCRel\<rparr>) (cw\<lparr>cw_name := ''LD'', cw_exec := ClsUnified,
        cw_alu_op := OpLd, cw_width := WWord, cw_words := 2, cw_src2 := SrcReg, cw_src2_nib := RegNib3,
        cw_dst := DstBased, cw_dst_nib := RegNib2\<rparr>)),
      (0x34, Nib2Fork (cw\<lparr>cw_name := ''LDAR'', cw_exec := ClsLEA, cw_src2 := SrcPCRel,
        cw_words := 2\<rparr>) (cw\<lparr>cw_name := ''LDA'', cw_exec := ClsLEA, cw_src2 := SrcBased,
        cw_src2_nib := RegNib2, cw_words := 2\<rparr>)),
      (0x35, Nib2Fork (cw\<lparr>cw_name := ''LDL'', cw_exec := ClsUnified, cw_alu_op := OpLd,
        cw_width := WLong, cw_words := 2, cw_src2 := SrcPCRel, cw_dst := DstReg,
        cw_dst_nib := RegNib3\<rparr>) (cw\<lparr>cw_name := ''LDL'', cw_exec := ClsUnified,
        cw_alu_op := OpLd, cw_width := WLong, cw_words := 2, cw_src2 := SrcBased, cw_src2_nib := RegNib2,
        cw_dst := DstReg, cw_dst_nib := RegNib3\<rparr>)),
      (0x37, Nib2Fork (cw\<lparr>cw_name := ''LDL'', cw_exec := ClsUnified, cw_alu_op := OpLd,
        cw_width := WLong, cw_words := 2, cw_src2 := SrcReg, cw_src2_nib := RegNib3,
        cw_dst := DstPCRel\<rparr>) (cw\<lparr>cw_name := ''LDL'', cw_exec := ClsUnified,
        cw_alu_op := OpLd, cw_width := WLong, cw_words := 2, cw_src2 := SrcReg, cw_src2_nib := RegNib3,
        cw_dst := DstBased, cw_dst_nib := RegNib2\<rparr>)),
      (0x4C, Sub sub_4C),
      (0x4D, Sub sub_4D)]"

text \<open>Long ALU with an address.\<close>

definition rom_long_addr :: "(u16 \<times> RomEntry) list" where
  "rom_long_addr = concat (map (\<lambda>(hi, nm, aop, d).
     (let z = cw\<lparr>cw_name := nm, cw_exec := ClsUnified, cw_alu_op := aop, cw_width := WLong,
            cw_words := 2, cw_src1_nib := RegNib3, cw_src2 := SrcDA, cw_dst := d,
            cw_dst_nib := RegNib3\<rparr>;
          nz = cw\<lparr>cw_name := nm, cw_exec := ClsUnified, cw_alu_op := aop, cw_width := WLong,
            cw_words := 2, cw_src1_nib := RegNib3, cw_src2 := SrcX, cw_src2_nib := RegNib2, cw_dst := d,
            cw_dst_nib := RegNib3\<rparr>
      in [(hi, Nib2Fork z nz)]))
     [(0x50, ''CPL'', OpCp, DstNone),
      (0x52, ''SUBL'', OpSub, DstReg),
      (0x54, ''LDL'', OpLd, DstReg),
      (0x56, ''ADDL'', OpAdd, DstReg)])"

text \<open>Multiply and divide with an address, LDM and TESTL, LDL store.\<close>

definition rom_muldiv_addr :: "(u16 \<times> RomEntry) list" where
  "rom_muldiv_addr =
     [(0x58, Nib2Fork (cw\<lparr>cw_name := ''MULTL'', cw_exec := ClsMul, cw_width := WLong,
        cw_src2 := SrcDA, cw_words := 2\<rparr>) (cw\<lparr>cw_name := ''MULTL'', cw_exec := ClsMul,
        cw_width := WLong, cw_src2 := SrcX, cw_src2_nib := RegNib2, cw_words := 2\<rparr>)),
      (0x59, Nib2Fork (cw\<lparr>cw_name := ''MULT'', cw_exec := ClsMul, cw_width := WWord,
        cw_src2 := SrcDA, cw_words := 2\<rparr>) (cw\<lparr>cw_name := ''MULT'', cw_exec := ClsMul,
        cw_width := WWord, cw_src2 := SrcX, cw_src2_nib := RegNib2, cw_words := 2\<rparr>)),
      (0x5A, Nib2Fork (cw\<lparr>cw_name := ''DIVL'', cw_exec := ClsDiv, cw_width := WLong,
        cw_src2 := SrcDA, cw_words := 2\<rparr>) (cw\<lparr>cw_name := ''DIVL'', cw_exec := ClsDiv,
        cw_width := WLong, cw_src2 := SrcX, cw_src2_nib := RegNib2, cw_words := 2\<rparr>)),
      (0x5B, Nib2Fork (cw\<lparr>cw_name := ''DIV'', cw_exec := ClsDiv, cw_width := WWord,
        cw_src2 := SrcDA, cw_words := 2\<rparr>) (cw\<lparr>cw_name := ''DIV'', cw_exec := ClsDiv,
        cw_width := WWord, cw_src2 := SrcX, cw_src2_nib := RegNib2, cw_words := 2\<rparr>)),
      (0x5C, Sub sub_5C),
      (0x5D, Nib2Fork (cw\<lparr>cw_name := ''LDL'', cw_exec := ClsUnified, cw_alu_op := OpLd,
        cw_width := WLong, cw_words := 2, cw_src2 := SrcReg, cw_src2_nib := RegNib3,
        cw_dst := DstDA\<rparr>) (cw\<lparr>cw_name := ''LDL'', cw_exec := ClsUnified,
        cw_alu_op := OpLd, cw_width := WLong, cw_words := 2, cw_src2 := SrcReg, cw_src2_nib := RegNib3,
        cw_dst := DstX, cw_dst_nib := RegNib2\<rparr>))]"

text \<open>Bit operations, INC and DEC with an address, 0x62-0x6B.\<close>

definition rom_bit_addr :: "(u16 \<times> RomEntry) list" where
  "rom_bit_addr = concat (map (\<lambda>(hi, nm, aop, w, ro).
     (let count = (if aop = OpInc \<or> aop = OpDec then SrcNib3CntPlus1 else SrcNib3Bit);
          dd = (if ro then DstFlagsOnly else DstDA);
          dx = (if ro then DstFlagsOnly else DstX);
          z = cw\<lparr>cw_name := nm, cw_exec := ClsUnified, cw_alu_op := aop, cw_width := w,
            cw_words := 2, cw_src2 := SrcDA, cw_src2_nib := RegNib2, cw_count := count, cw_dst := dd,
            cw_dst_nib := RegNib2\<rparr>;
          nz = cw\<lparr>cw_name := nm, cw_exec := ClsUnified, cw_alu_op := aop, cw_width := w,
            cw_words := 2, cw_src2 := SrcX, cw_src2_nib := RegNib2, cw_count := count, cw_dst := dx,
            cw_dst_nib := RegNib2\<rparr>
      in [(hi, Nib2Fork z nz)]))
     [(0x62, ''RESB'', OpRes, WByte, False),
      (0x63, ''RES'', OpRes, WWord, False),
      (0x64, ''SETB'', OpSet, WByte, False),
      (0x65, ''SET'', OpSet, WWord, False),
      (0x66, ''BITB'', OpBit, WByte, True),
      (0x67, ''BIT'', OpBit, WWord, True),
      (0x68, ''INCB'', OpInc, WByte, False),
      (0x69, ''INC'', OpInc, WWord, False),
      (0x6A, ''DECB'', OpDec, WByte, False),
      (0x6B, ''DEC'', OpDec, WWord, False)])"

text \<open>EX with an address, the based-indexed forms, LDPS, HALT and the 0x7B group.\<close>

definition rom_ex_bx :: "(u16 \<times> RomEntry) list" where
  "rom_ex_bx =
     [(0x6C, Nib2Fork (cw\<lparr>cw_name := ''EXB'', cw_exec := ClsExchange, cw_width := WByte,
        cw_src2 := SrcDA, cw_words := 2\<rparr>) (cw\<lparr>cw_name := ''EXB'',
        cw_exec := ClsExchange, cw_width := WByte, cw_src2 := SrcX, cw_src2_nib := RegNib2,
        cw_words := 2\<rparr>)),
      (0x6D, Nib2Fork (cw\<lparr>cw_name := ''EX'', cw_exec := ClsExchange, cw_width := WWord,
        cw_src2 := SrcDA, cw_words := 2\<rparr>) (cw\<lparr>cw_name := ''EX'', cw_exec := ClsExchange,
        cw_width := WWord, cw_src2 := SrcX, cw_src2_nib := RegNib2, cw_words := 2\<rparr>)),
      (0x70, Ctrl (cw\<lparr>cw_name := ''LDB'', cw_exec := ClsUnified, cw_alu_op := OpLd,
        cw_width := WByte, cw_src2 := SrcBX, cw_src2_nib := RegNib2, cw_dst := DstReg,
        cw_dst_nib := RegNib3, cw_words := 2\<rparr>)),
      (0x71, Ctrl (cw\<lparr>cw_name := ''LD'', cw_exec := ClsUnified, cw_alu_op := OpLd,
        cw_width := WWord, cw_src2 := SrcBX, cw_src2_nib := RegNib2, cw_dst := DstReg,
        cw_dst_nib := RegNib3, cw_words := 2\<rparr>)),
      (0x72, Ctrl (cw\<lparr>cw_name := ''LDB'', cw_exec := ClsUnified, cw_alu_op := OpLd,
        cw_width := WByte, cw_src2 := SrcReg, cw_src2_nib := RegNib3, cw_dst := DstBX,
        cw_dst_nib := RegNib2, cw_words := 2\<rparr>)),
      (0x73, Ctrl (cw\<lparr>cw_name := ''LD'', cw_exec := ClsUnified, cw_alu_op := OpLd,
        cw_width := WWord, cw_src2 := SrcReg, cw_src2_nib := RegNib3, cw_dst := DstBX,
        cw_dst_nib := RegNib2, cw_words := 2\<rparr>)),
      (0x74, Ctrl (cw\<lparr>cw_name := ''LDA'', cw_exec := ClsLEA, cw_src2 := SrcBX,
        cw_src2_nib := RegNib2, cw_words := 2\<rparr>)),
      (0x75, Ctrl (cw\<lparr>cw_name := ''LDL'', cw_exec := ClsUnified, cw_alu_op := OpLd,
        cw_width := WLong, cw_src2 := SrcBX, cw_src2_nib := RegNib2, cw_dst := DstReg,
        cw_dst_nib := RegNib3, cw_words := 2\<rparr>)),
      (0x76, Nib2Fork (cw\<lparr>cw_name := ''LDA'', cw_exec := ClsLEA, cw_src2 := SrcDA,
        cw_words := 2\<rparr>) (cw\<lparr>cw_name := ''LDA'', cw_exec := ClsLEA, cw_src2 := SrcX,
        cw_src2_nib := RegNib2, cw_words := 2\<rparr>)),
      (0x77, Ctrl (cw\<lparr>cw_name := ''LDL'', cw_exec := ClsUnified, cw_alu_op := OpLd,
        cw_width := WLong, cw_src2 := SrcReg, cw_src2_nib := RegNib3, cw_dst := DstBX,
        cw_dst_nib := RegNib2, cw_words := 2\<rparr>)),
      (0x79, Ctrl (cw\<lparr>cw_name := ''LDPS'', cw_exec := ClsLDPS, cw_src2 := SrcDA,
        cw_words := 2\<rparr>)),
      (0x7A, Ctrl (cw\<lparr>cw_name := ''HALT'', cw_exec := ClsHalt\<rparr>)),
      (0x7B, Sub sub_7B)]"

text \<open>DI/EI, LDCTL and SC.\<close>

definition rom_sc :: "(u16 \<times> RomEntry) list" where
  "rom_sc =
     [(0x7C, Sub sub_7C),
      (0x7D, Sub sub_7D),
      (0x7F, Ctrl (cw\<lparr>cw_name := ''SC'', cw_exec := ClsSysCall\<rparr>))]"

text \<open>Bit operations on a register, 0xA2-0xA7.\<close>

definition rom_bit_reg :: "(u16 \<times> RomEntry) list" where
  "rom_bit_reg = concat (map (\<lambda>(hi, nm, aop, w).
     (let c = cw\<lparr>cw_name := nm, cw_exec := ClsUnified, cw_alu_op := aop, cw_width := w,
            cw_src1_nib := RegNib2, cw_src2 := SrcNib3Bit, cw_dst := (if aop = OpBit then DstNone else
            DstReg), cw_dst_nib := RegNib2\<rparr>
      in [(hi, Ctrl c)]))
     [(0xA2, ''RESB'', OpRes, WByte),
      (0xA3, ''RES'', OpRes, WWord),
      (0xA4, ''SETB'', OpSet, WByte),
      (0xA5, ''SET'', OpSet, WWord),
      (0xA6, ''BITB'', OpBit, WByte),
      (0xA7, ''BIT'', OpBit, WWord)])"

text \<open>INC and DEC on a register, 0xA8-0xAB.\<close>

definition rom_incdec_reg :: "(u16 \<times> RomEntry) list" where
  "rom_incdec_reg = concat (map (\<lambda>(hi, nm, aop, w).
     (let c = cw\<lparr>cw_name := nm, cw_exec := ClsUnified, cw_alu_op := aop, cw_width := w,
            cw_src1_nib := RegNib2, cw_src2 := SrcNib3CntPlus1, cw_dst := DstReg,
            cw_dst_nib := RegNib2\<rparr>
      in [(hi, Ctrl c)]))
     [(0xA8, ''INCB'', OpInc, WByte),
      (0xA9, ''INC'', OpInc, WWord),
      (0xAA, ''DECB'', OpDec, WByte),
      (0xAB, ''DEC'', OpDec, WWord)])"

text \<open>Exchange, TCC, DAB, extensions, rotates, ADC/SBC, translate, LDK.\<close>

definition rom_misc_reg :: "(u16 \<times> RomEntry) list" where
  "rom_misc_reg =
     [(0xAC, Ctrl (cw\<lparr>cw_name := ''EXB'', cw_exec := ClsExchange,
        cw_width := WByte\<rparr>)),
      (0xAD, Ctrl (cw\<lparr>cw_name := ''EX'', cw_exec := ClsExchange, cw_width := WWord\<rparr>)),
      (0xAE, Ctrl (cw\<lparr>cw_name := ''TCCB'', cw_exec := ClsTCC, cw_width := WByte\<rparr>)),
      (0xAF, Ctrl (cw\<lparr>cw_name := ''TCC'', cw_exec := ClsTCC, cw_width := WWord\<rparr>)),
      (0xB0, Ctrl (cw\<lparr>cw_name := ''DAB'', cw_exec := ClsDAB\<rparr>)),
      (0xB1, Sub sub_B1),
      (0xB2, Sub sub_B2),
      (0xB3, Sub sub_B3),
      (0xB4, Ctrl (mk_reg ''ADCB'' OpAdc WByte)),
      (0xB5, Ctrl (mk_reg ''ADC'' OpAdc WWord)),
      (0xB6, Ctrl (mk_reg ''SBCB'' OpSbc WByte)),
      (0xB7, Ctrl (mk_reg ''SBC'' OpSbc WWord)),
      (0xB8, Sub sub_B8),
      (0xBC, Ctrl (cw\<lparr>cw_name := ''RRDB'', cw_exec := ClsBCDRotate,
        cw_alu_op := OpRr\<rparr>)),
      (0xBD, Ctrl (cw\<lparr>cw_name := ''LDK'', cw_exec := ClsUnified, cw_alu_op := OpLd,
        cw_width := WWord, cw_src2 := SrcNib3Bit, cw_dst := DstReg, cw_dst_nib := RegNib2\<rparr>)),
      (0xBE, Ctrl (cw\<lparr>cw_name := ''RLDB'', cw_exec := ClsBCDRotate,
        cw_alu_op := OpRl\<rparr>))]"

text \<open>The four rows of sixteen, 0xC0-0xFF.\<close>

definition rom_rows :: "(u16 \<times> RomEntry) list" where
  "rom_rows =
     map (\<lambda>hi. (hi, Ctrl (cw\<lparr>cw_name := ''LDB'', cw_exec := ClsUnified, cw_alu_op := OpLd, cw_width := WByte,
          cw_src2 := SrcOpLoByte, cw_dst := DstReg, cw_dst_nib := RegNib1\<rparr>)))
        [0xC0, 0xC1, 0xC2, 0xC3, 0xC4, 0xC5, 0xC6, 0xC7,
         0xC8, 0xC9, 0xCA, 0xCB, 0xCC, 0xCD, 0xCE, 0xCF]
     @ map (\<lambda>hi. (hi, Ctrl (cw\<lparr>cw_name := ''CALR'', cw_exec := ClsBranch, cw_br_mode := BranchCALR12\<rparr>)))
        [0xD0, 0xD1, 0xD2, 0xD3, 0xD4, 0xD5, 0xD6, 0xD7,
         0xD8, 0xD9, 0xDA, 0xDB, 0xDC, 0xDD, 0xDE, 0xDF]
     @ map (\<lambda>hi. (hi, Ctrl (cw\<lparr>cw_name := ''JR'', cw_exec := ClsBranch, cw_br_mode := BranchJR\<rparr>)))
        [0xE0, 0xE1, 0xE2, 0xE3, 0xE4, 0xE5, 0xE6, 0xE7,
         0xE8, 0xE9, 0xEA, 0xEB, 0xEC, 0xED, 0xEE, 0xEF]
     @ map (\<lambda>hi. (hi, Ctrl (cw\<lparr>cw_name := ''DJNZ'', cw_exec := ClsBranch, cw_br_mode := BranchDJNZ\<rparr>)))
        [0xF0, 0xF1, 0xF2, 0xF3, 0xF4, 0xF5, 0xF6, 0xF7,
         0xF8, 0xF9, 0xFA, 0xFB, 0xFC, 0xFD, 0xFE, 0xFF]"

text \<open>\<open>decode_init\<close> runs its blocks in this order; a later assignment to a slot replaces an
  earlier one.\<close>

definition rom_blocks :: "(u16 \<times> RomEntry) list list" where
  "rom_blocks =
     [rom_alu_reg, rom_alu_immir, rom_ld_reg, rom_alu_dax, rom_ld_store, rom_stack,
        rom_branch, rom_long_reg, rom_long_imm, rom_muldiv_imm, rom_bit_ir, rom_incdec_ir,
        rom_ex_io_ir, rom_relative, rom_long_addr, rom_muldiv_addr, rom_bit_addr, rom_ex_bx,
        rom_sc, rom_bit_reg, rom_incdec_reg, rom_misc_reg, rom_rows]"

definition rom :: "u16 \<Rightarrow> RomEntry" where
  "rom hi = (case map_of (rev (concat rom_blocks)) hi of Some e \<Rightarrow> e | None \<Rightarrow> NoEntry)"

text \<open>The generic forks \<open>sub_immir\<close>, \<open>sub_dax\<close>, \<open>sub_nib2fork\<close> and \<open>sub_nib3fork\<close> read the pair
  stored for the slot.\<close>

fun sub_decode :: "RomEntry \<Rightarrow> u16 \<Rightarrow> (nat \<Rightarrow> u16) \<Rightarrow> nat \<Rightarrow> CtrlWord option" where
  "sub_decode (Ctrl c) op w n = Some c"
| "sub_decode (ImmIr a b) op w n = Some (if NIB2 op = 0 then a else b)"
| "sub_decode (DaX a b) op w n = Some (if NIB2 op = 0 then a else b)"
| "sub_decode (Nib2Fork a b) op w n = Some (if NIB2 op = 0 then a else b)"
| "sub_decode (Nib3Fork a b) op w n = Some (if NIB3 op = 0 then a else b)"
| "sub_decode (Sub f) op w n = f op w n"
| "sub_decode NoEntry op w n = None"

definition decode_lookup :: "u16 \<Rightarrow> (nat \<Rightarrow> u16) \<Rightarrow> nat \<Rightarrow> bool \<Rightarrow> CtrlWord option" where
  "decode_lookup op0 words navail segmented =
     (case sub_decode (rom (drop_bit 8 op0)) op0 words navail of
        None \<Rightarrow> None
      | Some c \<Rightarrow> if cw_valid c then Some c else None)"

subsection \<open>Instruction length\<close>

definition decode_length_compute :: "u16 \<Rightarrow> bool \<Rightarrow> nat" where
  "decode_length_compute op segmented =
     (let hi = drop_bit 8 op; lo = op AND 0xFF; n2 = drop_bit 4 lo AND 0x0F;
          aw = (if segmented then 2 else 1); l = lo AND 0x0F
      in if hi \<le> 0x0B then (if n2 = 0 then 2 else 1)
         else if hi = 0x0C \<or> hi = 0x0D then (if l = 0x01 \<or> l = 0x05 \<or> l = 0x09 then 2 else 1)
         else if hi = 0x0E \<or> hi = 0x0F then 1
         else if 0x10 \<le> hi \<and> hi \<le> 0x17
           then (if n2 = 0 \<and> (hi = 0x10 \<or> hi = 0x12 \<or> hi = 0x14 \<or> hi = 0x16) then 3 else 1)
         else if hi = 0x18 then (if n2 = 0 then 3 else 1)
         else if hi = 0x19 then (if n2 = 0 then 2 else 1)
         else if hi = 0x1A then (if n2 = 0 then 3 else 1)
         else if hi = 0x1B then (if n2 = 0 then 2 else 1)
         else if hi = 0x1C then (if l = 0x01 \<or> l = 0x09 then 2 else 1)
         else if hi = 0x1D \<or> hi = 0x1E \<or> hi = 0x1F then 1
         else if hi = 0x20 \<or> hi = 0x21 then (if n2 = 0 then 2 else 1)
         else if 0x22 \<le> hi \<and> hi \<le> 0x27 then (if n2 = 0 then 2 else 1)
         else if 0x28 \<le> hi \<and> hi \<le> 0x2B then 1
         else if 0x2C \<le> hi \<and> hi \<le> 0x2F then 1
         else if 0x30 \<le> hi \<and> hi \<le> 0x37 then 2
         else if hi = 0x38 then 1
         else if hi = 0x39 then 1
         else if hi = 0x3A \<or> hi = 0x3B then 2
         else if 0x3C \<le> hi \<and> hi \<le> 0x3F then 1
         else if 0x40 \<le> hi \<and> hi \<le> 0x6F then
           (if (hi = 0x4C \<or> hi = 0x4D) \<and> (l = 0x01 \<or> l = 0x05 \<or> l = 0x09) then 1 + aw + 1
            else if hi = 0x5C \<and> (l = 0x01 \<or> l = 0x09) then 1 + aw + 1
            else 1 + aw)
         else if 0x70 \<le> hi \<and> hi \<le> 0x77 then 1 + aw
         else if hi = 0x78 then 1
         else if hi = 0x79 then 1 + aw
         else if hi = 0x7A \<or> hi = 0x7B \<or> hi = 0x7C \<or> hi = 0x7D \<or> hi = 0x7E \<or> hi = 0x7F then 1
         else if hi = 0x8E \<or> hi = 0x8F then 2
         else if 0x80 \<le> hi \<and> hi \<le> 0x8F then 1
         else if 0x90 \<le> hi \<and> hi \<le> 0x9F then 1
         else if 0xA0 \<le> hi \<and> hi \<le> 0xAF then 1
         else if 0xB0 \<le> hi \<and> hi \<le> 0xBF then
           (if (hi = 0xB2 \<or> hi = 0xB3)
               \<and> (l = 0x01 \<or> l = 0x03 \<or> l = 0x05 \<or> l = 0x07 \<or> l = 0x09 \<or> l = 0x0B \<or> l = 0x0D \<or> l = 0x0F)
            then 2
            else if hi = 0xB8 \<or> hi = 0xBA \<or> hi = 0xBB then 2
            else 1)
         else 1)"

text \<open>\<open>decode_length\<close> reads the table that \<open>decode_init\<close> fills with \<open>decode_length_compute\<close>.\<close>

definition decode_length :: "u16 \<Rightarrow> bool \<Rightarrow> nat" where
  "decode_length op segmented = decode_length_compute op segmented"

definition seg_addr_w1 :: "u16 \<Rightarrow> bool \<Rightarrow> bool" where
  "seg_addr_w1 op segmented =
     (if \<not> segmented then False
      else (let hi = drop_bit 8 op; l = op AND 0x0F
            in if hi = 0x5C \<and> (l = 0x01 \<or> l = 0x09) then False
               else (0x40 \<le> hi \<and> hi \<le> 0x6F) \<or> (0x70 \<le> hi \<and> hi \<le> 0x77) \<or> hi = 0x79))"

definition seg_addr_w2 :: "u16 \<Rightarrow> bool \<Rightarrow> bool" where
  "seg_addr_w2 op segmented =
     (if \<not> segmented then False
      else if drop_bit 8 op \<noteq> 0x5C then False
      else (let l = op AND 0x0F in l = 0x01 \<or> l = 0x09))"

end
