(* ===== verification/Decode_Lemmas.thy ===== *)
theory Decode_Lemmas
  imports Decode
begin

text \<open>
  Facts on the decode table of \<open>src/src/decode.c\<close>, block by block: the length field of every
  control word against the length computation, the flag masks of the flag instructions, and
  which sub-decoders wait for further words.
\<close>

subsection \<open>The length computation, by byte and nibbles\<close>

definition len_hi :: "u16 \<Rightarrow> u16 \<Rightarrow> u16 \<Rightarrow> nat \<Rightarrow> nat" where
  "len_hi hi n2 l aw =
     (if hi \<le> 0x0B then (if n2 = 0 then 2 else 1)
      else if hi = 0x0C \<or> hi = 0x0D then (if l = 0x01 \<or> l = 0x05 \<or> l = 0x09 then 2 else 1)
      else if hi = 0x0E \<or> hi = 0x0F then 1
      else if 0x10 \<le> hi \<and> hi \<le> 0x17
        then (if n2 = 0 \<and> (hi = 0x10 \<or> hi = 0x12 \<or> hi = 0x14 \<or> hi = 0x16) then 3 else 1)
      else if hi = 0x18 then (if n2 = 0 then 3 else 1)
      else if hi = 0x19 then (if n2 = 0 then 2 else 1)
      else if hi = 0x1A then (if n2 = 0 then 3 else 1)
      else if hi = 0x1B then (if n2 = 0 then 2 else 1)
      else if hi = 0x1C then (if l = 0x01 \<or> l = 0x09 then 2 else 1)
      else if hi = 0x1D \<or> hi = 0x1E \<or> hi = 0x1F then 1
      else if hi = 0x20 \<or> hi = 0x21 then (if n2 = 0 then 2 else 1)
      else if 0x22 \<le> hi \<and> hi \<le> 0x27 then (if n2 = 0 then 2 else 1)
      else if 0x28 \<le> hi \<and> hi \<le> 0x2B then 1
      else if 0x2C \<le> hi \<and> hi \<le> 0x2F then 1
      else if 0x30 \<le> hi \<and> hi \<le> 0x37 then 2
      else if hi = 0x38 then 1
      else if hi = 0x39 then 1
      else if hi = 0x3A \<or> hi = 0x3B then 2
      else if 0x3C \<le> hi \<and> hi \<le> 0x3F then 1
      else if 0x40 \<le> hi \<and> hi \<le> 0x6F then
        (if (hi = 0x4C \<or> hi = 0x4D) \<and> (l = 0x01 \<or> l = 0x05 \<or> l = 0x09) then 1 + aw + 1
         else if hi = 0x5C \<and> (l = 0x01 \<or> l = 0x09) then 1 + aw + 1
         else 1 + aw)
      else if 0x70 \<le> hi \<and> hi \<le> 0x77 then 1 + aw
      else if hi = 0x78 then 1
      else if hi = 0x79 then 1 + aw
      else if hi = 0x7A \<or> hi = 0x7B \<or> hi = 0x7C \<or> hi = 0x7D \<or> hi = 0x7E \<or> hi = 0x7F then 1
      else if hi = 0x8E \<or> hi = 0x8F then 2
      else if 0x80 \<le> hi \<and> hi \<le> 0x8F then 1
      else if 0x90 \<le> hi \<and> hi \<le> 0x9F then 1
      else if 0xA0 \<le> hi \<and> hi \<le> 0xAF then 1
      else if 0xB0 \<le> hi \<and> hi \<le> 0xBF then
        (if (hi = 0xB2 \<or> hi = 0xB3)
            \<and> (l = 0x01 \<or> l = 0x03 \<or> l = 0x05 \<or> l = 0x07 \<or> l = 0x09 \<or> l = 0x0B \<or> l = 0x0D \<or> l = 0x0F)
         then 2
         else if hi = 0xB8 \<or> hi = 0xBA \<or> hi = 0xBB then 2
         else 1)
      else 1)"

lemma nibbles_of_low:
  "drop_bit 4 (op AND 0xFF) AND 0x0F = NIB2 op" "(op AND 0xFF) AND 0x0F = NIB3 op"
  for op :: u16
  unfolding NIB2_def NIB3_def
  by (rule bit_word_eqI, auto simp: bit_simps bit_byte_masks)+

lemma nib_range: "NIB2 op < 16" "NIB3 op < 16"
proof -
  have "x AND 0x0F < 16" for x :: u16
  proof -
    have "x AND 0x0F = take_bit 4 x" by (simp add: take_bit_eq_mask mask_eq_exp_minus_1)
    then show ?thesis by (simp add: word_less_def take_bit_eq_mod uint_mod)
  qed
  then show "NIB2 op < 16" "NIB3 op < 16" by (simp_all add: NIB2_def NIB3_def)
qed

lemma nib_cases:
  fixes l :: u16
  assumes "l < 16"
  obtains "l = 0" | "l = 1" | "l = 2" | "l = 3" | "l = 4" | "l = 5" | "l = 6" | "l = 7"
    | "l = 8" | "l = 9" | "l = 10" | "l = 11" | "l = 12" | "l = 13" | "l = 14" | "l = 15"
proof -
  have "[0..<16] = [0, 1, 2, 3, 4, 5, 6, 7, 8, 9, 10, 11, 12, 13, 14, 15 :: nat]" by (simp add: upt_rec)
  moreover have "unat l \<in> set [0..<16]" using assms by (simp add: word_less_nat_alt)
  ultimately have "unat l \<in> {0, 1, 2, 3, 4, 5, 6, 7, 8, 9, 10, 11, 12, 13, 14, 15}" by simp
  then show ?thesis using that by (auto simp: word_unat_eq_iff)
qed

lemma decode_length_hi:
  "decode_length op segmented = len_hi (drop_bit 8 op) (NIB2 op) (NIB3 op) (if segmented then 2 else 1)"
  by (simp only: decode_length_def decode_length_compute_def Let_def nibbles_of_low len_hi_def)

lemma if_range:
  fixes a b :: nat
  assumes "m \<le> a \<and> a \<le> k" "m \<le> b \<and> b \<le> k"
  shows "m \<le> (if c then a else b) \<and> (if c then a else b) \<le> k"
  using assms by simp

lemma len_hi_bounds:
  assumes "1 \<le> aw" "aw \<le> 2"
  shows "1 \<le> len_hi hi n2 l aw \<and> len_hi hi n2 l aw \<le> 4"
  unfolding len_hi_def by (intro if_range) (use assms in simp_all)

text \<open>Only the address families depend on the mode, and by one word.\<close>

lemma len_hi_segmented:
  "len_hi hi n2 l 2 = len_hi hi n2 l 1 + (if 0x40 \<le> hi \<and> hi \<le> 0x77 \<or> hi = 0x79 then 1 else 0)"
proof -
  define h where "h = unat hi"
  have le: "hi \<le> x \<longleftrightarrow> h \<le> unat x" "x \<le> hi \<longleftrightarrow> unat x \<le> h"
    "hi = x \<longleftrightarrow> h = unat x" for x
    by (simp_all add: h_def word_le_nat_alt word_unat_eq_iff)
  consider "h < 0x40" | "0x40 \<le> h" "h \<le> 0x77" | "0x77 < h" "h \<noteq> 0x79" | "h = 0x79" by linarith
  then show ?thesis
    unfolding len_hi_def le by cases simp_all
qed

subsection \<open>What the table holds\<close>

text \<open>A control word of the given length that carries no privilege mark, whose flag mask spares the
  mode bits of the FCW (every bit above the flags, for a toggle) and whose increments are byte or
  word operations.\<close>

definition cw_ok :: "nat \<Rightarrow> CtrlWord \<Rightarrow> bool" where
  "cw_ok n c \<longleftrightarrow> cw_words c = n \<and> cw_valid c \<and> \<not> cw_priv c
     \<and> cw_fcw_mask c AND (FCW_SEG OR FCW_SN OR FCW_EPA) = 0
     \<and> (cw_alu_op c = OpInc \<or> cw_alu_op c = OpDec \<longrightarrow> cw_width c \<noteq> WLong)
     \<and> (cw_fcw_op c = FcwToggle \<longrightarrow> cw_fcw_mask c AND 0xFF00 = 0)"

text \<open>The words of a control word: the unsegmented length, except for the immediate forms
  of the 0x4C and 0x4D groups, which the table records one word short.\<close>

definition table_words :: "u16 \<Rightarrow> u16 \<Rightarrow> u16 \<Rightarrow> nat" where
  "table_words hi n2 l =
     (if (hi = 0x4C \<or> hi = 0x4D) \<and> (l = 1 \<or> l = 5) then 2 else len_hi hi n2 l 1)"

text \<open>The slots that hold a sub-decoder.\<close>

definition sub_slots :: "(u16 \<times> (u16 \<Rightarrow> (nat \<Rightarrow> u16) \<Rightarrow> nat \<Rightarrow> CtrlWord option)) list" where
  "sub_slots =
     [(0x8C, sub_8C), (0x8D, sub_8D), (0x9C, sub_9C), (0xBA, sub_BA), (0xBB, sub_BB),
      (0x3A, sub_3A), (0x3B, sub_3B), (0x1C, sub_1C), (0x0C, sub_0C), (0x0D, sub_0D),
      (0x4C, sub_4C), (0x4D, sub_4D), (0x5C, sub_5C), (0x7B, sub_7B), (0x7C, sub_7C),
      (0x7D, sub_7D), (0xB1, sub_B1), (0xB2, sub_B2), (0xB3, sub_B3), (0xB8, sub_B8)]"

definition entry_ok :: "u16 \<Rightarrow> u16 \<Rightarrow> u16 \<times> RomEntry \<Rightarrow> bool" where
  "entry_ok n2 l = (\<lambda>(hi, e). case e of
      Ctrl c \<Rightarrow> cw_ok (table_words hi n2 l) c
    | ImmIr a b \<Rightarrow> cw_ok (table_words hi n2 l) (if n2 = 0 then a else b)
    | DaX a b \<Rightarrow> cw_ok (table_words hi n2 l) (if n2 = 0 then a else b)
    | Nib2Fork a b \<Rightarrow> cw_ok (table_words hi n2 l) (if n2 = 0 then a else b)
    | Nib3Fork a b \<Rightarrow> cw_ok (table_words hi n2 l) (if l = 0 then a else b)
    | Sub f \<Rightarrow> (hi, f) \<in> set sub_slots
    | NoEntry \<Rightarrow> True)"

lemmas block_simps = entry_ok_def sub_slots_def cw_ok_def table_words_def len_hi_def mk_reg_def cw_def

lemma rom_alu_reg_ok: "list_all (entry_ok n2 l) rom_alu_reg"
  by (simp add: rom_alu_reg_def block_simps)

lemma rom_alu_immir_ok: "list_all (entry_ok n2 l) rom_alu_immir"
  by (simp add: rom_alu_immir_def block_simps)

lemma rom_ld_reg_ok: "list_all (entry_ok n2 l) rom_ld_reg"
  by (simp add: rom_ld_reg_def block_simps)

lemma rom_alu_dax_ok: "list_all (entry_ok n2 l) rom_alu_dax"
  by (simp add: rom_alu_dax_def block_simps)

lemma rom_ld_store_ok: "list_all (entry_ok n2 l) rom_ld_store"
  by (simp add: rom_ld_store_def block_simps)

lemma rom_stack_ok: "list_all (entry_ok n2 l) rom_stack"
  by (simp add: rom_stack_def block_simps)

lemma rom_branch_ok: "list_all (entry_ok n2 l) rom_branch"
  by (simp add: rom_branch_def block_simps)

lemma rom_long_reg_ok: "list_all (entry_ok n2 l) rom_long_reg"
  by (simp add: rom_long_reg_def block_simps)

lemma rom_long_imm_ok: "list_all (entry_ok n2 l) rom_long_imm"
  by (simp add: rom_long_imm_def block_simps)

lemma rom_muldiv_imm_ok: "list_all (entry_ok n2 l) rom_muldiv_imm"
  by (simp add: rom_muldiv_imm_def block_simps)

lemma rom_bit_ir_ok: "list_all (entry_ok n2 l) rom_bit_ir"
  by (simp add: rom_bit_ir_def block_simps)

lemma rom_incdec_ir_ok: "list_all (entry_ok n2 l) rom_incdec_ir"
  by (simp add: rom_incdec_ir_def block_simps)

lemma rom_ex_io_ir_ok: "list_all (entry_ok n2 l) rom_ex_io_ir"
  by (simp add: rom_ex_io_ir_def block_simps)

lemma rom_relative_ok: "list_all (entry_ok n2 l) rom_relative"
  by (simp add: rom_relative_def block_simps)

lemma rom_long_addr_ok: "list_all (entry_ok n2 l) rom_long_addr"
  by (simp add: rom_long_addr_def block_simps)

lemma rom_muldiv_addr_ok: "list_all (entry_ok n2 l) rom_muldiv_addr"
  by (simp add: rom_muldiv_addr_def block_simps)

lemma rom_bit_addr_ok: "list_all (entry_ok n2 l) rom_bit_addr"
  by (simp add: rom_bit_addr_def block_simps)

lemma rom_ex_bx_ok: "list_all (entry_ok n2 l) rom_ex_bx"
  by (simp add: rom_ex_bx_def block_simps)

lemma rom_sc_ok: "list_all (entry_ok n2 l) rom_sc"
  by (simp add: rom_sc_def block_simps)

lemma rom_bit_reg_ok: "list_all (entry_ok n2 l) rom_bit_reg"
  by (simp add: rom_bit_reg_def block_simps)

lemma rom_incdec_reg_ok: "list_all (entry_ok n2 l) rom_incdec_reg"
  by (simp add: rom_incdec_reg_def block_simps)

lemma rom_misc_reg_ok: "list_all (entry_ok n2 l) rom_misc_reg"
  by (simp add: rom_misc_reg_def block_simps)

lemma table_words_row: "0xC0 \<le> hi \<Longrightarrow> table_words hi n2 l = 1"
proof -
  define h where "h = unat hi"
  have le: "hi \<le> x \<longleftrightarrow> h \<le> unat x" "x \<le> hi \<longleftrightarrow> unat x \<le> h"
    "hi = x \<longleftrightarrow> h = unat x" for x
    by (simp_all add: h_def word_le_nat_alt word_unat_eq_iff)
  show "0xC0 \<le> hi \<Longrightarrow> table_words hi n2 l = 1"
    unfolding table_words_def len_hi_def le by simp
qed

lemma rom_rows_ok: "list_all (entry_ok n2 l) rom_rows"
  by (simp add: rom_rows_def entry_ok_def table_words_row cw_ok_def cw_def)

lemma rom_table_ok: "list_all (entry_ok n2 l) (concat rom_blocks)"
  by (simp add: rom_blocks_def
      rom_alu_reg_ok rom_alu_immir_ok rom_ld_reg_ok rom_alu_dax_ok rom_ld_store_ok
      rom_stack_ok rom_branch_ok rom_long_reg_ok rom_long_imm_ok rom_muldiv_imm_ok
      rom_bit_ir_ok rom_incdec_ir_ok rom_ex_io_ir_ok rom_relative_ok rom_long_addr_ok
      rom_muldiv_addr_ok rom_bit_addr_ok rom_ex_bx_ok rom_sc_ok rom_bit_reg_ok
      rom_incdec_reg_ok rom_misc_reg_ok rom_rows_ok)

lemma rom_entry_ok:
  assumes "rom hi \<noteq> NoEntry"
  shows "entry_ok n2 l (hi, rom hi)"
proof -
  obtain e where e: "map_of (rev (concat rom_blocks)) hi = Some e" "rom hi = e"
    using assms by (auto simp: rom_def split: option.splits)
  then have "(hi, e) \<in> set (concat rom_blocks)"
    by (metis map_of_SomeD set_rev)
  then show ?thesis
    using rom_table_ok[of n2 l] e(2) unfolding list_all_iff by blast
qed

subsection \<open>One entry per slot\<close>

lemma rom_alu_reg_keys: "map (uint \<circ> fst) rom_alu_reg =
     [0x80, 0x81, 0x82, 0x83, 0x84, 0x85, 0x86, 0x87, 0x88, 0x89, 0x8A, 0x8B]"
  by (simp add: rom_alu_reg_def)

lemma rom_alu_immir_keys: "map (uint \<circ> fst) rom_alu_immir =
     [0x00, 0x01, 0x02, 0x03, 0x04, 0x05, 0x06, 0x07, 0x08, 0x09, 0x0A, 0x0B]"
  by (simp add: rom_alu_immir_def)

lemma rom_ld_reg_keys: "map (uint \<circ> fst) rom_ld_reg =
     [0xA0, 0xA1, 0x8C, 0x8D]"
  by (simp add: rom_ld_reg_def)

lemma rom_alu_dax_keys: "map (uint \<circ> fst) rom_alu_dax =
     [0x40, 0x41, 0x42, 0x43, 0x44, 0x45, 0x46, 0x47, 0x48, 0x49, 0x4A, 0x4B]"
  by (simp add: rom_alu_dax_def)

lemma rom_ld_store_keys: "map (uint \<circ> fst) rom_ld_store =
     [0x60, 0x61, 0x2E, 0x2F, 0x6E, 0x6F]"
  by (simp add: rom_ld_store_def)

lemma rom_stack_keys: "map (uint \<circ> fst) rom_stack =
     [0x93, 0x97, 0x91, 0x95, 0x13, 0x17, 0x11, 0x15, 0x53, 0x57, 0x51, 0x55]"
  by (simp add: rom_stack_def)

lemma rom_branch_keys: "map (uint \<circ> fst) rom_branch =
     [0x1E, 0x5E, 0x1F, 0x5F, 0x9E]"
  by (simp add: rom_branch_def)

lemma rom_long_reg_keys: "map (uint \<circ> fst) rom_long_reg =
     [0x90, 0x92, 0x96, 0x98, 0x99, 0x9A, 0x9B, 0x9C, 0xBA, 0xBB, 0x3A, 0x3B, 0x94, 0x1D]"
  by (simp add: rom_long_reg_def)

lemma rom_long_imm_keys: "map (uint \<circ> fst) rom_long_imm =
     [0x10, 0x12, 0x14, 0x16]"
  by (simp add: rom_long_imm_def)

lemma rom_muldiv_imm_keys: "map (uint \<circ> fst) rom_muldiv_imm =
     [0x18, 0x19, 0x1A, 0x1B, 0x1C, 0x20, 0x21]"
  by (simp add: rom_muldiv_imm_def)

lemma rom_bit_ir_keys: "map (uint \<circ> fst) rom_bit_ir =
     [0x22, 0x23, 0x24, 0x25, 0x26, 0x27]"
  by (simp add: rom_bit_ir_def)

lemma rom_incdec_ir_keys: "map (uint \<circ> fst) rom_incdec_ir =
     [0x28, 0x29, 0x2A, 0x2B]"
  by (simp add: rom_incdec_ir_def)

lemma rom_ex_io_ir_keys: "map (uint \<circ> fst) rom_ex_io_ir =
     [0x2C, 0x2D, 0x39, 0x3C, 0x3D, 0x3E, 0x3F, 0x0C, 0x0D]"
  by (simp add: rom_ex_io_ir_def)

lemma rom_relative_keys: "map (uint \<circ> fst) rom_relative =
     [0x30, 0x31, 0x32, 0x33, 0x34, 0x35, 0x37, 0x4C, 0x4D]"
  by (simp add: rom_relative_def)

lemma rom_long_addr_keys: "map (uint \<circ> fst) rom_long_addr =
     [0x50, 0x52, 0x54, 0x56]"
  by (simp add: rom_long_addr_def)

lemma rom_muldiv_addr_keys: "map (uint \<circ> fst) rom_muldiv_addr =
     [0x58, 0x59, 0x5A, 0x5B, 0x5C, 0x5D]"
  by (simp add: rom_muldiv_addr_def)

lemma rom_bit_addr_keys: "map (uint \<circ> fst) rom_bit_addr =
     [0x62, 0x63, 0x64, 0x65, 0x66, 0x67, 0x68, 0x69, 0x6A, 0x6B]"
  by (simp add: rom_bit_addr_def)

lemma rom_ex_bx_keys: "map (uint \<circ> fst) rom_ex_bx =
     [0x6C, 0x6D, 0x70, 0x71, 0x72, 0x73, 0x74, 0x75, 0x76, 0x77, 0x79, 0x7A, 0x7B]"
  by (simp add: rom_ex_bx_def)

lemma rom_sc_keys: "map (uint \<circ> fst) rom_sc =
     [0x7C, 0x7D, 0x7F]"
  by (simp add: rom_sc_def)

lemma rom_bit_reg_keys: "map (uint \<circ> fst) rom_bit_reg =
     [0xA2, 0xA3, 0xA4, 0xA5, 0xA6, 0xA7]"
  by (simp add: rom_bit_reg_def)

lemma rom_incdec_reg_keys: "map (uint \<circ> fst) rom_incdec_reg =
     [0xA8, 0xA9, 0xAA, 0xAB]"
  by (simp add: rom_incdec_reg_def)

lemma rom_misc_reg_keys: "map (uint \<circ> fst) rom_misc_reg =
     [0xAC, 0xAD, 0xAE, 0xAF, 0xB0, 0xB1, 0xB2, 0xB3, 0xB4, 0xB5, 0xB6, 0xB7, 0xB8, 0xBC, 0xBD, 0xBE]"
  by (simp add: rom_misc_reg_def)

lemma rom_rows_keys: "map (uint \<circ> fst) rom_rows =
     [0xC0, 0xC1, 0xC2, 0xC3, 0xC4, 0xC5, 0xC6, 0xC7, 0xC8, 0xC9, 0xCA, 0xCB, 0xCC, 0xCD, 0xCE, 0xCF,
      0xD0, 0xD1, 0xD2, 0xD3, 0xD4, 0xD5, 0xD6, 0xD7, 0xD8, 0xD9, 0xDA, 0xDB, 0xDC, 0xDD, 0xDE, 0xDF,
      0xE0, 0xE1, 0xE2, 0xE3, 0xE4, 0xE5, 0xE6, 0xE7, 0xE8, 0xE9, 0xEA, 0xEB, 0xEC, 0xED, 0xEE, 0xEF,
      0xF0, 0xF1, 0xF2, 0xF3, 0xF4, 0xF5, 0xF6, 0xF7, 0xF8, 0xF9, 0xFA, 0xFB, 0xFC, 0xFD, 0xFE, 0xFF]"
  by (simp add: rom_rows_def)

lemma rom_keys: "map (uint \<circ> fst) (concat rom_blocks) =
     [0x80, 0x81, 0x82, 0x83, 0x84, 0x85, 0x86, 0x87, 0x88, 0x89, 0x8A, 0x8B, 0x00, 0x01, 0x02, 0x03,
      0x04, 0x05, 0x06, 0x07, 0x08, 0x09, 0x0A, 0x0B, 0xA0, 0xA1, 0x8C, 0x8D, 0x40, 0x41, 0x42, 0x43,
      0x44, 0x45, 0x46, 0x47, 0x48, 0x49, 0x4A, 0x4B, 0x60, 0x61, 0x2E, 0x2F, 0x6E, 0x6F, 0x93, 0x97,
      0x91, 0x95, 0x13, 0x17, 0x11, 0x15, 0x53, 0x57, 0x51, 0x55, 0x1E, 0x5E, 0x1F, 0x5F, 0x9E, 0x90,
      0x92, 0x96, 0x98, 0x99, 0x9A, 0x9B, 0x9C, 0xBA, 0xBB, 0x3A, 0x3B, 0x94, 0x1D, 0x10, 0x12, 0x14,
      0x16, 0x18, 0x19, 0x1A, 0x1B, 0x1C, 0x20, 0x21, 0x22, 0x23, 0x24, 0x25, 0x26, 0x27, 0x28, 0x29,
      0x2A, 0x2B, 0x2C, 0x2D, 0x39, 0x3C, 0x3D, 0x3E, 0x3F, 0x0C, 0x0D, 0x30, 0x31, 0x32, 0x33, 0x34,
      0x35, 0x37, 0x4C, 0x4D, 0x50, 0x52, 0x54, 0x56, 0x58, 0x59, 0x5A, 0x5B, 0x5C, 0x5D, 0x62, 0x63,
      0x64, 0x65, 0x66, 0x67, 0x68, 0x69, 0x6A, 0x6B, 0x6C, 0x6D, 0x70, 0x71, 0x72, 0x73, 0x74, 0x75,
      0x76, 0x77, 0x79, 0x7A, 0x7B, 0x7C, 0x7D, 0x7F, 0xA2, 0xA3, 0xA4, 0xA5, 0xA6, 0xA7, 0xA8, 0xA9,
      0xAA, 0xAB, 0xAC, 0xAD, 0xAE, 0xAF, 0xB0, 0xB1, 0xB2, 0xB3, 0xB4, 0xB5, 0xB6, 0xB7, 0xB8, 0xBC,
      0xBD, 0xBE, 0xC0, 0xC1, 0xC2, 0xC3, 0xC4, 0xC5, 0xC6, 0xC7, 0xC8, 0xC9, 0xCA, 0xCB, 0xCC, 0xCD,
      0xCE, 0xCF, 0xD0, 0xD1, 0xD2, 0xD3, 0xD4, 0xD5, 0xD6, 0xD7, 0xD8, 0xD9, 0xDA, 0xDB, 0xDC, 0xDD,
      0xDE, 0xDF, 0xE0, 0xE1, 0xE2, 0xE3, 0xE4, 0xE5, 0xE6, 0xE7, 0xE8, 0xE9, 0xEA, 0xEB, 0xEC, 0xED,
      0xEE, 0xEF, 0xF0, 0xF1, 0xF2, 0xF3, 0xF4, 0xF5, 0xF6, 0xF7, 0xF8, 0xF9, 0xFA, 0xFB, 0xFC, 0xFD,
      0xFE, 0xFF]"
  by (simp only: rom_blocks_def concat.simps map_append append_Nil2 append_Cons append_Nil
      rom_alu_reg_keys rom_alu_immir_keys rom_ld_reg_keys rom_alu_dax_keys
      rom_ld_store_keys rom_stack_keys rom_branch_keys rom_long_reg_keys
      rom_long_imm_keys rom_muldiv_imm_keys rom_bit_ir_keys rom_incdec_ir_keys
      rom_ex_io_ir_keys rom_relative_keys rom_long_addr_keys rom_muldiv_addr_keys
      rom_bit_addr_keys rom_ex_bx_keys rom_sc_keys rom_bit_reg_keys
      rom_incdec_reg_keys rom_misc_reg_keys rom_rows_keys)

lemma rom_keys_distinct: "distinct (map fst (concat rom_blocks))"
proof -
  have "distinct (map (uint \<circ> fst) (concat rom_blocks))"
    unfolding rom_keys by code_simp
  then have "distinct (map uint (map fst (concat rom_blocks)))" by (simp only: map_map)
  then show ?thesis by (simp only: distinct_map[of uint])
qed

lemma rom_slot: "(hi, e) \<in> set (concat rom_blocks) \<Longrightarrow> rom hi = e"
proof -
  assume "(hi, e) \<in> set (concat rom_blocks)"
  moreover have "distinct (map fst (rev (concat rom_blocks)))"
    using rom_keys_distinct by (simp only: rev_map [symmetric] distinct_rev)
  ultimately have "map_of (rev (concat rom_blocks)) hi = Some e"
    by (simp only: map_of_is_SomeI set_rev)
  then show ?thesis by (simp add: rom_def)
qed

end
