(* ===== verification/Decode_Props.thy ===== *)
theory Decode_Props
  imports Decode_Lemmas
begin

text \<open>
  What the decoder of \<open>src/src/decode.c\<close> promises the fetch and execute engine: lengths that fit
  the instruction buffer, no sub-decoder short of words after a full fetch, control words
  whose length field agrees with the fetch, and flag instructions that cannot reach the mode
  bits of the FCW.
\<close>

subsection \<open>The tables of the sub-decoders\<close>

lemma tbl8C_ok: "list_all (\<lambda>(l, c). cw_ok (table_words 0x8C n2 l) c) tbl8C"
  by (simp add: tbl8C_def block_simps)

lemma tbl0C_ok: "list_all (\<lambda>(l, c). cw_ok (table_words 0x0C n2 l) c) tbl0C"
  by (simp add: tbl0C_def block_simps)

lemma tbl0D_ok: "list_all (\<lambda>(l, c). cw_ok (table_words 0x0D n2 l) c) tbl0D"
  by (simp add: tbl0D_def block_simps)

lemma tblB2_ok: "list_all (\<lambda>(l, c). cw_ok (table_words 0xB2 n2 l) c) tblB2"
  by (simp add: tblB2_def block_simps)

lemma tblB3_ok: "list_all (\<lambda>(l, c). cw_ok (table_words 0xB3 n2 l) c) tblB3"
  by (simp add: tblB3_def block_simps)

lemma tbl3A_ok: "list_all (\<lambda>((l, k), c). cw_ok (table_words 0x3A n2 l) c) tbl3A"
  by (simp add: tbl3A_def block_simps)

lemma tbl3B_ok: "list_all (\<lambda>((l, k), c). cw_ok (table_words 0x3B n2 l) c) tbl3B"
  by (simp add: tbl3B_def block_simps)

lemma tblBB_ok: "list_all (\<lambda>((l, k), c). cw_ok (table_words 0xBB n2 l) c) tblBB"
  by (simp add: tblBB_def block_simps)

lemma tblBA_ok: "list_all (\<lambda>((l, k), c). cw_ok (table_words 0xBA n2 l) c) tblBA"
  by (simp add: tblBA_def block_simps)

lemma tbl4C_ok: "list_all (\<lambda>(l, c). cw_ok (table_words 0x4C n2 l) c) (tbl4C i)"
  by (simp add: tbl4C_def block_simps Let_def)

lemma tbl4D_ok: "list_all (\<lambda>(l, c). cw_ok (table_words 0x4D n2 l) c) (tbl4D i)"
  by (simp add: tbl4D_def block_simps Let_def)

lemma tbl8D_ok: "n2 < 16 \<Longrightarrow> list_all (\<lambda>(l, c). cw_ok (table_words 0x8D n2 l) c) (tbl8D n2)"
proof -
  assume "n2 < 16"
  then have "push_bit 4 n2 AND 0xE000 = 0" "push_bit 4 n2 AND 0xFF00 = 0"
    by (rule nib_cases; simp)+
  then show ?thesis by (simp add: tbl8D_def block_simps)
qed

lemma tblDIEI_ok: "cw_ok (table_words 0x7C n2 l) (tblDIEI i)"
proof -
  have "(flag_if b FCW_VIE OR flag_if c FCW_NVIE) AND 0xE000 = 0" for b c
    by (cases b; cases c) simp_all
  then show ?thesis by (simp add: tblDIEI_def block_simps Let_def)
qed

lemma tblB8_ok: "list_all (\<lambda>(l, c). cw_ok (table_words 0xB8 n2 k) c) tblB8"
  by (simp add: tblB8_def block_simps)

lemma map_of_ok: "list_all (\<lambda>(k, c). P k c) t \<Longrightarrow> map_of t k = Some c \<Longrightarrow> P k c"
  by (auto simp: list_all_iff dest: map_of_SomeD)

lemma map_of_ok2: "list_all (\<lambda>((l, k), c). P l c) t \<Longrightarrow> map_of t (l, k) = Some c \<Longrightarrow> P l c"
  by (auto simp: list_all_iff dest: map_of_SomeD)

subsection \<open>The sub-decoders\<close>

text \<open>For a slot \<open>(hi, f)\<close>: what \<open>f\<close> returns is well formed, and its answer does not change once the
  words of the instruction are there.\<close>

definition sub_ok :: "u16 \<Rightarrow> (u16 \<Rightarrow> (nat \<Rightarrow> u16) \<Rightarrow> nat \<Rightarrow> CtrlWord option) \<Rightarrow> bool" where
  "sub_ok hi f \<longleftrightarrow>
     (\<forall>op w n c. f op w n = Some c \<longrightarrow> cw_ok (table_words hi (NIB2 op) (NIB3 op)) c) \<and>
     (\<forall>op w n. len_hi hi (NIB2 op) (NIB3 op) 1 \<le> n + 1 \<longrightarrow> f op w n = f op w 5)"

lemma nib3_fold: "op AND 0x0F = NIB3 op" by (simp add: NIB3_def)

lemma sub_slots_ok:
  "sub_ok 0x8C sub_8C" "sub_ok 0x0C sub_0C" "sub_ok 0x0D sub_0D"
  "sub_ok 0x4C sub_4C" "sub_ok 0x4D sub_4D" "sub_ok 0x8D sub_8D"
  by (auto simp: sub_ok_def sub_8C_def sub_0C_def sub_0D_def sub_4C_def sub_4D_def sub_8D_def nib3_fold
      nib_range dest: map_of_ok[OF tbl8C_ok] map_of_ok[OF tbl0C_ok] map_of_ok[OF tbl0D_ok]
      map_of_ok[OF tbl4C_ok] map_of_ok[OF tbl4D_ok]
      map_of_ok[OF tbl8D_ok[OF nib_range(1)]])

lemma sub_block_ok:
  "sub_ok 0x3A sub_3A" "sub_ok 0x3B sub_3B" "sub_ok 0xBA sub_BA" "sub_ok 0xBB sub_BB"
  by (auto simp: sub_ok_def sub_3A_def sub_3B_def sub_BA_def sub_BB_def nib3_fold len_hi_def
      split: if_splits
      dest: map_of_ok2[OF tbl3A_ok] map_of_ok2[OF tbl3B_ok] map_of_ok2[OF tblBA_ok] map_of_ok2[OF tblBB_ok])

lemma sub_shift_ok: "sub_ok 0xB2 sub_B2" "sub_ok 0xB3 sub_B3"
  by (auto simp: sub_ok_def sub_B2_def sub_B3_def oddB2_def oddB3_def nib3_fold len_hi_def Let_def
      split: if_splits
      dest: map_of_ok[OF tblB2_ok] map_of_ok[OF tblB3_ok])

lemma sub_direct_ok:
  "sub_ok 0x9C sub_9C" "sub_ok 0xB1 sub_B1" "sub_ok 0x7B sub_7B" "sub_ok 0x7C sub_7C"
  "sub_ok 0x7D sub_7D" "sub_ok 0xB8 sub_B8"
  using tblDIEI_ok
  by (auto simp: sub_ok_def sub_9C_def sub_B1_def sub_7B_def sub_7C_def sub_7D_def sub_B8_def
      cw_ok_def cw_def table_words_def len_hi_def Let_def split: if_splits
      dest: map_of_ok[OF tblB8_ok])

lemma sub_ldm_ok: "sub_ok 0x1C sub_1C" "sub_ok 0x5C sub_5C"
  by (auto simp: sub_ok_def sub_1C_def sub_5C_def nib3_fold
      cw_ok_def cw_def table_words_def len_hi_def Let_def split: if_splits)

lemma sub_slot_ok: "(hi, f) \<in> set sub_slots \<Longrightarrow> sub_ok hi f"
  using sub_slots_ok sub_block_ok sub_shift_ok sub_direct_ok sub_ldm_ok by (auto simp: sub_slots_def)

lemma sub_decode_ok:
  assumes "sub_decode (rom hi) op w n = Some c"
  shows "cw_ok (table_words hi (NIB2 op) (NIB3 op)) c"
  using assms rom_entry_ok[of hi "NIB2 op" "NIB3 op"]
  by (cases "rom hi") (auto simp: entry_ok_def sub_ok_def dest: sub_slot_ok split: if_splits)

lemma sub_decode_stable:
  assumes "len_hi hi (NIB2 op) (NIB3 op) 1 \<le> n + 1"
  shows "sub_decode (rom hi) op w n = sub_decode (rom hi) op w 5"
  using assms rom_entry_ok[of hi "NIB2 op" "NIB3 op"]
  by (cases "rom hi") (auto simp: entry_ok_def sub_ok_def dest: sub_slot_ok)

lemma addr_family:
  "seg_addr_w1 op True \<or> seg_addr_w2 op True \<longleftrightarrow>
     0x40 \<le> drop_bit 8 op \<and> drop_bit 8 op \<le> 0x77 \<or> drop_bit 8 op = 0x79"
proof -
  define h where "h = unat (drop_bit 8 op)"
  have le: "drop_bit 8 op \<le> x \<longleftrightarrow> h \<le> unat x" "x \<le> drop_bit 8 op \<longleftrightarrow> unat x \<le> h"
    "drop_bit 8 op = x \<longleftrightarrow> h = unat x" for x
    by (simp_all add: h_def word_le_nat_alt word_unat_eq_iff)
  show ?thesis
    unfolding seg_addr_w1_def seg_addr_w2_def Let_def le by auto
qed

subsection \<open>Properties\<close>

text \<open>C29: Every opcode has a length between one and four words, within the six-word instruction buffer;
  segmented mode adds exactly one word, and exactly to the instructions whose address operand
  the fetch stage looks for in word 1 or word 2.\<close>

theorem decode_length_bounds:
  "1 \<le> decode_length op segmented \<and> decode_length op segmented \<le> 4 \<and>
   decode_length op True =
     decode_length op False + of_bool (seg_addr_w1 op True \<or> seg_addr_w2 op True) \<and>
   \<not> (seg_addr_w1 op segmented \<and> seg_addr_w2 op segmented)"
proof (intro conjI)
  show "1 \<le> decode_length op segmented" "decode_length op segmented \<le> 4"
    using len_hi_bounds[of "if segmented then 2 else 1"] by (simp_all add: decode_length_hi)
  show "decode_length op True =
     decode_length op False + of_bool (seg_addr_w1 op True \<or> seg_addr_w2 op True)"
    unfolding decode_length_hi using addr_family[of op] by (simp add: len_hi_segmented)
  show "\<not> (seg_addr_w1 op segmented \<and> seg_addr_w2 op segmented)"
    by (simp add: seg_addr_w1_def seg_addr_w2_def Let_def)
qed

text \<open>After a full fetch no sub-decoder lacks words: with the following words of the unsegmented
  length available, the decoder gives the same answer as with any larger number, so a refusal
  always means an undefined encoding.\<close>

theorem decode_never_starves:
  assumes "decode_length op False \<le> n + 1"
  shows "decode_lookup op w n segmented = decode_lookup op w 5 segmented"
  using assms sub_decode_stable by (simp add: decode_lookup_def decode_length_hi)

theorem decode_never_starves_witness:
  "decode_lookup 0xBB21 (\<lambda>_. 0x0008) 1 False = decode_lookup 0xBB21 (\<lambda>_. 0x0008) 5 False"
  by (rule decode_never_starves) (simp add: decode_length_def decode_length_compute_def)

text \<open>C30: Every control word the decoder hands out is valid and carries the unsegmented length of its
  instruction in \<open>words\<close>, the immediate forms of the 0x4C and 0x4D groups excepted, which are
  recorded one word short; none carries the privilege mark; the flag instructions have masks that
  spare the segmentation, system and EPU bits of the FCW; and increments are never long.\<close>

theorem decode_well_formed:
  assumes "decode_lookup op w n segmented = Some c"
  shows "cw_valid c \<and> \<not> cw_priv c \<and>
    cw_words c = (if (drop_bit 8 op = 0x4C \<or> drop_bit 8 op = 0x4D) \<and> (NIB3 op = 1 \<or> NIB3 op = 5)
                  then 2 else decode_length op False) \<and>
    cw_fcw_mask c AND (FCW_SEG OR FCW_SN OR FCW_EPA) = 0 \<and>
    (if cw_alu_op c = OpInc \<or> cw_alu_op c = OpDec then cw_width c \<noteq> WLong else True)"
proof -
  have "sub_decode (rom (drop_bit 8 op)) op w n = Some c"
    using assms by (auto simp: decode_lookup_def split: option.splits if_splits)
  from sub_decode_ok[OF this] show ?thesis
    by (simp add: cw_ok_def table_words_def decode_length_hi)
qed

theorem decode_well_formed_witness:
  "let c = the (decode_lookup 0x4C05 (\<lambda>_. 0) 3 False)
   in cw_valid c \<and> \<not> cw_priv c \<and> cw_words c = 2 \<and> decode_length 0x4C05 False = 3"
proof -
  have "rom 0x4C = Sub sub_4C"
    by (rule rom_slot) (simp add: rom_blocks_def rom_relative_def)
  then have "decode_lookup 0x4C05 (\<lambda>_. 0) 3 False \<noteq> None"
    by (simp add: decode_lookup_def sub_4C_def tbl4C_def NIB2_def cw_def Let_def)
  then obtain c where c: "decode_lookup 0x4C05 (\<lambda>_. 0) 3 False = Some c" by auto
  from decode_well_formed[OF c] show ?thesis
    by (simp add: c NIB3_def decode_length_def decode_length_compute_def Let_def)
qed

end
