(* ===== verification/Proc_State.thy ===== *)
theory Proc_State
  imports Emu_Types
begin

text \<open>
  The state of a user-mode process, the file-scope variables of \<open>src/src/uexec.c\<close>, and the
  host as that file sees it.  The operating system below the emulator is code that is not in
  the repository: it is a parameter, a \<open>Host\<close> that answers each call from the list of all
  calls made so far (the current one first), so its answers may depend on everything the
  process has done.
\<close>

type_synonym bytes = "u8 list"

subsection \<open>Host calls and their answers\<close>

text \<open>The \<open>errno\<close> values that \<open>coh_errno\<close> tells apart.\<close>

datatype HErr =
    EPERM | ENOENT | EINTR | ENXIO | ENODEV | EBADF | EAGAIN | ENOMEM | EACCES | EFAULT
  | EEXIST | EXDEV | ENOTDIR | EISDIR | EINVAL | EMFILE | ENFILE | ENOTTY | ENOSPC | ESPIPE
  | EROFS | EMLINK | EPIPE | EOTHER

text \<open>The access mode and the flags of \<open>open(2)\<close>.\<close>

datatype OpenMode = O_RDONLY | O_WRONLY | O_RDWR

record OpenFlags =
  of_mode :: OpenMode
  of_append :: bool
  of_creat :: bool
  of_trunc :: bool
  of_excl :: bool

datatype HostCall =
    HRead int nat
  | HWrite int bytes
  | HOpen bytes OpenFlags u16
  | HClose int
  | HLseek int int int
  | HStat bytes
  | HLstat bytes
  | HFstat int
  | HReaddir bytes
  | HUnlink bytes
  | HLink bytes bytes
  | HMkdir bytes u16
  | HMkfifo bytes u16
  | HChdir bytes
  | HUtime bytes int int
  | HChmod bytes u16
  | HAccess bytes bool bool bool
  | HIsatty int
  | HGetpid
  | HNow

text \<open>The fields of \<open>struct stat\<close> that are read: the type and the low bits of \<open>st_mode\<close> apart.\<close>

datatype FType = FReg | FDir | FChr | FBlk | FFifo | FOther

record HStatus =
  st_type :: FType
  st_bits :: u16
  st_dev :: u64
  st_ino :: u64
  st_nlink :: u64
  st_rdev :: u64
  st_size :: u64
  st_mtime :: u64

record Host =
  h_int :: "HostCall list \<Rightarrow> HErr + int"
  h_read :: "HostCall list \<Rightarrow> HErr + bytes"
  h_stat :: "HostCall list \<Rightarrow> HErr + HStatus"
  h_names :: "HostCall list \<Rightarrow> HErr + bytes list"
  h_clock :: "HostCall list \<Rightarrow> u32 \<times> u16"

subsection \<open>The process\<close>

text \<open>
  One guest descriptor.  \<open>g_dir\<close> is the synthesized directory image (\<open>dir\<close> with
  \<open>dirlen\<close> its length), \<open>None\<close> the NULL of a plain file.
\<close>

record GFile =
  g_used :: bool
  g_fd :: int
  g_dir :: "bytes option"
  g_pos :: int
  g_path :: bytes

definition gfile_zero :: GFile where
  "gfile_zero = \<lparr>g_used = False, g_fd = 0, g_dir = None, g_pos = 0, g_path = []\<rparr>"

text \<open>The three ways the harness ends the run with \<open>exit(4)\<close>.\<close>

datatype Fatal = HarnessBug string | StackUnmapped u8 | Unimplemented u8

record Proc =
  p_inst_max :: int
  p_files :: "GFile list"
  p_exited :: bool
  p_code :: int
  p_brk :: u32
  p_heap_hi :: int
  p_uid :: u16
  p_gid :: u16
  p_accept :: "bool list"
  p_accept_all :: bool
  p_warned :: "bool list"
  p_n_warned :: nat
  p_root :: "bytes option"
  p_calls :: "HostCall list"
  p_fatal :: "Fatal option"

definition proc_zero :: Proc where
  "proc_zero =
     \<lparr>p_inst_max = 0, p_files = replicate 256 gfile_zero, p_exited = False, p_code = 0, p_brk = 0,
      p_heap_hi = 0, p_uid = 0, p_gid = 0, p_accept = replicate 128 False, p_accept_all = False,
      p_warned = replicate 128 False, p_n_warned = 0, p_root = None, p_calls = [], p_fatal = None\<rparr>"

end
