(* ===== verification/Machine.thy ===== *)
theory Machine
  imports Alu Mmu Decode Proc_State "HOL-Library.State_Monad"
begin

text \<open>
  The machine state of \<open>src/src/emu.h\<close>: CPU, serial channels, disks, clock module and
  the board around them, and the state monad in which the bus and CPU handlers are written.
  A handler of the source takes \<open>Machine *m\<close> (or \<open>CPU *c\<close> with \<open>c->m\<close> the machine that
  owns it) and updates it in place; here it is a computation over the one \<open>Machine\<close> value.

  What the source keeps outside the machine enters as data: an open file is its contents,
  the host's answers to the polling calls are lists, and the characters handed to the host
  are appended to a log.  \<open>m_ub\<close> becomes true where the C program would leave its defined
  behaviour (an access outside an array, a signed overflow, a loop that never ends); nothing
  reads it.
\<close>

subsection \<open>CPU\<close>

record CPU =
  c_R :: "nib \<Rightarrow> u16"
  c_pc :: u32
  c_fcw :: u16
  c_psap :: u32
  c_refresh :: u16
  c_nspseg :: u16
  c_nspoff :: u16
  c_halted :: bool
  c_irq_req :: u8
  c_nvi_line :: bool
  c_vi_line :: bool
  c_nmi_line :: bool
  c_segt_line :: bool
  c_nmi_prev :: bool
  c_vi_vector :: u16
  c_cur_op :: u16
  c_opcode :: "nat \<Rightarrow> u16"
  c_oplen :: nat
  c_seg_w1 :: bool
  c_seg_w2 :: bool
  c_instr_start :: u32
  c_repeat_pending :: bool
  c_fault :: bool
  c_insns :: u64
  c_serviced :: u8

abbreviation (input) IRQ_SYSCALL :: u8 where "IRQ_SYSCALL \<equiv> 0x02"
abbreviation (input) IRQ_VI :: u8 where "IRQ_VI \<equiv> 0x04"
abbreviation (input) IRQ_NVI :: u8 where "IRQ_NVI \<equiv> 0x08"
abbreviation (input) IRQ_SEGTRAP :: u8 where "IRQ_SEGTRAP \<equiv> 0x10"
abbreviation (input) IRQ_NMI :: u8 where "IRQ_NMI \<equiv> 0x20"
abbreviation (input) IRQ_TRAP :: u8 where "IRQ_TRAP \<equiv> 0x40"
abbreviation (input) IRQ_EPU :: u8 where "IRQ_EPU \<equiv> 0x80"

subsection \<open>Peripherals\<close>

record SCCChan =
  s_wr :: "nib \<Rightarrow> u8"
  s_ptr :: u8
  s_rx_avail :: bool
  s_rx_data :: u8
  s_rx_overrun :: bool
  s_rx_lost :: u64

record Disk =
  dk_file :: "u8 list"
  dk_writable :: bool
  dk_sectors :: u32
  dk_cyls :: u32
  dk_heads :: u32
  dk_spt :: u32
  dk_present :: bool

record RTC =
  r_present :: bool
  r_regs :: "nib \<Rightarrow> u8"
  r_addr :: u8
  r_stopped :: bool
  r_prev_pb :: u8
  r_prev_cs :: bool
  r_cs_since :: u64
  r_ips :: u64
  r_base :: u64
  r_held :: u64
  r_n_read :: u64
  r_n_write :: u64
  r_n_tick :: u64
  r_n_tick_selected :: u64

text \<open>The scripted console input and its pacing state.\<close>

record Script =
  q_inq :: "u8 list"
  q_now :: "bool list"
  q_pos :: nat
  q_last_tx_insn :: u64
  q_shell_up :: bool
  q_prompt_seq :: u32
  q_wait_seq :: u32
  q_gateoff :: int
  q_cr_wait :: bool
  q_mark :: "u8 list option"
  q_mark_pos :: nat
  q_mark_seen :: bool
  q_rx_poll_streak :: u32
  q_guest_polls :: bool
  q_at_prompt :: bool
  q_idle_quiet :: u64

text \<open>A breakpoint of \<open>src/src/debug.c\<close>.\<close>

record Brk =
  b_pc :: u32
  b_want :: int
  b_seen :: int

subsection \<open>The machine\<close>

text \<open>
  The fields of \<open>struct Machine\<close> in its order (the input-script fields are grouped in
  \<open>Script\<close>; \<open>trace\<close>, and the fields that no function of the source reads or writes,
  are left out), then the breakpoint table of \<open>debug.c\<close>, the host's side, and the variables of
  \<open>uexec.c\<close> when the machine runs a user-mode process.
\<close>

record Machine =
  m_cpu :: CPU
  m_mmu :: MMU
  m_rom :: "u32 \<Rightarrow> u8"
  m_ram :: "u32 \<Rightarrow> u8"
  m_scc_b :: SCCChan
  m_scc_a :: SCCChan
  m_lr_scc_chan :: "nat \<Rightarrow> SCCChan"
  m_lr_scc :: bool
  m_wire_port_on :: "nat \<Rightarrow> bool"
  m_any_wire :: bool
  m_rx_overrun_on :: bool
  m_disk :: Disk
  m_floppy :: Disk
  m_cio1 :: "6 word \<Rightarrow> u8"
  m_cio2 :: "6 word \<Rightarrow> u8"
  m_cio1_reset :: bool
  m_cio2_reset :: bool
  m_rtc :: RTC
  m_disk_vi :: bool
  m_last_vi_disk :: bool
  m_ct3_running :: bool
  m_ct3_accum :: u32
  m_hdc_cmdblk :: u32
  m_tick_counter :: u64
  m_stop :: bool
  m_insn_limit :: u64
  m_scr :: Script
  m_stop_port :: u16
  m_park_watch :: bool
  m_stop_mark :: "u8 list option"
  m_stop_mark_pos :: "nat \<Rightarrow> nat"
  m_stop_why :: string
  m_max_reached :: bool
  m_flat_mem :: bool
  m_flat_maxseg :: u8
  m_brks :: "Brk list"
  m_stop_at_break :: bool
  m_host_rx :: "nat \<Rightarrow> int list"
  m_host_tx :: "(nat \<times> u8) list"
  m_proc :: Proc
  m_ub :: bool

subsection \<open>Zero states\<close>

text \<open>What \<open>calloc\<close> leaves in each structure.\<close>

definition cpu_zero :: CPU where
  "cpu_zero =
     \<lparr>c_R = \<lambda>_. 0, c_pc = 0, c_fcw = 0, c_psap = 0, c_refresh = 0, c_nspseg = 0, c_nspoff = 0,
      c_halted = False, c_irq_req = 0, c_nvi_line = False, c_vi_line = False, c_nmi_line = False,
      c_segt_line = False, c_nmi_prev = False, c_vi_vector = 0, c_cur_op = 0, c_opcode = \<lambda>_. 0,
      c_oplen = 0, c_seg_w1 = False, c_seg_w2 = False, c_instr_start = 0,
      c_repeat_pending = False, c_fault = False, c_insns = 0, c_serviced = 0\<rparr>"

definition scc_zero :: SCCChan where
  "scc_zero = \<lparr>s_wr = \<lambda>_. 0, s_ptr = 0, s_rx_avail = False, s_rx_data = 0, s_rx_overrun = False,
               s_rx_lost = 0\<rparr>"

definition disk_zero :: Disk where
  "disk_zero = \<lparr>dk_file = [], dk_writable = False, dk_sectors = 0, dk_cyls = 0, dk_heads = 0,
                dk_spt = 0, dk_present = False\<rparr>"

definition rtc_zero :: RTC where
  "rtc_zero = \<lparr>r_present = False, r_regs = \<lambda>_. 0, r_addr = 0, r_stopped = False, r_prev_pb = 0,
               r_prev_cs = False, r_cs_since = 0, r_ips = 0, r_base = 0, r_held = 0, r_n_read = 0,
               r_n_write = 0, r_n_tick = 0, r_n_tick_selected = 0\<rparr>"

definition script_zero :: Script where
  "script_zero =
     \<lparr>q_inq = [], q_now = [], q_pos = 0, q_last_tx_insn = 0, q_shell_up = False, q_prompt_seq = 0,
      q_wait_seq = 0, q_gateoff = 0, q_cr_wait = False, q_mark = None, q_mark_pos = 0,
      q_mark_seen = False, q_rx_poll_streak = 0, q_guest_polls = False, q_at_prompt = False,
      q_idle_quiet = 0\<rparr>"

definition machine_zero :: Machine where
  "machine_zero =
     \<lparr>m_cpu = cpu_zero, m_mmu = mmu_zero, m_rom = \<lambda>_. 0, m_ram = \<lambda>_. 0, m_scc_b = scc_zero,
      m_scc_a = scc_zero, m_lr_scc_chan = \<lambda>_. scc_zero, m_lr_scc = False,
      m_wire_port_on = \<lambda>_. False, m_any_wire = False, m_rx_overrun_on = False,
      m_disk = disk_zero, m_floppy = disk_zero, m_cio1 = \<lambda>_. 0, m_cio2 = \<lambda>_. 0,
      m_cio1_reset = False, m_cio2_reset = False, m_rtc = rtc_zero, m_disk_vi = False,
      m_last_vi_disk = False, m_ct3_running = False, m_ct3_accum = 0, m_hdc_cmdblk = 0,
      m_tick_counter = 0, m_stop = False, m_insn_limit = 0, m_scr = script_zero,
      m_stop_port = 0, m_park_watch = False, m_stop_mark = None, m_stop_mark_pos = \<lambda>_. 0,
      m_stop_why = [], m_max_reached = False, m_flat_mem = False, m_flat_maxseg = 0,
      m_brks = [], m_stop_at_break = False, m_host_rx = \<lambda>_. [], m_host_tx = [], m_proc = proc_zero, m_ub = False\<rparr>"

subsection \<open>Handlers as computations over the machine\<close>

type_synonym 'a handler = "(Machine, 'a) state"

text \<open>A read of \<open>*m\<close>, a read of \<open>*c\<close>, and the assignments to them.\<close>

definition asks :: "(Machine \<Rightarrow> 'a) \<Rightarrow> 'a handler" where
  "asks f = State (\<lambda>m. (f m, m))"

definition askc :: "(CPU \<Rightarrow> 'a) \<Rightarrow> 'a handler" where
  "askc f = State (\<lambda>m. (f (m_cpu m), m))"

definition modm :: "(Machine \<Rightarrow> Machine) \<Rightarrow> unit handler" where
  "modm f = State (\<lambda>m. ((), f m))"

definition modc :: "(CPU \<Rightarrow> CPU) \<Rightarrow> unit handler" where
  "modc f = State (\<lambda>m. ((), m\<lparr>m_cpu := f (m_cpu m)\<rparr>))"

definition skip :: "unit handler" where
  "skip = State_Monad.return ()"

text \<open>\<open>if (b) { ... }\<close> without an else branch, and a loop over a list.\<close>

definition whenb :: "bool \<Rightarrow> unit handler \<Rightarrow> unit handler" where
  "whenb b f = (if b then f else skip)"

fun for_each :: "'a list \<Rightarrow> ('a \<Rightarrow> unit handler) \<Rightarrow> unit handler" where
  "for_each [] f = skip"
| "for_each (x # xs) f = do { f x; for_each xs f }"

lemma run_handler [run_simps]:
  "run_state (asks g) m = (g m, m)"
  "run_state (askc h) m = (h (m_cpu m), m)"
  "run_state (modm k) m = ((), k m)"
  "run_state (modc l) m = ((), m\<lparr>m_cpu := l (m_cpu m)\<rparr>)"
  "run_state skip m = ((), m)"
  "run_state (whenb b f) m = (if b then run_state f m else ((), m))"
  by (simp_all add: asks_def askc_def modm_def modc_def skip_def whenb_def)

lemma fold_keeps: "(\<And>x s. P s \<Longrightarrow> P (f x s)) \<Longrightarrow> P s \<Longrightarrow> P (fold f xs s)"
  by (induction xs arbitrary: s) simp_all

subsection \<open>Relations that every step of a handler keeps\<close>

text \<open>
  A preorder on machines (a frame condition, a monotone fact) that holds from the state
  before to the state after a handler; it holds of a handler when it holds of its parts.
\<close>

locale step_relation =
  fixes R :: "Machine \<Rightarrow> Machine \<Rightarrow> bool"
  assumes R_refl: "R m m"
    and R_trans: "R m m' \<Longrightarrow> R m' m'' \<Longrightarrow> R m m''"
begin

lemma io_return: "state_io_rel R (State_Monad.return x)"
  by (simp add: state_io_rel_def R_refl)

lemma io_read: "state_io_rel R (asks g)" "state_io_rel R (askc h)" "state_io_rel R skip"
  by (simp_all add: state_io_rel_def R_refl asks_def askc_def skip_def)

lemma io_modm: "(\<And>m. R m (f m)) \<Longrightarrow> state_io_rel R (modm f)"
  by (simp add: state_io_rel_def modm_def)

lemma io_modc: "(\<And>m. R m (m\<lparr>m_cpu := f (m_cpu m)\<rparr>)) \<Longrightarrow> state_io_rel R (modc f)"
  by (simp add: state_io_rel_def modc_def)

lemma io_bind:
  assumes "state_io_rel R f" "\<And>x. state_io_rel R (g x)"
  shows "state_io_rel R (State_Monad.bind f g)"
  using assms by (auto simp: state_io_rel_def split: prod.splits intro: R_trans)

lemma io_if: "(b \<Longrightarrow> state_io_rel R f) \<Longrightarrow> (\<not> b \<Longrightarrow> state_io_rel R g) \<Longrightarrow>
    state_io_rel R (if b then f else g)"
  by simp

lemma io_when: "(b \<Longrightarrow> state_io_rel R f) \<Longrightarrow> state_io_rel R (whenb b f)"
  by (simp add: whenb_def io_read)

lemma io_for: "(\<And>x. state_io_rel R (f x)) \<Longrightarrow> state_io_rel R (for_each xs f)"
  by (induction xs) (simp_all add: io_read io_bind)

lemmas io_rules = io_return io_read io_if io_when io_for io_bind

end

end
