(* ===== verification/Phys_Mem.thy ===== *)
theory Phys_Mem
  imports Machine
begin

text \<open>
  Physical memory, the first part of \<open>src/src/bus.c\<close>: boot ROM, the motherboard DRAM,
  open bus everywhere else, and the flat image of user mode.  The write-watch prints of
  \<open>CSIM_WATCH_PHYS\<close> go to stderr and are left out.
\<close>

abbreviation (input) ROM_SIZE :: u32 where "ROM_SIZE \<equiv> 0x8000"
abbreviation (input) ADDR_MASK :: u32 where "ADDR_MASK \<equiv> 0x00FFFFFF"

definition seg_populated :: "u32 \<Rightarrow> bool" where
  "seg_populated a =
     (let seg = drop_bit 16 a AND 0xFF in seg \<ge> 0x08 \<and> seg \<le> 0x17)"

text \<open>\<open>(a>>16) <= m->flat_maxseg\<close>, the test of the flat image.\<close>

definition flat_seg_ok :: "Machine \<Rightarrow> u32 \<Rightarrow> bool" where
  "flat_seg_ok m a \<longleftrightarrow> drop_bit 16 a \<le> ucast (m_flat_maxseg m)"

definition set_ram :: "u32 \<Rightarrow> u8 \<Rightarrow> Machine \<Rightarrow> Machine" where
  "set_ram a v m = m\<lparr>m_ram := (m_ram m)(a := v)\<rparr>"

definition phys_read8 :: "Machine \<Rightarrow> u32 \<Rightarrow> u8" where
  "phys_read8 m a =
     (let a = a AND ADDR_MASK
      in if m_flat_mem m then (if flat_seg_ok m a then m_ram m a else 0xFF)
         else if a < ROM_SIZE then m_rom m a
         else if seg_populated a then m_ram m a
         else 0xFF)"

definition phys_write8 :: "u32 \<Rightarrow> u8 \<Rightarrow> Machine \<Rightarrow> Machine" where
  "phys_write8 a v m =
     (let a = a AND ADDR_MASK
      in if m_flat_mem m then (if flat_seg_ok m a then set_ram a v m else m)
         else if a < ROM_SIZE then m
         else if seg_populated a then set_ram a v m
         else m)"

text \<open>\<open>((uint16_t)x<<8) | y\<close>.\<close>

definition be16 :: "u8 \<Rightarrow> u8 \<Rightarrow> u16" where
  "be16 h l = push_bit 8 (ucast h) OR ucast l"

definition phys_read16 :: "Machine \<Rightarrow> u32 \<Rightarrow> u16" where
  "phys_read16 m a =
     (let a = a AND ADDR_MASK
      in if m_flat_mem m
         then (if flat_seg_ok m a then be16 (m_ram m a) (m_ram m (a + 1)) else 0xFFFF)
         else if a < ROM_SIZE - 1 then be16 (m_rom m a) (m_rom m (a + 1))
         else let seg = drop_bit 16 a AND 0xFF
              in if seg \<ge> 0x08 \<and> seg \<le> 0x17 then be16 (m_ram m a) (m_ram m (a + 1))
                 else be16 (phys_read8 m a) (phys_read8 m (a + 1)))"

definition phys_write16 :: "u32 \<Rightarrow> u16 \<Rightarrow> Machine \<Rightarrow> Machine" where
  "phys_write16 a v m =
     (let a = a AND ADDR_MASK; hi = ucast (drop_bit 8 v); lo = ucast v
      in if m_flat_mem m
         then (if flat_seg_ok m a then set_ram (a + 1) lo (set_ram a hi m) else m)
         else if a < ROM_SIZE then m
         else let seg = drop_bit 16 a AND 0xFF
              in if seg \<ge> 0x08 \<and> seg \<le> 0x17 then set_ram (a + 1) lo (set_ram a hi m)
                 else phys_write8 (a + 1) lo (phys_write8 a hi m))"

subsection \<open>Which cells answer\<close>

text \<open>The cells that a store can change, and those backed by anything at all.\<close>

definition phys_writable :: "Machine \<Rightarrow> u32 \<Rightarrow> bool" where
  "phys_writable m a =
     (let a = a AND ADDR_MASK
      in if m_flat_mem m then flat_seg_ok m a else seg_populated a)"

definition phys_backed :: "Machine \<Rightarrow> u32 \<Rightarrow> bool" where
  "phys_backed m a \<longleftrightarrow> phys_writable m a \<or> \<not> m_flat_mem m \<and> a AND ADDR_MASK < ROM_SIZE"

lemma addr_mask_less: "a AND ADDR_MASK \<le> ADDR_MASK" for a :: u32
  by (simp add: word_and_le1)

lemma seg_populated_iff:
  "seg_populated (a AND ADDR_MASK) \<longleftrightarrow>
     0x80000 \<le> a AND ADDR_MASK \<and> a AND ADDR_MASK \<le> 0x17FFFF"
proof -
  define b where "b = a AND ADDR_MASK"
  have le: "unat b \<le> 0xFFFFFF"
    using addr_mask_less [of a] by (simp add: b_def word_le_nat_alt)
  have seg: "unat (drop_bit 16 b AND 0xFF) = unat b div 65536"
  proof -
    have "drop_bit 16 b AND 0xFF = drop_bit 16 b"
      unfolding b_def
      by (rule bit_word_eqI) (auto simp: bit_simps bit_byte_masks simp flip: mask_eq_exp_minus_1)
    then show ?thesis
      by (simp only: unat_drop_bit_eq) (simp add: drop_bit_eq_div)
  qed
  have "seg_populated b \<longleftrightarrow> 8 \<le> unat b div 65536 \<and> unat b div 65536 \<le> 0x17"
    by (simp add: seg_populated_def Let_def word_le_nat_alt seg)
  also have "\<dots> \<longleftrightarrow> 0x80000 \<le> unat b \<and> unat b \<le> 0x17FFFF"
    using le by arith
  finally show ?thesis
    by (simp add: word_le_nat_alt b_def)
qed

text \<open>The two readers agree, byte for byte, on every cell.\<close>

lemma phys_read8_cases:
  "phys_read8 m a =
     (if phys_writable m a then m_ram m (a AND ADDR_MASK)
      else if \<not> m_flat_mem m \<and> a AND ADDR_MASK < ROM_SIZE then m_rom m (a AND ADDR_MASK)
      else 0xFF)"
proof -
  have "\<not> (a AND ADDR_MASK < ROM_SIZE \<and> seg_populated (a AND ADDR_MASK))"
    by (auto simp: seg_populated_iff word_le_nat_alt word_less_nat_alt)
  then show ?thesis
    by (auto simp: phys_read8_def phys_writable_def Let_def)
qed

lemma phys_writable_dram:
  assumes "\<not> m_flat_mem m"
  shows "phys_writable m a \<longleftrightarrow>
    0x80000 \<le> unat (a AND ADDR_MASK) \<and> unat (a AND ADDR_MASK) \<le> 0x17FFFF"
  using assms by (simp add: phys_writable_def seg_populated_iff word_le_nat_alt Let_def)

lemma phys_write8_cases:
  "phys_write8 a v m = (if phys_writable m a then set_ram (a AND ADDR_MASK) v m else m)"
proof -
  have "\<not> (a AND ADDR_MASK < ROM_SIZE \<and> seg_populated (a AND ADDR_MASK))"
    by (auto simp: seg_populated_iff word_le_nat_alt word_less_nat_alt)
  then show ?thesis
    by (auto simp: phys_write8_def phys_writable_def Let_def)
qed

lemma set_ram_sel [simp]:
  "m_ram (set_ram a v m) = (m_ram m)(a := v)" "m_rom (set_ram a v m) = m_rom m"
  "m_flat_mem (set_ram a v m) = m_flat_mem m" "m_flat_maxseg (set_ram a v m) = m_flat_maxseg m"
  "m_cpu (set_ram a v m) = m_cpu m" "m_mmu (set_ram a v m) = m_mmu m"
  by (simp_all add: set_ram_def)

lemma phys_writable_set_ram [simp]: "phys_writable (set_ram b v m) a = phys_writable m a"
  by (simp add: phys_writable_def flat_seg_ok_def)

lemma phys_read8_write8:
  "phys_read8 (phys_write8 a v m) b =
     (if phys_writable m a \<and> a AND ADDR_MASK = b AND ADDR_MASK then v else phys_read8 m b)"
proof -
  have "a AND ADDR_MASK = b AND ADDR_MASK \<Longrightarrow> phys_writable m a = phys_writable m b"
    by (simp add: phys_writable_def)
  then show ?thesis
    by (cases "phys_writable m a"; cases "a AND ADDR_MASK = b AND ADDR_MASK")
      (simp_all add: phys_read8_cases phys_write8_cases)
qed

text \<open>
  Where a word access is two byte accesses: everywhere but at a word that starts in a
  decoded region and ends outside it, which the word accessors do not decode twice.
\<close>

definition word_ok :: "Machine \<Rightarrow> u32 \<Rightarrow> bool" where
  "word_ok m a \<longleftrightarrow>
     (if m_flat_mem m then phys_writable m a = phys_writable m (a + 1) \<and> a AND ADDR_MASK \<noteq> ADDR_MASK
      else a AND ADDR_MASK \<noteq> 0x17FFFF)"


lemma unat_addr_mask: "unat (x AND ADDR_MASK) = unat x mod 16777216" for x :: u32
proof -
  have "x AND ADDR_MASK = take_bit 24 x" by (simp add: take_bit_eq_mask mask_eq_exp_minus_1)
  then show ?thesis by (simp only: unsigned_take_bit_eq) (simp add: take_bit_eq_mod)
qed

lemma masked_succ:
  assumes "a AND ADDR_MASK \<noteq> ADDR_MASK"
  shows "(a + 1) AND ADDR_MASK = (a AND ADDR_MASK) + 1"
proof -
  have ne: "unat a mod 16777216 \<noteq> 16777215"
    using assms by (simp add: word_unat_eq_iff unat_addr_mask)
  then have "unat a \<noteq> 2 ^ 32 - 1" by auto
  moreover have "unat a < 2 ^ LENGTH(32)" by (rule unsigned_less)
  ultimately have "unat (a + 1) = unat a + 1"
    by (simp add: unat_word_ariths)
  with ne have "unat (a + 1) mod 16777216 = unat a mod 16777216 + 1"
    by (simp add: mod_Suc)
  moreover have "unat ((a AND ADDR_MASK) + 1) = unat (a AND ADDR_MASK) + 1"
    by (simp add: unat_word_ariths unat_addr_mask)
  ultimately show ?thesis by (simp add: word_unat_eq_iff unat_addr_mask)
qed

lemma addr_mask_take: "a AND ADDR_MASK = take_bit 24 a" for a :: u32
  by (simp add: take_bit_eq_mask mask_eq_exp_minus_1)

lemma masked_succ_masked [simp]: "(a AND ADDR_MASK) + 1 AND ADDR_MASK = (a + 1) AND ADDR_MASK"
proof -
  have u: "uint (a + 1) = take_bit 32 (uint a + 1)" for a :: u32
    by (simp add: uint_word_ariths take_bit_eq_mod)
  have "uint (take_bit 24 (take_bit 24 a + 1)) = uint (take_bit 24 (a + 1))"
    unfolding unsigned_take_bit_eq u take_bit_take_bit
    by (simp add: take_bit_eq_mod mod_add_left_eq)
  then show ?thesis
    by (simp only: addr_mask_take word_uint_eq_iff)
qed

lemma phys_access_masked [simp]:
  "phys_read8 m (a AND ADDR_MASK) = phys_read8 m a"
  "phys_write8 (a AND ADDR_MASK) v m = phys_write8 a v m"
  "phys_read8 m ((a AND ADDR_MASK) + 1) = phys_read8 m (a + 1)"
  "phys_write8 ((a AND ADDR_MASK) + 1) v m = phys_write8 (a + 1) v m"
  by (simp_all add: phys_read8_def phys_write8_def)

lemma ram_word_cells:
  assumes "\<not> m_flat_mem m" "phys_writable m a" "a AND ADDR_MASK \<noteq> 0x17FFFF"
  shows "phys_writable m (a + 1)" "(a + 1) AND ADDR_MASK = (a AND ADDR_MASK) + 1"
    "ROM_SIZE \<le> a AND ADDR_MASK"
proof -
  have r: "0x80000 \<le> unat (a AND ADDR_MASK)" "unat (a AND ADDR_MASK) \<le> 0x17FFFF"
    "unat (a AND ADDR_MASK) \<noteq> 0x17FFFF"
    using assms by (simp_all add: phys_writable_def seg_populated_iff word_le_nat_alt
        word_unat_eq_iff Let_def)
  show succ: "(a + 1) AND ADDR_MASK = (a AND ADDR_MASK) + 1"
    using r by (intro masked_succ) auto
  have "unat ((a AND ADDR_MASK) + 1) = unat (a AND ADDR_MASK) + 1"
    using r by (simp add: unat_word_ariths)
  with r assms(1) show "phys_writable m (a + 1)"
    by (simp add: phys_writable_dram succ)
  show "ROM_SIZE \<le> a AND ADDR_MASK"
    using r by (simp add: word_le_nat_alt)
qed

lemma phys_read16_bytes:
  assumes "word_ok m a"
  shows "phys_read16 m a = be16 (phys_read8 m a) (phys_read8 m (a + 1))"
proof (cases "m_flat_mem m")
  case True
  with assms have ok: "phys_writable m a = phys_writable m (a + 1)" "a AND ADDR_MASK \<noteq> ADDR_MASK"
    by (simp_all add: word_ok_def)
  then show ?thesis
    using True masked_succ [OF ok(2)]
    by (auto simp: phys_read16_def phys_read8_cases phys_writable_def Let_def be16_def)
next
  case False
  with assms have ne: "a AND ADDR_MASK \<noteq> 0x17FFFF"
    by (simp add: word_ok_def)
  have dram: "drop_bit 16 (a AND ADDR_MASK) AND 0xFF \<ge> 0x08
      \<and> drop_bit 16 (a AND ADDR_MASK) AND 0xFF \<le> 0x17 \<longleftrightarrow> phys_writable m a"
    using False by (simp add: phys_writable_def seg_populated_def Let_def)
  consider (rom) "a AND ADDR_MASK < ROM_SIZE - 1" | (ram) "phys_writable m a"
    | (other) "\<not> a AND ADDR_MASK < ROM_SIZE - 1" "\<not> phys_writable m a" by blast
  then show ?thesis
  proof cases
    case rom
    then have u: "unat (a AND ADDR_MASK) < 0x7FFF" by (simp add: word_less_nat_alt)
    then have s: "(a + 1) AND ADDR_MASK = (a AND ADDR_MASK) + 1"
      by (intro masked_succ) auto
    have "unat ((a AND ADDR_MASK) + 1) = unat (a AND ADDR_MASK) + 1"
      using u by (simp add: unat_word_ariths)
    with u False have "\<not> phys_writable m a" "\<not> phys_writable m (a + 1)"
      "(a + 1) AND ADDR_MASK < ROM_SIZE" "a AND ADDR_MASK < ROM_SIZE"
      by (simp_all add: phys_writable_dram word_less_nat_alt s)
    with rom False show ?thesis
      by (simp add: phys_read16_def phys_read8_cases s Let_def)
  next
    case ram
    note c = ram_word_cells [OF False ram ne]
    then have "\<not> a AND ADDR_MASK < ROM_SIZE - 1"
      by (auto simp: word_le_nat_alt word_less_nat_alt)
    with ram dram c False show ?thesis
      by (simp add: phys_read16_def phys_read8_cases Let_def)
  next
    case other
    with dram have "\<not> (drop_bit 16 (a AND ADDR_MASK) AND 0xFF \<ge> 0x08
      \<and> drop_bit 16 (a AND ADDR_MASK) AND 0xFF \<le> 0x17)" by blast
    with other(1) False show ?thesis
      unfolding phys_read16_def Let_def by (simp only: if_False phys_access_masked)
  qed
qed

lemma phys_write16_bytes:
  assumes "word_ok m a"
  shows "phys_write16 a v m =
           phys_write8 (a + 1) (ucast v) (phys_write8 a (ucast (drop_bit 8 v)) m)"
proof (cases "m_flat_mem m")
  case True
  with assms have ok: "phys_writable m a = phys_writable m (a + 1)" "a AND ADDR_MASK \<noteq> ADDR_MASK"
    by (simp_all add: word_ok_def)
  then show ?thesis
    using True masked_succ [OF ok(2)]
    by (auto simp: phys_write16_def phys_write8_cases phys_writable_def flat_seg_ok_def Let_def)
next
  case False
  with assms have ne: "a AND ADDR_MASK \<noteq> 0x17FFFF"
    by (simp add: word_ok_def)
  have dram: "drop_bit 16 (a AND ADDR_MASK) AND 0xFF \<ge> 0x08
      \<and> drop_bit 16 (a AND ADDR_MASK) AND 0xFF \<le> 0x17 \<longleftrightarrow> phys_writable m a"
    using False by (simp add: phys_writable_def seg_populated_def Let_def)
  consider (rom) "a AND ADDR_MASK < ROM_SIZE" | (ram) "phys_writable m a"
    | (other) "\<not> a AND ADDR_MASK < ROM_SIZE" "\<not> phys_writable m a" by blast
  then show ?thesis
  proof cases
    case rom
    then have u: "unat (a AND ADDR_MASK) < 0x8000" by (simp add: word_less_nat_alt)
    then have s: "(a + 1) AND ADDR_MASK = (a AND ADDR_MASK) + 1"
      by (intro masked_succ) auto
    have "unat ((a AND ADDR_MASK) + 1) = unat (a AND ADDR_MASK) + 1"
      using u by (simp add: unat_word_ariths)
    with u False have "\<not> phys_writable m a" "\<not> phys_writable m (a + 1)"
      by (simp_all add: phys_writable_dram word_less_nat_alt s)
    with rom False show ?thesis
      by (simp add: phys_write16_def phys_write8_cases Let_def)
  next
    case ram
    note c = ram_word_cells [OF False ram ne]
    with ram dram False show ?thesis
      by (simp add: phys_write16_def phys_write8_cases Let_def)
  next
    case other
    with dram have "\<not> (drop_bit 16 (a AND ADDR_MASK) AND 0xFF \<ge> 0x08
      \<and> drop_bit 16 (a AND ADDR_MASK) AND 0xFF \<le> 0x17)" by blast
    with other(1) False show ?thesis
      unfolding phys_write16_def Let_def by (simp only: if_False phys_access_masked)
  qed
qed

end
