(* ===== verification/Phys_Props.thy ===== *)
theory Phys_Props
  imports Phys_Mem
begin

text \<open>
  What physical memory promises: a store is seen exactly where it can be seen, nothing else
  changes, and a word access is the two byte accesses wherever the decode does not end
  between them.
\<close>

text \<open>C26: Byte stores and loads of physical memory.  A load after a store returns the stored byte if
  the two addresses name the same cell of the 24-bit space and the cell is writable (motherboard
  DRAM, segments 0x08 to 0x17; in the flat image, a segment up to the highest installed one), and
  otherwise what it returned before; the boot ROM is never changed; and a cell that nothing backs
  reads 0xFF.\<close>

theorem phys_store_visible:
  "phys_read8 (phys_write8 a v m) b =
     (if phys_writable m a \<and> a AND ADDR_MASK = b AND ADDR_MASK then v else phys_read8 m b)
   \<and> m_rom (phys_write8 a v m) = m_rom m
   \<and> phys_writable (phys_write8 a v m) b = phys_writable m b
   \<and> (if m_flat_mem m
      then phys_writable m b \<longleftrightarrow> unat (b AND ADDR_MASK) div 0x10000 \<le> unat (m_flat_maxseg m)
      else phys_writable m b \<longleftrightarrow>
        0x80000 \<le> unat (b AND ADDR_MASK) \<and> unat (b AND ADDR_MASK) \<le> 0x17FFFF)
   \<and> (if phys_backed m b then True else phys_read8 m b = 0xFF)"
proof (intro conjI)
  show "phys_read8 (phys_write8 a v m) b =
     (if phys_writable m a \<and> a AND ADDR_MASK = b AND ADDR_MASK then v else phys_read8 m b)"
    by (rule phys_read8_write8)
  show "m_rom (phys_write8 a v m) = m_rom m" "phys_writable (phys_write8 a v m) b = phys_writable m b"
    by (simp_all add: phys_write8_cases)
  show "if m_flat_mem m
      then phys_writable m b \<longleftrightarrow> unat (b AND ADDR_MASK) div 0x10000 \<le> unat (m_flat_maxseg m)
      else phys_writable m b \<longleftrightarrow>
        0x80000 \<le> unat (b AND ADDR_MASK) \<and> unat (b AND ADDR_MASK) \<le> 0x17FFFF"
  proof (cases "m_flat_mem m")
    case True
    have "unat (m_flat_maxseg m) < 2 ^ LENGTH(8)" by (rule unsigned_less)
    then have "unat (ucast (m_flat_maxseg m) :: u32) = unat (m_flat_maxseg m)"
      by (simp add: unsigned_ucast_eq take_bit_nat_eq_self)
    moreover have "unat (drop_bit 16 (b AND ADDR_MASK)) = unat (b AND ADDR_MASK) div 0x10000"
      by (simp only: unat_drop_bit_eq) (simp add: drop_bit_eq_div)
    ultimately show ?thesis
      using True by (simp only: if_True phys_writable_def flat_seg_ok_def Let_def word_le_nat_alt)
  qed (simp add: phys_writable_dram)
  show "if phys_backed m b then True else phys_read8 m b = 0xFF"
    by (auto simp: phys_read8_cases phys_backed_def)
qed

text \<open>C27: Word accesses are big-endian pairs of byte accesses: reading a word is reading the byte at
  the address and the one after it, storing a word is storing its high and then its low byte, on
  every address but the last byte of the DRAM (0x17FFFF) and, in the flat image, the last byte of
  the highest installed segment and of the space, where the source touches the cell behind.  At
  the end of the DRAM a word store changes the unpopulated cell 0x180000 and a word read returns
  it, although byte accesses there float.\<close>

theorem phys_word_is_two_bytes:
  "(if word_ok m a
    then phys_read16 m a = be16 (phys_read8 m a) (phys_read8 m (a + 1))
         \<and> phys_write16 a v m = phys_write8 (a + 1) (ucast v) (phys_write8 a (ucast (drop_bit 8 v)) m)
    else True)
   \<and> (if m_flat_mem m then True
      else (word_ok m a \<longleftrightarrow> a AND ADDR_MASK \<noteq> 0x17FFFF)
           \<and> m_ram (phys_write16 0x17FFFF v m) 0x180000 = ucast v
           \<and> phys_read8 m 0x180000 = 0xFF)"
proof (intro conjI)
  show "if word_ok m a
    then phys_read16 m a = be16 (phys_read8 m a) (phys_read8 m (a + 1))
         \<and> phys_write16 a v m = phys_write8 (a + 1) (ucast v) (phys_write8 a (ucast (drop_bit 8 v)) m)
    else True"
    by (auto intro: phys_read16_bytes phys_write16_bytes)
  show "if m_flat_mem m then True
      else (word_ok m a \<longleftrightarrow> a AND ADDR_MASK \<noteq> 0x17FFFF)
           \<and> m_ram (phys_write16 0x17FFFF v m) 0x180000 = ucast v
           \<and> phys_read8 m 0x180000 = 0xFF"
    by (auto simp: word_ok_def phys_write16_def phys_read8_def seg_populated_def)
qed

end
