(* ===== verification/Scc.thy ===== *)
theory Scc
  imports Machine
begin

text \<open>
  The Z8030 serial controllers of \<open>src/src/bus.c\<close>: six channels on three chips, their
  register pointer, interrupt vectors and receivers, the text marks matched on transmitted
  output, and the pass that feeds the wired receivers.  A channel pointer that may be NULL
  is an option; the host side of a channel is the log \<open>m_host_tx\<close> of characters handed
  out and the list \<open>m_host_rx\<close> of answers to the polling calls (a byte, or -1).
\<close>

abbreviation (input) RX_BLOCKED_POLLS :: u32 where "RX_BLOCKED_POLLS \<equiv> 64"

subsection \<open>Channels\<close>

definition scc_port :: "Machine \<Rightarrow> nat \<Rightarrow> SCCChan option" where
  "scc_port m port =
     (if port = 0 then Some (m_scc_b m)
      else if port = 1 then Some (m_scc_a m)
      else if port < 2 \<or> port \<ge> 6 then None
      else if \<not> m_lr_scc m then None
      else Some (m_lr_scc_chan m (port - 2)))"

text \<open>An update through the pointer that \<open>scc_port\<close> returned.\<close>

definition scc_upd :: "nat \<Rightarrow> (SCCChan \<Rightarrow> SCCChan) \<Rightarrow> Machine \<Rightarrow> Machine" where
  "scc_upd port f m =
     (if port = 0 then m\<lparr>m_scc_b := f (m_scc_b m)\<rparr>
      else if port = 1 then m\<lparr>m_scc_a := f (m_scc_a m)\<rparr>
      else m\<lparr>m_lr_scc_chan := (m_lr_scc_chan m)(port - 2 := f (m_lr_scc_chan m (port - 2)))\<rparr>)"

definition scc_chan_of :: "Machine \<Rightarrow> nat \<Rightarrow> nat \<Rightarrow> SCCChan option" where
  "scc_chan_of m chip chan = scc_port m (chip * 2 + chan)"

definition scc_rx_int :: "SCCChan \<Rightarrow> bool" where
  "scc_rx_int ch =
     (if \<not> tst (s_wr ch 9) 0x08 then False
      else if \<not> s_rx_avail ch then False
      else s_wr ch 1 AND 0x18 \<noteq> 0)"

definition scc_vector_chip :: "Machine \<Rightarrow> nat \<Rightarrow> u8 \<Rightarrow> u8" where
  "scc_vector_chip m chip src =
     (case scc_chan_of m chip 0 of
        None \<Rightarrow> 0
      | Some b \<Rightarrow>
          if tst (s_wr b 9) 0x10 then (s_wr b 2 AND NOT 0x70) OR push_bit 4 src
          else (s_wr b 2 AND NOT 0x0E) OR push_bit 1 src)"

definition scc_vector_src :: "Machine \<Rightarrow> u8 \<Rightarrow> u8" where
  "scc_vector_src m src = scc_vector_chip m 0 src"

definition scc_vector_of :: "Machine \<Rightarrow> nat \<Rightarrow> u8" where
  "scc_vector_of m chip =
     (case (scc_chan_of m chip 1, scc_chan_of m chip 0) of
        (Some a, Some b) \<Rightarrow>
          if scc_rx_int a then scc_vector_chip m chip 0x06
          else if scc_rx_int b then scc_vector_chip m chip 0x02
          else s_wr b 2
      | _ \<Rightarrow> 0)"

definition scc_rr3_of :: "Machine \<Rightarrow> nat \<Rightarrow> u8" where
  "scc_rr3_of m chip =
     (case (scc_chan_of m chip 1, scc_chan_of m chip 0) of
        (Some a, Some b) \<Rightarrow> flag_if (scc_rx_int a) 0x20 OR flag_if (scc_rx_int b) 0x04
      | _ \<Rightarrow> 0)"

subsection \<open>Register reads\<close>

definition upd_scr :: "(Script \<Rightarrow> Script) \<Rightarrow> Machine \<Rightarrow> Machine" where
  "upd_scr f m = m\<lparr>m_scr := f (m_scr m)\<rparr>"

text \<open>\<open>int r = ch->ptr ? ch->ptr : (addrReg & 0x0F)\<close>.\<close>

definition scc_reg :: "SCCChan \<Rightarrow> nib \<Rightarrow> u8" where
  "scc_reg ch addrReg = (if s_ptr ch \<noteq> 0 then s_ptr ch else ucast addrReg)"

definition scc_read :: "nat \<Rightarrow> nat \<Rightarrow> nib \<Rightarrow> Machine \<Rightarrow> u8 \<times> Machine" where
  "scc_read chip chan addrReg m =
     (case scc_chan_of m chip chan of
        None \<Rightarrow> (0, m)
      | Some ch \<Rightarrow>
          (let port = chip * 2 + chan;
               console = (chip = 0 \<and> chan = 0);
               r = scc_reg ch addrReg;
               m = scc_upd port (\<lambda>ch. ch\<lparr>s_ptr := 0\<rparr>) m
           in if r = 0 then
                (let v = 0x04 OR 0x40 OR 0x08 OR 0x20;
                     v = (if s_rx_avail ch then v OR 0x01 else v);
                     m = (if console \<and> \<not> s_rx_avail ch
                          then upd_scr (\<lambda>q.
                                 let q = q\<lparr>q_rx_poll_streak := q_rx_poll_streak q + 1\<rparr>
                                 in if q_rx_poll_streak q \<ge> RX_BLOCKED_POLLS
                                    then q\<lparr>q_guest_polls := True\<rparr> else q) m
                          else m)
                 in (v, m))
              else if r = 8 then
                (let m = scc_upd port (\<lambda>ch. ch\<lparr>s_rx_avail := False\<rparr>) m;
                     m = (if console
                          then upd_scr (\<lambda>q. q\<lparr>q_rx_poll_streak := 0,
                                              q_last_tx_insn := c_insns (m_cpu m)\<rparr>) m
                          else m)
                 in (s_rx_data ch, m))
              else if r = 1 then (0x01 OR flag_if (s_rx_overrun ch) 0x20, m)
              else if r = 2 then ((if chan = 0 then scc_vector_of m chip else s_wr ch 2), m)
              else if r = 3 then ((if chan = 1 then scc_rr3_of m chip else 0), m)
              else (s_wr ch (ucast r), m)))"

subsection \<open>Marks in the output\<close>

text \<open>The character at a position of a C string; the terminating NUL is at its length.\<close>

definition mark_at :: "u8 list \<Rightarrow> nat \<Rightarrow> u8" where
  "mark_at mark i = (if i < length mark then mark ! i else 0)"

text \<open>\<open>k > 0 && memcmp(mark, mark + pos - k, k) != 0\<close> stepping \<open>k\<close> down.\<close>

fun mark_fallback :: "u8 list \<Rightarrow> nat \<Rightarrow> nat \<Rightarrow> nat" where
  "mark_fallback mark pos 0 = 0"
| "mark_fallback mark pos (Suc k) =
     (if take (Suc k) mark = take (Suc k) (drop (pos - Suc k) mark) then Suc k
      else mark_fallback mark pos k)"

lemma mark_fallback_le: "mark_fallback mark pos k \<le> k"
  by (induction k) (simp_all add: le_SucI)

function mark_advance :: "u8 list \<Rightarrow> nat \<Rightarrow> u8 \<Rightarrow> nat" where
  "mark_advance mark pos v =
     (if mark_at mark pos = v then pos + 1
      else if pos = 0 then 0
      else mark_advance mark (mark_fallback mark pos (pos - 1)) v)"
  by pat_completeness auto
termination
proof (relation "measure (\<lambda>(mark, pos, v). pos)")
  fix mark :: "u8 list" and pos :: nat and v :: u8
  assume "pos \<noteq> 0"
  then show "((mark, mark_fallback mark pos (pos - 1), v), mark, pos, v)
      \<in> measure (\<lambda>(mark, pos, v). pos)"
    using mark_fallback_le [of mark pos "pos - 1"] by simp
qed simp

declare mark_advance.simps [simp del]

text \<open>
  \<open>stop_mark_watch\<close>.  A position past the terminating NUL would make the source read
  behind the string; that is recorded in \<open>m_ub\<close>.
\<close>

definition stop_mark_watch :: "nat \<Rightarrow> u8 \<Rightarrow> Machine \<Rightarrow> Machine" where
  "stop_mark_watch port v m =
     (case m_stop_mark m of
        None \<Rightarrow> m
      | Some mark \<Rightarrow>
          (let pos = mark_advance mark (m_stop_mark_pos m port) v;
               m = m\<lparr>m_stop_mark_pos := (m_stop_mark_pos m)(port := pos)\<rparr>;
               m = (if pos > length mark then m\<lparr>m_ub := True\<rparr> else m)
           in if mark_at mark pos = 0
              then m\<lparr>m_stop := True, m_stop_why := ''the guest printed the stop mark''\<rparr>
              else m))"

subsection \<open>Register writes\<close>

text \<open>\<open>console_put_char\<close> (port 0) and \<open>wire_put_char_n\<close>.\<close>

definition host_put :: "nat \<Rightarrow> u8 \<Rightarrow> Machine \<Rightarrow> Machine" where
  "host_put port v m = m\<lparr>m_host_tx := m_host_tx m @ [(port, v)]\<rparr>"

text \<open>The console branch of a WR8 write, after the character has been handed on.\<close>

definition console_transmit :: "u8 \<Rightarrow> Machine \<Rightarrow> Machine" where
  "console_transmit v m =
     (let insns = c_insns (m_cpu m);
          m = host_put 0 v m;
          m = upd_scr (\<lambda>q. q\<lparr>q_last_tx_insn := insns, q_rx_poll_streak := 0\<rparr>) m;
          m = upd_scr (\<lambda>q.
                case q_mark q of
                  None \<Rightarrow> q
                | Some mark \<Rightarrow>
                    if q_mark_seen q then q
                    else (let q = q\<lparr>q_mark_pos := mark_advance mark (q_mark_pos q) v\<rparr>
                          in if mark_at mark (q_mark_pos q) = 0 then q\<lparr>q_mark_seen := True\<rparr>
                             else q)) m;
          m = stop_mark_watch 0 v m
      in if (v = 0x23 \<or> v = 0x3E) \<and> insns > 1000000
         then upd_scr (\<lambda>q. q\<lparr>q_shell_up := True, q_prompt_seq := q_prompt_seq q + 1,
                             q_at_prompt := True\<rparr>) m
         else upd_scr (\<lambda>q. q\<lparr>q_at_prompt := False\<rparr>) m)"

text \<open>WR0: command and register pointer.\<close>

definition scc_wr0 :: "u8 \<Rightarrow> SCCChan \<Rightarrow> SCCChan" where
  "scc_wr0 v ch =
     (let ptr = v AND 0x07; cmd = drop_bit 3 v AND 0x07;
          ch = ch\<lparr>s_ptr := (if cmd = 1 then ptr OR 0x08 else ptr)\<rparr>
      in if cmd = 6 then ch\<lparr>s_rx_overrun := False\<rparr> else ch)"

definition scc_write :: "nat \<Rightarrow> nat \<Rightarrow> nib \<Rightarrow> u8 \<Rightarrow> Machine \<Rightarrow> Machine" where
  "scc_write chip chan addrReg v m =
     (case scc_chan_of m chip chan of
        None \<Rightarrow> m
      | Some ch \<Rightarrow>
          (let console = (chip = 0 \<and> chan = 0);
               port = chip * 2 + chan;
               r = scc_reg ch addrReg;
               m = scc_upd port (\<lambda>ch. ch\<lparr>s_ptr := 0\<rparr>) m
           in if r = 0 then scc_upd port (scc_wr0 v) m
              else if r = 8 then
                (if \<not> console
                 then stop_mark_watch port v
                        (if m_wire_port_on m port then host_put port v m else m)
                 else console_transmit v m)
              else
                (let set = (\<lambda>ch. ch\<lparr>s_wr := (s_wr ch)(ucast r := v)\<rparr>);
                     m = scc_upd port set m
                 in if (r = 2 \<or> r = 9) \<and> scc_chan_of m chip (1 - chan) \<noteq> None
                    then scc_upd (chip * 2 + (1 - chan)) set m
                    else m)))"

subsection \<open>Interrupts and address decode\<close>

definition lr_scc_vi :: "Machine \<Rightarrow> u8 option" where
  "lr_scc_vi m =
     (let pend = (\<lambda>chip chan. case scc_chan_of m chip chan of None \<Rightarrow> False | Some ch \<Rightarrow> scc_rx_int ch)
      in if pend 1 1 then Some (scc_vector_chip m 1 0x06)
         else if pend 1 0 then Some (scc_vector_chip m 1 0x02)
         else if pend 2 1 then Some (scc_vector_chip m 2 0x06)
         else if pend 2 0 then Some (scc_vector_chip m 2 0x02)
         else None)"

definition scc_chip_at :: "Machine \<Rightarrow> u16 \<Rightarrow> nat option" where
  "scc_chip_at m port =
     (if port AND 0xFF80 = 0x0100 then Some 0
      else if \<not> m_lr_scc m then None
      else if port AND 0xFF80 = 0x0300 then Some 1
      else if port AND 0xFF80 = 0x0380 then Some 2
      else None)"

subsection \<open>Receivers\<close>

definition scc_deliver :: "bool \<Rightarrow> u8 \<Rightarrow> SCCChan \<Rightarrow> SCCChan" where
  "scc_deliver overrun_on b ch =
     (let ch = (if s_rx_avail ch \<and> overrun_on
                then ch\<lparr>s_rx_overrun := True, s_rx_lost := s_rx_lost ch + 1\<rparr> else ch)
      in ch\<lparr>s_rx_data := b, s_rx_avail := True\<rparr>)"

definition scc_rx_port :: "nat \<Rightarrow> u8 \<Rightarrow> Machine \<Rightarrow> Machine" where
  "scc_rx_port port b m =
     (if scc_port m port = None then m
      else scc_upd port (scc_deliver (m_rx_overrun_on m) b) m)"

definition scc_rx_console :: "u8 \<Rightarrow> Machine \<Rightarrow> Machine" where
  "scc_rx_console b m = scc_upd 0 (scc_deliver (m_rx_overrun_on m) b) m"

text \<open>\<open>wire_poll_char_n\<close>, \<open>console_poll_char\<close>: the host's next answer, -1 when there is none.\<close>

definition host_poll :: "nat \<Rightarrow> Machine \<Rightarrow> int \<times> Machine" where
  "host_poll port m =
     (case m_host_rx m port of
        [] \<Rightarrow> (- 1, m)
      | x # xs \<Rightarrow> (x, m\<lparr>m_host_rx := (m_host_rx m)(port := xs)\<rparr>))"

text \<open>One iteration of the loop of \<open>scc_wire_service\<close>.\<close>

definition wire_service_port :: "nat \<Rightarrow> Machine \<Rightarrow> Machine" where
  "wire_service_port port m =
     (if \<not> m_wire_port_on m port then m
      else case scc_port m port of
        None \<Rightarrow> m
      | Some ch \<Rightarrow>
          if s_rx_avail ch \<and> \<not> m_rx_overrun_on m then m
          else (let (b, m) = host_poll port m
                in if b \<ge> 0 then scc_upd port (scc_deliver (m_rx_overrun_on m) (word_of_int b)) m
                   else m))"

definition scc_wire_service :: "Machine \<Rightarrow> Machine" where
  "scc_wire_service m = fold wire_service_port [1..<6] m"

end
