(* ===== verification/Scc_Props.thy ===== *)
theory Scc_Props
  imports Scc "HOL-Library.Sublist"
begin

text \<open>
  The serial controllers: the text mark is found exactly where the output contains it, and the
  two halves of a chip share their vector and interrupt-control registers.
\<close>

subsection \<open>The mark matcher\<close>

text \<open>A prefix of the mark that the output ends with, and the longest one.\<close>

definition mark_border :: "u8 list \<Rightarrow> u8 list \<Rightarrow> nat \<Rightarrow> bool" where
  "mark_border mark out k \<longleftrightarrow> k \<le> length mark \<and> suffix (take k mark) out"

definition mark_longest :: "u8 list \<Rightarrow> u8 list \<Rightarrow> nat \<Rightarrow> bool" where
  "mark_longest mark out p \<longleftrightarrow> mark_border mark out p \<and> (\<forall>k. mark_border mark out k \<longrightarrow> k \<le> p)"

lemma mark_border_snoc:
  "mark_border mark (out @ [v]) (Suc k) \<longleftrightarrow> k < length mark \<and> mark ! k = v \<and> mark_border mark out k"
  by (auto simp: mark_border_def take_Suc_conv_app_nth Suc_le_eq)

lemma mark_border_0: "mark_border mark out 0"
  by (simp add: mark_border_def)

lemma mark_at_byte: "v \<noteq> 0 \<Longrightarrow> mark_at mark p = v \<longleftrightarrow> p < length mark \<and> mark ! p = v"
  by (auto simp: mark_at_def)

text \<open>The fallback is the longest proper prefix of the matched part that also ends it.\<close>

lemma mark_fallback_eq_test:
  assumes "k \<le> pos" "pos \<le> length mark"
  shows "take k mark = take k (drop (pos - k) mark) \<longleftrightarrow> suffix (take k mark) (take pos mark)"
proof -
  have "take k (drop (pos - k) mark) = drop (pos - k) (take pos mark)"
    using assms by (simp add: drop_take)
  moreover have "suffix (take k mark) (take pos mark) \<longleftrightarrow> take k mark = drop (pos - k) (take pos mark)"
    using assms suffix_take [of "take k mark" "take pos mark"]
      suffix_drop [of "pos - k" "take pos mark"]
    by (auto simp: min_def suffix_length_le dest: arg_cong [of _ _ "drop (pos - k)"])
  ultimately show ?thesis by simp
qed

lemma mark_fallback_border:
  assumes "b \<le> pos" "pos \<le> length mark"
  shows "suffix (take (mark_fallback mark pos b) mark) (take pos mark)"
    "k \<le> b \<Longrightarrow> suffix (take k mark) (take pos mark) \<Longrightarrow> k \<le> mark_fallback mark pos b"
  using assms by (induction b) (auto simp: mark_fallback_eq_test le_Suc_eq)

lemma mark_advance_longest:
  assumes "v \<noteq> 0" "mark_border mark out pos"
    and "\<And>k. pos < k \<Longrightarrow> k < length mark \<Longrightarrow> mark_border mark out k \<Longrightarrow> mark ! k \<noteq> v"
  shows "mark_longest mark (out @ [v]) (mark_advance mark pos v)"
  using assms
proof (induction mark pos v rule: mark_advance.induct)
  case (1 mark pos v)
  have le: "pos \<le> length mark" and suf: "suffix (take pos mark) out"
    using 1(3) by (simp_all add: mark_border_def)
  show ?case
  proof (cases "mark_at mark pos = v")
    case True
    then have hit: "pos < length mark" "mark ! pos = v"
      using 1(2) by (simp_all add: mark_at_byte)
    have "k \<le> Suc pos" if "mark_border mark (out @ [v]) k" for k
      using that 1(4) by (cases k) (auto simp: mark_border_snoc not_less_eq_eq less_Suc_eq_le intro: leI)
    then show ?thesis
      using True hit 1(3) by (simp add: mark_longest_def mark_border_snoc mark_advance.simps [of mark pos])
  next
    case miss: False
    show ?thesis
    proof (cases "pos = 0")
      case True
      have "k = 0" if "mark_border mark (out @ [v]) k" for k
      proof (cases k)
        case (Suc j)
        with that have j: "j < length mark" "mark ! j = v" "mark_border mark out j"
          by (simp_all add: mark_border_snoc)
        with 1(4) True have "j = 0" by (cases "j = 0") auto
        with j True miss 1(2) show ?thesis by (simp add: mark_at_byte)
      qed simp
      moreover have "mark_advance mark pos v = 0"
        using True miss by (subst mark_advance.simps) simp
      ultimately show ?thesis
        by (auto simp: mark_longest_def mark_border_0)
    next
      case False
      define q where "q = mark_fallback mark pos (pos - 1)"
      have q: "suffix (take q mark) (take pos mark)"
        "\<And>k. k \<le> pos - 1 \<Longrightarrow> suffix (take k mark) (take pos mark) \<Longrightarrow> k \<le> q"
        using mark_fallback_border [of "pos - 1" pos mark] le by (simp_all add: q_def)
      have "mark_border mark out q"
        using q(1) suf le mark_fallback_le [of mark pos "pos - 1"]
        by (auto simp: mark_border_def q_def intro: suffix_order.order_trans)
      moreover have "mark ! k \<noteq> v" if k: "q < k" "k < length mark" "mark_border mark out k" for k
      proof (cases "k < pos")
        case True
        have "suffix (take k mark) (take pos mark)"
          using k(3) suf True le by (auto simp: mark_border_def intro: suffix_length_suffix)
        moreover have "k \<le> pos - 1" using True by linarith
        ultimately show ?thesis using q(2) k(1) leD by blast
      next
        case False
        with 1(4) [of k] k miss 1(2) show ?thesis
          by (cases "k = pos") (auto simp: mark_at_byte)
      qed
      ultimately have "mark_longest mark (out @ [v]) (mark_advance mark q v)"
        using 1(1) [OF miss False 1(2)] unfolding q_def by blast
      then show ?thesis
        using miss False by (simp add: mark_advance.simps [of mark pos] q_def)
    qed
  qed
qed

text \<open>Characters fed to the watch of one port, from the state in which nothing has matched.\<close>

definition watch_fed :: "nat \<Rightarrow> u8 list \<Rightarrow> u8 list \<Rightarrow> Machine \<Rightarrow> bool" where
  "watch_fed port mark out m \<longleftrightarrow>
     m_stop_mark m = Some mark \<and> mark_longest mark out (m_stop_mark_pos m port)"

lemma mark_longest_full:
  assumes "mark_longest mark out p"
  shows "p = length mark \<longleftrightarrow> suffix mark out"
proof
  assume "p = length mark"
  with assms show "suffix mark out" by (simp add: mark_longest_def mark_border_def)
next
  assume "suffix mark out"
  then have "mark_border mark out (length mark)" by (simp add: mark_border_def)
  with assms show "p = length mark"
    unfolding mark_longest_def by (meson le_antisym mark_border_def)
qed

lemma mark_at_end: "0 \<notin> set mark \<Longrightarrow> p \<le> length mark \<Longrightarrow> mark_at mark p = 0 \<longleftrightarrow> p = length mark"
  by (cases "p < length mark") (auto simp: mark_at_def dest: nth_mem)

lemma stop_mark_watch_step:
  assumes "watch_fed port mark out m" "v \<noteq> 0" "0 \<notin> set mark"
  shows "watch_fed port mark (out @ [v]) (stop_mark_watch port v m)"
    "m_stop (stop_mark_watch port v m) \<longleftrightarrow> m_stop m \<or> suffix mark (out @ [v])"
    "m_ub (stop_mark_watch port v m) = m_ub m"
proof -
  define p where "p = mark_advance mark (m_stop_mark_pos m port) v"
  have p: "mark_longest mark (out @ [v]) p"
    using assms unfolding p_def watch_fed_def mark_longest_def
    by (intro mark_advance_longest [unfolded mark_longest_def]) (auto simp: leD)
  then have le: "p \<le> length mark" by (simp add: mark_longest_def mark_border_def)
  have w: "stop_mark_watch port v m =
      (let m = m\<lparr>m_stop_mark_pos := (m_stop_mark_pos m)(port := p)\<rparr>
       in if suffix mark (out @ [v])
          then m\<lparr>m_stop := True, m_stop_why := ''the guest printed the stop mark''\<rparr> else m)"
    using assms le mark_longest_full [OF p] mark_at_end [OF assms(3) le]
    by (auto simp: stop_mark_watch_def watch_fed_def p_def Let_def)
  show "watch_fed port mark (out @ [v]) (stop_mark_watch port v m)"
    "m_stop (stop_mark_watch port v m) \<longleftrightarrow> m_stop m \<or> suffix mark (out @ [v])"
    "m_ub (stop_mark_watch port v m) = m_ub m"
    using assms p by (auto simp: w watch_fed_def Let_def)
qed

subsection \<open>The transmit path\<close>

text \<open>What a write to WR8 does to the mark state is \<open>stop_mark_watch\<close>, on every channel.\<close>

definition mark_state :: "Machine \<Rightarrow> u8 list option \<times> (nat \<Rightarrow> nat) \<times> bool \<times> bool" where
  "mark_state m = (m_stop_mark m, m_stop_mark_pos m, m_stop m, m_ub m)"

lemma mark_state_upd [simp]:
  "mark_state (scc_upd p f m) = mark_state m" "mark_state (upd_scr g m) = mark_state m"
  "mark_state (host_put p v m) = mark_state m"
  by (simp_all add: mark_state_def scc_upd_def upd_scr_def host_put_def)

lemma stop_mark_watch_cong:
  "mark_state m = mark_state m' \<Longrightarrow>
     mark_state (stop_mark_watch port v m) = mark_state (stop_mark_watch port v m')"
  by (auto simp: mark_state_def stop_mark_watch_def Let_def split: option.splits)

lemma mark_state_transmit:
  assumes "scc_chan_of m chip chan = Some ch" "s_ptr ch = 0"
  shows "mark_state (scc_write chip chan 8 v m) = mark_state (stop_mark_watch (chip * 2 + chan) v m)"
  using assms
  by (auto simp: scc_write_def scc_reg_def console_transmit_def Let_def intro!: stop_mark_watch_cong)

lemma scc_port_upd [simp]:
  "scc_port (scc_upd p f m) q =
     (if p = q then map_option f (scc_port m q) else scc_port m q)"
  by (auto simp: scc_port_def scc_upd_def)

lemma scc_port_frame [simp]:
  "scc_port (upd_scr g m) q = scc_port m q" "scc_port (host_put p v m) q = scc_port m q"
  "scc_port (stop_mark_watch p v m) q = scc_port m q"
  by (simp_all add: scc_port_def upd_scr_def host_put_def stop_mark_watch_def Let_def
      split: option.splits)

definition chan_ready :: "nat \<Rightarrow> nat \<Rightarrow> Machine \<Rightarrow> bool" where
  "chan_ready chip chan m \<longleftrightarrow> (\<exists>ch. scc_chan_of m chip chan = Some ch \<and> s_ptr ch = 0)"

lemma chan_ready_transmit:
  assumes "chan_ready chip chan m"
  shows "chan_ready chip chan (scc_write chip chan 8 v m)"
  using assms
  by (auto simp: chan_ready_def scc_chan_of_def scc_write_def scc_reg_def console_transmit_def Let_def)

lemma transmit_step:
  assumes "watch_fed (chip * 2 + chan) mark sofar m" "chan_ready chip chan m" "0 \<notin> set mark"
    "v \<noteq> 0"
  shows "watch_fed (chip * 2 + chan) mark (sofar @ [v]) (scc_write chip chan 8 v m)"
    "m_stop (scc_write chip chan 8 v m) \<longleftrightarrow> m_stop m \<or> suffix mark (sofar @ [v])"
    "m_ub (scc_write chip chan 8 v m) = m_ub m"
proof -
  have e: "mark_state (scc_write chip chan 8 v m) = mark_state (stop_mark_watch (chip * 2 + chan) v m)"
    using assms(2) by (auto simp: chan_ready_def intro: mark_state_transmit)
  note w = stop_mark_watch_step [OF assms(1) assms(4) assms(3)]
  show "watch_fed (chip * 2 + chan) mark (sofar @ [v]) (scc_write chip chan 8 v m)"
    "m_stop (scc_write chip chan 8 v m) \<longleftrightarrow> m_stop m \<or> suffix mark (sofar @ [v])"
    "m_ub (scc_write chip chan 8 v m) = m_ub m"
    using e w by (simp_all add: mark_state_def watch_fed_def)
qed

lemma transmit_text:
  assumes "watch_fed (chip * 2 + chan) mark sofar m" "chan_ready chip chan m"
    "0 \<notin> set mark" "0 \<notin> set out" "m_stop m \<longleftrightarrow> b \<or> sublist mark sofar"
  shows "m_ub (fold (scc_write chip chan 8) out m) = m_ub m"
    "m_stop (fold (scc_write chip chan 8) out m) \<longleftrightarrow> b \<or> sublist mark (sofar @ out)"
  using assms
proof (induction out arbitrary: sofar m)
  case (Cons v out)
  case 1
  then have v: "v \<noteq> 0" by auto
  note st = transmit_step [OF 1(1,2,3) v]
  have "m_stop (scc_write chip chan 8 v m) \<longleftrightarrow> b \<or> sublist mark (sofar @ [v])"
    using st(2) 1(5) by (auto simp: sublist_snoc)
  with Cons.IH(1) [OF st(1) chan_ready_transmit [OF 1(2)] 1(3)] 1(4) st(3)
  show ?case by simp
next
  case (Cons v out)
  case 2
  then have v: "v \<noteq> 0" by auto
  note st = transmit_step [OF 2(1,2,3) v]
  have "m_stop (scc_write chip chan 8 v m) \<longleftrightarrow> b \<or> sublist mark (sofar @ [v])"
    using st(2) 2(5) by (auto simp: sublist_snoc)
  with Cons.IH(2) [OF st(1) chan_ready_transmit [OF 2(2)] 2(3)] 2(4)
  show ?case by simp
qed simp_all

text \<open>C21: The guest text mark.  Take any serial channel that is fitted, with no match in progress
  and its register pointer at rest, and a mark and an output without NUL characters.  After the
  guest has transmitted the output on that channel, one WR8 write per character, the run is asked
  to stop exactly if the output contains the mark, wherever it starts and however its own prefixes
  repeat.\<close>

theorem stop_mark_exact:
  assumes "m_stop_mark m = Some mark" "mark \<noteq> []" "0 \<notin> set mark" "0 \<notin> set out"
    "m_stop_mark_pos m (chip * 2 + chan) = 0" "\<not> m_stop m"
    "scc_chan_of m chip chan = Some ch" "s_ptr ch = 0"
  shows "m_stop (fold (scc_write chip chan 8) out m) \<longleftrightarrow> sublist mark out"
proof -
  have "watch_fed (chip * 2 + chan) mark [] m"
    using assms by (simp add: watch_fed_def mark_longest_def mark_border_def)
  moreover have "m_stop m \<longleftrightarrow> False \<or> sublist mark []"
    using assms by simp
  ultimately show ?thesis
    using assms transmit_text(2) [of chip chan mark "[]" m out False]
    by (auto simp: chan_ready_def)
qed

theorem stop_mark_exact_witness:
  "m_stop (fold (scc_write 1 0 8) [0x61, 0x61, 0x61, 0x62]
     (machine_zero\<lparr>m_lr_scc := True, m_stop_mark := Some [0x61, 0x61, 0x62]\<rparr>))"
proof -
  let ?m = "machine_zero\<lparr>m_lr_scc := True, m_stop_mark := Some [0x61, 0x61, 0x62]\<rparr>"
  have "m_stop (fold (scc_write 1 0 8) [0x61, 0x61, 0x61, 0x62] ?m)
      \<longleftrightarrow> sublist [0x61, 0x61, 0x62] [0x61, 0x61, 0x61, 0x62 :: u8]"
    by (rule stop_mark_exact [where ch = scc_zero])
      (simp_all add: machine_zero_def scc_chan_of_def scc_port_def scc_zero_def)
  then show ?thesis by (simp add: sublist_code)
qed

subsection \<open>Shared registers of a chip\<close>

text \<open>
  WR2 and WR9 are one register each for both channels of a chip, kept as two copies; the
  register pointer is always a register number.
\<close>

definition chan_ok :: "SCCChan \<Rightarrow> bool" where
  "chan_ok ch \<longleftrightarrow> s_ptr ch < 16"

definition pair_ok :: "SCCChan \<Rightarrow> SCCChan \<Rightarrow> bool" where
  "pair_ok a b \<longleftrightarrow> s_wr a 2 = s_wr b 2 \<and> s_wr a 9 = s_wr b 9"

definition scc_inv :: "Machine \<Rightarrow> bool" where
  "scc_inv m \<longleftrightarrow> chan_ok (m_scc_a m) \<and> chan_ok (m_scc_b m) \<and> (\<forall>i. chan_ok (m_lr_scc_chan m i))
     \<and> pair_ok (m_scc_a m) (m_scc_b m)
     \<and> pair_ok (m_lr_scc_chan m 0) (m_lr_scc_chan m 1)
     \<and> pair_ok (m_lr_scc_chan m 2) (m_lr_scc_chan m 3)"

datatype serial_op =
    ScRead nat nat nib | ScWrite nat nat nib u8 | ScRx nat u8 | ScService

text \<open>Accesses name a chip and one of its two channels.\<close>

fun serial_apply :: "serial_op \<Rightarrow> Machine \<Rightarrow> Machine" where
  "serial_apply (ScRead chip chan r) m = (if chan \<le> 1 then snd (scc_read chip chan r m) else m)"
| "serial_apply (ScWrite chip chan r v) m = (if chan \<le> 1 then scc_write chip chan r v m else m)"
| "serial_apply (ScRx port b) m = scc_rx_port port b m"
| "serial_apply ScService m = scc_wire_service m"

lemma scc_inv_upd:
  assumes "scc_inv m" "\<And>ch. chan_ok ch \<Longrightarrow> chan_ok (f ch)"
    "\<And>ch. s_wr (f ch) 2 = s_wr ch 2 \<and> s_wr (f ch) 9 = s_wr ch 9"
  shows "scc_inv (scc_upd p f m)"
  using assms by (auto simp: scc_inv_def scc_upd_def pair_ok_def)

lemma scc_inv_frame [simp]:
  "scc_inv (upd_scr g m) = scc_inv m" "scc_inv (host_put p v m) = scc_inv m"
  "scc_inv (stop_mark_watch p v m) = scc_inv m" "scc_inv (console_transmit v m) = scc_inv m"
  by (simp_all add: scc_inv_def upd_scr_def host_put_def stop_mark_watch_def console_transmit_def
      Let_def split: option.splits)

lemma scc_inv_read: "scc_inv m \<Longrightarrow> scc_inv (snd (scc_read chip chan r m))"
  by (auto simp: scc_read_def Let_def chan_ok_def split: option.splits intro!: scc_inv_upd)

lemma wr0_ok: "chan_ok (scc_wr0 v ch)" "s_wr (scc_wr0 v ch) = s_wr ch"
proof -
  have "(v AND 7 OR 8) AND 15 = v AND 7 OR 8"
    by (simp add: bit.conj_disj_distrib2 and.assoc)
  moreover have "(v AND 7 OR 8) AND 15 \<le> 15" "v AND 7 \<le> 7" by (rule word_and_le1)+
  ultimately have "v AND 7 OR 8 < 16" "v AND 7 < 16"
    by (simp_all add: word_le_nat_alt word_less_nat_alt)
  then show "chan_ok (scc_wr0 v ch)" "s_wr (scc_wr0 v ch) = s_wr ch"
    by (simp_all add: scc_wr0_def chan_ok_def Let_def)
qed

lemma scc_inv_deliver: "scc_inv m \<Longrightarrow> scc_inv (scc_upd p (scc_deliver b v) m)"
  by (rule scc_inv_upd) (simp_all add: scc_deliver_def chan_ok_def)

lemma scc_inv_service: "scc_inv m \<Longrightarrow> scc_inv (scc_wire_service m)"
proof -
  have "scc_inv m \<Longrightarrow> scc_inv (wire_service_port p m)" for p m
  proof -
    assume "scc_inv m"
    moreover have "scc_inv (snd (host_poll p m)) = scc_inv m"
      by (simp add: host_poll_def scc_inv_def split: list.splits)
    ultimately show ?thesis
      by (auto simp: wire_service_port_def split: option.splits prod.splits intro!: scc_inv_deliver)
  qed
  then show "scc_inv m \<Longrightarrow> scc_inv (scc_wire_service m)"
    unfolding scc_wire_service_def by (rule fold_keeps)
qed

text \<open>A write to one of the other registers, or to a shared one on both channels.\<close>

lemma scc_inv_set_other:
  assumes "scc_inv m" "r \<noteq> 2" "r \<noteq> 9"
  shows "scc_inv (scc_upd p (\<lambda>ch. ch\<lparr>s_wr := (s_wr ch)(r := v)\<rparr>) m)"
  using assms by (intro scc_inv_upd) (simp_all add: chan_ok_def)

lemma scc_inv_set_both:
  fixes r :: nib and v :: u8
  assumes "scc_inv m" "chip * 2 + chan < 6" "chan \<le> 1"
  defines "f \<equiv> \<lambda>ch. ch\<lparr>s_wr := (s_wr ch)(r := v)\<rparr>"
  shows "scc_inv (scc_upd (chip * 2 + (1 - chan)) f (scc_upd (chip * 2 + chan) f m))"
proof -
  have "chip = 0 \<or> chip = 1 \<or> chip = 2" "chan = 0 \<or> chan = 1"
    using assms by auto
  then show ?thesis
    using assms(1) unfolding f_def
    by (elim disjE; simp add: scc_inv_def scc_upd_def chan_ok_def pair_ok_def)
qed

lemma scc_chan_of_pair:
  "scc_chan_of m chip chan = Some ch \<Longrightarrow> chan \<le> 1 \<Longrightarrow>
     chip * 2 + chan < 6 \<and> (\<exists>o'. scc_chan_of m chip (1 - chan) = Some o')"
  by (cases "chan = 0") (auto simp: scc_chan_of_def scc_port_def split: if_splits)

lemma scc_inv_write:
  assumes "scc_inv m" "chan \<le> 1"
  shows "scc_inv (scc_write chip chan r v m)"
proof (cases "scc_chan_of m chip chan")
  case None
  with assms show ?thesis by (simp add: scc_write_def)
next
  case (Some ch)
  have other: "scc_chan_of (scc_upd p f m) chip (1 - chan) \<noteq> None" for p f
    using scc_chan_of_pair [OF Some assms(2)] by (auto simp: scc_chan_of_def)
  have ok: "chan_ok ch"
    using Some assms(1) by (auto simp: scc_chan_of_def scc_port_def scc_inv_def split: if_splits)
  define q where "q = scc_reg ch r"
  have "q < 16"
  proof -
    have "unat r < 2 ^ LENGTH(4)" by (rule unsigned_less)
    then have "ucast r < (16 :: u8)"
      by (simp add: word_less_nat_alt unsigned_ucast_eq take_bit_nat_eq_self)
    with ok show ?thesis by (simp add: q_def scc_reg_def chan_ok_def)
  qed
  then have reg: "(ucast q :: nib) = 2 \<longleftrightarrow> q = 2" "(ucast q :: nib) = 9 \<longleftrightarrow> q = 9"
    by (simp_all add: word_unat_eq_iff unsigned_ucast_eq word_less_nat_alt take_bit_nat_eq_self)
  have base: "scc_inv (scc_upd p (\<lambda>ch. ch\<lparr>s_ptr := 0\<rparr>) m)" for p
    using assms(1) by (rule scc_inv_upd) (simp_all add: chan_ok_def)
  note pair = scc_chan_of_pair [OF Some assms(2)]
  consider "q = 0" | "q = 8" | "q = 2 \<or> q = 9" | "q \<noteq> 0" "q \<noteq> 8" "q \<noteq> 2" "q \<noteq> 9" by blast
  then show ?thesis
  proof cases
    case 1
    have "scc_inv (scc_upd p (scc_wr0 v) m')" if "scc_inv m'" for p m'
      using that by (rule scc_inv_upd) (simp_all add: wr0_ok)
    with 1 base show ?thesis by (simp add: scc_write_def Some Let_def flip: q_def)
  next
    case 2
    with base show ?thesis by (simp add: scc_write_def Some Let_def flip: q_def)
  next
    case 3
    then have "q \<noteq> 0" "q \<noteq> 8" by auto
    moreover have "scc_chan_of (scc_upd p f m') chip (1 - chan) \<noteq> None"
      if "scc_chan_of m' chip (1 - chan) \<noteq> None" for p f m'
      using that by (auto simp: scc_chan_of_def)
    ultimately show ?thesis
      using 3 scc_inv_set_both [OF base _ assms(2), of chip] pair other
      by (simp only: scc_write_def Some Let_def if_True if_False simp_thms option.case flip: q_def)
  next
    case 4
    then show ?thesis
      using scc_inv_set_other [OF base, of "ucast q"] reg
      by (simp add: scc_write_def Some Let_def flip: q_def)
  qed
qed

lemma scc_inv_apply: "scc_inv m \<Longrightarrow> scc_inv (serial_apply x m)"
  by (cases x) (auto simp: scc_inv_read scc_inv_write scc_inv_service scc_rx_port_def
      intro!: scc_inv_deliver)

text \<open>Whatever sequence of register reads and writes, received characters and wire passes the
  serial controllers go through from power-up, the vector (WR2) and interrupt-control (WR9)
  registers of the two channels of every chip stay equal, and every register pointer stays a
  register number.\<close>

theorem scc_shared_registers:
  "scc_inv (fold serial_apply ops (machine_zero\<lparr>m_lr_scc := lr, m_rx_overrun_on := ov\<rparr>))"
proof (rule fold_keeps)
  show "scc_inv (machine_zero\<lparr>m_lr_scc := lr, m_rx_overrun_on := ov\<rparr>)"
    by (simp add: machine_zero_def scc_inv_def scc_zero_def chan_ok_def pair_ok_def)
qed (rule scc_inv_apply)

end
