(* ===== verification/Cpu_Regs.thy ===== *)
theory Cpu_Regs
  imports Machine
begin

text \<open>
  The register file, the address forms and the flag word of \<open>src/src/cpu.c\<close>: the
  functions that touch nothing but the CPU.  A register number is a nibble, which is the
  source's \<open>& 0x0F\<close>.  The lemmas state the register file as overlapping views that each
  obey the lens laws of the prelude, and the two banks of stack pointers as a swap.
\<close>

definition SEG :: "CPU \<Rightarrow> bool" where
  "SEG c \<longleftrightarrow> tst (c_fcw c) FCW_SEG"

definition SYSMODE :: "CPU \<Rightarrow> bool" where
  "SYSMODE c \<longleftrightarrow> tst (c_fcw c) FCW_SN"

subsection \<open>Register file\<close>

definition set_R :: "nib \<Rightarrow> u16 \<Rightarrow> CPU \<Rightarrow> CPU" where
  "set_R r v c = c\<lparr>c_R := (c_R c)(r := v)\<rparr>"

definition rb :: "nib \<Rightarrow> CPU \<Rightarrow> u8" where
  "rb r c = (if r < 8 then ucast (drop_bit 8 (c_R c r)) else ucast (c_R c (r - 8)))"

definition wb :: "nib \<Rightarrow> u8 \<Rightarrow> CPU \<Rightarrow> CPU" where
  "wb r v c =
     (if r < 8 then set_R r (push_bit 8 (ucast v) OR (c_R c r AND 0x00FF)) c
      else set_R (r - 8) ((c_R c (r - 8) AND 0xFF00) OR ucast v) c)"

definition rw :: "nib \<Rightarrow> CPU \<Rightarrow> u16" where
  "rw r c = c_R c r"

definition ww :: "nib \<Rightarrow> u16 \<Rightarrow> CPU \<Rightarrow> CPU" where
  "ww r v c = set_R r v c"

definition rl :: "nib \<Rightarrow> CPU \<Rightarrow> u32" where
  "rl r c =
     (let r = r AND 0x0E in push_bit 16 (ucast (c_R c r)) OR ucast (c_R c (r + 1)))"

definition wl :: "nib \<Rightarrow> u32 \<Rightarrow> CPU \<Rightarrow> CPU" where
  "wl r v c =
     (let r = r AND 0x0E in set_R (r + 1) (ucast v) (set_R r (ucast (drop_bit 16 v)) c))"

definition rq :: "nib \<Rightarrow> CPU \<Rightarrow> u64" where
  "rq r c =
     (let r = r AND 0x0C
      in push_bit 48 (ucast (c_R c r)) OR push_bit 32 (ucast (c_R c (r + 1)))
         OR push_bit 16 (ucast (c_R c (r + 2))) OR ucast (c_R c (r + 3)))"

definition wq :: "nib \<Rightarrow> u64 \<Rightarrow> CPU \<Rightarrow> CPU" where
  "wq r v c =
     (let r = r AND 0x0C
      in set_R (r + 3) (ucast v) (set_R (r + 2) (ucast (drop_bit 16 v))
           (set_R (r + 1) (ucast (drop_bit 32 v)) (set_R r (ucast (drop_bit 48 v)) c))))"

subsection \<open>Addresses\<close>

definition seg_addr :: "u32 \<Rightarrow> u32" where
  "seg_addr v = drop_bit 8 (v AND 0x7F000000) OR (v AND 0xFFFF)"

definition make_seg :: "u32 \<Rightarrow> u32" where
  "make_seg a = push_bit 8 (a AND 0x007F0000) OR 0x80000000 OR (a AND 0xFFFF)"

definition addr_add :: "u32 \<Rightarrow> u32 \<Rightarrow> u32" where
  "addr_add a n = (a AND 0xFFFF0000) OR ((a + n) AND 0xFFFF)"

definition addr_sub :: "u32 \<Rightarrow> u32 \<Rightarrow> u32" where
  "addr_sub a n = (a AND 0xFFFF0000) OR ((a - n) AND 0xFFFF)"

text \<open>\<open>c->pc & 0x7F0000u\<close>, the segment of a non-segmented program.\<close>

definition pc_seg :: "CPU \<Rightarrow> u32" where
  "pc_seg c = c_pc c AND 0x7F0000"

definition addr_from_reg :: "nib \<Rightarrow> CPU \<Rightarrow> u32" where
  "addr_from_reg r c =
     (if SEG c then seg_addr (rl (r AND 0x0E) c) else pc_seg c OR ucast (rw r c))"

definition addr_to_reg :: "nib \<Rightarrow> u32 \<Rightarrow> CPU \<Rightarrow> CPU" where
  "addr_to_reg r a c =
     (if SEG c
      then (let e = r AND 0x0E
            in ww (e + 1) (ucast a) (ww e (ucast (drop_bit 8 a AND 0x7F00)) c))
      else ww r (ucast a) c)"

definition add_to_addr_reg :: "nib \<Rightarrow> u16 \<Rightarrow> CPU \<Rightarrow> CPU" where
  "add_to_addr_reg r d c =
     (if SEG c then (let r' = r OR 1 in ww r' (rw r' c + d) c) else ww r (rw r c + d) c)"

definition rel_pc :: "int \<Rightarrow> CPU \<Rightarrow> u32" where
  "rel_pc disp c =
     (if disp \<ge> 0 then addr_add (c_pc c) (word_of_int disp)
      else addr_sub (c_pc c) (word_of_int (- disp)))"

definition displaced :: "u32 \<Rightarrow> u16 \<Rightarrow> u32" where
  "displaced base disp =
     (if sint disp \<ge> 0 then addr_add base (word_of_int (sint disp))
      else addr_sub base (word_of_int (- sint disp)))"

definition nib1 :: "u16 \<Rightarrow> nib" where "nib1 op = ucast (drop_bit 8 op)"
definition nib2 :: "u16 \<Rightarrow> nib" where "nib2 op = ucast (drop_bit 4 op)"
definition nib3 :: "u16 \<Rightarrow> nib" where "nib3 op = ucast op"

definition seg_addr_op :: "nat \<Rightarrow> CPU \<Rightarrow> u32" where
  "seg_addr_op idx c =
     (if SEG c
      then (let w1 = c_opcode c idx; seg = push_bit 8 (ucast (w1 AND 0x7F00))
            in if tst w1 0x8000 then seg OR ucast (c_opcode c (idx + 1))
               else seg OR ucast (w1 AND 0xFF))
      else pc_seg c OR ucast (c_opcode c idx))"

subsection \<open>Flags and modes\<close>

definition merge_flags :: "u16 \<Rightarrow> u16 \<Rightarrow> CPU \<Rightarrow> CPU" where
  "merge_flags mk f c = c\<lparr>c_fcw := (c_fcw c AND NOT mk) OR (f AND mk)\<rparr>"

definition apply_flags :: "alu_result \<Rightarrow> CPU \<Rightarrow> CPU" where
  "apply_flags r c = merge_flags (rmask r) (rflags r) c"

text \<open>\<open>if (b) c->fcw |= m; else c->fcw &= ~m;\<close>\<close>

definition put_flag :: "u16 \<Rightarrow> bool \<Rightarrow> CPU \<Rightarrow> CPU" where
  "put_flag m b c = c\<lparr>c_fcw := (if b then c_fcw c OR m else c_fcw c AND NOT m)\<rparr>"

definition cond_true :: "nib \<Rightarrow> CPU \<Rightarrow> bool" where
  "cond_true cc c =
     (let C = tst (c_fcw c) F_C; Z = tst (c_fcw c) F_Z; S = tst (c_fcw c) F_S;
          V = tst (c_fcw c) F_PV
      in if cc = 0x0 then False
         else if cc = 0x1 then S \<noteq> V
         else if cc = 0x2 then S \<noteq> V \<or> Z
         else if cc = 0x3 then C \<or> Z
         else if cc = 0x4 then V
         else if cc = 0x5 then S
         else if cc = 0x6 then Z
         else if cc = 0x7 then C
         else if cc = 0x8 then True
         else if cc = 0x9 then S = V
         else if cc = 0xA then S = V \<and> \<not> Z
         else if cc = 0xB then \<not> C \<and> \<not> Z
         else if cc = 0xC then \<not> V
         else if cc = 0xD then \<not> S
         else if cc = 0xE then \<not> Z
         else \<not> C)"

text \<open>The two exchanges of \<open>change_fcw\<close>: R15 with the saved offset, R14 with the saved segment.\<close>

definition swap_spoff :: "CPU \<Rightarrow> CPU" where
  "swap_spoff c = (let t = rw 15 c in (ww 15 (c_nspoff c) c)\<lparr>c_nspoff := t\<rparr>)"

definition swap_spseg :: "CPU \<Rightarrow> CPU" where
  "swap_spseg c = (let t = rw 14 c in (ww 14 (c_nspseg c) c)\<lparr>c_nspseg := t\<rparr>)"

definition change_fcw :: "u16 \<Rightarrow> CPU \<Rightarrow> CPU" where
  "change_fcw nf c =
     (let old = c_fcw c;
          c = (if tst (nf XOR old) FCW_SN then swap_spoff c else c);
          c = (if tst nf FCW_SN \<and> (\<not> tst old FCW_SN \<or> tst (nf XOR old) FCW_SEG) then swap_spseg c
               else if \<not> tst nf FCW_SN \<and> tst old FCW_SN \<and> tst old FCW_SEG then swap_spseg c
               else c)
      in c\<lparr>c_fcw := nf\<rparr>)"

definition sp_reg :: "CPU \<Rightarrow> nib" where
  "sp_reg c = (if SEG c then 14 else 15)"

subsection \<open>The register file as views\<close>

lemma set_R_sel [simp]:
  "c_R (set_R r v c) = (c_R c)(r := v)" "c_fcw (set_R r v c) = c_fcw c"
  "c_pc (set_R r v c) = c_pc c" "c_nspoff (set_R r v c) = c_nspoff c"
  "c_nspseg (set_R r v c) = c_nspseg c"
  by (simp_all add: set_R_def)

lemma set_R_algebra [simp]:
  "set_R r v (set_R r w c) = set_R r v c" "set_R r (c_R c r) c = c"
  by (simp_all add: set_R_def)

lemma set_R_commute: "r \<noteq> s \<Longrightarrow> set_R r v (set_R s w c) = set_R s w (set_R r v c)"
  by (simp add: set_R_def fun_upd_twist)

text \<open>The byte register that is the other half of the same word register.\<close>

lemma nib_half:
  "r < 8 \<longleftrightarrow> \<not> r + 8 < 8" "r < 8 \<Longrightarrow> r + 8 - 8 = r" "\<not> r < 8 \<Longrightarrow> r + 8 = r - 8"
  "r < 8 \<and> s < 8 \<or> \<not> r < 8 \<and> \<not> s < 8 \<Longrightarrow> r - 8 = s - 8 \<longleftrightarrow> r = s" for r s :: nib
proof -
  have "r < 8 \<longleftrightarrow> \<not> r + 8 < 8" for r :: nib
  proof -
    have "unat r < 16" using unsigned_less [of r] by simp
    then have "unat r < 8 \<longleftrightarrow> \<not> (unat r + 8) mod 16 < 8" by presburger
    then show ?thesis by (simp add: word_less_nat_alt unat_word_ariths)
  qed
  then show "r < 8 \<longleftrightarrow> \<not> r + 8 < 8" .
  have "(8 :: nib) = - 8" by simp
  then show "\<not> r < 8 \<Longrightarrow> r + 8 = r - 8" by (metis diff_minus_eq_add)
qed auto

lemma byte_parts:
  "(ucast (drop_bit 8 (push_bit 8 (ucast (v :: u8)) OR (x AND 0x00FF) :: u16)) :: u8) = v"
  "(ucast (push_bit 8 (ucast (v :: u8)) OR (x AND 0x00FF) :: u16) :: u8) = ucast x"
  "(ucast ((x AND 0xFF00) OR ucast (v :: u8) :: u16) :: u8) = v"
  "(ucast (drop_bit 8 ((x AND 0xFF00) OR ucast (v :: u8) :: u16)) :: u8) = ucast (drop_bit 8 x)"
  by (rule bit_word_eqI, auto simp: bit_simps bit_byte_masks dest: bit_imp_le_length)+

lemma drop_parts:
  "(ucast (drop_bit 8 (push_bit 8 (ucast (v :: u8) :: u16))) :: u8) = v"
  "(ucast (drop_bit 16 (push_bit 16 (ucast (h :: u16) :: u32))) :: u16) = h"
  "drop_bit 16 (ucast (h :: u16) :: u32) = 0" "drop_bit 8 (ucast (v :: u8) :: u16) = 0"
  "(ucast ((x :: u16) AND 0x00FF) :: u8) = ucast x"
  by (rule bit_word_eqI, auto simp: bit_simps bit_byte_masks dest: bit_imp_le_length)+

lemma byte_join:
  "push_bit 8 (ucast (ucast (drop_bit 8 x) :: u8)) OR (x AND 0x00FF) = x"
  "(x AND 0xFF00) OR ucast (ucast x :: u8) = x" for x :: u16
  by (rule bit_word_eqI, auto simp: bit_simps bit_byte_masks)+

lemma byte_rejoin:
  "push_bit 8 (ucast (v :: u8)) OR ((push_bit 8 (ucast (w :: u8)) OR (x AND 0x00FF)) AND 0x00FF)
     = push_bit 8 (ucast v) OR (x AND 0x00FF)"
  "((((x AND 0xFF00) OR ucast (w :: u8)) AND 0xFF00) OR ucast (v :: u8)) = (x AND 0xFF00) OR ucast v"
  for x :: u16
  by (rule bit_word_eqI, auto simp: bit_simps bit_byte_masks dest: bit_imp_le_length)+

interpretation byte_reg: lens "rb r" "wb r" for r
  by unfold_locales (simp_all add: rb_def wb_def byte_parts byte_join byte_rejoin drop_parts)

interpretation word_reg: lens "rw r" "ww r" for r
  by unfold_locales (simp_all add: rw_def ww_def)

lemma long_parts:
  "push_bit 16 (ucast (ucast (drop_bit 16 v) :: u16)) OR ucast (ucast v :: u16) = v"
  "(ucast (push_bit 16 (ucast (h :: u16)) OR ucast (l :: u16) :: u32) :: u16) = l"
  "(ucast (drop_bit 16 (push_bit 16 (ucast (h :: u16)) OR ucast (l :: u16) :: u32)) :: u16) = h"
  for v :: u32
  by (rule bit_word_eqI, auto simp: bit_simps dest: bit_imp_le_length)+

interpretation long_reg: lens "rl r" "wl r" for r
  by unfold_locales (simp_all add: rl_def wl_def Let_def long_parts drop_parts set_R_def fun_eq_iff)

lemma quad_parts:
  "push_bit 48 (ucast (ucast (drop_bit 48 v) :: u16)) OR push_bit 32 (ucast (ucast (drop_bit 32 v) :: u16))
     OR push_bit 16 (ucast (ucast (drop_bit 16 v) :: u16)) OR ucast (ucast v :: u16) = v" for v :: u64
proof (rule bit_word_eqI)
  fix n
  assume "n < LENGTH(64)"
  then consider "n < 16" | "16 \<le> n \<and> n < 32" | "32 \<le> n \<and> n < 48" | "48 \<le> n \<and> n < 64"
    by (simp, linarith)
  then show "bit (push_bit 48 (ucast (ucast (drop_bit 48 v) :: u16) :: u64)
      OR push_bit 32 (ucast (ucast (drop_bit 32 v) :: u16))
      OR push_bit 16 (ucast (ucast (drop_bit 16 v) :: u16)) OR ucast (ucast v :: u16)) n = bit v n"
    by cases (auto simp: bit_simps)
qed

lemma quad_cells:
  fixes w x y z :: u16
  defines "q \<equiv> push_bit 48 (ucast w) OR push_bit 32 (ucast x) OR push_bit 16 (ucast y) OR ucast z :: u64"
  shows "(ucast q :: u16) = z" "(ucast (drop_bit 16 q) :: u16) = y"
    "(ucast (drop_bit 32 q) :: u16) = x" "(ucast (drop_bit 48 q) :: u16) = w"
  unfolding q_def by (rule bit_word_eqI, auto simp: bit_simps dest: bit_imp_le_length)+

lemma group_regs:
  "r + 1 \<noteq> r" "r + 2 \<noteq> r" "r + 3 \<noteq> r" "r + 2 \<noteq> r + 1" "r + 3 \<noteq> r + 1" "r + 3 \<noteq> r + 2"
  for r :: nib
  by simp_all

interpretation quad_reg: lens "rq r" "wq r" for r
proof unfold_locales
  fix v w :: u64 and c
  show "rq r (wq r v c) = v"
    by (simp add: rq_def wq_def Let_def quad_parts del: drop_bit_or)
  show "wq r (rq r c) c = c"
    unfolding rq_def wq_def Let_def quad_cells
    by (simp add: set_R_def fun_eq_iff)
  show "wq r v (wq r w c) = wq r v c"
    by (simp add: wq_def Let_def set_R_def fun_eq_iff)
qed

text \<open>
  RH0 and RL0, ..., RH7 and RL7 share a word register and do not overlap; the pair is what
  an \<open>EXB\<close> of the two halves exchanges.
\<close>

lemma half_word_merge:
  "(push_bit 8 (ucast (v :: u8)) OR (x AND 0x00FF)) AND 0xFF00 OR ucast (w :: u8)
     = push_bit 8 (ucast v) OR ((x AND 0xFF00 OR ucast w) AND 0x00FF)" for x :: u16
  by (rule bit_word_eqI) (auto simp: bit_simps bit_byte_masks dest: bit_imp_le_length)

lemma half_bytes:
  assumes "r < 8"
  shows "rb (r + 8) (wb r v c) = rb (r + 8) c" "rb r (wb (r + 8) w c) = rb r c"
    "wb r v (wb (r + 8) w c) = wb (r + 8) w (wb r v c)"
  using assms nib_half(1) [of r] nib_half(2) [OF assms]
  by (simp_all add: rb_def wb_def byte_parts drop_parts half_word_merge set_R_def fun_eq_iff)

interpretation byte_halves: lens_swap "rb r" "wb r" "rb (r + 8)" "wb (r + 8)" for r
proof -
  have half: "r + 8 + 8 = r" by (simp add: add.assoc)
  consider "r < 8" | "r + 8 < 8" using nib_half(1) [of r] by blast
  then show "lens_swap (rb r) (wb r) (rb (r + 8)) (wb (r + 8))"
  proof cases
    case 1
    then show ?thesis by unfold_locales (rule half_bytes; assumption)+
  next
    case 2
    note h = half_bytes [OF 2, unfolded half]
    show ?thesis by unfold_locales (rule h(1), rule h(2), rule h(3) [symmetric])
  qed
qed

text \<open>Two different registers of the same size are independent.\<close>

lemma word_pair: "a \<noteq> b \<Longrightarrow> lens_swap (rw a) (ww a) (rw b) (ww b)"
  by unfold_locales (simp_all add: rw_def ww_def set_R_commute)

lemma byte_word_index:
  fixes a b :: nib
  assumes "a \<noteq> b" "a \<noteq> b + 8"
  shows "(if a < 8 then a else a - 8) \<noteq> (if b < 8 then b else b - 8)"
proof -
  have "b < 8 \<Longrightarrow> \<not> a < 8 \<Longrightarrow> a - 8 \<noteq> b" "\<not> b < 8 \<Longrightarrow> a < 8 \<Longrightarrow> a \<noteq> b - 8"
    using assms nib_half(3) [of b] by (auto simp: algebra_simps)
  with assms show ?thesis by auto
qed

lemma byte_other:
  assumes "a \<noteq> b"
  shows "rb a (wb b v c) = rb a c"
proof (cases "a = b + 8")
  case True
  then show ?thesis by (simp add: byte_halves.getb_puta)
next
  case False
  then show ?thesis
    using byte_word_index [OF assms False] by (auto simp: rb_def wb_def split: if_splits)
qed

lemma byte_read_write: "rb a (wb b v c) = (if a = b then v else rb a c)"
  by (simp add: byte_other byte_reg.get_put)

lemma wb_as_set_R:
  "\<exists>f. \<forall>c. wb a v c = set_R (if a < 8 then a else a - 8)
           (f (c_R c (if a < 8 then a else a - 8))) c"
  by (cases "a < 8") (auto simp: wb_def)

lemma byte_commute:
  assumes "a \<noteq> b"
  shows "wb a v (wb b w c) = wb b w (wb a v c)"
proof (cases "a = b + 8")
  case True
  then show ?thesis by (simp add: byte_halves.put_commute)
next
  case False
  define i j where "i = (if a < 8 then a else a - 8)" and "j = (if b < 8 then b else b - 8)"
  have "i \<noteq> j" using byte_word_index [OF assms False] by (simp add: i_def j_def)
  moreover obtain f where "wb a v c = set_R i (f (c_R c i)) c" for c
    using wb_as_set_R [of a v] unfolding i_def by blast
  moreover obtain g where "wb b w c = set_R j (g (c_R c j)) c" for c
    using wb_as_set_R [of b w] unfolding j_def by blast
  ultimately show ?thesis
    by (simp add: set_R_commute [of i j])
qed

lemma byte_pair: "a \<noteq> b \<Longrightarrow> lens_swap (rb a) (wb a) (rb b) (wb b)"
  by unfold_locales (simp_all add: byte_other byte_commute)

subsection \<open>The two stack-pointer banks\<close>

interpretation bank_off: lens_swap "rw 15" "ww 15" c_nspoff "\<lambda>v c. c\<lparr>c_nspoff := v\<rparr>"
  by unfold_locales (simp_all add: rw_def ww_def set_R_def)

interpretation bank_seg: lens_swap "rw 14" "ww 14" c_nspseg "\<lambda>v c. c\<lparr>c_nspseg := v\<rparr>"
  by unfold_locales (simp_all add: rw_def ww_def set_R_def)

lemma swap_spoff_twice [simp]: "swap_spoff (swap_spoff c) = c"
  unfolding swap_spoff_def Let_def by (rule bank_off.swap_twice) simp

lemma swap_spseg_twice [simp]: "swap_spseg (swap_spseg c) = c"
  unfolding swap_spseg_def Let_def by (rule bank_seg.swap_twice) simp

end
