(* ===== verification/Cpu_Mem.thy ===== *)
theory Cpu_Mem
  imports Cpu_Regs Phys_Mem
begin

text \<open>
  Memory accesses and operands of \<open>src/src/cpu.c\<close>: every logical access goes through the
  MMU and then to physical memory, a violation sets the fault flag and suppresses a store;
  the operand selects of a control word name registers, immediates and effective addresses.
  The traces of \<open>CSIM_TRACE_PC\<close> are left out.
\<close>

subsection \<open>Memory through the MMU\<close>

text \<open>\<open>mmu_translate\<close> on \<open>c->m->mmu\<close> and \<open>if (f) c->fault = true\<close>.\<close>

definition translate :: "u32 \<Rightarrow> bool \<Rightarrow> bool \<Rightarrow> (u32 \<times> bool) handler" where
  "translate a is_write is_fetch =
     State (\<lambda>m.
       (let sn = ucast (drop_bit 16 a) AND 0x7F; off = ucast a;
            (p, f, u) = mmu_translate sn off is_write (\<not> SYSMODE (m_cpu m)) is_fetch (m_mmu m);
            m = m\<lparr>m_mmu := u\<rparr>
        in ((p, f), if f then m\<lparr>m_cpu := (m_cpu m)\<lparr>c_fault := True\<rparr>\<rparr> else m)))"

definition ifetch16 :: "u32 \<Rightarrow> u16 handler" where
  "ifetch16 a = do {
     pf \<leftarrow> translate a False True;
     asks (\<lambda>m. phys_read16 m (fst pf))
   }"

definition mem_r16 :: "u32 \<Rightarrow> u16 handler" where
  "mem_r16 a = do {
     pf \<leftarrow> translate a False False;
     asks (\<lambda>m. phys_read16 m (fst pf))
   }"

definition mem_w16 :: "u32 \<Rightarrow> u16 \<Rightarrow> unit handler" where
  "mem_w16 a v = do {
     pf \<leftarrow> translate a True False;
     if snd pf then skip else modm (phys_write16 (fst pf) v)
   }"

definition mem_r8 :: "u32 \<Rightarrow> u8 handler" where
  "mem_r8 a = do {
     pf \<leftarrow> translate a False False;
     asks (\<lambda>m. phys_read8 m (fst pf))
   }"

definition mem_w8 :: "u32 \<Rightarrow> u8 \<Rightarrow> unit handler" where
  "mem_w8 a v = do {
     pf \<leftarrow> translate a True False;
     if snd pf then skip else modm (phys_write8 (fst pf) v)
   }"

subsection \<open>The implicit stack\<close>

definition push_word :: "u16 \<Rightarrow> unit handler" where
  "push_word v = do {
     seg \<leftarrow> askc SEG;
     sp \<leftarrow> askc sp_reg;
     if seg then do {
       a \<leftarrow> askc (\<lambda>c. addr_sub (addr_from_reg sp c) 2);
       modc (addr_to_reg sp a);
       mem_w16 a v
     } else do {
       a \<leftarrow> askc (\<lambda>c. rw sp c - 2);
       modc (ww sp a);
       ps \<leftarrow> askc pc_seg;
       mem_w16 (ps OR ucast a) v
     }
   }"

definition pop_word :: "u16 handler" where
  "pop_word = do {
     seg \<leftarrow> askc SEG;
     sp \<leftarrow> askc sp_reg;
     if seg then do {
       a \<leftarrow> askc (addr_from_reg sp);
       v \<leftarrow> mem_r16 a;
       modc (addr_to_reg sp (addr_add a 2));
       State_Monad.return v
     } else do {
       a \<leftarrow> askc (rw sp);
       ps \<leftarrow> askc pc_seg;
       v \<leftarrow> mem_r16 (ps OR ucast a);
       modc (ww sp (a + 2));
       State_Monad.return v
     }
   }"

text \<open>\<open>c->irq_req |= bit\<close>.\<close>

definition request :: "u8 \<Rightarrow> CPU \<Rightarrow> CPU" where
  "request b c = c\<lparr>c_irq_req := c_irq_req c OR b\<rparr>"

definition check_priv :: "bool handler" where
  "check_priv = do {
     s \<leftarrow> askc SYSMODE;
     if \<not> s then do { modc (request IRQ_TRAP); State_Monad.return False }
     else State_Monad.return True
   }"

subsection \<open>Operand selects\<close>

definition unib :: "RegSel \<Rightarrow> CPU \<Rightarrow> nib" where
  "unib s c =
     (case s of RegNib2 \<Rightarrow> nib2 (c_opcode c 0) | RegNib1 \<Rightarrow> nib1 (c_opcode c 0)
      | RegNib3 \<Rightarrow> nib3 (c_opcode c 0))"

definition reg_read :: "nib \<Rightarrow> Width \<Rightarrow> CPU \<Rightarrow> u64" where
  "reg_read r w c =
     (case w of WByte \<Rightarrow> ucast (rb r c) | WLong \<Rightarrow> ucast (rl (r AND 0x0E) c)
      | WWord \<Rightarrow> ucast (rw r c))"

definition reg_write :: "nib \<Rightarrow> u64 \<Rightarrow> Width \<Rightarrow> CPU \<Rightarrow> CPU" where
  "reg_write r v w c =
     (case w of WByte \<Rightarrow> wb r (ucast v) c | WLong \<Rightarrow> wl (r AND 0x0E) (ucast v) c
      | WWord \<Rightarrow> ww r (ucast v) c)"

definition ureg_read :: "RegSel \<Rightarrow> Width \<Rightarrow> CPU \<Rightarrow> u64" where
  "ureg_read s w c = reg_read (unib s c) w c"

definition ureg_write :: "RegSel \<Rightarrow> u64 \<Rightarrow> Width \<Rightarrow> CPU \<Rightarrow> CPU" where
  "ureg_write s v w c = reg_write (unib s c) v w c"

definition uread_src2 :: "CtrlWord \<Rightarrow> CPU \<Rightarrow> u64" where
  "uread_src2 w c =
     (case cw_src2 w of
        SrcReg \<Rightarrow> ureg_read (cw_src2_nib w) (cw_width w) c
      | SrcImm \<Rightarrow>
          (if cw_width w = WByte then ucast (drop_bit 8 (c_opcode c 1))
           else if cw_width w = WLong
           then push_bit 16 (ucast (c_opcode c 1)) OR ucast (c_opcode c 2)
           else ucast (c_opcode c 1))
      | SrcOne \<Rightarrow> 1
      | SrcTwo \<Rightarrow> 2
      | SrcNib3Cnt \<Rightarrow> (let n = nib3 (c_opcode c 0) in if n \<noteq> 0 then ucast n else 16)
      | SrcZero \<Rightarrow> 0
      | SrcImm2 \<Rightarrow>
          (let idx = (if c_seg_w1 c \<and> SEG c \<and> tst (c_opcode c 1) 0x8000 then 3 else 2)
           in if cw_width w = WByte then ucast (drop_bit 8 (c_opcode c idx))
              else ucast (c_opcode c idx))
      | SrcNib3Bit \<Rightarrow> ucast (nib3 (c_opcode c 0))
      | SrcNib3CntPlus1 \<Rightarrow> ucast (nib3 (c_opcode c 0)) + 1
      | SrcOpLoByte \<Rightarrow> ucast (ucast (c_opcode c 0) :: u8)
      | _ \<Rightarrow> 0)"

text \<open>The index register of a based-indexed operand, \<open>(c->opcode[1] >> 8) & 0x0F\<close>.\<close>

definition bx_index :: "CPU \<Rightarrow> nib" where
  "bx_index c = nib1 (c_opcode c 1)"

definition usrc_addr :: "CtrlWord \<Rightarrow> CPU \<Rightarrow> u32" where
  "usrc_addr w c =
     (case cw_src2 w of
        SrcIR \<Rightarrow> addr_from_reg (unib (cw_src2_nib w) c) c
      | SrcDA \<Rightarrow> seg_addr_op 1 c
      | SrcX \<Rightarrow> addr_add (seg_addr_op 1 c) (ucast (rw (unib (cw_src2_nib w) c) c))
      | SrcPCRel \<Rightarrow> displaced (c_pc c) (c_opcode c 1)
      | SrcBased \<Rightarrow> displaced (addr_from_reg (unib (cw_src2_nib w) c) c) (c_opcode c 1)
      | SrcBX \<Rightarrow> addr_add (addr_from_reg (unib (cw_src2_nib w) c) c) (ucast (rw (bx_index c) c))
      | _ \<Rightarrow> 0)"

definition udst_addr :: "CtrlWord \<Rightarrow> CPU \<Rightarrow> u32" where
  "udst_addr w c =
     (case cw_dst w of
        DstIR \<Rightarrow> addr_from_reg (unib (cw_dst_nib w) c) c
      | DstDA \<Rightarrow> seg_addr_op 1 c
      | DstX \<Rightarrow> addr_add (seg_addr_op 1 c) (ucast (rw (unib (cw_dst_nib w) c) c))
      | DstPCRel \<Rightarrow> displaced (c_pc c) (c_opcode c 1)
      | DstBased \<Rightarrow> displaced (addr_from_reg (unib (cw_dst_nib w) c) c) (c_opcode c 1)
      | DstBX \<Rightarrow> addr_add (addr_from_reg (unib (cw_dst_nib w) c) c) (ucast (rw (bx_index c) c))
      | _ \<Rightarrow> 0)"

definition src_is_mem :: "SrcSel \<Rightarrow> bool" where
  "src_is_mem s \<longleftrightarrow> s = SrcIR \<or> s = SrcDA \<or> s = SrcX \<or> s = SrcPCRel \<or> s = SrcBased \<or> s = SrcBX"

definition dst_is_mem :: "DstSel \<Rightarrow> bool" where
  "dst_is_mem d \<longleftrightarrow> d = DstIR \<or> d = DstDA \<or> d = DstX \<or> d = DstPCRel \<or> d = DstBased \<or> d = DstBX"

definition mem_read_w :: "u32 \<Rightarrow> Width \<Rightarrow> u64 handler" where
  "mem_read_w a w =
     (if w = WByte then do { v \<leftarrow> mem_r8 a; State_Monad.return (ucast v) }
      else if w = WLong then do {
        hi \<leftarrow> mem_r16 a;
        lo \<leftarrow> mem_r16 (addr_add a 2);
        State_Monad.return (push_bit 16 (ucast hi) OR ucast lo)
      } else do { v \<leftarrow> mem_r16 a; State_Monad.return (ucast v) })"

definition mem_write_w :: "u32 \<Rightarrow> u64 \<Rightarrow> Width \<Rightarrow> unit handler" where
  "mem_write_w a v w =
     (if w = WByte then mem_w8 a (ucast v)
      else if w = WLong then do {
        mem_w16 a (ucast (drop_bit 16 v));
        mem_w16 (addr_add a 2) (ucast v)
      } else mem_w16 a (ucast v))"

end
