(* ===== verification/Hdc.thy ===== *)
theory Hdc
  imports Phys_Mem
begin

text \<open>
  The disk controller of \<open>src/src/bus.c\<close>: command blocks in memory, the doorbell that
  serves them, and the transfers between the image files and memory.  An open image file is
  the list of its bytes; \<open>fread\<close> past the end is short, \<open>fwrite\<close> past the end extends it.
\<close>

subsection \<open>Image files\<close>

definition file_read :: "nat \<Rightarrow> nat \<Rightarrow> u8 list \<Rightarrow> u8 list" where
  "file_read pos n f = take n (drop pos f)"

definition file_write :: "nat \<Rightarrow> u8 list \<Rightarrow> u8 list \<Rightarrow> u8 list" where
  "file_write pos bs f =
     (if bs = [] then f
      else (let f = f @ replicate (pos - length f) 0
            in take pos f @ bs @ drop (pos + length bs) f))"

definition disk_of :: "bool \<Rightarrow> Machine \<Rightarrow> Disk" where
  "disk_of fl m = (if fl then m_floppy m else m_disk m)"

definition upd_disk :: "bool \<Rightarrow> (Disk \<Rightarrow> Disk) \<Rightarrow> Machine \<Rightarrow> Machine" where
  "upd_disk fl f m =
     (if fl then m\<lparr>m_floppy := f (m_floppy m)\<rparr> else m\<lparr>m_disk := f (m_disk m)\<rparr>)"

subsection \<open>Transfers\<close>

text \<open>The bytes \<open>m->ram + a\<close>, ..., as \<open>memcpy\<close> and \<open>fread\<close> see them.\<close>

definition ram_block :: "u32 \<Rightarrow> nat \<Rightarrow> Machine \<Rightarrow> u8 list" where
  "ram_block a n m = map (\<lambda>i. m_ram m (a + of_nat i)) [0..<n]"

definition ram_store :: "u32 \<Rightarrow> u8 list \<Rightarrow> Machine \<Rightarrow> Machine" where
  "ram_store a bs m =
     m\<lparr>m_ram := (\<lambda>x. if unat (x - a) < length bs then bs ! unat (x - a) else m_ram m x)\<rparr>"

text \<open>
  \<open>((dma>>16)&0xFF) >= 0x08 && (((dma+n-1)>>16)&0xFF) <= 0x17\<close>, and the case in which the
  direct copy that follows leaves the allocated \<open>PHYS_SIZE + 2\<close> bytes.
\<close>

definition dma_direct :: "u32 \<Rightarrow> u32 \<Rightarrow> bool" where
  "dma_direct dma n \<longleftrightarrow>
     drop_bit 16 dma AND 0xFF \<ge> 0x08 \<and> drop_bit 16 (dma + n - 1) AND 0xFF \<le> 0x17"

definition note_ram_bound :: "u32 \<Rightarrow> u32 \<Rightarrow> Machine \<Rightarrow> Machine" where
  "note_ram_bound dma n m =
     (if n \<noteq> 0 \<and> unat dma + unat n > 0x1000002 then m\<lparr>m_ub := True\<rparr> else m)"

text \<open>A sector of the block-by-block path: a short read is discarded.\<close>

definition read_sector :: "nat \<Rightarrow> u8 list \<Rightarrow> u8 list" where
  "read_sector pos f =
     (let b = file_read pos 512 f in if length b \<noteq> 512 then replicate 512 0 else b)"

definition hdc_read_sectors :: "bool \<Rightarrow> u32 \<Rightarrow> u8 \<Rightarrow> u32 \<Rightarrow> Machine \<Rightarrow> Machine" where
  "hdc_read_sectors fl lba bcnt dma m =
     (let n = ucast bcnt * 512; pos = unat lba * 512; f = dk_file (disk_of fl m)
      in if dma_direct dma n
         then (let got = file_read pos (unat n) f
               in ram_store dma (got @ replicate (unat n - length got) 0) (note_ram_bound dma n m))
         else fold (\<lambda>s m. let buf = read_sector (pos + s * 512) f
                          in fold (\<lambda>i. phys_write8 (dma + of_nat (s * 512) + of_nat i) (buf ! i))
                               [0..<512] m)
                [0..<unat bcnt] m)"

definition hdc_write_sectors :: "bool \<Rightarrow> u32 \<Rightarrow> u8 \<Rightarrow> u32 \<Rightarrow> Machine \<Rightarrow> Machine" where
  "hdc_write_sectors fl lba bcnt dma m =
     (let n = ucast bcnt * 512; pos = unat lba * 512;
          direct = dma_direct dma n;
          data = (if direct then ram_block dma (unat n) m
                  else concat (map (\<lambda>s. map (\<lambda>i. phys_read8 m (dma + of_nat (s * 512) + of_nat i))
                                          [0..<512]) [0..<unat bcnt]));
          m = (if direct then note_ram_bound dma n m else m)
      in upd_disk fl (\<lambda>d. if dk_writable d
                          then d\<lparr>dk_file := file_write pos data (dk_file d)\<rparr> else d) m)"

subsection \<open>Command blocks\<close>

text \<open>\<open>dma\<close> and \<open>lba\<close> of a command block.\<close>

definition cb_dma :: "Machine \<Rightarrow> u32 \<Rightarrow> u32" where
  "cb_dma m cb =
     push_bit 16 (ucast (phys_read8 m (cb + 0x06))) OR push_bit 8 (ucast (phys_read8 m (cb + 0x07)))
     OR ucast (phys_read8 m (cb + 0x08))"

definition cb_lba :: "Machine \<Rightarrow> u32 \<Rightarrow> u32" where
  "cb_lba m cb =
     push_bit 16 (ucast (phys_read8 m (cb + 0x01) AND 0x1F))
     OR push_bit 8 (ucast (phys_read8 m (cb + 0x02))) OR ucast (phys_read8 m (cb + 0x03))"

text \<open>The \<open>switch (opcode)\<close>: completion status and effect.\<close>

definition hdc_command :: "bool \<Rightarrow> u8 \<Rightarrow> u32 \<Rightarrow> u8 \<Rightarrow> u32 \<Rightarrow> Machine \<Rightarrow> u8 \<times> Machine" where
  "hdc_command fl opcode lba bcnt dma m =
     (let disk = disk_of fl m
      in if opcode = 0x00 \<or> opcode = 0x0C \<or> opcode = 0x01 \<or> opcode = 0x05 \<or> opcode = 0x03
         then ((if dk_present disk then 0x00 else 0x92), m)
         else if opcode = 0x04 then ((if dk_present disk then 0x80 else 0x92), m)
         else if opcode = 0x0F then (0x00, if \<not> fl then m\<lparr>m_hdc_cmdblk := dma\<rparr> else m)
         else if opcode = 0x08 then
           (if \<not> dk_present disk then (0x92, m)
            else if lba + ucast bcnt > dk_sectors disk then (0x92, m)
            else (0x80, hdc_read_sectors fl lba bcnt dma m))
         else if opcode = 0x0A then
           (if \<not> dk_present disk then (0x92, m)
            else if lba + ucast bcnt > dk_sectors disk then (0x92, m)
            else (0x80, hdc_write_sectors fl lba bcnt dma m))
         else (0x81, m))"

definition hdc_process :: "u32 \<Rightarrow> bool \<Rightarrow> Machine \<Rightarrow> Machine" where
  "hdc_process cb fl m =
     (if phys_read8 m (cb + 0x0C) \<noteq> 0xFF then m
      else
        (let opcode = phys_read8 m (cb + 0x00);
             lunhi = phys_read8 m (cb + 0x01);
             mid = phys_read8 m (cb + 0x02);
             bcnt = phys_read8 m (cb + 0x04);
             dma = cb_dma m cb;
             lba = cb_lba m cb;
             (status, m) = hdc_command fl opcode lba bcnt dma m;
             m = phys_write8 (cb + 0x0C) status m;
             m = phys_write8 (cb + 0x0D) lunhi m;
             m = phys_write8 (cb + 0x0E) mid m
         in m\<lparr>m_disk_vi := True\<rparr>))"

text \<open>The floppy block is found at the command-block address the hard disk's command left.\<close>

definition hdc_doorbell :: "Machine \<Rightarrow> Machine" where
  "hdc_doorbell m =
     (let m = hdc_process (m_hdc_cmdblk m) False m
      in hdc_process (m_hdc_cmdblk m + 0x10) True m)"

text \<open>\<open>machine_attach_disk\<close> and \<open>machine_attach_floppy\<close> on a file that could be opened.\<close>

definition machine_attach_disk :: "bool \<Rightarrow> u8 list \<Rightarrow> Machine \<Rightarrow> Machine" where
  "machine_attach_disk writable f m =
     m\<lparr>m_disk := \<lparr>dk_file = f, dk_writable = writable, dk_sectors = word_of_nat (length f div 512),
                  dk_cyls = 612, dk_heads = 4, dk_spt = 17, dk_present = True\<rparr>\<rparr>"

definition machine_attach_floppy :: "bool \<Rightarrow> u8 list \<Rightarrow> Machine \<Rightarrow> Machine" where
  "machine_attach_floppy writable f m =
     m\<lparr>m_floppy := \<lparr>dk_file = f, dk_writable = writable, dk_sectors = 2392,
                    dk_cyls = 80, dk_heads = 2, dk_spt = 16, dk_present = True\<rparr>\<rparr>"

subsection \<open>Files\<close>

lemma file_read_write:
  assumes "n = length bs"
  shows "file_read pos n (file_write pos bs f) = bs"
  using assms by (auto simp: file_read_def file_write_def Let_def)

lemma file_read_write_before:
  assumes "pos' + n \<le> pos" "pos' + n \<le> length f"
  shows "file_read pos' n (file_write pos bs f) = file_read pos' n f"
  using assms by (auto simp: file_read_def file_write_def Let_def drop_take)

lemma file_read_write_after:
  assumes "pos + length bs \<le> pos'" "pos + length bs \<le> length f"
  shows "file_read pos' n (file_write pos bs f) = file_read pos' n f"
  using assms by (auto simp: file_read_def file_write_def Let_def)

end
