(* ===== verification/Rtc.thy ===== *)
theory Rtc
  imports Machine "HOL-Library.Signed_Division"
begin

text \<open>
  The OKI MSM58321 clock module of \<open>src/src/bus.c\<close>: the BCD counter chain, the divider
  that runs off the instruction count, and the strobes on CIO #1 Port B.  Time digits are
  natural numbers inside an operation and bytes in the register file.
\<close>

abbreviation (input) RTC_PB_D :: u8 where "RTC_PB_D \<equiv> 0x0F"
abbreviation (input) RTC_PB_READ :: u8 where "RTC_PB_READ \<equiv> 0x10"
abbreviation (input) RTC_PB_WRITE :: u8 where "RTC_PB_WRITE \<equiv> 0x20"
abbreviation (input) RTC_PB_ADWR :: u8 where "RTC_PB_ADWR \<equiv> 0x40"
abbreviation (input) RTC_PB_STOP :: u8 where "RTC_PB_STOP \<equiv> 0x80"
abbreviation (input) CIO_PBDATA :: "6 word" where "CIO_PBDATA \<equiv> 0x0E"
abbreviation (input) CIO_PCDATA :: "6 word" where "CIO_PCDATA \<equiv> 0x0F"
abbreviation (input) CIO_PBDD :: "6 word" where "CIO_PBDD \<equiv> 0x2B"

definition rtc_rdmask :: "u8 list" where
  "rtc_rdmask =
     [0x0F, 0x07, 0x0F, 0x07, 0x0F, 0x0F, 0x07, 0x0F,
      0x0F, 0x0F, 0x01, 0x0F, 0x0F, 0x00, 0x00, 0x00]"

definition rtc_cs :: "Machine \<Rightarrow> bool" where
  "rtc_cs m \<longleftrightarrow> m_cio1 m CIO_PCDATA AND 0x02 = 0"

subsection \<open>Calendar\<close>

definition rtc_mlen :: "nat \<Rightarrow> bool \<Rightarrow> nat" where
  "rtc_mlen mo leap =
     (if mo < 1 \<or> mo > 12 then 31
      else if mo = 2 \<and> leap then 29
      else [31, 31, 28, 31, 30, 31, 30, 31, 31, 30, 31, 30, 31] ! mo)"

definition rtc_wday :: "int \<Rightarrow> int \<Rightarrow> int \<Rightarrow> int" where
  "rtc_wday y m d =
     (let y = (if m < 3 then y - 1 else y)
      in (y + y sdiv 4 - y sdiv 100 + y sdiv 400
          + [0, 3, 2, 5, 0, 3, 5, 1, 4, 6, 2, 4] ! nat ((m - 1) AND 15) + d) smod 7)"

text \<open>A register read as a number under a mask, and written from one.\<close>

definition rget :: "RTC \<Rightarrow> nib \<Rightarrow> u8 \<Rightarrow> nat" where
  "rget r i mk = unat (r_regs r i AND mk)"

definition rput :: "nib \<Rightarrow> u8 \<Rightarrow> RTC \<Rightarrow> RTC" where
  "rput i v r = r\<lparr>r_regs := (r_regs r)(i := v)\<rparr>"

definition rtc_year_tick :: "RTC \<Rightarrow> RTC" where
  "rtc_year_tick r =
     (let y = rget r 0x0C 0x0F * 10 + rget r 0x0B 0x0F;
          y = (y + 1) mod 100;
          r = rput 0x0B (of_nat (y mod 10)) r;
          r = rput 0x0C (of_nat (y div 10)) r
      in rput 0x08 ((r_regs r 0x08 AND 0x03)
                    OR push_bit 2 (((drop_bit 2 (r_regs r 0x08)) + 3) AND 3)) r)"

definition rtc_day_tick :: "RTC \<Rightarrow> RTC" where
  "rtc_day_tick r =
     (let d = rget r 0x08 0x03 * 10 + rget r 0x07 0x0F;
          mo = rget r 0x0A 0x01 * 10 + rget r 0x09 0x0F;
          leap = (drop_bit 2 (r_regs r 0x08) AND 3 = 0);
          r = rput 0x06 (of_nat ((unat (r_regs r 0x06) + 1) mod 7)) r;
          d = d + 1;
          (d, r) =
            (if d > rtc_mlen mo leap
             then (let mo = mo + 1;
                       (mo, r) = (if mo > 12 then (1, rtc_year_tick r) else (mo, r));
                       r = rput 0x09 (of_nat (mo mod 10)) r;
                       r = rput 0x0A ((r_regs r 0x0A AND 0x0E) OR of_nat (mo div 10)) r
                   in (1, r))
             else (d, r));
          r = rput 0x07 (of_nat (d mod 10)) r
      in rput 0x08 ((r_regs r 0x08 AND 0x0C) OR of_nat (d div 10)) r)"

definition rtc_hour_tick :: "RTC \<Rightarrow> RTC" where
  "rtc_hour_tick r =
     (let h10 = r_regs r 0x05;
          h = unat (h10 AND 0x03) * 10 + rget r 0x04 0x0F
      in if tst h10 0x08
         then (let h = h + 1;
                   (h, r) = (if h > 23 then (0, rtc_day_tick r) else (h, r));
                   r = rput 0x04 (of_nat (h mod 10)) r
               in rput 0x05 (0x08 OR of_nat (h div 10)) r)
         else (let pm = h10 AND 0x04;
                   h = h + 1;
                   (h, pm, r) =
                     (if h > 12 then (1, pm, r)
                      else if h = 12
                      then (let pm = pm XOR 0x04
                            in (h, pm, if pm = 0 then rtc_day_tick r else r))
                      else (h, pm, r));
                   r = rput 0x04 (of_nat (h mod 10)) r
               in rput 0x05 (pm OR of_nat (h div 10)) r))"

text \<open>\<open>++r->regs[i] > lim\<close> with the reset to 0 in its body: the carry of one digit.\<close>

definition digit_tick :: "nib \<Rightarrow> u8 \<Rightarrow> RTC \<Rightarrow> bool \<times> RTC" where
  "digit_tick i lim r =
     (let v = r_regs r i + 1; r = rput i v r
      in if v > lim then (True, rput i 0 r) else (False, r))"

definition rtc_tick :: "RTC \<Rightarrow> RTC" where
  "rtc_tick r =
     (let r = r\<lparr>r_n_tick := r_n_tick r + 1\<rparr>;
          (c, r) = digit_tick 0x00 9 r
      in if \<not> c then r else
           (let (c, r) = digit_tick 0x01 5 r
            in if \<not> c then r else
                 (let (c, r) = digit_tick 0x02 9 r
                  in if \<not> c then r else
                       (let (c, r) = digit_tick 0x03 5 r
                        in if \<not> c then r else rtc_hour_tick r))))"

subsection \<open>The divider\<close>

definition upd_rtc :: "(RTC \<Rightarrow> RTC) \<Rightarrow> Machine \<Rightarrow> Machine" where
  "upd_rtc f m = m\<lparr>m_rtc := f (m_rtc m)\<rparr>"

text \<open>
  The loop \<open>while (now - r->base >= r->ips)\<close> of \<open>rtc_advance\<close>.  With \<open>ips\<close> zero the
  source's loop never ends; here that case is left to \<open>rtc_advance\<close>.
\<close>

lemma rput_sel [simp]:
  "r_ips (rput i v r) = r_ips r" "r_base (rput i v r) = r_base r" "r_cs_since (rput i v r) = r_cs_since r"
  "r_present (rput i v r) = r_present r" "r_stopped (rput i v r) = r_stopped r"
  "r_addr (rput i v r) = r_addr r" "r_prev_pb (rput i v r) = r_prev_pb r"
  "r_prev_cs (rput i v r) = r_prev_cs r" "r_held (rput i v r) = r_held r"
  "r_regs (rput i v r) = (r_regs r)(i := v)"
  by (simp_all add: rput_def)

text \<open>Everything of the module that the counter chain leaves alone.\<close>

definition rtc_frame :: "RTC \<Rightarrow> bool \<times> u8 \<times> bool \<times> u8 \<times> bool \<times> u64 \<times> u64 \<times> u64 \<times> u64" where
  "rtc_frame r = (r_present r, r_addr r, r_stopped r, r_prev_pb r, r_prev_cs r, r_cs_since r,
                  r_ips r, r_base r, r_held r)"

lemma rtc_frame_rput [simp]: "rtc_frame (rput i v r) = rtc_frame r"
  by (simp add: rtc_frame_def)

lemma rtc_frame_tick [simp]:
  "rtc_frame (rtc_year_tick r) = rtc_frame r" "rtc_frame (rtc_day_tick r) = rtc_frame r"
  "rtc_frame (rtc_hour_tick r) = rtc_frame r" "rtc_frame (rtc_tick r) = rtc_frame r"
proof -
  show y: "rtc_frame (rtc_year_tick r) = rtc_frame r" for r
    by (simp add: rtc_year_tick_def Let_def)
  show d: "rtc_frame (rtc_day_tick r) = rtc_frame r" for r
    by (simp add: rtc_day_tick_def Let_def y)
  show h: "rtc_frame (rtc_hour_tick r) = rtc_frame r" for r
    by (simp add: rtc_hour_tick_def Let_def d)
  show "rtc_frame (rtc_tick r) = rtc_frame r"
    by (simp add: rtc_tick_def digit_tick_def Let_def h) (simp add: rtc_frame_def)
qed

lemma rtc_tick_divider [simp]: "r_base (rtc_tick r) = r_base r" "r_ips (rtc_tick r) = r_ips r"
  using rtc_frame_tick(4) [of r] by (simp_all only: rtc_frame_def prod.inject)

text \<open>One pass of the loop.\<close>

definition rtc_carry :: "bool \<Rightarrow> RTC \<Rightarrow> RTC" where
  "rtc_carry cs r =
     (let r = r\<lparr>r_base := r_base r + r_ips r\<rparr>;
          r = rtc_tick r
      in if cs \<and> r_base r \<ge> r_cs_since r
         then r\<lparr>r_n_tick_selected := r_n_tick_selected r + 1\<rparr> else r)"

lemma rtc_carry_divider [simp]:
  "r_base (rtc_carry cs r) = r_base r + r_ips r" "r_ips (rtc_carry cs r) = r_ips r"
  by (simp_all add: rtc_carry_def Let_def)

function rtc_carry_loop :: "bool \<Rightarrow> u64 \<Rightarrow> RTC \<Rightarrow> RTC" where
  "rtc_carry_loop cs now r =
     (if r_ips r \<noteq> 0 \<and> now - r_base r \<ge> r_ips r then rtc_carry_loop cs now (rtc_carry cs r) else r)"
  by pat_completeness auto
termination
proof (relation "measure (\<lambda>(cs, now, r). unat (now - r_base r))")
  fix cs now and r :: RTC
  assume a: "r_ips r \<noteq> 0 \<and> now - r_base r \<ge> r_ips r"
  have "now - (r_base r + r_ips r) = (now - r_base r) - r_ips r" by (simp add: algebra_simps)
  then have "unat (now - (r_base r + r_ips r)) = unat (now - r_base r) - unat (r_ips r)"
    using a by (simp only: unat_sub)
  moreover have "0 < unat (r_ips r)" "unat (r_ips r) \<le> unat (now - r_base r)"
    using a by (simp_all add: unat_gt_0 word_le_nat_alt)
  ultimately show "((cs, now, rtc_carry cs r), cs, now, r)
      \<in> measure (\<lambda>(cs, now, r). unat (now - r_base r))"
    by simp
qed simp

declare rtc_carry_loop.simps [simp del]

definition rtc_advance :: "Machine \<Rightarrow> Machine" where
  "rtc_advance m =
     (let r = m_rtc m
      in if \<not> r_present r \<or> r_stopped r then m
         else if r_ips r = 0 then m\<lparr>m_ub := True\<rparr>
         else m\<lparr>m_rtc := rtc_carry_loop (rtc_cs m) (c_insns (m_cpu m)) r\<rparr>)"

definition rtc_set_stop :: "bool \<Rightarrow> Machine \<Rightarrow> Machine" where
  "rtc_set_stop stop m =
     (if stop = r_stopped (m_rtc m) then m
      else if stop then
        (let m = rtc_advance m
         in upd_rtc (\<lambda>r. r\<lparr>r_held := c_insns (m_cpu m) - r_base r, r_stopped := True\<rparr>) m)
      else upd_rtc (\<lambda>r. r\<lparr>r_base := c_insns (m_cpu m) - r_held r, r_stopped := False\<rparr>) m)"

subsection \<open>Port B\<close>

text \<open>The strobes: rising edges while \<open>/CS\<close> is asserted.\<close>

definition rtc_strobes :: "u8 \<Rightarrow> u64 \<Rightarrow> RTC \<Rightarrow> RTC" where
  "rtc_strobes v now r =
     (let old = r_prev_pb r;
          r = (if tst v RTC_PB_ADWR \<and> \<not> tst old RTC_PB_ADWR then r\<lparr>r_addr := v AND RTC_PB_D\<rparr> else r)
      in if tst v RTC_PB_WRITE \<and> \<not> tst old RTC_PB_WRITE
         then (let r = r\<lparr>r_n_write := r_n_write r + 1\<rparr>
               in if r_addr r = 0x0D then r\<lparr>r_base := now, r_held := 0\<rparr>
                  else rput (ucast (r_addr r)) (v AND RTC_PB_D) r)
         else r)"

definition rtc_pb_write :: "u8 \<Rightarrow> Machine \<Rightarrow> Machine" where
  "rtc_pb_write v m =
     (if \<not> r_present (m_rtc m) then m
      else
        (let cs = rtc_cs m; now = c_insns (m_cpu m);
             m = (if cs \<and> \<not> r_prev_cs (m_rtc m) then upd_rtc (\<lambda>r. r\<lparr>r_cs_since := now\<rparr>) m else m);
             m = upd_rtc (\<lambda>r. r\<lparr>r_prev_cs := cs\<rparr>) m;
             m = rtc_advance m;
             m = (if cs then upd_rtc (rtc_strobes v now) m else m);
             m = upd_rtc (\<lambda>r. r\<lparr>r_prev_pb := v\<rparr>) m
         in rtc_set_stop (tst v RTC_PB_STOP) m))"

definition rtc_pb_read :: "u8 \<Rightarrow> Machine \<Rightarrow> u8 \<times> Machine" where
  "rtc_pb_read latch m =
     (if \<not> r_present (m_rtc m) then (latch, m)
      else
        (let m = rtc_advance m
         in if \<not> rtc_cs m \<or> \<not> tst latch RTC_PB_READ then (latch, m)
            else
              (let din = m_cio1 m CIO_PBDD AND RTC_PB_D
               in if din = 0 then (latch, m)
                  else
                    (let r = m_rtc m; a = ucast (r_addr r) :: nib;
                         v = r_regs r a AND rtc_rdmask ! unat a;
                         v = (if r_addr r = 0x05 \<and> tst (r_regs r 0x05) 0x08
                              then v AND NOT 0x04 else v)
                     in ((latch AND NOT din) OR (v AND din),
                         upd_rtc (\<lambda>r. r\<lparr>r_n_read := r_n_read r + 1\<rparr>) m)))))"

subsection \<open>Seeding\<close>

text \<open>\<open>(uint8_t)x\<close> of an int.\<close>

definition b8 :: "int \<Rightarrow> u8" where
  "b8 x = word_of_int x"

definition rtc_set_time :: "int \<Rightarrow> int \<Rightarrow> int \<Rightarrow> int \<Rightarrow> int \<Rightarrow> int \<Rightarrow> Machine \<Rightarrow> Machine" where
  "rtc_set_time y mo d h mi s m =
     upd_rtc (\<lambda>r. r\<lparr>r_regs := (r_regs r)
         (0x00 := b8 (s smod 10), 0x01 := b8 (s sdiv 10),
          0x02 := b8 (mi smod 10), 0x03 := b8 (mi sdiv 10),
          0x04 := b8 (h smod 10), 0x05 := b8 (0x08 OR (h sdiv 10)),
          0x06 := b8 (rtc_wday y mo d),
          0x07 := b8 (d smod 10),
          0x08 := b8 (push_bit 2 ((4 - (y AND 3)) AND 3) OR (d sdiv 10)),
          0x09 := b8 (mo smod 10), 0x0A := b8 (mo sdiv 10),
          0x0B := b8 ((y smod 100) smod 10), 0x0C := b8 ((y smod 100) sdiv 10)),
        r_addr := 0, r_prev_pb := 0, r_stopped := False, r_prev_cs := False, r_cs_since := 0,
        r_base := c_insns (m_cpu m), r_held := 0, r_present := True\<rparr>) m"

end
