(* ===== verification/Bus_Io.thy ===== *)
theory Bus_Io
  imports Scc Hdc Rtc
begin

text \<open>
  The I/O space of \<open>src/src/bus.c\<close>: the decode of a port to the MMU command port, a serial
  channel, a CIO register, the stop port or the disk doorbell, and the construction of a
  machine.
\<close>

subsection \<open>Reads\<close>

text \<open>\<open>(port >> 1) & 0x3F\<close>, \<open>(port >> 1) & 0x0F\<close> and \<open>(port >> 5) & 1\<close>.\<close>

definition cio_reg :: "u16 \<Rightarrow> 6 word" where
  "cio_reg port = ucast (drop_bit 1 port)"

definition scc_reg_of :: "u16 \<Rightarrow> nib" where
  "scc_reg_of port = ucast (drop_bit 1 port)"

definition scc_chan_bit :: "u16 \<Rightarrow> nat" where
  "scc_chan_bit port = unat (drop_bit 5 port AND 1)"

definition hi_byte :: "u8 \<Rightarrow> u16" where
  "hi_byte v = push_bit 8 (ucast v)"

definition io_read :: "u16 \<Rightarrow> bool \<Rightarrow> bool \<Rightarrow> Machine \<Rightarrow> u16 \<times> Machine" where
  "io_read port is_byte special m =
     (if special then
        (let low = port AND 0xFF
         in if low = 0xFC \<or> low = 0xF8
            then (let (v, u) = mmu_cmd_read (ucast (drop_bit 8 port)) (m_mmu m)
                  in (v, m\<lparr>m_mmu := u\<rparr>))
            else (0, m))
      else
        (case scc_chip_at m port of
           Some chip \<Rightarrow>
             (let (v, m) = scc_read chip (scc_chan_bit port) (scc_reg_of port) m in (hi_byte v, m))
         | None \<Rightarrow>
             if port AND 0xFF80 = 0x0000 then
               (let reg = cio_reg port
                in if m_cio1_reset m \<and> reg \<noteq> 0 then (0, m)
                   else
                     (let v = m_cio1 m reg;
                          (v, m) = (if reg = CIO_PBDATA then rtc_pb_read v m else (v, m))
                      in (hi_byte v, m)))
             else if port AND 0xFF80 = 0x0080 then
               (let reg = cio_reg port
                in if m_cio2_reset m \<and> reg \<noteq> 0 then (0, m) else (hi_byte (m_cio2 m reg), m))
             else (0, m)))"

subsection \<open>Writes\<close>

definition set_cio1 :: "6 word \<Rightarrow> u8 \<Rightarrow> Machine \<Rightarrow> Machine" where
  "set_cio1 reg v m = m\<lparr>m_cio1 := (m_cio1 m)(reg := v)\<rparr>"

text \<open>The CT3 command applied to the IP/IE/IUS bits.\<close>

definition ct3_command :: "u8 \<Rightarrow> u8 \<Rightarrow> u8" where
  "ct3_command v cs =
     (let cmd = drop_bit 5 v AND 0x07;
          cs = (if cmd = 1 then cs AND NOT (0x20 OR 0x80)
                else if cmd = 2 then cs OR 0x80
                else if cmd = 3 then cs AND NOT 0x80
                else if cmd = 4 then cs OR 0x20
                else if cmd = 5 then cs AND NOT 0x20
                else if cmd = 6 then cs OR 0x40
                else if cmd = 7 then cs AND NOT 0x40
                else cs)
      in (cs AND NOT 0x04) OR (v AND 0x04))"

definition cio1_write :: "6 word \<Rightarrow> u8 \<Rightarrow> Machine \<Rightarrow> Machine" where
  "cio1_write reg v m =
     (let m = (if reg = 0x00 \<and> \<not> tst v 0x01 then m\<lparr>m_cio1_reset := False\<rparr> else m)
      in if reg = 0x0C then
           (let cs = ct3_command v (m_cio1 m 0x0C);
                m = (if tst v 0x02 \<and> (\<not> m_ct3_running m \<or> tst (m_cio1 m 0x1E) 0x04)
                     then m\<lparr>m_ct3_running := True, m_ct3_accum := 0\<rparr> else m)
            in set_cio1 0x0C cs m)
         else
           (let m = set_cio1 reg v m
            in if reg = CIO_PBDATA then rtc_pb_write v m
               else if reg = CIO_PCDATA then rtc_pb_write (r_prev_pb (m_rtc m)) m
               else m))"

definition io_write :: "u16 \<Rightarrow> u16 \<Rightarrow> bool \<Rightarrow> bool \<Rightarrow> Machine \<Rightarrow> Machine" where
  "io_write port data is_byte special m =
     (if special then
        (let low = port AND 0xFF
         in if low = 0xFC \<or> low = 0xF8
            then m\<lparr>m_mmu := mmu_cmd_write (ucast (drop_bit 8 port)) (ucast data) (m_mmu m)\<rparr>
            else m)
      else
        (let v = ucast (drop_bit 8 data) :: u8
         in case scc_chip_at m port of
              Some chip \<Rightarrow> scc_write chip (scc_chan_bit port) (scc_reg_of port) v m
            | None \<Rightarrow>
                if port AND 0xFF80 = 0x0000 then cio1_write (cio_reg port) v m
                else if port AND 0xFF80 = 0x0080 then
                  (let reg = cio_reg port;
                       m = (if reg = 0x00 \<and> \<not> tst v 0x01 then m\<lparr>m_cio2_reset := False\<rparr> else m)
                   in m\<lparr>m_cio2 := (m_cio2 m)(reg := v)\<rparr>)
                else if port = m_stop_port m \<and> m_stop_port m \<noteq> 0 then
                  (if data = 0xC900
                   then m\<lparr>m_stop := True, m_stop_why := ''the guest rang the stop doorbell''\<rparr>
                   else m)
                else if port AND 0xFF00 = 0x0200 then m
                else if port \<ge> 0x0500 \<and> port \<le> 0x05FF then
                  (if data \<noteq> 0 then hdc_doorbell m else m)
                else m))"

subsection \<open>Construction\<close>

definition machine_new :: Machine where
  "machine_new =
     (let m = machine_zero\<lparr>m_hdc_cmdblk := 0x080000, m_cio1_reset := True, m_cio2_reset := True\<rparr>;
          m = upd_rtc (\<lambda>r. r\<lparr>r_ips := 1500000\<rparr>) m;
          m = rtc_set_time 1978 1 1 0 0 0 m
      in m\<lparr>m_mmu := mmu_reset (m_mmu m)\<rparr>)"

text \<open>
  \<open>machine_load_rom\<close> on the contents of the two ROM files, of which at most half the ROM
  size is read; the high file holds the even bytes.  \<open>None\<close> is the error return.
\<close>

definition machine_load_rom :: "u8 list \<Rightarrow> u8 list \<Rightarrow> Machine \<Rightarrow> Machine option" where
  "machine_load_rom hfile lfile m =
     (let hi = take 0x4000 hfile; lo = take 0x4000 lfile
      in if length hi \<noteq> length lo then None
         else Some (m\<lparr>m_rom := (\<lambda>a. if unat a < 2 * length hi
                                     then (if even (unat a) then hi ! (unat a div 2)
                                           else lo ! (unat a div 2))
                                     else m_rom m a)\<rparr>))"

end
