(* ===== verification/Cpu_Exec.thy ===== *)
theory Cpu_Exec
  imports Cpu_Mem Bus_Io
begin

text \<open>
  The execute handlers of \<open>src/src/cpu.c\<close>, one definition per instruction class, and their
  dispatch.  A handler reads the decoded control word and updates the machine; on entry the
  program counter already points past the instruction.  Where the source passes two memory
  reads as arguments of one call (their order is unspecified in C) the model reads them from
  left to right.
\<close>

subsection \<open>Arithmetic, logic and data movement\<close>

definition carry_flag :: "CPU \<Rightarrow> bool" where
  "carry_flag c \<longleftrightarrow> tst (c_fcw c) F_C"

definition exec_unified :: "CtrlWord \<Rightarrow> unit handler" where
  "exec_unified w =
     (let compute = (\<lambda>b. do {
            a \<leftarrow> askc (ureg_read (cw_src1_nib w) (cw_width w));
            k \<leftarrow> askc carry_flag;
            let r = alu_exec (cw_alu_op w) a b k (cw_width w);
            modc (apply_flags r);
            whenb (cw_dst w = DstReg)
              (modc (ureg_write (cw_dst_nib w) (rvalue r) (cw_width w)))
          })
      in if src_is_mem (cw_src2 w) then do {
           sa \<leftarrow> askc (usrc_addr w);
           b \<leftarrow> mem_read_w sa (cw_width w);
           if dst_is_mem (cw_dst w) then do {
             cnt \<leftarrow> askc (uread_src2 (w\<lparr>cw_src2 := cw_count w\<rparr>));
             k \<leftarrow> askc carry_flag;
             let r = alu_exec (cw_alu_op w) b cnt k (cw_width w);
             modc (apply_flags r);
             mem_write_w sa (rvalue r) (cw_width w)
           } else if cw_dst w = DstFlagsOnly then do {
             cnt \<leftarrow> askc (uread_src2 (w\<lparr>cw_src2 := cw_count w\<rparr>));
             k \<leftarrow> askc carry_flag;
             let r = alu_exec (cw_alu_op w) b cnt k (cw_width w);
             modc (apply_flags r)
           } else compute b
         } else if dst_is_mem (cw_dst w) then do {
           b \<leftarrow> askc (uread_src2 w);
           da \<leftarrow> askc (udst_addr w);
           mem_write_w da b (cw_width w)
         } else do {
           b \<leftarrow> askc (uread_src2 w);
           compute b
         })"

definition exec_fcwop :: "CtrlWord \<Rightarrow> unit handler" where
  "exec_fcwop w =
     (let isPriv = ((cw_fcw_op w = FcwSet \<or> cw_fcw_op w = FcwClear) \<and> tst (cw_fcw_mask w) (NOT 0x00FC));
          op = (case cw_fcw_op w of
             FcwSet \<Rightarrow> modc (\<lambda>c. c\<lparr>c_fcw := c_fcw c OR cw_fcw_mask w\<rparr>)
           | FcwClear \<Rightarrow> modc (\<lambda>c. c\<lparr>c_fcw := c_fcw c AND NOT (cw_fcw_mask w)\<rparr>)
           | FcwToggle \<Rightarrow> modc (\<lambda>c. c\<lparr>c_fcw := c_fcw c XOR cw_fcw_mask w\<rparr>)
           | FcwLoadLo \<Rightarrow>
               modc (\<lambda>c. merge_flags 0x00FC (ucast (rb (nib2 (c_opcode c 0)) c)) c)
           | FcwStoreLo \<Rightarrow>
               modc (\<lambda>c. wb (nib2 (c_opcode c 0)) (ucast (c_fcw c) AND 0xFC) c))
      in if isPriv then do { ok \<leftarrow> check_priv; whenb ok op } else op)"

definition exec_exts :: "CtrlWord \<Rightarrow> CPU \<Rightarrow> CPU" where
  "exec_exts w c =
     (let reg = nib2 (c_opcode c 0)
      in if cw_width w = WByte then ww reg (scast (ucast (rw reg c) :: u8)) c
         else if cw_width w = WWord then
           (let base = reg AND 0x0E in wl base (scast (rw (base + 1) c)) c)
         else (let base = reg AND 0x0C in wq base (scast (rl (base + 2) c)) c))"

definition exec_tcc :: "CtrlWord \<Rightarrow> CPU \<Rightarrow> CPU" where
  "exec_tcc w c =
     (let dst = nib2 (c_opcode c 0); cc = nib3 (c_opcode c 0)
      in if cond_true cc c
         then (if cw_width w = WByte then wb dst (rb dst c OR 1) c else ww dst (rw dst c OR 1) c)
         else c)"

definition exec_dab :: "CPU \<Rightarrow> CPU" where
  "exec_dab c =
     (let dst = nib2 (c_opcode c 0);
          r = alu_exec OpDab (ucast (rb dst c)) (if tst (c_fcw c) F_H then 1 else 0)
                (carry_flag c) WByte
      in apply_flags r (wb dst (ucast (rvalue r)) c))"

definition exec_lea :: "CtrlWord \<Rightarrow> CPU \<Rightarrow> CPU" where
  "exec_lea w c =
     (let dst = nib3 (c_opcode c 0);
          addr = (case cw_src2 w of
             SrcPCRel \<Rightarrow> displaced (c_pc c) (c_opcode c 1)
           | SrcDA \<Rightarrow> seg_addr_op 1 c
           | SrcX \<Rightarrow> addr_add (seg_addr_op 1 c) (ucast (rw (unib (cw_src2_nib w) c) c))
           | SrcBased \<Rightarrow> displaced (addr_from_reg (unib (cw_src2_nib w) c) c) (c_opcode c 1)
           | SrcBX \<Rightarrow> addr_add (addr_from_reg (unib (cw_src2_nib w) c) c) (ucast (rw (bx_index c) c))
           | _ \<Rightarrow> 0)
      in addr_to_reg dst addr c)"

definition exec_bcdrotate :: "CtrlWord \<Rightarrow> CPU \<Rightarrow> CPU" where
  "exec_bcdrotate w c =
     (let src = nib2 (c_opcode c 0); dst = nib3 (c_opcode c 0);
          sv = rb src c; dv = rb dst c; oldlo = dv AND 0x0F;
          (nd, ns) = (if cw_alu_op w = OpRl
                      then ((dv AND 0xF0) OR drop_bit 4 sv, push_bit 4 sv OR oldlo)
                      else ((dv AND 0xF0) OR (sv AND 0x0F), drop_bit 4 sv OR push_bit 4 oldlo))
      in put_flag F_Z (nd = 0) (wb dst nd (wb src ns c)))"

definition exec_bitdynamic :: "CtrlWord \<Rightarrow> CPU \<Rightarrow> CPU" where
  "exec_bitdynamic w c =
     (let rs = nib3 (c_opcode c 0); rd = nib1 (c_opcode c 1)
      in if cw_width w = WByte then
           (let m = push_bit (unat (rw rs c AND 0x07)) 1 :: u8
            in if cw_alu_op w = OpBit then put_flag F_Z (rb rd c AND m = 0) c
               else if cw_alu_op w = OpSet then wb rd (rb rd c OR m) c
               else if cw_alu_op w = OpRes then wb rd (rb rd c AND NOT m) c
               else c)
         else
           (let m = push_bit (unat (rw rs c AND 0x0F)) 1 :: u16
            in if cw_alu_op w = OpBit then put_flag F_Z (rw rd c AND m = 0) c
               else if cw_alu_op w = OpSet then ww rd (rw rd c OR m) c
               else if cw_alu_op w = OpRes then ww rd (rw rd c AND NOT m) c
               else c))"

subsection \<open>Control transfer\<close>

text \<open>\<open>push_word(c,(uint16_t)c->pc); if (SEG(c)) push_word(...); c->pc=t\<close>.\<close>

definition call_to :: "u32 \<Rightarrow> unit handler" where
  "call_to t = do {
     pc \<leftarrow> askc c_pc;
     push_word (ucast pc);
     seg \<leftarrow> askc SEG;
     whenb seg (do {
       pc \<leftarrow> askc c_pc;
       push_word (ucast (drop_bit 16 (make_seg pc)))
     });
     modc (\<lambda>c. c\<lparr>c_pc := t\<rparr>)
   }"

definition jump_if :: "nib \<Rightarrow> (CPU \<Rightarrow> u32) \<Rightarrow> CPU \<Rightarrow> CPU" where
  "jump_if cc target c = (if cond_true cc c then c\<lparr>c_pc := target c\<rparr> else c)"

text \<open>\<open>(int32_t)(int8_t)(op & 0xFF) * 2\<close> and the sign-extended 12-bit displacement.\<close>

definition disp8 :: "u16 \<Rightarrow> int" where
  "disp8 op = sint (ucast op :: u8) * 2"

definition disp12 :: "u16 \<Rightarrow> int" where
  "disp12 op = (let raw = uint (op AND 0x0FFF) in if tst op 0x0800 then raw - 4096 else raw)"

definition exec_djnz :: "CPU \<Rightarrow> CPU" where
  "exec_djnz c =
     (let op = c_opcode c 0; reg = nib1 op; disp = ucast (op AND 0x7F) :: u32;
          (c, nz) = (if tst op 0x0080
                     then (let v = rw reg c - 1 in (ww reg v c, v \<noteq> 0))
                     else (let v = rb reg c - 1 in (wb reg v c, v \<noteq> 0)))
      in if nz then c\<lparr>c_pc := addr_sub (c_pc c) (push_bit 1 disp)\<rparr> else c)"

definition exec_ret :: "unit handler" where
  "exec_ret = do {
     ok \<leftarrow> askc (\<lambda>c. cond_true (nib3 (c_opcode c 0)) c);
     seg \<leftarrow> askc SEG;
     if \<not> ok then skip
     else if seg then do {
       hi \<leftarrow> pop_word;
       lo \<leftarrow> pop_word;
       modc (\<lambda>c. c\<lparr>c_pc := seg_addr (push_bit 16 (ucast hi) OR ucast lo)\<rparr>)
     } else do {
       ps \<leftarrow> askc pc_seg;
       lo \<leftarrow> pop_word;
       modc (\<lambda>c. c\<lparr>c_pc := ps OR ucast lo\<rparr>)
     }
   }"

definition exec_branch :: "CtrlWord \<Rightarrow> unit handler" where
  "exec_branch w =
     (case cw_br_mode w of
        BranchJP_DA \<Rightarrow> modc (\<lambda>c. jump_if (nib3 (c_opcode c 0)) (seg_addr_op 1) c)
      | BranchJP_X \<Rightarrow> modc (\<lambda>c. jump_if (nib3 (c_opcode c 0))
                       (\<lambda>c. addr_add (seg_addr_op 1 c) (ucast (rw (nib2 (c_opcode c 0)) c))) c)
      | BranchJP_IR \<Rightarrow> modc (\<lambda>c. jump_if (nib3 (c_opcode c 0)) (addr_from_reg (nib2 (c_opcode c 0))) c)
      | BranchJR \<Rightarrow> modc (\<lambda>c. jump_if (nib1 (c_opcode c 0)) (rel_pc (disp8 (c_opcode c 0))) c)
      | BranchCALL_DA \<Rightarrow> do { t \<leftarrow> askc (seg_addr_op 1); call_to t }
      | BranchCALL_X \<Rightarrow> do {
          t \<leftarrow> askc (\<lambda>c. addr_add (seg_addr_op 1 c) (ucast (rw (nib2 (c_opcode c 0)) c)));
          call_to t }
      | BranchCALL_IR \<Rightarrow> do { t \<leftarrow> askc (\<lambda>c. addr_from_reg (nib2 (c_opcode c 0)) c); call_to t }
      | BranchCALR \<Rightarrow> do { t \<leftarrow> askc (\<lambda>c. rel_pc (disp8 (c_opcode c 0)) c); call_to t }
      | BranchCALR12 \<Rightarrow> do { t \<leftarrow> askc (\<lambda>c. rel_pc (- disp12 (c_opcode c 0) * 2) c); call_to t }
      | BranchDJNZ \<Rightarrow> modc exec_djnz
      | BranchRET \<Rightarrow> exec_ret)"

subsection \<open>General stacks\<close>

text \<open>
  The repeated predecrement \<open>if (SEG(c)) {a=addr_sub(addr_from_reg(c,sp),n); ...} else
  {a=addr_from_reg(c,sp)-n; ...}\<close> and postincrement of \<open>exec_stack\<close>.  Without segmentation the
  subtraction is on the whole 32-bit address.
\<close>

definition stack_predec :: "nib \<Rightarrow> u32 \<Rightarrow> u32 handler" where
  "stack_predec sp n = do {
     seg \<leftarrow> askc SEG;
     if seg then do {
       a \<leftarrow> askc (\<lambda>c. addr_sub (addr_from_reg sp c) n);
       modc (addr_to_reg sp a);
       State_Monad.return a
     } else do {
       a \<leftarrow> askc (\<lambda>c. addr_from_reg sp c - n);
       modc (ww sp (ucast a));
       State_Monad.return a
     }
   }"

definition stack_postinc :: "nib \<Rightarrow> u32 \<Rightarrow> u32 \<Rightarrow> unit handler" where
  "stack_postinc sp a n = do {
     seg \<leftarrow> askc SEG;
     if seg then modc (addr_to_reg sp (addr_add a n)) else modc (ww sp (ucast a + ucast n))
   }"

text \<open>Two words, high word first.\<close>

definition store_long :: "u32 \<Rightarrow> u16 \<Rightarrow> u16 \<Rightarrow> unit handler" where
  "store_long a hi lo = do { mem_w16 a hi; mem_w16 (addr_add a 2) lo }"

definition load_long :: "u32 \<Rightarrow> (u16 \<times> u16) handler" where
  "load_long a = do {
     hi \<leftarrow> mem_r16 a;
     lo \<leftarrow> mem_r16 (addr_add a 2);
     State_Monad.return (hi, lo)
   }"

definition exec_stack :: "CtrlWord \<Rightarrow> unit handler" where
  "exec_stack w = do {
     op \<leftarrow> askc (\<lambda>c. c_opcode c 0);
     let sp = nib2 op;
     let data = nib3 op;
     case cw_stk_mode w of
       StackPush \<Rightarrow> do {
         a \<leftarrow> stack_predec sp 2;
         v \<leftarrow> askc (rw data);
         mem_w16 a v }
     | StackPop \<Rightarrow> do {
         a \<leftarrow> askc (addr_from_reg sp);
         stack_postinc sp a 2;
         v \<leftarrow> mem_r16 a;
         modc (ww data v) }
     | StackPushL \<Rightarrow> do {
         let src = data AND 0x0E;
         a \<leftarrow> stack_predec sp 4;
         hi \<leftarrow> askc (rw src);
         mem_w16 a hi;
         lo \<leftarrow> askc (rw (src + 1));
         mem_w16 (addr_add a 2) lo }
     | StackPopL \<Rightarrow> do {
         a \<leftarrow> askc (addr_from_reg sp);
         stack_postinc sp a 4;
         hl \<leftarrow> load_long a;
         let dst = data AND 0x0E;
         modc (\<lambda>c. ww (dst + 1) (snd hl) (ww dst (fst hl) c)) }
     | StackPushSrc \<Rightarrow> do {
         sa \<leftarrow> askc (usrc_addr w);
         v \<leftarrow> mem_r16 sa;
         a \<leftarrow> stack_predec sp 2;
         mem_w16 a v }
     | StackPopDst \<Rightarrow> do {
         a \<leftarrow> askc (addr_from_reg sp);
         stack_postinc sp a 2;
         v \<leftarrow> mem_r16 a;
         da \<leftarrow> askc (udst_addr w);
         mem_w16 da v }
     | StackPushLSrc \<Rightarrow> do {
         base \<leftarrow> askc (\<lambda>c. if cw_src2 w = SrcIR then addr_from_reg (data AND 0x0E) c
                           else usrc_addr w c);
         hl \<leftarrow> load_long base;
         a \<leftarrow> stack_predec sp 4;
         store_long a (fst hl) (snd hl) }
     | StackPopLDst \<Rightarrow> do {
         a \<leftarrow> askc (addr_from_reg sp);
         stack_postinc sp a 4;
         hl \<leftarrow> load_long a;
         base \<leftarrow> askc (\<lambda>c. if cw_dst w = DstIR then addr_from_reg (data AND 0x0E) c
                           else udst_addr w c);
         store_long base (fst hl) (snd hl) }
     | StackPushImm \<Rightarrow> do {
         a \<leftarrow> stack_predec sp 2;
         v \<leftarrow> askc (\<lambda>c. c_opcode c 1);
         mem_w16 a v }
   }"

subsection \<open>Multiplication and division\<close>

abbreviation (input) MASK_CZSV :: u16 where "MASK_CZSV \<equiv> F_C OR F_Z OR F_S OR F_PV"

definition exec_mul :: "CtrlWord \<Rightarrow> unit handler" where
  "exec_mul w = do {
     op \<leftarrow> askc (\<lambda>c. c_opcode c 0);
     let dst = (if cw_width w = WLong then nib3 op AND 0x0E else nib3 op);
     mcand \<leftarrow> askc (\<lambda>c. if cw_width w = WWord then ucast (rw (dst OR 1) c)
                         else ucast (rl ((dst OR 2) AND 0x0E) c) :: u64);
     mplier \<leftarrow> (case cw_src2 w of
          SrcReg \<Rightarrow> askc (\<lambda>c. if cw_width w = WWord then ucast (rw (nib2 op) c)
                             else ucast (rl (nib2 op AND 0x0E) c))
        | SrcImm \<Rightarrow> askc (\<lambda>c. if cw_width w = WWord then ucast (c_opcode c 1)
                             else push_bit 16 (ucast (c_opcode c 1)) OR ucast (c_opcode c 2))
        | _ \<Rightarrow> do { a \<leftarrow> askc (usrc_addr w); mem_read_w a (cw_width w) });
     if cw_width w = WWord then do {
       let prod = sint (ucast mcand :: u16) * sint (ucast mplier :: u16);
       let p = (word_of_int prod :: u32);
       modc (\<lambda>c. merge_flags MASK_CZSV
                    (flag_if (prod = 0) F_Z OR flag_if (tst p 0x80000000) F_S
                     OR flag_if (prod < - 0x8000 \<or> prod > 0x7FFF) F_C)
                    (wl (dst AND 0x0E) p c))
     } else do {
       let prod = sint (ucast mcand :: u32) * sint (ucast mplier :: u32);
       let p = (word_of_int prod :: u64);
       modc (\<lambda>c. merge_flags MASK_CZSV
                    (flag_if (prod = 0) F_Z OR flag_if (tst p 0x8000000000000000) F_S
                     OR flag_if (prod < - 0x80000000 \<or> prod > 0x7FFFFFFF) F_C)
                    (wq (dst AND 0x0C) p c))
     }
   }"

text \<open>
  The outcome of a division with quotient limits of \<open>k\<close> bits: what is stored, if anything,
  and the flags.  \<open>zq\<close> is the test for a zero quotient in the overflow case, which the
  source makes on the truncated value.
\<close>

definition div_outcome :: "nat \<Rightarrow> int \<Rightarrow> int \<Rightarrow> (int \<times> int) option \<times> u16" where
  "div_outcome k dividend divisor =
     (if divisor = 0 then (None, F_Z OR F_PV)
      else
        (let q = dividend sdiv divisor; r = dividend smod divisor
         in if q < - (2 ^ (k - 1)) \<or> q > 2 ^ (k - 1) - 1
            then (if q < - (2 ^ k) \<or> q > 2 ^ k - 1 then (None, F_PV)
                  else (Some (q, r), F_C OR F_PV OR flag_if (q < 0) F_S
                                     OR flag_if (take_bit k q = 0) F_Z))
            else (Some (q, r), flag_if (q = 0) F_Z OR flag_if (q < 0) F_S)))"

text \<open>\<open>dividend/divisor\<close> is a signed overflow for the most negative dividend and -1.\<close>

definition note_div_overflow :: "nat \<Rightarrow> int \<Rightarrow> int \<Rightarrow> unit handler" where
  "note_div_overflow k dividend divisor =
     whenb (dividend = - (2 ^ (k - 1)) \<and> divisor = - 1) (modm (\<lambda>m. m\<lparr>m_ub := True\<rparr>))"

definition div_operand :: "CtrlWord \<Rightarrow> Width \<Rightarrow> int handler" where
  "div_operand w width =
     (let signed = (\<lambda>v :: u64. if width = WWord then sint (ucast v :: u16) else sint (ucast v :: u32))
      in case cw_src2 w of
           SrcReg \<Rightarrow> askc (\<lambda>c. signed (reg_read (nib2 (c_opcode c 0)) width c))
         | SrcImm \<Rightarrow> askc (\<lambda>c. signed (if width = WWord then ucast (c_opcode c 1)
                       else push_bit 16 (ucast (c_opcode c 1)) OR ucast (c_opcode c 2)))
         | _ \<Rightarrow> do { a \<leftarrow> askc (usrc_addr w); v \<leftarrow> mem_read_w a width;
                    State_Monad.return (signed v) })"

definition exec_div :: "CtrlWord \<Rightarrow> unit handler" where
  "exec_div w = do {
     dst \<leftarrow> askc (\<lambda>c. nib3 (c_opcode c 0));
     if cw_width w = WWord then do {
       let d = dst AND 0x0E;
       dividend \<leftarrow> askc (\<lambda>c. sint (rl d c));
       divisor \<leftarrow> div_operand w WWord;
       note_div_overflow 32 dividend divisor;
       let (qr, flags) = div_outcome 16 dividend divisor;
       modc (\<lambda>c. merge_flags MASK_CZSV flags
         (case qr of None \<Rightarrow> c
          | Some (q, r) \<Rightarrow> ww d (word_of_int r) (ww (d + 1) (word_of_int q) c)))
     } else do {
       let d = dst AND 0x0C;
       dividend \<leftarrow> askc (\<lambda>c. sint (rq d c));
       divisor \<leftarrow> div_operand w WLong;
       note_div_overflow 64 dividend divisor;
       let (qr, flags) = div_outcome 32 dividend divisor;
       modc (\<lambda>c. merge_flags MASK_CZSV flags
         (case qr of None \<Rightarrow> c
          | Some (q, r) \<Rightarrow> wl d (word_of_int r) (wl (d + 2) (word_of_int q) c)))
     }
   }"

subsection \<open>Shifts\<close>

definition exec_shift :: "CtrlWord \<Rightarrow> CPU \<Rightarrow> CPU" where
  "exec_shift w c =
     (let dst = (if cw_width w = WLong then nib2 (c_opcode c 0) AND 0x0E else nib2 (c_opcode c 0));
          count = (if cw_count w = SrcReg then sint (rw (nib1 (c_opcode c 1)) c)
                   else sint (c_opcode c 1));
          (op, n) = (if count < 0
                     then ((if cw_alu_op w = OpSla then OpSra else OpSrl), - count)
                     else (cw_alu_op w, count));
          r = alu_exec op (reg_read dst (cw_width w) c) (word_of_int n) False (cw_width w)
      in apply_flags r (reg_write dst (rvalue r) (cw_width w) c))"

subsection \<open>Load and store multiple\<close>

definition exec_ldm :: "CtrlWord \<Rightarrow> unit handler" where
  "exec_ldm w = do {
     base \<leftarrow> askc (\<lambda>c. let idx = nib2 (c_opcode c 0)
                       in if cw_src2 w = SrcIR then addr_from_reg idx c
                          else if idx \<noteq> 0 then addr_add (seg_addr_op 2 c) (ucast (rw idx c))
                          else seg_addr_op 2 c);
     ewd \<leftarrow> askc (\<lambda>c. c_opcode c 1);
     let first = nib1 ewd;
     let n = unat (ewd AND 0x0F) + 1;
     for_each [0..<n] (\<lambda>i.
       let a = addr_add base (push_bit 1 (of_nat i)); r = first + of_nat i
       in if \<not> cw_io_write w then do { v \<leftarrow> mem_r16 a; modc (ww r v) }
          else do { v \<leftarrow> askc (rw r); mem_w16 a v })
   }"

subsection \<open>Input and output\<close>

definition do_io_read :: "u16 \<Rightarrow> bool \<Rightarrow> bool \<Rightarrow> u16 handler" where
  "do_io_read port is_byte special = State (io_read port is_byte special)"

definition do_io_write :: "u16 \<Rightarrow> u16 \<Rightarrow> bool \<Rightarrow> bool \<Rightarrow> unit handler" where
  "do_io_write port data is_byte special = modm (io_write port data is_byte special)"

text \<open>The data lane of a byte transfer: low byte in special I/O space, high byte otherwise.\<close>

definition io_lane_out :: "bool \<Rightarrow> u8 \<Rightarrow> u16" where
  "io_lane_out spec b = (if spec then ucast b else hi_byte b)"

definition io_lane_in :: "bool \<Rightarrow> u16 \<Rightarrow> u8" where
  "io_lane_in spec v = (if spec then ucast v else ucast (drop_bit 8 v))"

definition exec_io :: "CtrlWord \<Rightarrow> unit handler" where
  "exec_io w = do {
     ok \<leftarrow> check_priv;
     op \<leftarrow> askc (\<lambda>c. c_opcode c 0);
     whenb ok (do {
       port \<leftarrow> askc (\<lambda>c.
         if cw_src2 w = SrcIR then rw (nib2 op) c
         else if cw_src2 w = SrcDA \<and> nib2 op \<noteq> 0 then c_opcode c 1 + rw (nib2 op) c
         else c_opcode c 1);
       let dr = (if cw_src2 w = SrcIR \<or> cw_src2 w = SrcDA then nib3 op else nib2 op);
       let spec = cw_io_spec w;
       if cw_io_write w then
         (if cw_width w = WByte then do {
            b \<leftarrow> askc (rb dr);
            do_io_write port (io_lane_out spec b) True spec
          } else do {
            v \<leftarrow> askc (rw dr);
            do_io_write port v False spec
          })
       else do {
         v \<leftarrow> do_io_read port (cw_width w = WByte) spec;
         if cw_width w = WByte then modc (wb dr (io_lane_in spec v)) else modc (ww dr v)
       }
     })
   }"

subsection \<open>Control registers and program status\<close>

definition ldctl_read :: "nat \<Rightarrow> CPU \<Rightarrow> u16" where
  "ldctl_read cr c =
     (if cr = 2 then c_fcw c
      else if cr = 3 then c_refresh c
      else if cr = 4 then ucast (drop_bit 8 (c_psap c))
      else if cr = 5 then ucast (c_psap c)
      else if cr = 6 then c_nspseg c
      else if cr = 7 then c_nspoff c
      else 0)"

definition ldctl_write :: "nat \<Rightarrow> u16 \<Rightarrow> CPU \<Rightarrow> CPU" where
  "ldctl_write cr v c =
     (if cr = 2 then change_fcw v c
      else if cr = 3 then c\<lparr>c_refresh := v\<rparr>
      else if cr = 4
      then c\<lparr>c_psap := (c_psap c AND 0x0000FFFF) OR push_bit 8 (ucast (v AND 0x7F00))\<rparr>
      else if cr = 5 then c\<lparr>c_psap := (c_psap c AND 0xFFFF0000) OR ucast v\<rparr>
      else if cr = 6 then c\<lparr>c_nspseg := v\<rparr>
      else if cr = 7 then c\<lparr>c_nspoff := v\<rparr>
      else c)"

definition exec_ldctl :: "unit handler" where
  "exec_ldctl = do {
     ok \<leftarrow> check_priv;
     op \<leftarrow> askc (\<lambda>c. c_opcode c 0);
     let ra = nib2 op;
     let cr = unat (op AND 0x07);
     whenb ok
       (if \<not> tst op 0x08 then modc (\<lambda>c. ww ra (ldctl_read cr c) c)
        else modc (\<lambda>c. ldctl_write cr (rw ra c) c))
   }"

definition exec_ldps :: "CtrlWord \<Rightarrow> unit handler" where
  "exec_ldps w = do {
     ok \<leftarrow> check_priv;
     base \<leftarrow> askc (\<lambda>c. let idx = nib2 (c_opcode c 0)
                       in if cw_src2 w = SrcIR then addr_from_reg idx c
                          else if idx \<noteq> 0 then addr_add (seg_addr_op 1 c) (ucast (rw idx c))
                          else seg_addr_op 1 c);
     seg \<leftarrow> askc SEG;
     whenb ok
       (if seg then do {
          nf \<leftarrow> mem_r16 (addr_add base 2);
          ps \<leftarrow> mem_r16 (addr_add base 4);
          po \<leftarrow> mem_r16 (addr_add base 6);
          modc (\<lambda>c. c\<lparr>c_pc := push_bit 8 (ucast (ps AND 0x7F00)) OR ucast po\<rparr>);
          modc (change_fcw nf)
        } else do {
          nf \<leftarrow> mem_r16 base;
          pc \<leftarrow> mem_r16 (addr_add base 2);
          modc (\<lambda>c. c\<lparr>c_pc := ucast pc\<rparr>);
          modc (change_fcw nf)
        })
   }"

definition exec_iret :: "unit handler" where
  "exec_iret = do {
     ok \<leftarrow> check_priv;
     whenb ok (do {
       pop_word;
       nf \<leftarrow> pop_word;
       seg \<leftarrow> askc SEG;
       (if seg then do {
          hi \<leftarrow> pop_word;
          lo \<leftarrow> pop_word;
          modc (\<lambda>c. c\<lparr>c_pc := seg_addr (push_bit 16 (ucast hi) OR ucast lo)\<rparr>)
        } else do {
          lo \<leftarrow> pop_word;
          modc (\<lambda>c. c\<lparr>c_pc := ucast lo\<rparr>)
        });
       modc (change_fcw nf)
     })
   }"

subsection \<open>Exchange and translate\<close>

definition exec_exchange :: "CtrlWord \<Rightarrow> unit handler" where
  "exec_exchange w = do {
     op \<leftarrow> askc (\<lambda>c. c_opcode c 0);
     let a = nib2 op;
     let b = nib3 op;
     if cw_src2 w = SrcIR \<or> cw_src2 w = SrcDA \<or> cw_src2 w = SrcX then do {
       ma \<leftarrow> askc (\<lambda>c. if cw_src2 w = SrcIR then addr_from_reg a c
                       else if cw_src2 w = SrcDA then seg_addr_op 1 c
                       else addr_add (seg_addr_op 1 c) (ucast (rw a c)));
       if cw_width w = WByte then do {
         mv \<leftarrow> mem_r8 ma;
         rv \<leftarrow> askc (rb b);
         modc (wb b mv);
         mem_w8 ma rv
       } else do {
         mv \<leftarrow> mem_r16 ma;
         rv \<leftarrow> askc (rw b);
         modc (ww b mv);
         mem_w16 ma rv
       }
     } else if cw_width w = WByte
       then modc (\<lambda>c. wb b (rb a c) (wb a (rb b c) c))
       else modc (\<lambda>c. ww b (rw a c) (ww a (rw b c) c))
   }"

text \<open>\<open>uint16_t cnt=rw(c,cntReg)-1; ww(c,cntReg,cnt);\<close>, and \<open>c->repeat_pending=true\<close>.\<close>

definition count_down :: "nib \<Rightarrow> u16 handler" where
  "count_down r = do {
     cnt \<leftarrow> askc (\<lambda>c. rw r c - 1);
     modc (ww r cnt);
     State_Monad.return cnt
   }"

definition repeat_if :: "bool \<Rightarrow> unit handler" where
  "repeat_if b = whenb b (modc (\<lambda>c. c\<lparr>c_repeat_pending := True\<rparr>))"

definition exec_translate :: "CtrlWord \<Rightarrow> unit handler" where
  "exec_translate w = do {
     dstReg \<leftarrow> askc (\<lambda>c. nib2 (c_opcode c 1));
     cntReg \<leftarrow> askc (\<lambda>c. nib1 (c_opcode c 1));
     srcReg \<leftarrow> askc (\<lambda>c. nib2 (c_opcode c 0));
     let delta = (if cw_block_decr w then - 1 else 1 :: u16);
     da \<leftarrow> askc (addr_from_reg dstReg);
     idx \<leftarrow> mem_r8 da;
     ta \<leftarrow> askc (\<lambda>c. addr_add (addr_from_reg srcReg c) (ucast idx));
     translated \<leftarrow> mem_r8 ta;
     if cw_io_write w then do {
       da \<leftarrow> askc (addr_from_reg dstReg);
       mem_w8 da translated;
       modc (add_to_addr_reg dstReg delta);
       cnt \<leftarrow> count_down cntReg;
       whenb (\<not> cw_block_rept w) (modc (put_flag F_Z (translated = 0)));
       repeat_if (cw_block_rept w \<and> cnt \<noteq> 0)
     } else do {
       modc (wb 1 translated);
       modc (add_to_addr_reg dstReg delta);
       cnt \<leftarrow> count_down cntReg;
       modc (put_flag F_Z (translated = 0));
       repeat_if (cw_block_rept w \<and> cnt \<noteq> 0 \<and> translated = 0)
     }
   }"

subsection \<open>Block operations, one element per call\<close>

text \<open>\<open>delta = block_decr ? -(int16_t)w->width : (int16_t)w->width\<close>.\<close>

definition block_delta :: "CtrlWord \<Rightarrow> u16" where
  "block_delta w =
     (let n = of_nat (width_num (cw_width w)) in if cw_block_decr w then - n else n)"

definition exec_block_transfer :: "CtrlWord \<Rightarrow> unit handler" where
  "exec_block_transfer w = do {
     srcReg \<leftarrow> askc (\<lambda>c. nib2 (c_opcode c 0));
     dstReg \<leftarrow> askc (\<lambda>c. nib2 (c_opcode c 1));
     cntReg \<leftarrow> askc (\<lambda>c. nib1 (c_opcode c 1));
     sa \<leftarrow> askc (addr_from_reg srcReg);
     (if cw_width w = WByte then do {
        v \<leftarrow> mem_r8 sa;
        da \<leftarrow> askc (addr_from_reg dstReg);
        mem_w8 da v
      } else do {
        v \<leftarrow> mem_r16 sa;
        da \<leftarrow> askc (addr_from_reg dstReg);
        mem_w16 da v
      });
     modc (add_to_addr_reg srcReg (block_delta w));
     modc (add_to_addr_reg dstReg (block_delta w));
     cnt \<leftarrow> count_down cntReg;
     modc (put_flag F_PV (cnt = 0));
     repeat_if (cw_block_rept w \<and> cnt \<noteq> 0)
   }"

text \<open>The common tail of the two compare families, after the operands have been compared.\<close>

definition block_match :: "CtrlWord \<Rightarrow> alu_result \<Rightarrow> (CPU \<Rightarrow> CPU) \<Rightarrow> unit handler" where
  "block_match w r advance = do {
     cc \<leftarrow> askc (\<lambda>c. nib3 (c_opcode c 1));
     cntReg \<leftarrow> askc (\<lambda>c. nib1 (c_opcode c 1));
     modc (apply_flags r);
     match \<leftarrow> askc (cond_true cc);
     modc advance;
     cnt \<leftarrow> count_down cntReg;
     let flags = (rflags r AND NOT (F_Z OR F_PV)) OR flag_if match F_Z OR flag_if (cnt = 0) F_PV;
     modc (merge_flags (F_Z OR F_PV) flags);
     repeat_if (cw_block_rept w \<and> cnt \<noteq> 0 \<and> \<not> match)
   }"

definition exec_block_compare :: "CtrlWord \<Rightarrow> unit handler" where
  "exec_block_compare w = do {
     srcReg \<leftarrow> askc (\<lambda>c. nib2 (c_opcode c 0));
     cmpReg \<leftarrow> askc (\<lambda>c. nib2 (c_opcode c 1));
     sa \<leftarrow> askc (addr_from_reg srcReg);
     if cw_width w = WByte then do {
       a \<leftarrow> askc (rb cmpReg);
       b \<leftarrow> mem_r8 sa;
       block_match w (alu_exec OpCp (ucast a) (ucast b) False WByte)
         (add_to_addr_reg srcReg (block_delta w))
     } else do {
       a \<leftarrow> askc (rw cmpReg);
       b \<leftarrow> mem_r16 sa;
       block_match w (alu_exec OpCp (ucast a) (ucast b) False WWord)
         (add_to_addr_reg srcReg (block_delta w))
     }
   }"

definition exec_block_string :: "CtrlWord \<Rightarrow> unit handler" where
  "exec_block_string w = do {
     srcReg \<leftarrow> askc (\<lambda>c. nib2 (c_opcode c 0));
     dstReg \<leftarrow> askc (\<lambda>c. nib2 (c_opcode c 1));
     sa \<leftarrow> askc (addr_from_reg srcReg);
     let advance = (\<lambda>c. add_to_addr_reg dstReg (block_delta w)
                          (add_to_addr_reg srcReg (block_delta w) c));
     if cw_width w = WByte then do {
       a \<leftarrow> mem_r8 sa;
       da \<leftarrow> askc (addr_from_reg dstReg);
       b \<leftarrow> mem_r8 da;
       block_match w (alu_exec OpCp (ucast a) (ucast b) False WByte) advance
     } else do {
       a \<leftarrow> mem_r16 sa;
       da \<leftarrow> askc (addr_from_reg dstReg);
       b \<leftarrow> mem_r16 da;
       block_match w (alu_exec OpCp (ucast a) (ucast b) False WWord) advance
     }
   }"

definition exec_block_io :: "CtrlWord \<Rightarrow> unit handler" where
  "exec_block_io w = do {
     ok \<leftarrow> check_priv;
     op \<leftarrow> askc (\<lambda>c. c_opcode c 0);
     ew \<leftarrow> askc (\<lambda>c. c_opcode c 1);
     whenb ok (do {
       let addrReg = (if cw_io_write w then nib2 op else nib2 ew);
       let portReg = (if cw_io_write w then nib2 ew else nib2 op);
       let spec = cw_io_spec w;
       port \<leftarrow> askc (rw portReg);
       ma \<leftarrow> askc (addr_from_reg addrReg);
       (if \<not> cw_io_write w then do {
          v \<leftarrow> do_io_read port (cw_width w = WByte) spec;
          if cw_width w = WByte then mem_w8 ma (io_lane_in spec v) else mem_w16 ma v
        } else if cw_width w = WByte then do {
          b \<leftarrow> mem_r8 ma;
          do_io_write port (io_lane_out spec b) True spec
        } else do {
          v \<leftarrow> mem_r16 ma;
          do_io_write port v False spec
        });
       modc (add_to_addr_reg addrReg (block_delta w));
       cnt \<leftarrow> count_down (nib1 ew);
       modc (put_flag F_PV (cnt = 0));
       repeat_if (cw_block_rept w \<and> cnt \<noteq> 0)
     })
   }"

subsection \<open>Dispatch\<close>

definition exec_multiproc :: "CtrlWord \<Rightarrow> unit handler" where
  "exec_multiproc w = do {
     ok \<leftarrow> check_priv;
     whenb ok
       (case cw_mp_op w of
          MPBit \<Rightarrow> modc (\<lambda>c. c\<lparr>c_fcw := c_fcw c OR F_S\<rparr>)
        | MPReq \<Rightarrow> modc (\<lambda>c. c\<lparr>c_fcw := c_fcw c AND NOT F_Z OR F_S OR F_Z\<rparr>)
        | _ \<Rightarrow> skip)
   }"

definition exec_halt :: "unit handler" where
  "exec_halt = do { ok \<leftarrow> check_priv; whenb ok (modc (\<lambda>c. c\<lparr>c_halted := True\<rparr>)) }"

definition execute :: "CtrlWord \<Rightarrow> unit handler" where
  "execute w =
     (case cw_exec w of
        ClsUnified \<Rightarrow> exec_unified w
      | ClsFcwOp \<Rightarrow> exec_fcwop w
      | ClsExts \<Rightarrow> modc (exec_exts w)
      | ClsStack \<Rightarrow> exec_stack w
      | ClsBranch \<Rightarrow> exec_branch w
      | ClsTCC \<Rightarrow> modc (exec_tcc w)
      | ClsDAB \<Rightarrow> modc exec_dab
      | ClsExchange \<Rightarrow> exec_exchange w
      | ClsLEA \<Rightarrow> modc (exec_lea w)
      | ClsBCDRotate \<Rightarrow> modc (exec_bcdrotate w)
      | ClsBitDynamic \<Rightarrow> modc (exec_bitdynamic w)
      | ClsIO \<Rightarrow> exec_io w
      | ClsLDCTL \<Rightarrow> exec_ldctl
      | ClsShift \<Rightarrow> modc (exec_shift w)
      | ClsBlockTransfer \<Rightarrow> exec_block_transfer w
      | ClsBlockCompare \<Rightarrow> exec_block_compare w
      | ClsBlockString \<Rightarrow> exec_block_string w
      | ClsBlockIO \<Rightarrow> exec_block_io w
      | ClsLDM \<Rightarrow> exec_ldm w
      | ClsMultiProc \<Rightarrow> exec_multiproc w
      | ClsMul \<Rightarrow> exec_mul w
      | ClsDiv \<Rightarrow> exec_div w
      | ClsLDPS \<Rightarrow> exec_ldps w
      | ClsHalt \<Rightarrow> exec_halt
      | ClsSysCall \<Rightarrow> modc (request IRQ_SYSCALL)
      | ClsIRET \<Rightarrow> exec_iret
      | ClsTranslate \<Rightarrow> exec_translate w)"

end
