(* ===== verification/Cpu_Step.thy ===== *)
theory Cpu_Step
  imports Cpu_Exec "HOL-Library.While_Combinator"
begin

text \<open>
  Traps, interrupts and the instruction cycle of \<open>src/src/cpu.c\<close>, with the breakpoint test
  of \<open>src/src/debug.c\<close>.  The system-call hook of user mode (\<open>m->sys_hook\<close>, NULL on a
  machine boot) is an argument.  The repeat loop of \<open>cpu_step\<close> may not end, so a step is a
  partial function: \<open>None\<close> when the source would never return.  The trace ring and the
  debug prints are left out.
\<close>

type_synonym sys_hook = "(u8 \<Rightarrow> u32 \<Rightarrow> Machine \<Rightarrow> Machine) option"

abbreviation (input) V_EPU :: u32 where "V_EPU \<equiv> 0x0004"
abbreviation (input) V_TRAP :: u32 where "V_TRAP \<equiv> 0x0008"
abbreviation (input) V_SYSCALL :: u32 where "V_SYSCALL \<equiv> 0x000C"
abbreviation (input) V_SEGTRAP :: u32 where "V_SEGTRAP \<equiv> 0x0010"
abbreviation (input) V_NMI :: u32 where "V_NMI \<equiv> 0x0014"
abbreviation (input) V_NVI :: u32 where "V_NVI \<equiv> 0x0018"
abbreviation (input) V_VI :: u32 where "V_VI \<equiv> 0x001C"
abbreviation (input) V_BASE :: u32 where "V_BASE \<equiv> 0x001E"

subsection \<open>Selection of the source\<close>

definition psa_addr :: "CPU \<Rightarrow> u32" where
  "psa_addr c = c_psap c AND 0x007FFFFF"

definition vector_addr :: "u32 \<Rightarrow> CPU \<Rightarrow> u32" where
  "vector_addr off c = addr_add (psa_addr c) (2 * off)"

text \<open>The level-sensitive lines sampled into the request byte.\<close>

definition sample_lines :: "CPU \<Rightarrow> CPU" where
  "sample_lines c =
     (let c = (if c_nmi_line c then request IRQ_NMI c else c);
          c = (if c_segt_line c then request IRQ_SEGTRAP c else c);
          c = (if c_nvi_line c \<and> tst (c_fcw c) FCW_NVIE then request IRQ_NVI c else c)
      in if c_vi_line c \<and> tst (c_fcw c) FCW_VIE then request IRQ_VI c else c)"

text \<open>Vector offset, request bit and \<open>intack_kind\<close> (0 for the internal traps).\<close>

definition select_irq :: "CPU \<Rightarrow> (u32 \<times> u8 \<times> nat) option" where
  "select_irq c =
     (let q = c_irq_req c
      in if q = 0 then None
         else if tst q IRQ_EPU then Some (V_EPU, IRQ_EPU, 0)
         else if tst q IRQ_TRAP then Some (V_TRAP, IRQ_TRAP, 0)
         else if tst q IRQ_SYSCALL then Some (V_SYSCALL, IRQ_SYSCALL, 0)
         else if tst q IRQ_SEGTRAP then Some (V_SEGTRAP, IRQ_SEGTRAP, 1)
         else if tst q IRQ_NMI then Some (V_NMI, IRQ_NMI, 2)
         else if tst q IRQ_NVI \<and> tst (c_fcw c) FCW_NVIE then Some (V_NVI, IRQ_NVI, 3)
         else if tst q IRQ_VI \<and> tst (c_fcw c) FCW_VIE then Some (V_VI, IRQ_VI, 4)
         else None)"

subsection \<open>Entry\<close>

definition call_hook :: "sys_hook \<Rightarrow> nat \<Rightarrow> u8 \<Rightarrow> unit handler" where
  "call_hook hook kind irq =
     (case hook of
        None \<Rightarrow> skip
      | Some f \<Rightarrow>
          whenb (kind = 0 \<and> irq = IRQ_SYSCALL) (do {
            num \<leftarrow> askc (\<lambda>c. ucast (c_cur_op c AND 0xFF));
            pc \<leftarrow> askc c_instr_start;
            modm (f num pc)
          }))"

text \<open>The PC slot of a vectored interrupt, 0 when the fixed entry is used.\<close>

definition vi_slot :: "nat \<Rightarrow> CPU \<Rightarrow> u32" where
  "vi_slot kind c =
     (let tag = c_vi_vector c
      in if kind = 4 \<and> tag \<noteq> 0
         then addr_add (psa_addr c) (push_bit 1 (V_BASE + ucast (tag AND 0xFF)))
         else 0)"

text \<open>The frame: PC high and low, old FCW, tag.\<close>

definition push_frame :: "u16 \<Rightarrow> u16 \<Rightarrow> unit handler" where
  "push_frame oldfcw tag = do {
     sp \<leftarrow> askc sp_reg;
     a \<leftarrow> askc (\<lambda>c. addr_sub (addr_from_reg sp c) 4);
     modc (addr_to_reg sp a);
     segpc \<leftarrow> askc (\<lambda>c. make_seg (c_pc c));
     mem_w16 a (ucast (drop_bit 16 segpc));
     mem_w16 (addr_add a 2) (ucast segpc);
     push_word oldfcw;
     push_word tag
   }"

definition fetch_vector :: "u32 \<Rightarrow> u32 \<Rightarrow> (u16 \<times> u16 \<times> u16) handler" where
  "fetch_vector vecaddr pervec = do {
     nf \<leftarrow> mem_r16 (addr_add vecaddr 2);
     pcseg \<leftarrow> mem_r16 (if pervec \<noteq> 0 then pervec else addr_add vecaddr 4);
     pcoff \<leftarrow> mem_r16 (if pervec \<noteq> 0 then addr_add pervec 2 else addr_add vecaddr 6);
     State_Monad.return (nf, pcseg, pcoff)
   }"

text \<open>\<open>((pcseg & 0x7F00) << 8) | pcoff\<close>.\<close>

definition pc_of_words :: "u16 \<Rightarrow> u16 \<Rightarrow> u32" where
  "pc_of_words pcseg pcoff = push_bit 8 (ucast (pcseg AND 0x7F00)) OR ucast pcoff"

definition take_interrupt :: "sys_hook \<Rightarrow> u32 \<Rightarrow> u8 \<Rightarrow> nat \<Rightarrow> unit handler" where
  "take_interrupt hook vecoff irq kind = do {
     call_hook hook kind irq;
     oldfcw \<leftarrow> askc c_fcw;
     vecaddr \<leftarrow> askc (vector_addr vecoff);
     tag \<leftarrow> askc (\<lambda>c. if kind = 0 then c_cur_op c else if kind = 4 then c_vi_vector c else 0);
     pervec \<leftarrow> askc (vi_slot kind);
     modc (\<lambda>c. change_fcw (c_fcw c OR FCW_SN OR FCW_SEG) c);
     modc (\<lambda>c. c\<lparr>c_irq_req := c_irq_req c AND NOT irq\<rparr>);
     push_frame oldfcw tag;
     v \<leftarrow> fetch_vector vecaddr pervec;
     modc (\<lambda>c. c\<lparr>c_pc := pc_of_words (fst (snd v)) (snd (snd v))\<rparr>);
     modc (change_fcw (fst v));
     modc (\<lambda>c. c\<lparr>c_halted := False, c_serviced := irq\<rparr>)
   }"

definition handle_interrupts :: "sys_hook \<Rightarrow> bool handler" where
  "handle_interrupts hook = do {
     modc sample_lines;
     sel \<leftarrow> askc select_irq;
     case sel of
       None \<Rightarrow> State_Monad.return False
     | Some (vecoff, irq, kind) \<Rightarrow> do {
         take_interrupt hook vecoff irq kind;
         State_Monad.return True
       }
   }"

definition cpu_reset :: "Machine \<Rightarrow> Machine" where
  "cpu_reset m =
     (let c = (m_cpu m)\<lparr>c_R := \<lambda>_. 0, c_fcw := 0, c_pc := 0, c_psap := 0, c_refresh := 0,
                 c_nspseg := 0, c_nspoff := 0, c_halted := False, c_irq_req := 0,
                 c_nvi_line := False, c_vi_line := False, c_nmi_line := False,
                 c_segt_line := False, c_nmi_prev := False\<rparr>;
          c = c\<lparr>c_fcw := phys_read16 m 0x0002,
                c_pc := pc_of_words (phys_read16 m 0x0004) (phys_read16 m 0x0006)\<rparr>
      in m\<lparr>m_cpu := c\<rparr>)"

subsection \<open>Breakpoints\<close>

text \<open>
  A guest byte read as the CPU would read it, without the MMU remembering: the source
  translates on the machine's unit and then restores a saved copy of it.
\<close>

definition peek8 :: "Machine \<Rightarrow> u8 \<Rightarrow> u16 \<Rightarrow> u8 \<times> bool" where
  "peek8 m sn off =
     (let (p, f, u) = mmu_translate sn off False (\<not> SYSMODE (m_cpu m)) False (m_mmu m)
      in (if f then 0xFF else phys_read8 m p, f))"

text \<open>The loop of \<open>dbg_pc_hit\<close>: the first breakpoint at the address decides.\<close>

fun brk_hit :: "bool \<Rightarrow> u32 \<Rightarrow> Brk list \<Rightarrow> bool \<times> Brk list" where
  "brk_hit stop pc [] = (False, [])"
| "brk_hit stop pc (b # bs) =
     (if b_pc b \<noteq> pc then (let (hit, bs') = brk_hit stop pc bs in (hit, b # bs'))
      else if b_want b \<noteq> 0 \<and> b_seen b \<ge> b_want b then (False, b # bs)
      else (let b' = b\<lparr>b_seen := b_seen b + 1\<rparr>
            in (stop \<and> b_want b' \<noteq> 0 \<and> b_seen b' \<ge> b_want b', b' # bs)))"

definition dbg_pc_hit :: "bool handler" where
  "dbg_pc_hit =
     State (\<lambda>m.
       (let (hit, bs) = brk_hit (m_stop_at_break m) (c_instr_start (m_cpu m)) (m_brks m);
            m = m\<lparr>m_brks := bs\<rparr>
        in (hit, if hit
                 then m\<lparr>m_stop := True, m_stop_why := ''breakpoint (--stop-on=break)''\<rparr> else m)))"

subsection \<open>One instruction\<close>

definition set_opcode :: "nat \<Rightarrow> u16 \<Rightarrow> CPU \<Rightarrow> CPU" where
  "set_opcode i v c = c\<lparr>c_opcode := (c_opcode c)(i := v)\<rparr>"

text \<open>\<open>for (int i=1;i<need && i<6;i++){ p=addr_add(p,2); c->opcode[i]=ifetch16(c,p); }\<close>\<close>

fun fetch_words :: "nat list \<Rightarrow> u32 \<Rightarrow> unit handler" where
  "fetch_words [] p = skip"
| "fetch_words (i # is) p = do {
     let p = addr_add p 2;
     v \<leftarrow> ifetch16 p;
     modc (set_opcode i v);
     fetch_words is p
   }"

text \<open>The two reductions of a short-form segmented address.\<close>

definition reduce_length :: "nat \<Rightarrow> CPU \<Rightarrow> nat" where
  "reduce_length need c =
     (let need = (if need \<ge> 3 \<and> c_seg_w1 c \<and> \<not> tst (c_opcode c 1) 0x8000 then need - 1 else need)
      in if need \<ge> 4 \<and> c_seg_w2 c \<and> \<not> tst (c_opcode c 2) 0x8000 then need - 1 else need)"

definition fetch_instruction :: "(u16 \<times> nat) handler" where
  "fetch_instruction = do {
     pc \<leftarrow> askc c_pc;
     modc (\<lambda>c. c\<lparr>c_fault := False, c_repeat_pending := False, c_instr_start := pc\<rparr>);
     segmented \<leftarrow> askc SEG;
     op0 \<leftarrow> ifetch16 pc;
     modc (set_opcode 0 op0);
     let need = decode_length op0 segmented;
     modc (\<lambda>c. c\<lparr>c_seg_w1 := seg_addr_w1 op0 segmented, c_seg_w2 := seg_addr_w2 op0 segmented\<rparr>);
     fetch_words [1..<min need 6] pc;
     need' \<leftarrow> askc (reduce_length need);
     modc (\<lambda>c. c\<lparr>c_oplen := need'\<rparr>);
     State_Monad.return (op0, need')
   }"

definition consume_warning :: "unit handler" where
  "consume_warning = do {
     w \<leftarrow> asks (\<lambda>m. u_warn_pending (m_mmu m));
     whenb w (do {
       modm (\<lambda>m. m\<lparr>m_mmu := (m_mmu m)\<lparr>u_warn_pending := False\<rparr>\<rparr>);
       modc (request IRQ_SEGTRAP)
     })
   }"

definition run_once :: "CtrlWord \<Rightarrow> unit handler" where
  "run_once w = do {
     execute w;
     modc (\<lambda>c. c\<lparr>c_insns := c_insns c + 1\<rparr>);
     consume_warning
   }"

text \<open>
  \<open>cpu_step\<close> up to its repeat loop: the control word if the loop is reached, \<open>None\<close> at
  an early return.
\<close>

definition cpu_begin :: "sys_hook \<Rightarrow> CtrlWord option handler" where
  "cpu_begin hook = do {
     modc (\<lambda>c. c\<lparr>c_serviced := 0\<rparr>);
     taken \<leftarrow> handle_interrupts hook;
     halted \<leftarrow> askc c_halted;
     if taken \<or> halted then State_Monad.return None
     else do {
       fn \<leftarrow> fetch_instruction;
       words \<leftarrow> askc (\<lambda>c i. c_opcode c (i + 1));
       segmented \<leftarrow> askc SEG;
       let op0 = fst fn;
       let need = snd fn;
       modc (\<lambda>c. c\<lparr>c_cur_op := op0\<rparr>);
       case decode_lookup op0 words need segmented of
         None \<Rightarrow> do {
           modc (\<lambda>c. request IRQ_EPU (c\<lparr>c_pc := addr_add (c_pc c) (of_nat need * 2)\<rparr>));
           State_Monad.return None
         }
       | Some w \<Rightarrow> do {
           armed \<leftarrow> asks (\<lambda>m. m_brks m \<noteq> []);
           hit \<leftarrow> (if armed then dbg_pc_hit else State_Monad.return False);
           if hit then State_Monad.return None
           else do {
             start \<leftarrow> askc c_instr_start;
             let pc_next = addr_add start (of_nat need * 2);
             modc (\<lambda>c. c\<lparr>c_pc := pc_next\<rparr>);
             run_once w;
             f \<leftarrow> askc c_fault;
             if f then do {
               modc (\<lambda>c. (request IRQ_SEGTRAP c)\<lparr>c_pc := pc_next\<rparr>);
               State_Monad.return None
             } else State_Monad.return (Some w)
           }
         }
     }
   }"

text \<open>Would a pending interrupt preempt the next iteration?\<close>

definition preempted :: "CPU \<Rightarrow> bool" where
  "preempted c \<longleftrightarrow>
     c_nmi_line c \<or> c_segt_line c \<or> (c_vi_line c \<and> tst (c_fcw c) FCW_VIE)
     \<or> (c_nvi_line c \<and> tst (c_fcw c) FCW_NVIE) \<or> c_irq_req c \<noteq> 0"

text \<open>One pass of the loop body; \<open>True\<close> when it returns from \<open>cpu_step\<close>.\<close>

definition repeat_pass :: "CtrlWord \<Rightarrow> bool handler" where
  "repeat_pass w = do {
     modc (\<lambda>c. c\<lparr>c_repeat_pending := False\<rparr>);
     p \<leftarrow> askc preempted;
     if p then do {
       modc (\<lambda>c. c\<lparr>c_pc := c_instr_start c\<rparr>);
       State_Monad.return True
     } else do {
       run_once w;
       f \<leftarrow> askc c_fault;
       if f then do {
         modc (\<lambda>c. (request IRQ_SEGTRAP c)\<lparr>c_pc := c_instr_start c\<rparr>);
         State_Monad.return True
       } else State_Monad.return False
     }
   }"

definition repeat_loop :: "CtrlWord \<Rightarrow> Machine \<Rightarrow> Machine option" where
  "repeat_loop w m =
     map_option snd
       (while_option (\<lambda>(ret, m). \<not> ret \<and> c_repeat_pending (m_cpu m))
          (\<lambda>(ret, m). run_state (repeat_pass w) m) (False, m))"

definition cpu_step :: "sys_hook \<Rightarrow> Machine \<Rightarrow> Machine option" where
  "cpu_step hook m =
     (case run_state (cpu_begin hook) m of
        (None, m) \<Rightarrow> Some m
      | (Some w, m) \<Rightarrow> repeat_loop w m)"

end
