(* ===== verification/Run_Loop.thy ===== *)
theory Run_Loop
  imports Cpu_Step
begin

text \<open>
  The run loop of \<open>src/src/bus.c\<close>: the park watch, the scripted console input, the system
  tick, the aggregation of vectored interrupts and one iteration of \<open>machine_run\<close>.
\<close>

subsection \<open>The park watch\<close>

abbreviation (input) PARK_LOOPS :: u64 where "PARK_LOOPS \<equiv> 500000000"
abbreviation (input) PARK_AWAKE :: u64 where "PARK_AWAKE \<equiv> 100000"

record ParkWatch =
  p_budget :: u64
  p_loops :: u64
  p_awake :: u64
  p_was_halted :: bool
  p_valid :: bool
  p_R :: "nib \<Rightarrow> u16"
  p_pc :: u32
  p_fcw :: u16
  p_tx :: u64
  p_inq :: nat
  p_seq :: u32

definition park_init :: "u64 \<Rightarrow> ParkWatch" where
  "park_init budget =
     \<lparr>p_budget = budget, p_loops = 0, p_awake = 0, p_was_halted = False, p_valid = False,
      p_R = \<lambda>_. 0, p_pc = 0, p_fcw = 0, p_tx = 0, p_inq = 0, p_seq = 0\<rparr>"

definition park_reset :: "ParkWatch \<Rightarrow> ParkWatch" where
  "park_reset p = park_init (p_budget p)"

text \<open>The comparison with the stored signature, and its renewal.\<close>

definition park_same :: "ParkWatch \<Rightarrow> Machine \<Rightarrow> bool" where
  "park_same p m \<longleftrightarrow>
     (let c = m_cpu m
      in p_valid p \<and> c_pc c = p_pc p \<and> c_fcw c = p_fcw p \<and> list_all (\<lambda>r. c_R c r = p_R p r) (map of_nat [0..<16])
         \<and> q_last_tx_insn (m_scr m) = p_tx p \<and> q_pos (m_scr m) = p_inq p
         \<and> q_prompt_seq (m_scr m) = p_seq p)"

definition park_sign :: "Machine \<Rightarrow> ParkWatch \<Rightarrow> ParkWatch" where
  "park_sign m p =
     p\<lparr>p_loops := 0, p_valid := True, p_R := c_R (m_cpu m), p_pc := c_pc (m_cpu m),
       p_fcw := c_fcw (m_cpu m), p_tx := q_last_tx_insn (m_scr m), p_inq := q_pos (m_scr m),
       p_seq := q_prompt_seq (m_scr m)\<rparr>"

definition park_why :: string where
  "park_why = ''the guest is parked: halted, woken only by a periodic interrupt, and doing nothing when woken''"

definition park_step :: "ParkWatch \<Rightarrow> Machine \<Rightarrow> bool \<times> ParkWatch \<times> Machine" where
  "park_step p m =
     (if \<not> c_halted (m_cpu m)
      then (let p = p\<lparr>p_awake := p_awake p + 1\<rparr>;
                p = (if p_awake p > PARK_AWAKE then (park_reset p)\<lparr>p_awake := p_awake p\<rparr> else p)
            in (False, p\<lparr>p_was_halted := False\<rparr>, m))
      else
        (let p = p\<lparr>p_awake := 0\<rparr>;
             p = (if \<not> p_was_halted p \<and> \<not> park_same p m then park_sign m p else p);
             p = p\<lparr>p_was_halted := True\<rparr>
         in if p_valid p
            then (let p = p\<lparr>p_loops := p_loops p + 1\<rparr>
                  in if p_loops p > p_budget p then (True, p, m\<lparr>m_stop_why := park_why\<rparr>)
                     else (False, p, m))
            else (False, p, m)))"

subsection \<open>Console input\<close>

definition console_key :: "Machine \<Rightarrow> Machine" where
  "console_key m =
     (let (ch, m) = host_poll 0 m
      in if ch = 0x1D then m\<lparr>m_stop := True, m_stop_why := ''Ctrl-] at the console''\<rparr>
         else if ch \<ge> 0 then scc_rx_console (word_of_int ch) m
         else m)"

text \<open>\<open>past_gate\<close>, \<open>quiet\<close> and \<open>now\<close> of the source.\<close>

definition past_gate :: "Script \<Rightarrow> bool" where
  "past_gate q \<longleftrightarrow> q_gateoff q \<ge> 0 \<and> int (q_pos q) \<ge> q_gateoff q"

definition feed_quiet :: "Script \<Rightarrow> u64" where
  "feed_quiet q =
     (if past_gate q \<and> (q_cr_wait q \<or> q_guest_polls q) \<and> q_rx_poll_streak q < RX_BLOCKED_POLLS
      then 40000000
      else if past_gate q \<and> int (q_pos q) = q_gateoff q then 40000000 else 300000)"

definition feed_now :: "Script \<Rightarrow> bool" where
  "feed_now q \<longleftrightarrow>
     q_pos q < length (q_inq q) \<and> q_pos q < length (q_now q) \<and> q_now q ! q_pos q
     \<and> (q_mark q = None \<or> q_mark_seen q)"

definition feed_ready :: "u64 \<Rightarrow> Script \<Rightarrow> bool" where
  "feed_ready insns q \<longleftrightarrow>
     q_pos q < length (q_inq q) \<and>
     (feed_now q \<or> (q_shell_up q \<and> (past_gate q \<or> q_prompt_seq q \<ge> q_wait_seq q)
                     \<and> insns - q_last_tx_insn q > feed_quiet q))"

definition feed_byte :: "Machine \<Rightarrow> Machine" where
  "feed_byte m =
     (let b = q_inq (m_scr m) ! q_pos (m_scr m);
          m = upd_scr (\<lambda>q. q\<lparr>q_pos := q_pos q + 1\<rparr>) m;
          m = scc_rx_console b m
      in upd_scr (\<lambda>q. let q = q\<lparr>q_guest_polls := False, q_cr_wait := (b = 13 \<or> b = 10)\<rparr>
                     in if q_cr_wait q then q\<lparr>q_wait_seq := q_prompt_seq q + 1\<rparr> else q) m)"

definition feed_console :: "Machine \<Rightarrow> Machine" where
  "feed_console m =
     (if s_rx_avail (m_scc_b m) then m
      else if feed_ready (c_insns (m_cpu m)) (m_scr m) then feed_byte m
      else if m_tick_counter m AND 0x0FFF = 0 then console_key m
      else m)"

subsection \<open>The system tick and the vectored interrupt\<close>

definition ct3_period :: "Machine \<Rightarrow> u32" where
  "ct3_period m =
     (let tc = push_bit 8 (ucast (m_cio1 m 0x1A)) OR ucast (m_cio1 m 0x1B);
          period = drop_bit 1 tc;
          period = (if period < 2000 then 2000 else period)
      in if period > 60000 then 60000 else period)"

definition ct3_count :: "Machine \<Rightarrow> Machine" where
  "ct3_count m =
     (if m_ct3_running m \<and> tst (m_cio1 m 0x1E) 0x80
      then (let m = m\<lparr>m_ct3_accum := m_ct3_accum m + 1\<rparr>
            in if m_ct3_accum m \<ge> ct3_period m
               then set_cio1 0x0C (m_cio1 m 0x0C OR 0x20) (m\<lparr>m_ct3_accum := 0\<rparr>)
               else m)
      else m)"

definition ct3_int :: "Machine \<Rightarrow> bool" where
  "ct3_int m \<longleftrightarrow>
     tst (m_cio1 m 0x0C) 0x20 \<and> tst (m_cio1 m 0x0C) 0x40 \<and> tst (m_cio1 m 0x00) 0x80"

text \<open>Line, vector and whether the disk asserted it, in daisy-chain order.\<close>

definition vi_source :: "Machine \<Rightarrow> (u16 \<times> bool) option" where
  "vi_source m =
     (if ct3_int m
      then (let vec = m_cio1 m 0x04
            in Some (ucast (if tst (m_cio1 m 0x00) 0x04 then vec AND NOT 0x07 else vec), False))
      else if scc_rx_int (m_scc_a m) then Some (ucast (scc_vector_src m 0x06), False)
      else if scc_rx_int (m_scc_b m) then Some (ucast (scc_vector_src m 0x02), False)
      else if m_lr_scc m \<and> lr_scc_vi m \<noteq> None then Some (ucast (the (lr_scc_vi m)), False)
      else if m_disk_vi m then Some (0x80, True)
      else None)"

definition aggregate_vi :: "Machine \<Rightarrow> Machine" where
  "aggregate_vi m =
     (case vi_source m of
        Some (vec, disk) \<Rightarrow>
          m\<lparr>m_cpu := (m_cpu m)\<lparr>c_vi_line := True, c_vi_vector := vec\<rparr>, m_last_vi_disk := disk\<rparr>
      | None \<Rightarrow> m\<lparr>m_cpu := (m_cpu m)\<lparr>c_vi_line := False\<rparr>\<rparr>)"

subsection \<open>One iteration\<close>

record RunLoop =
  l_m :: Machine
  l_idle :: u64
  l_park :: ParkWatch
  l_over :: bool

definition stop_because :: "string \<Rightarrow> Machine \<Rightarrow> Machine" where
  "stop_because why m = m\<lparr>m_stop_why := why\<rparr>"

definition idle_exit :: "Machine \<Rightarrow> bool" where
  "idle_exit m \<longleftrightarrow>
     (let q = m_scr m
      in q_idle_quiet q \<noteq> 0 \<and> q_inq q \<noteq> [] \<and> q_pos q \<ge> length (q_inq q) \<and> q_at_prompt q
         \<and> q_rx_poll_streak q \<ge> RX_BLOCKED_POLLS
         \<and> c_insns (m_cpu m) - q_last_tx_insn q > q_idle_quiet q)"

text \<open>The part of an iteration before \<open>cpu_step\<close>, after the stop checks.\<close>

definition before_step :: "Machine \<Rightarrow> Machine" where
  "before_step m =
     (let m = feed_console m;
          m = (if m_any_wire m \<and> m_tick_counter m AND 0x3F = 0 then scc_wire_service m else m);
          m = m\<lparr>m_tick_counter := m_tick_counter m + 1\<rparr>;
          m = ct3_count m
      in aggregate_vi m)"

text \<open>The part after it.\<close>

definition after_step :: "RunLoop \<Rightarrow> Machine \<Rightarrow> RunLoop" where
  "after_step l m =
     (let m = (if c_serviced (m_cpu m) = IRQ_VI \<and> m_last_vi_disk m
               then m\<lparr>m_disk_vi := False\<rparr> else m);
          idle = (if c_halted (m_cpu m) \<and> \<not> c_vi_line (m_cpu m) \<and> \<not> m_disk_vi m
                  then l_idle l + 1 else 0)
      in if idle > 2000000
         then l\<lparr>l_m := stop_because ''the guest halted with no interrupt pending'' m,
                l_idle := idle, l_over := True\<rparr>
         else if m_park_watch m
         then (let (fired, p, m) = park_step (l_park l) m
               in l\<lparr>l_m := m, l_idle := idle, l_park := p, l_over := fired\<rparr>)
         else l\<lparr>l_m := m, l_idle := idle\<rparr>)"

text \<open>\<open>None\<close>: the step did not return.\<close>

definition run_iteration :: "sys_hook \<Rightarrow> RunLoop \<Rightarrow> RunLoop option" where
  "run_iteration hook l =
     (let m = l_m l
      in if m_stop m then Some (l\<lparr>l_over := True\<rparr>)
         else if m_insn_limit m \<noteq> 0 \<and> c_insns (m_cpu m) \<ge> m_insn_limit m
         then Some (l\<lparr>l_m := (stop_because ''instruction budget (--max) exhausted'' m)
                              \<lparr>m_max_reached := True\<rparr>, l_over := True\<rparr>)
         else if idle_exit m
         then Some (l\<lparr>l_m := stop_because ''scripted input consumed, guest blocked at a prompt'' m,
                      l_over := True\<rparr>)
         else map_option (after_step l) (cpu_step hook (before_step m)))"

definition machine_start :: "Machine \<Rightarrow> RunLoop" where
  "machine_start m =
     \<lparr>l_m = cpu_reset (m\<lparr>m_mmu := mmu_reset (m_mmu m)\<rparr>), l_idle = 0, l_park = park_init PARK_LOOPS,
      l_over = False\<rparr>"

text \<open>\<open>machine_run\<close> cut off after \<open>n\<close> iterations.\<close>

fun machine_run :: "nat \<Rightarrow> sys_hook \<Rightarrow> RunLoop \<Rightarrow> RunLoop option" where
  "machine_run 0 hook l = Some l"
| "machine_run (Suc n) hook l =
     (if l_over l then Some l
      else case run_iteration hook l of None \<Rightarrow> None | Some l \<Rightarrow> machine_run n hook l)"

subsection \<open>Interruption\<close>

text \<open>
  \<open>on_sigint\<close> of \<open>src/src/main.c\<close>.  The handler may run at any moment; it only sets the flag that the
  loop reads at the top of an iteration and that nothing clears, so a signal anywhere in an iteration
  acts as one before the next.
\<close>

definition on_sigint :: "Machine \<Rightarrow> Machine" where
  "on_sigint m = m\<lparr>m_stop := True\<rparr>"

text \<open>The loop under signals: an element of the list for each iteration, true when one comes before it.\<close>

fun run_signalled :: "bool list \<Rightarrow> sys_hook \<Rightarrow> RunLoop \<Rightarrow> RunLoop option" where
  "run_signalled [] hook l = Some l"
| "run_signalled (s # ss) hook l =
     (if l_over l then Some l
      else case run_iteration hook (if s then l\<lparr>l_m := on_sigint (l_m l)\<rparr> else l) of
             None \<Rightarrow> None
           | Some l \<Rightarrow> run_signalled ss hook l)"

text \<open>Without signals it is \<open>machine_run\<close>.\<close>

lemma run_unsignalled: "run_signalled (replicate n False) hook l = machine_run n hook l"
  by (induction n arbitrary: l) (simp_all split: option.split)

end
