(* ===== verification/Scc_History.thy ===== *)
theory Scc_History
  imports Scc_Props Run_Loop
begin

text \<open>
  The receivers as one-place buffers: over any history of register accesses, passes of the wired
  receivers and turns of the console feed, what the guest has read from the data register of a
  port is what arrived at the port, less the character still in its receiver.
\<close>

subsection \<open>Histories\<close>

text \<open>
  A step of the serial hardware: the guest reads or writes a register of a chip, the run loop
  serves the wires or the console, or a caller of \<open>scc_rx_port\<close> delivers a character.
\<close>

datatype rx_op =
    RxRead nat nat nib
  | RxWrite nat nat nib u8
  | RxWires
  | RxConsole
  | RxDeliver nat u8

fun rx_apply :: "rx_op \<Rightarrow> Machine \<Rightarrow> Machine" where
  "rx_apply (RxRead chip chan r) m = snd (scc_read chip chan r m)"
| "rx_apply (RxWrite chip chan r v) m = scc_write chip chan r v m"
| "rx_apply RxWires m = scc_wire_service m"
| "rx_apply RxConsole m = feed_console m"
| "rx_apply (RxDeliver p b) m = scc_rx_port p b m"

text \<open>The character waiting in a receiver.\<close>

definition waiting :: "nat \<Rightarrow> Machine \<Rightarrow> u8 list" where
  "waiting q m =
     (case scc_port m q of
        None \<Rightarrow> []
      | Some ch \<Rightarrow> if s_rx_avail ch then [s_rx_data ch] else [])"

text \<open>The characters among the answers of the host between two states: \<open>m'\<close> has fewer left.\<close>

definition host_took :: "nat \<Rightarrow> Machine \<Rightarrow> Machine \<Rightarrow> int list" where
  "host_took q m m' = take (length (m_host_rx m q) - length (m_host_rx m' q)) (m_host_rx m q)"

abbreviation (input) chars :: "int list \<Rightarrow> u8 list" where
  "chars xs \<equiv> map word_of_int (filter (\<lambda>x. 0 \<le> x) xs)"

text \<open>The part of the input script between two states.\<close>

definition script_took :: "Machine \<Rightarrow> Machine \<Rightarrow> u8 list" where
  "script_took m m' =
     take (q_pos (m_scr m') - q_pos (m_scr m)) (drop (q_pos (m_scr m)) (q_inq (m_scr m)))"

text \<open>
  What a step brings to a port from outside: what the host hands out for a wired port, the script
  and the keys but the quit key for the console, the argument of \<open>scc_rx_port\<close>.
\<close>

definition rx_arrives :: "nat \<Rightarrow> rx_op \<Rightarrow> Machine \<Rightarrow> u8 list" where
  "rx_arrives q x m =
     (case x of
        RxWires \<Rightarrow> chars (host_took q m (rx_apply x m))
      | RxConsole \<Rightarrow>
          if q = 0
          then script_took m (rx_apply x m) @ chars (filter (\<lambda>k. k \<noteq> 0x1D) (host_took q m (rx_apply x m)))
          else []
      | RxDeliver p b \<Rightarrow> if p = q \<and> scc_port m q \<noteq> None then [b] else []
      | _ \<Rightarrow> [])"

text \<open>What the guest takes from a port: a read of register 8, named directly or through the register
  pointer, while a character is waiting.\<close>

definition rx_takes :: "nat \<Rightarrow> rx_op \<Rightarrow> Machine \<Rightarrow> u8 list" where
  "rx_takes q x m =
     (case x of
        RxRead chip chan r \<Rightarrow>
          (case scc_port m q of
             None \<Rightarrow> []
           | Some ch \<Rightarrow>
               if chip * 2 + chan = q \<and> s_rx_avail ch \<and> (if s_ptr ch \<noteq> 0 then s_ptr ch else ucast r) = 8
               then [fst (scc_read chip chan r m)] else [])
      | _ \<Rightarrow> [])"

text \<open>The rule for \<open>scc_rx_port\<close>, which has no test of its own: the receiver is empty.\<close>

definition rx_gated :: "rx_op \<Rightarrow> Machine \<Rightarrow> bool" where
  "rx_gated x m = (case x of RxDeliver p b \<Rightarrow> waiting p m = [] | _ \<Rightarrow> True)"

fun along :: "(rx_op \<Rightarrow> Machine \<Rightarrow> 'a list) \<Rightarrow> rx_op list \<Rightarrow> Machine \<Rightarrow> 'a list" where
  "along f [] m = []"
| "along f (x # xs) m = f x m @ along f xs (rx_apply x m)"

fun all_gated :: "rx_op list \<Rightarrow> Machine \<Rightarrow> bool" where
  "all_gated [] m = True"
| "all_gated (x # xs) m = (rx_gated x m \<and> all_gated xs (rx_apply x m))"

subsection \<open>Steps that leave the receivers alone\<close>

definition rx_same :: "Machine \<Rightarrow> Machine \<Rightarrow> bool" where
  "rx_same m m' \<longleftrightarrow> (\<forall>q. waiting q m' = waiting q m) \<and> m_host_rx m' = m_host_rx m
     \<and> q_pos (m_scr m') = q_pos (m_scr m) \<and> q_inq (m_scr m') = q_inq (m_scr m)
     \<and> m_rx_overrun_on m' = m_rx_overrun_on m"

lemma rx_same_refl [simp]: "rx_same m m"
  by (simp add: rx_same_def)

lemma rx_same_trans: "rx_same m m' \<Longrightarrow> rx_same m' m'' \<Longrightarrow> rx_same m m''"
  by (simp add: rx_same_def)

lemma rx_same_upd:
  assumes "\<And>ch. s_rx_avail (f ch) = s_rx_avail ch \<and> s_rx_data (f ch) = s_rx_data ch"
  shows "rx_same m (scc_upd p f m)"
proof -
  have "waiting q (scc_upd p f m) = waiting q m" for q
    using assms by (simp add: waiting_def split: option.split)
  then show ?thesis by (simp add: rx_same_def scc_upd_def)
qed

lemma rx_same_frame:
  "rx_same m (host_put p v m)" "rx_same m (stop_mark_watch p v m)"
  "(\<And>q. q_pos (g q) = q_pos q \<and> q_inq (g q) = q_inq q) \<Longrightarrow> rx_same m (upd_scr g m)"
proof -
  have w: "waiting q (host_put p v m) = waiting q m" "waiting q (stop_mark_watch p v m) = waiting q m"
    "waiting q (upd_scr g m) = waiting q m" for q
    by (simp_all only: waiting_def scc_port_frame)
  have s: "m_host_rx (stop_mark_watch p v m) = m_host_rx m" "m_scr (stop_mark_watch p v m) = m_scr m"
    "m_rx_overrun_on (stop_mark_watch p v m) = m_rx_overrun_on m"
    by (simp_all add: stop_mark_watch_def Let_def split: option.split)
  show "rx_same m (host_put p v m)" "rx_same m (stop_mark_watch p v m)"
    by (simp_all only: rx_same_def w s) (simp_all add: host_put_def)
  show "rx_same m (upd_scr g m)" if "\<And>q. q_pos (g q) = q_pos q \<and> q_inq (g q) = q_inq q"
    unfolding rx_same_def w by (simp add: upd_scr_def that)
qed

lemma if_cases: "P a \<Longrightarrow> P b \<Longrightarrow> P (if c then a else b)"
  by simp

lemma rx_same_console: "rx_same m (console_transmit v m)"
proof -
  have step: "rx_same m (upd_scr g m')" if "rx_same m m'" "\<And>q. q_pos (g q) = q_pos q \<and> q_inq (g q) = q_inq q"
    for g m' by (rule rx_same_trans [OF that(1) rx_same_frame(3)]) (rule that(2))
  have mark: "rx_same m (stop_mark_watch 0 v m')" if "rx_same m m'" for m'
    by (rule rx_same_trans [OF that rx_same_frame(2)])
  show ?thesis
    unfolding console_transmit_def Let_def
    by (intro if_cases [of "rx_same m"] step mark rx_same_frame(1)) (simp_all split: option.split)
qed

lemma rx_same_write: "rx_same m (scc_write chip chan r v m)"
proof -
  have set: "rx_same m (scc_upd p (\<lambda>ch. ch\<lparr>s_wr := g ch\<rparr>) m)" for p g m by (rule rx_same_upd) simp
  have ptr: "rx_same m (scc_upd p (\<lambda>ch. ch\<lparr>s_ptr := 0\<rparr>) m)" for p m by (rule rx_same_upd) simp
  have wr0: "rx_same m (scc_upd p (scc_wr0 v) m)" for p m
    by (rule rx_same_upd) (simp add: scc_wr0_def Let_def)
  show ?thesis
    by (cases "scc_chan_of m chip chan")
      (auto simp: scc_write_def Let_def
        intro!: rx_same_trans [OF ptr wr0] rx_same_trans [OF ptr rx_same_console]
          rx_same_trans [OF ptr rx_same_frame(2)] rx_same_trans [OF ptr set]
          rx_same_trans [OF rx_same_trans [OF ptr rx_same_frame(1)] rx_same_frame(2)]
          rx_same_trans [OF rx_same_trans [OF ptr set] set])
qed

subsection \<open>Steps that move a character\<close>

text \<open>A read takes the waiting character, and that alone.\<close>

lemma read_step:
  "waiting q m = rx_takes q (RxRead chip chan r) m @ waiting q (snd (scc_read chip chan r m))"
proof (cases "scc_chan_of m chip chan")
  case None
  then show ?thesis by (auto simp: scc_read_def rx_takes_def scc_chan_of_def split: option.split)
next
  case (Some ch)
  define p where "p = chip * 2 + chan"
  have p: "scc_port m p = Some ch" using Some by (simp add: scc_chan_of_def p_def)
  have poll: "waiting q (if b then upd_scr f m' else m') = waiting q m'" for b f m'
    by (simp add: waiting_def)
  show ?thesis
  proof (cases "scc_reg ch r = 8")
    case True
    have rd: "fst (scc_read chip chan r m) = s_rx_data ch"
      "waiting q (snd (scc_read chip chan r m))
        = waiting q (scc_upd p (\<lambda>ch. ch\<lparr>s_rx_avail := False\<rparr>) (scc_upd p (\<lambda>ch. ch\<lparr>s_ptr := 0\<rparr>) m))"
      using True Some by (simp_all add: scc_read_def Let_def poll flip: p_def)
    have reg: "(if s_ptr ch \<noteq> 0 then s_ptr ch else ucast r) = 8" using True by (simp only: scc_reg_def)
    show ?thesis
      using p reg rd(1) unfolding rd(2)
      by (cases "q = p") (auto simp: rx_takes_def waiting_def p_def split: option.split)
  next
    case False
    have same: "waiting q (scc_upd p (\<lambda>ch. ch\<lparr>s_ptr := 0\<rparr>) m) = waiting q m"
      by (simp add: waiting_def split: option.split)
    have "waiting q (snd (scc_read chip chan r m)) = waiting q m"
      using False Some by (simp add: scc_read_def Let_def poll same flip: p_def)
    moreover have "rx_takes q (RxRead chip chan r) m = []"
      using False p by (auto simp: rx_takes_def scc_reg_def p_def split: option.split if_splits)
    ultimately show ?thesis by simp
  qed
qed

lemma read_option: "m_rx_overrun_on (snd (scc_read chip chan r m)) = m_rx_overrun_on m"
  "m_host_rx (snd (scc_read chip chan r m)) = m_host_rx m"
  by (auto simp: scc_read_def Let_def scc_upd_def upd_scr_def split: option.split)

text \<open>A delivery into an empty receiver leaves the character waiting.\<close>

lemma waiting_deliver:
  assumes "scc_port m p \<noteq> None" "waiting p m = []"
  shows "waiting q (scc_upd p (scc_deliver ov b) m) = waiting q m @ (if p = q then [b] else [])"
  using assms by (auto simp: waiting_def scc_deliver_def Let_def split: option.split if_splits)

text \<open>A pass of the wires hands on the answers of the host in order and leaves the rest with it.\<close>

definition handed :: "nat \<Rightarrow> Machine \<Rightarrow> Machine \<Rightarrow> bool" where
  "handed q m m' \<longleftrightarrow>
     (\<exists>used. m_host_rx m q = used @ m_host_rx m' q \<and> waiting q m' = waiting q m @ chars used)"

lemma handed_refl: "handed q m m"
  by (simp add: handed_def)

lemma handed_trans: "handed q m m' \<Longrightarrow> handed q m' m'' \<Longrightarrow> handed q m m''"
  unfolding handed_def by (elim exE conjE) (intro exI conjI, auto)

lemma handed_suffix: "handed q m m' \<Longrightarrow> suffix (m_host_rx m' q) (m_host_rx m q)"
  by (auto simp: handed_def suffix_def)

lemma handed_took: "handed q m m' \<Longrightarrow> waiting q m' = waiting q m @ chars (host_took q m m')"
  by (auto simp: handed_def host_took_def)

lemma scc_port_host_rx [simp]: "scc_port (m\<lparr>m_host_rx := h\<rparr>) p = scc_port m p"
  by (simp add: scc_port_def)

lemma host_rx_upd [simp]: "m_host_rx (scc_upd p f m) = m_host_rx m"
  by (simp add: scc_upd_def)

lemma wire_service_port_option: "m_rx_overrun_on (wire_service_port p m) = m_rx_overrun_on m"
  by (simp add: wire_service_port_def host_poll_def scc_upd_def Let_def split: option.split list.split)

lemma host_poll_waiting:
  "waiting q (snd (host_poll p m)) = waiting q m" "scc_port (snd (host_poll p m)) q = scc_port m q"
  "m_rx_overrun_on (snd (host_poll p m)) = m_rx_overrun_on m" "m_scr (snd (host_poll p m)) = m_scr m"
  "m_host_rx m p = (if m_host_rx m p = [] then [] else [fst (host_poll p m)]) @ m_host_rx (snd (host_poll p m)) p"
  "q \<noteq> p \<Longrightarrow> m_host_rx (snd (host_poll p m)) q = m_host_rx m q"
  "m_host_rx m p = [] \<Longrightarrow> fst (host_poll p m) = - 1"
  by (auto simp: waiting_def host_poll_def split: list.split)

lemma wire_step:
  assumes "\<not> m_rx_overrun_on m"
  shows "handed q m (wire_service_port p m)"
proof (cases "m_wire_port_on m p \<and> scc_port m p \<noteq> None \<and> waiting p m = []")
  case True
  obtain k m' where k: "host_poll p m = (k, m')" by fastforce
  note poll = host_poll_waiting [where p = p and m = m, unfolded k fst_conv snd_conv]
  have run: "wire_service_port p m =
      (if 0 \<le> k then scc_upd p (scc_deliver (m_rx_overrun_on m') (word_of_int k)) m' else m')"
    using True assms k by (auto simp: wire_service_port_def waiting_def split: option.splits if_splits)
  show ?thesis
  proof (cases "q = p")
    case False
    then have "waiting q (wire_service_port p m) = waiting q m" "m_host_rx (wire_service_port p m) q = m_host_rx m q"
      using True by (auto simp: run waiting_deliver poll(1-4,6))
    then show ?thesis by (simp add: handed_def)
  next
    case q: True
    have "waiting q (wire_service_port p m) = waiting q m @ (if 0 \<le> k then [word_of_int k] else [])"
      "m_host_rx (wire_service_port p m) q = m_host_rx m' q"
      using True by (auto simp: run waiting_deliver poll(1-4) q)
    moreover have "chars (if m_host_rx m p = [] then [] else [k]) = (if 0 \<le> k then [word_of_int k] else [])"
      using poll(7) by auto
    ultimately show ?thesis
      unfolding handed_def q by (intro exI [of _ "if m_host_rx m p = [] then [] else [k]"] conjI)
        (simp_all only: poll(5) [symmetric])
  qed
next
  case False
  then have "wire_service_port p m = m"
    using assms by (auto simp: wire_service_port_def waiting_def split: option.splits if_splits)
  then show ?thesis by (simp add: handed_refl)
qed

lemma wires_step:
  assumes "\<not> m_rx_overrun_on m"
  shows "handed q m (scc_wire_service m)" "\<not> m_rx_overrun_on (scc_wire_service m)"
proof -
  have "handed q m (fold wire_service_port ps m) \<and> \<not> m_rx_overrun_on (fold wire_service_port ps m)" for ps
    by (rule fold_keeps)
      (auto simp: assms handed_refl wire_service_port_option intro: handed_trans wire_step)
  then show "handed q m (scc_wire_service m)" "\<not> m_rx_overrun_on (scc_wire_service m)"
    by (simp_all add: scc_wire_service_def)
qed

text \<open>A turn of the console feed brings the console at most one character, and only to an empty receiver.\<close>

lemma console_waiting: "waiting 0 m = [] \<longleftrightarrow> \<not> s_rx_avail (m_scc_b m)"
  by (simp add: waiting_def scc_port_def)

lemma rx_console_step:
  assumes "waiting 0 m = []"
  shows "waiting q (scc_rx_console b m) = waiting q m @ (if q = 0 then [b] else [])"
    "m_host_rx (scc_rx_console b m) = m_host_rx m" "m_scr (scc_rx_console b m) = m_scr m"
    "m_rx_overrun_on (scc_rx_console b m) = m_rx_overrun_on m"
  using waiting_deliver [of m 0 q "m_rx_overrun_on m" b] assms
  by (auto simp: scc_rx_console_def scc_port_def scc_upd_def)

lemma feed_byte_step:
  assumes "waiting 0 m = []" "q_pos (m_scr m) < length (q_inq (m_scr m))"
  shows "waiting q (feed_byte m) = waiting q m @ (if q = 0 then script_took m (feed_byte m) else [])"
    "m_host_rx (feed_byte m) = m_host_rx m" "m_rx_overrun_on (feed_byte m) = m_rx_overrun_on m"
proof -
  define m1 where "m1 = upd_scr (\<lambda>q. q\<lparr>q_pos := q_pos q + 1\<rparr>) m"
  have m1: "waiting q m1 = waiting q m" for q by (simp add: m1_def waiting_def)
  have w1: "waiting 0 m1 = []" using assms(1) by (simp add: m1)
  note rx = rx_console_step [OF w1]
  have wait: "waiting q (upd_scr f m') = waiting q m'" for q f m' by (simp add: waiting_def)
  have pos: "q_pos (m_scr (feed_byte m)) = q_pos (m_scr m) + 1"
    by (simp add: feed_byte_def Let_def upd_scr_def scc_rx_console_def scc_upd_def)
  have "script_took m (feed_byte m) = [q_inq (m_scr m) ! q_pos (m_scr m)]"
    unfolding script_took_def pos using assms(2) by (simp add: Cons_nth_drop_Suc [symmetric])
  then show "waiting q (feed_byte m) = waiting q m @ (if q = 0 then script_took m (feed_byte m) else [])"
    by (simp only: feed_byte_def Let_def wait rx(1) m1 flip: m1_def)
  show "m_host_rx (feed_byte m) = m_host_rx m" "m_rx_overrun_on (feed_byte m) = m_rx_overrun_on m"
    by (simp_all add: feed_byte_def Let_def upd_scr_def scc_rx_console_def scc_upd_def)
qed

lemma console_key_step:
  assumes "waiting 0 m = []"
  shows "waiting q (console_key m) = waiting q m
      @ (if q = 0 then chars (filter (\<lambda>k. k \<noteq> 0x1D) (host_took 0 m (console_key m))) else [])"
    "m_scr (console_key m) = m_scr m" "m_rx_overrun_on (console_key m) = m_rx_overrun_on m"
    "suffix (m_host_rx (console_key m) q) (m_host_rx m q)"
proof -
  obtain k m' where k: "host_poll 0 m = (k, m')" by fastforce
  note poll = host_poll_waiting [where p = 0 and m = m, unfolded k fst_conv snd_conv]
  note rx = rx_console_step [of m', unfolded poll(1), OF assms]
  have key: "console_key m = (if k = 0x1D then m'\<lparr>m_stop := True, m_stop_why := ''Ctrl-] at the console''\<rparr>
      else if 0 \<le> k then scc_rx_console (word_of_int k) m' else m')"
    by (simp add: console_key_def k)
  have stop: "waiting q (m'\<lparr>m_stop := True, m_stop_why := w\<rparr>) = waiting q m" for q w
  proof -
    have "scc_port (m'\<lparr>m_stop := True, m_stop_why := w\<rparr>) q = scc_port m' q" by (simp add: scc_port_def)
    then show ?thesis unfolding poll(1) [symmetric] by (simp only: waiting_def)
  qed
  have host: "m_host_rx (console_key m) = m_host_rx m'" by (simp add: key rx)
  show "m_scr (console_key m) = m_scr m" "m_rx_overrun_on (console_key m) = m_rx_overrun_on m"
    by (simp_all add: key rx poll(3,4))
  show "suffix (m_host_rx (console_key m) q) (m_host_rx m q)"
  proof (cases "q = 0")
    case True
    then show ?thesis unfolding host using poll(5) by (metis suffix_def)
  qed (simp add: host poll(6))
  have "host_took 0 m (console_key m) = (if m_host_rx m 0 = [] then [] else [k])"
    unfolding host_took_def host using poll(5) by (cases "m_host_rx m 0") (auto simp: host_poll_def k)
  then have took: "chars (filter (\<lambda>k. k \<noteq> 0x1D) (host_took 0 m (console_key m)))
      = (if 0 \<le> k \<and> k \<noteq> 0x1D then [word_of_int k] else [])"
    using poll(7) by auto
  show "waiting q (console_key m) = waiting q m
      @ (if q = 0 then chars (filter (\<lambda>k. k \<noteq> 0x1D) (host_took 0 m (console_key m))) else [])"
    unfolding took by (simp add: key stop rx(1) poll(1))
qed

lemma console_step:
  "waiting q (feed_console m) = waiting q m @ rx_arrives q RxConsole m"
  "m_rx_overrun_on (feed_console m) = m_rx_overrun_on m"
  "suffix (m_host_rx (feed_console m) q) (m_host_rx m q)"
proof -
  show "suffix (m_host_rx (feed_console m) q) (m_host_rx m q)"
    using console_key_step(4) [of m q] feed_byte_step(2) [of m]
    by (auto simp: feed_console_def feed_ready_def console_waiting)
  have none: "script_took m m' = []" if "m_scr m' = m_scr m" for m' using that by (simp add: script_took_def)
  have host: "host_took q m m' = []" if "m_host_rx m' = m_host_rx m" for m' using that by (simp add: host_took_def)
  show "m_rx_overrun_on (feed_console m) = m_rx_overrun_on m"
    using console_key_step(3) [of m] feed_byte_step(3) [of m]
    by (auto simp: feed_console_def feed_ready_def console_waiting)
  consider (full) "feed_console m = m"
    | (script) "waiting 0 m = []" "q_pos (m_scr m) < length (q_inq (m_scr m))" "feed_console m = feed_byte m"
    | (key) "waiting 0 m = []" "feed_console m = console_key m"
    by (metis console_waiting feed_console_def feed_ready_def)
  then show "waiting q (feed_console m) = waiting q m @ rx_arrives q RxConsole m"
  proof cases
    case full
    then show ?thesis by (simp add: rx_arrives_def none host_took_def)
  next
    case script
    then show ?thesis
      by (simp add: rx_arrives_def feed_byte_step(1) [OF script(1,2)] host_took_def feed_byte_step(2) [OF script(1,2)])
  next
    case key
    then show ?thesis
      by (simp add: rx_arrives_def console_key_step(1) [OF key(1)] none console_key_step(2) [OF key(1)])
  qed
qed

subsection \<open>Nothing is lost\<close>

lemma rx_step:
  assumes "\<not> m_rx_overrun_on m" "rx_gated x m"
  shows "waiting q m @ rx_arrives q x m = rx_takes q x m @ waiting q (rx_apply x m)
    \<and> suffix (m_host_rx (rx_apply x m) q) (m_host_rx m q) \<and> \<not> m_rx_overrun_on (rx_apply x m)"
proof (cases x)
  case (RxRead chip chan r)
  then show ?thesis using assms(1) read_step [of q m chip chan r] by (simp add: rx_arrives_def read_option)
next
  case (RxWrite chip chan r v)
  then show ?thesis
    using assms(1) rx_same_write [of m chip chan r v] by (simp add: rx_arrives_def rx_takes_def rx_same_def)
next
  case RxWires
  note w = wires_step [OF assms(1)]
  from RxWires show ?thesis
    using w(2) handed_took [OF w(1) [of q]] handed_suffix [OF w(1) [of q]]
    by (simp add: rx_arrives_def rx_takes_def)
next
  case RxConsole
  then show ?thesis using assms(1) by (simp add: rx_takes_def console_step)
next
  case (RxDeliver p b)
  then show ?thesis
    using assms waiting_deliver [of m p q "m_rx_overrun_on m" b]
    by (auto simp: rx_arrives_def rx_takes_def rx_gated_def scc_rx_port_def scc_upd_def)
qed

text \<open>C20: Without the receiver-overrun option no character is lost or repeated on its way to the guest.
  Take any history of register reads and writes on any chip and channel (WR0 commands included),
  passes of the wired receivers, turns of the console feed, and deliveries through
  \<open>scc_rx_port\<close>, which does not test the receiver itself and must find it empty.  For every port, the
  character waiting at the start followed by the characters that arrived -- what the host
  handed out for a wired port, script and keys for the console -- is what the guest read
  from the data register, in this order, followed by the character waiting at the end; and the
  answers the host has left are the end of those it started with.\<close>

theorem scc_receive_lossless:
  assumes "\<not> m_rx_overrun_on m" "all_gated xs m"
  shows "waiting q m @ along (rx_arrives q) xs m
    = along (rx_takes q) xs m @ waiting q (fold rx_apply xs m)
    \<and> suffix (m_host_rx (fold rx_apply xs m) q) (m_host_rx m q)"
  using assms
proof (induction xs arbitrary: m)
  case (Cons x xs)
  have now: "waiting q m @ rx_arrives q x m = rx_takes q x m @ waiting q (rx_apply x m)"
    "suffix (m_host_rx (rx_apply x m) q) (m_host_rx m q)" "\<not> m_rx_overrun_on (rx_apply x m)"
    "all_gated xs (rx_apply x m)"
    using rx_step [of m x q] Cons.prems by simp_all
  note later = Cons.IH [OF now(3,4)]
  have "waiting q m @ along (rx_arrives q) (x # xs) m
      = rx_takes q x m @ (waiting q (rx_apply x m) @ along (rx_arrives q) xs (rx_apply x m))"
    using now(1) by (metis along.simps(2) append.assoc)
  with later now(2) show ?case by (auto intro: suffix_order.trans)
qed simp

text \<open>Port 1 with a character waiting and a wire that answers \<open>B\<close>, nothing, \<open>C\<close>: passes of the wires, an
  error reset through WR0, and reads of register 8, directly and through the register pointer.\<close>

definition rx_demo :: Machine where
  "rx_demo = machine_zero\<lparr>m_scc_a := scc_zero\<lparr>s_rx_avail := True, s_rx_data := 0x41\<rparr>,
     m_wire_port_on := (\<lambda>p. p = 1), m_host_rx := (\<lambda>_. [0x42, -1, 0x43])\<rparr>"

definition rx_demo_ops :: "rx_op list" where
  "rx_demo_ops = [RxWires, RxWrite 0 1 0 0x30, RxRead 0 1 8, RxWires, RxWrite 0 1 0 0x08, RxRead 0 1 0,
     RxWires, RxWires, RxConsole]"

lemma scc_receive_lossless_witness:
  "along (rx_takes 1) rx_demo_ops rx_demo = [0x41, 0x42] \<and> waiting 1 (fold rx_apply rx_demo_ops rx_demo) = [0x43]"
proof -
  have run: "\<not> m_rx_overrun_on rx_demo" "all_gated rx_demo_ops rx_demo" "waiting 1 rx_demo = [0x41]"
    "along (rx_arrives 1) rx_demo_ops rx_demo = [0x42, 0x43]"
    "waiting 1 (fold rx_apply rx_demo_ops rx_demo) = [0x43]"
    by code_simp+
  show ?thesis using scc_receive_lossless [OF run(1,2), of 1] unfolding run(3-5) by simp
qed

end
