(* ===== verification/Cpu_Reg_Props.thy ===== *)
theory Cpu_Reg_Props
  imports Cpu_Regs Phys_Mem Alu_Shift
begin

text \<open>
  The register file seen through its views, the condition codes after a comparison, and the
  two banks of stack pointers.
\<close>

subsection \<open>Views\<close>

lemma word_is_bytes: "r < 8 \<Longrightarrow> rw r c = be16 (rb r c) (rb (r + 8) c)"
proof -
  assume r: "r < 8"
  have "x = push_bit 8 (ucast (ucast (drop_bit 8 x) :: u8)) OR ucast (ucast x :: u8)" for x :: u16
    by (rule bit_word_eqI) (auto simp: bit_simps)
  then show ?thesis
    using r nib_half(1) [of r] nib_half(2) [OF r] by (simp add: rw_def rb_def be16_def)
qed

lemma nib_mask_less: "r AND 7 < 8" for r :: nib
  using word_and_le1 [of r 7] by (simp add: word_le_nat_alt word_less_nat_alt)

lemma nib_all:
  assumes "list_all P (map word_of_nat [0..<16])"
  shows "P (r :: nib)"
proof -
  have "unat r < 2 ^ LENGTH(4)" by (rule unsigned_less)
  then have "r \<in> set (map word_of_nat [0..<16])"
    by (auto intro!: image_eqI [of _ _ "unat r"])
  with assms show ?thesis by (simp only: list_all_iff)
qed

lemma quad_pairs:
  "(r AND 0x0C) AND 0x0E = r AND 0x0C" "((r AND 0x0C) + 2) AND 0x0E = (r AND 0x0C) + 2"
  "((r AND 0x0C) + 2) + 1 = (r AND 0x0C) + 3" for r :: nib
proof -
  have "(r AND 0x0C) AND 0x0E = r AND 0x0C \<and> ((r AND 0x0C) + 2) AND 0x0E = (r AND 0x0C) + 2"
    by (rule nib_all) (simp add: upt_rec)
  then show "(r AND 0x0C) AND 0x0E = r AND 0x0C" "((r AND 0x0C) + 2) AND 0x0E = (r AND 0x0C) + 2"
    by auto
qed simp

lemma quad_is_longs:
  "rq r c = push_bit 32 (ucast (rl (r AND 0x0C) c)) OR ucast (rl ((r AND 0x0C) + 2) c)"
  unfolding rq_def rl_def Let_def quad_pairs
  by (rule bit_word_eqI) (auto simp: bit_simps dest: bit_imp_le_length)

lemma word_of_byte_write:
  "rw r (wb b v c) =
    (if r < 8 \<and> b = r then be16 v (rb (r + 8) c) else if r < 8 \<and> b = r + 8 then be16 (rb r c) v else rw r c)"
proof (cases "r < 8")
  case True
  then show ?thesis by (simp add: word_is_bytes byte_read_write)
next
  case False
  have "list_all (\<lambda>b. (if b < 8 then b else b - 8) < (8 :: nib)) (map word_of_nat [0..<16])"
    by (simp add: upt_rec)
  then have "(if b < 8 then b else b - 8) < 8" by (rule nib_all)
  with False show ?thesis by (auto simp: rw_def wb_def set_R_def)
qed

lemma wq_is_longs:
  "wq b q c = wl ((b AND 0x0C) + 2) (ucast q) (wl (b AND 0x0C) (ucast (drop_bit 32 q)) c)"
proof -
  have w: "(ucast (ucast q :: u32) :: u16) = ucast q"
    "(ucast (drop_bit 16 (ucast q :: u32)) :: u16) = ucast (drop_bit 16 q)"
    "(ucast (ucast (drop_bit 32 q) :: u32) :: u16) = ucast (drop_bit 32 q)"
    "(ucast (drop_bit 16 (ucast (drop_bit 32 q) :: u32)) :: u16) = ucast (drop_bit 48 q)"
    by (rule bit_word_eqI, simp add: bit_simps)+
  show ?thesis
    by (simp only: wq_def wl_def Let_def quad_pairs w)
qed

text \<open>A group of four is its base and the three numbers above it.\<close>

lemma quad_place:
  "(b AND 0x0C) AND 3 = 0" "((b AND 0x0C) + 1) AND 3 = 1"
  "((b AND 0x0C) + 2) AND 3 = 2" "((b AND 0x0C) + 3) AND 3 = 3"
  "((b AND 0x0C) + 1) AND 0x0C = b AND 0x0C" "((b AND 0x0C) + 2) AND 0x0C = b AND 0x0C"
  "((b AND 0x0C) + 3) AND 0x0C = b AND 0x0C" for b :: nib
proof -
  have "list_all (\<lambda>b. (b AND 0x0C) AND 3 = 0 \<and> ((b AND 0x0C) + 1) AND 3 = 1
      \<and> ((b AND 0x0C) + 2) AND 3 = 2 \<and> ((b AND 0x0C) + 3) AND 3 = 3
      \<and> ((b AND 0x0C) + 1) AND 0x0C = b AND 0x0C \<and> ((b AND 0x0C) + 2) AND 0x0C = b AND 0x0C
      \<and> ((b AND 0x0C) + 3) AND 0x0C = b AND (0x0C :: nib)) (map word_of_nat [0..<16])"
    by (simp add: upt_rec)
  from nib_all [OF this] show "(b AND 0x0C) AND 3 = 0" "((b AND 0x0C) + 1) AND 3 = 1"
    "((b AND 0x0C) + 2) AND 3 = 2" "((b AND 0x0C) + 3) AND 3 = 3"
    "((b AND 0x0C) + 1) AND 0x0C = b AND 0x0C" "((b AND 0x0C) + 2) AND 0x0C = b AND 0x0C"
    "((b AND 0x0C) + 3) AND 0x0C = b AND 0x0C" by blast+
qed

lemma in_quad:
  "r AND 0x0C = b AND 0x0C \<longleftrightarrow>
    r = b AND 0x0C \<or> r = (b AND 0x0C) + 1 \<or> r = (b AND 0x0C) + 2 \<or> r = (b AND 0x0C) + 3" for r b :: nib
proof
  have "list_all (\<lambda>r. r = r AND 0x0C \<or> r = (r AND 0x0C) + 1 \<or> r = (r AND 0x0C) + 2
      \<or> r = (r AND (0x0C :: nib)) + 3) (map word_of_nat [0..<16])"
    by (simp add: upt_rec)
  from nib_all [OF this]
  show "r = b AND 0x0C \<or> r = (b AND 0x0C) + 1 \<or> r = (b AND 0x0C) + 2 \<or> r = (b AND 0x0C) + 3"
    if "r AND 0x0C = b AND 0x0C" unfolding that [symmetric] .
  show "r AND 0x0C = b AND 0x0C"
    if "r = b AND 0x0C \<or> r = (b AND 0x0C) + 1 \<or> r = (b AND 0x0C) + 2 \<or> r = (b AND 0x0C) + 3"
    using that by (elim disjE) (simp_all only: quad_place(5-7) and.right_idem)
qed

lemma word_of_quad_write:
  "rw r (wq b q c) =
    (if r AND 0x0C = b AND 0x0C then ucast (drop_bit (16 * (3 - unat (r AND 3))) q) else rw r c)"
proof (cases "r AND 0x0C = b AND 0x0C")
  case True
  then consider "r = b AND 0x0C" | "r = (b AND 0x0C) + 1" | "r = (b AND 0x0C) + 2" | "r = (b AND 0x0C) + 3"
    unfolding in_quad by blast
  then show ?thesis
    using True by cases (simp_all add: rw_def wq_def Let_def set_R_def quad_place)
next
  case False
  then have "rw r (wq b q c) = rw r c"
    unfolding in_quad by (simp add: rw_def wq_def Let_def set_R_def)
  with False show ?thesis by simp
qed

lemma quad_other:
  "rq a (wq b q c) = (if a AND 0x0C = b AND 0x0C then q else rq a c)"
proof (cases "a AND 0x0C = b AND 0x0C")
  case True
  then have "rq a = rq b" by (simp add: rq_def fun_eq_iff)
  with True show ?thesis by (simp add: quad_reg.get_put)
next
  case False
  have i: "((a AND 0x0C) + i) AND 0x0C = a AND 0x0C" if "i = 0 \<or> i = 1 \<or> i = 2 \<or> i = 3" for i
    using that in_quad [of "(a AND 0x0C) + i" a] by auto
  have "rw ((a AND 0x0C) + i) (wq b q c) = rw ((a AND 0x0C) + i) c"
    if "i = 0 \<or> i = 1 \<or> i = 2 \<or> i = 3" for i
    using False i [OF that] by (simp add: word_of_quad_write)
  note w = this [of 0, simplified] this [of 1, simplified] this [of 2, simplified] this [of 3, simplified]
  from False w show ?thesis by (simp add: rq_def rw_def Let_def)
qed

text \<open>C31: The register file as the instruction set sees it.  A byte, word, long or quad register holds
  the last value written to it and keeps it when a different register of its size is written; a word
  register is its two byte halves (RHn high, RLn low), a long register is an even word register
  above the next odd one, a quad register is two long registers.  Writing a long register is
  writing its two words and writing a quad register is writing its two long registers.  A quad write
  sets each word of its group to its quarter of the value and leaves every other word; a byte write
  sets its half of one of R0 to R7 and leaves the other half and every other word.  No write changes
  anything of the CPU but the register array.\<close>

theorem register_views:
  "rb a (wb b v c) = (if a = b then v else rb a c)
   \<and> rw a (ww b w c) = (if a = b then w else rw a c)
   \<and> rl a (wl b x c) = (if a AND 0x0E = b AND 0x0E then x else rl a c)
   \<and> rq a (wq b q c) = (if a AND 0x0C = b AND 0x0C then q else rq a c)
   \<and> rw (a AND 7) c = be16 (rb (a AND 7) c) (rb ((a AND 7) + 8) c)
   \<and> rl a c = push_bit 16 (ucast (rw (a AND 0x0E) c)) OR ucast (rw ((a AND 0x0E) + 1) c)
   \<and> rq a c = push_bit 32 (ucast (rl (a AND 0x0C) c)) OR ucast (rl ((a AND 0x0C) + 2) c)
   \<and> wl b x c = ww ((b AND 0x0E) + 1) (ucast x) (ww (b AND 0x0E) (ucast (drop_bit 16 x)) c)
   \<and> wq b q c = wl ((b AND 0x0C) + 2) (ucast q) (wl (b AND 0x0C) (ucast (drop_bit 32 q)) c)
   \<and> rw r (wq b q c) =
       (if r AND 0x0C = b AND 0x0C then ucast (drop_bit (16 * (3 - unat (r AND 3))) q) else rw r c)
   \<and> rw r (wb b v c) =
       (if r < 8 \<and> b = r then be16 v (rb (r + 8) c)
        else if r < 8 \<and> b = r + 8 then be16 (rb r c) v else rw r c)
   \<and> (wb b v c)\<lparr>c_R := c_R c\<rparr> = c \<and> (ww b w c)\<lparr>c_R := c_R c\<rparr> = c
   \<and> (wl b x c)\<lparr>c_R := c_R c\<rparr> = c \<and> (wq b q c)\<lparr>c_R := c_R c\<rparr> = c"
proof (intro conjI)
  show "rl a (wl b x c) = (if a AND 0x0E = b AND 0x0E then x else rl a c)"
  proof (cases "a AND 0x0E = b AND 0x0E")
    case True
    then have "rl a = rl b" by (simp add: rl_def fun_eq_iff)
    with True show ?thesis by (simp add: long_reg.get_put)
  next
    case False
    have e: "(a AND 0x0E) + 1 \<noteq> b AND 0x0E" "a AND 0x0E \<noteq> (b AND 0x0E) + 1" for a b :: nib
    proof -
      have o: "\<not> bit (a AND 0x0E) 0" "\<not> bit (b AND 0x0E) 0" for a b :: nib
        by (simp_all add: bit_simps)
      then show "(a AND 0x0E) + 1 \<noteq> b AND 0x0E" "a AND 0x0E \<noteq> (b AND 0x0E) + 1"
        by (metis (no_types) bit_0 even_plus_one_iff)+
    qed
    then show ?thesis using False by (simp add: rl_def wl_def Let_def)
  qed
  show "rw (a AND 7) c = be16 (rb (a AND 7) c) (rb ((a AND 7) + 8) c)"
    by (rule word_is_bytes) (rule nib_mask_less)
  show "rq a c = push_bit 32 (ucast (rl (a AND 0x0C) c)) OR ucast (rl ((a AND 0x0C) + 2) c)"
    by (rule quad_is_longs)
  show "rq a (wq b q c) = (if a AND 0x0C = b AND 0x0C then q else rq a c)" by (rule quad_other)
  show "wq b q c = wl ((b AND 0x0C) + 2) (ucast q) (wl (b AND 0x0C) (ucast (drop_bit 32 q)) c)"
    by (rule wq_is_longs)
  show "rw r (wq b q c) =
      (if r AND 0x0C = b AND 0x0C then ucast (drop_bit (16 * (3 - unat (r AND 3))) q) else rw r c)"
    by (rule word_of_quad_write)
  show "rw r (wb b v c) = (if r < 8 \<and> b = r then be16 v (rb (r + 8) c)
      else if r < 8 \<and> b = r + 8 then be16 (rb r c) v else rw r c)"
    by (rule word_of_byte_write)
  show "(wb b v c)\<lparr>c_R := c_R c\<rparr> = c" "(ww b w c)\<lparr>c_R := c_R c\<rparr> = c"
    "(wl b x c)\<lparr>c_R := c_R c\<rparr> = c" "(wq b q c)\<lparr>c_R := c_R c\<rparr> = c"
    by (simp_all add: wb_def ww_def wl_def wq_def Let_def set_R_def)
  show "rb a (wb b v c) = (if a = b then v else rb a c)" by (rule byte_read_write)
  show "rw a (ww b w c) = (if a = b then w else rw a c)" by (simp add: rw_def ww_def)
  show "rl a c = push_bit 16 (ucast (rw (a AND 0x0E) c)) OR ucast (rw ((a AND 0x0E) + 1) c)"
    by (simp add: rl_def rw_def Let_def)
  show "wl b x c = ww ((b AND 0x0E) + 1) (ucast x) (ww (b AND 0x0E) (ucast (drop_bit 16 x)) c)"
    by (simp add: wl_def ww_def Let_def)
qed

subsection \<open>Conditions after a comparison\<close>

lemma signed_compare:
  fixes t M :: int
  assumes "- 2 * M < t" "t < 2 * M"
  shows "((t + M) mod (2 * M) - M < 0) \<noteq> (t \<notin> {- M ..< M}) \<longleftrightarrow> t < 0"
proof -
  consider "t < - M" | "- M \<le> t" "t < M" | "M \<le> t" by linarith
  then show ?thesis
  proof cases
    case 1
    have "(t + M) mod (2 * M) = (t + M + 2 * M) mod (2 * M)" by (metis mod_add_self2)
    also have "\<dots> = t + M + 2 * M" using 1 assms by (intro mod_pos_pos_trivial) linarith+
    finally show ?thesis using 1 assms by auto
  next
    case 2
    then have "(t + M) mod (2 * M) = t + M" by (intro mod_pos_pos_trivial) linarith+
    with 2 show ?thesis by auto
  next
    case 3
    have "(t + M) mod (2 * M) = (t + M - 2 * M) mod (2 * M)" by (metis minus_mod_self2)
    also have "\<dots> = t + M - 2 * M" using 3 assms by (intro mod_pos_pos_trivial) linarith+
    finally show ?thesis using 3 assms by auto
  qed
qed

lemma cond_complement: "cond_true (cc XOR 8) c \<longleftrightarrow> \<not> cond_true cc c"
proof -
  have "\<forall>c. cond_true (cc XOR 8) c \<longleftrightarrow> \<not> cond_true cc c"
    by (rule nib_all) (simp add: upt_rec cond_true_def Let_def)
  then show ?thesis by blast
qed

lemma cond_codes:
  "cond_true 0x1 c \<longleftrightarrow> tst (c_fcw c) F_S \<noteq> tst (c_fcw c) F_PV"
  "cond_true 0x2 c \<longleftrightarrow> tst (c_fcw c) F_S \<noteq> tst (c_fcw c) F_PV \<or> tst (c_fcw c) F_Z"
  "cond_true 0x3 c \<longleftrightarrow> tst (c_fcw c) F_C \<or> tst (c_fcw c) F_Z"
  "cond_true 0x4 c \<longleftrightarrow> tst (c_fcw c) F_PV" "cond_true 0x5 c \<longleftrightarrow> tst (c_fcw c) F_S"
  "cond_true 0x6 c \<longleftrightarrow> tst (c_fcw c) F_Z" "cond_true 0x7 c \<longleftrightarrow> tst (c_fcw c) F_C"
  "cond_true 0x8 c \<longleftrightarrow> True"
  "cond_true 0x9 c \<longleftrightarrow> tst (c_fcw c) F_S = tst (c_fcw c) F_PV"
  "cond_true 0xA c \<longleftrightarrow> tst (c_fcw c) F_S = tst (c_fcw c) F_PV \<and> \<not> tst (c_fcw c) F_Z"
  "cond_true 0xB c \<longleftrightarrow> \<not> tst (c_fcw c) F_C \<and> \<not> tst (c_fcw c) F_Z"
  "cond_true 0xE c \<longleftrightarrow> \<not> tst (c_fcw c) F_Z" "cond_true 0xF c \<longleftrightarrow> \<not> tst (c_fcw c) F_C"
  by (simp_all add: cond_true_def Let_def)

lemma sval_diff:
  assumes "uint r = (uval w a - uval w b) mod 2 ^ nbits_of w"
  defines "M \<equiv> 2 ^ (nbits_of w - 1) :: int"
  shows "sval w r = (sval w a - sval w b + M) mod (2 * M) - M"
proof -
  have n: "Suc (nbits_of w - 1) = nbits_of w" using nbits_of_cases [of w] by auto
  then have M: "2 ^ nbits_of w = 2 * M" unfolding M_def power_Suc [symmetric] by (simp only:)
  have "take_bit (nbits_of w) (sval w x) = take_bit (nbits_of w) (uval w x)" for x
    using nbits_of_cases [of w] by (auto simp: sval_def uval_def take_bit_signed_take_bit)
  then have "take_bit (nbits_of w) (sval w a - sval w b) = uint r"
    unfolding assms(1) take_bit_eq_mod [symmetric] by (metis take_bit_diff)
  then have "(sval w a - sval w b) mod (2 * M) = uint r" by (simp only: take_bit_eq_mod M)
  then have "(sval w a - sval w b + M) mod (2 * M) = (uint r + M) mod (2 * M)"
    by (metis mod_add_left_eq)
  moreover have "sval w r = (uint r + M) mod (2 * M) - M"
    unfolding sval_def signed_take_bit_eq_take_bit_shift n take_bit_eq_mod M
    by (simp only: M_def)
  ultimately show ?thesis by (simp only:)
qed

lemma uval_range: "0 \<le> uval w x" "uval w x < 2 ^ nbits_of w"
  unfolding uval_def by (simp, rule take_bit_int_less_exp)

lemma uval_sval_eq: "sval w a = sval w b \<longleftrightarrow> uval w a = uval w b"
proof -
  have n: "Suc (nbits_of w - 1) = nbits_of w" using nbits_of_cases [of w] by auto
  show ?thesis unfolding sval_def uval_def signed_take_bit_eq_iff_take_bit_eq n ..
qed

lemma compare_flags:
  fixes a b c w
  defines "f \<equiv> c_fcw (apply_flags (do_sub a b False w) c)"
  shows "tst f F_C \<longleftrightarrow> uval w a < uval w b" "tst f F_Z \<longleftrightarrow> uval w a = uval w b"
    "tst f F_PV \<longleftrightarrow> sval w a - sval w b \<notin> {- (2 ^ (nbits_of w - 1)) ..< 2 ^ (nbits_of w - 1)}"
    "tst f F_S \<longleftrightarrow> signed_take_bit (nbits_of w - 1) (sval w a - sval w b) < 0"
proof -
  let ?r = "do_sub a b False w"
  have mask: "tst f m = tst (rflags ?r) m" if "NOT (0x00F0 :: u16) AND m = 0" "0x00F0 AND m = m"
    "NOT (0x00FC :: u16) AND m = 0" "0x00FC AND m = m" for m
    using that by (simp add: f_def apply_flags_def merge_flags_def do_sub_arith(8))
  have v: "uint (rvalue ?r) = (uval w a - uval w b) mod 2 ^ nbits_of w"
    using do_sub_arith(1) [of a b False w] by simp
  show "tst f F_C \<longleftrightarrow> uval w a < uval w b"
    by (subst mask) (simp_all add: do_sub_arith(2))
  have "rvalue ?r = 0 \<longleftrightarrow> (uval w a - uval w b) mod 2 ^ nbits_of w = 0"
    unfolding v [symmetric] by (simp add: unsigned_eq_0_iff)
  also have "\<dots> \<longleftrightarrow> uval w a = uval w b"
    unfolding mod_eq_0_iff_dvd mod_eq_dvd_iff [symmetric]
      mod_pos_pos_trivial [OF uval_range] ..
  finally show "tst f F_Z \<longleftrightarrow> uval w a = uval w b"
    by (subst mask) (simp_all add: do_sub_arith(3))
  show "tst f F_PV \<longleftrightarrow> sval w a - sval w b \<notin> {- (2 ^ (nbits_of w - 1)) ..< 2 ^ (nbits_of w - 1)}"
    by (subst mask) (simp_all add: do_sub_arith(5))
  have n: "Suc (nbits_of w - 1) = nbits_of w" using nbits_of_cases [of w] by auto
  then have M: "(2 :: int) ^ nbits_of w = 2 * 2 ^ (nbits_of w - 1)"
    unfolding power_Suc [symmetric] by (simp only:)
  have "signed_take_bit (nbits_of w - 1) (sval w a - sval w b) = sval w (rvalue ?r)"
    unfolding sval_diff [OF v] signed_take_bit_eq_take_bit_shift n take_bit_eq_mod M ..
  then show "tst f F_S \<longleftrightarrow> signed_take_bit (nbits_of w - 1) (sval w a - sval w b) < 0"
    by (subst mask) (simp_all add: do_sub_arith(4))
qed

text \<open>C32: After a CP (or SUB) of two operands the condition codes order them: LT, LE, GE and GT
  compare them as signed numbers of the operand width even where the difference overflows, ULT, ULE,
  UGE and UGT as unsigned ones, EQ and NE test equality, OV the signed overflow, MI the sign of the
  wrapped difference; and in every state condition code \<open>cc XOR 8\<close> is the negation of
  condition code \<open>cc\<close>.\<close>

theorem compare_conditions:
  "let c' = apply_flags (alu_exec OpCp a b k w) c;
       d = sval w a - sval w b
   in (cond_true 0x1 c' \<longleftrightarrow> sval w a < sval w b) \<and> (cond_true 0x2 c' \<longleftrightarrow> sval w a \<le> sval w b)
      \<and> (cond_true 0x9 c' \<longleftrightarrow> sval w b \<le> sval w a) \<and> (cond_true 0xA c' \<longleftrightarrow> sval w b < sval w a)
      \<and> (cond_true 0x7 c' \<longleftrightarrow> uval w a < uval w b) \<and> (cond_true 0x3 c' \<longleftrightarrow> uval w a \<le> uval w b)
      \<and> (cond_true 0xF c' \<longleftrightarrow> uval w b \<le> uval w a) \<and> (cond_true 0xB c' \<longleftrightarrow> uval w b < uval w a)
      \<and> (cond_true 0x6 c' \<longleftrightarrow> uval w a = uval w b) \<and> (cond_true 0xE c' \<longleftrightarrow> uval w a \<noteq> uval w b)
      \<and> (cond_true 0x4 c' \<longleftrightarrow> d \<notin> {- (2 ^ (nbits_of w - 1)) ..< 2 ^ (nbits_of w - 1)})
      \<and> (cond_true 0x5 c' \<longleftrightarrow> signed_take_bit (nbits_of w - 1) d < 0)
      \<and> cond_true 0x8 c' \<and> (cond_true (cc XOR 8) c \<longleftrightarrow> \<not> cond_true cc c)"
proof -
  define M :: int where "M = 2 ^ (nbits_of w - 1)"
  define d where "d = sval w a - sval w b"
  have n: "Suc (nbits_of w - 1) = nbits_of w" using nbits_of_cases [of w] by auto
  have sv: "alu_exec OpCp a b k w = do_sub a b False w" by (simp add: alu_exec_def)
  have "signed_take_bit (nbits_of w - 1) d = (d + M) mod (2 * M) - M"
    unfolding signed_take_bit_eq_take_bit_shift n take_bit_eq_mod M_def power_Suc [symmetric]
    by (simp only: n)
  moreover have "- 2 * M < d" "d < 2 * M"
    using sval_range [of w a] sval_range [of w b] unfolding M_def d_def by linarith+
  ultimately have lt: "(signed_take_bit (nbits_of w - 1) d < 0) \<noteq> (d \<notin> {- M ..< M}) \<longleftrightarrow> d < 0"
    using signed_compare by simp
  have eq: "uval w a = uval w b \<longleftrightarrow> d = 0" unfolding uval_sval_eq [symmetric] d_def by simp
  let ?c = "apply_flags (do_sub a b False w) c"
  note f = compare_flags [of a b w c, folded d_def M_def]
  have signed: "cond_true 0x1 ?c \<longleftrightarrow> d < 0" "cond_true 0x2 ?c \<longleftrightarrow> d \<le> 0"
    "cond_true 0x9 ?c \<longleftrightarrow> 0 \<le> d" "cond_true 0xA ?c \<longleftrightarrow> 0 < d"
    unfolding cond_codes f eq using lt by linarith+
  have unsigned: "cond_true 0x7 ?c \<longleftrightarrow> uval w a < uval w b" "cond_true 0x3 ?c \<longleftrightarrow> uval w a \<le> uval w b"
    "cond_true 0xF ?c \<longleftrightarrow> uval w b \<le> uval w a" "cond_true 0xB ?c \<longleftrightarrow> uval w b < uval w a"
    unfolding cond_codes f by linarith+
  have "cond_true 0x6 ?c \<longleftrightarrow> uval w a = uval w b" "cond_true 0xE ?c \<longleftrightarrow> uval w a \<noteq> uval w b"
    "cond_true 0x4 ?c \<longleftrightarrow> d \<notin> {- M ..< M}"
    "cond_true 0x5 ?c \<longleftrightarrow> signed_take_bit (nbits_of w - 1) d < 0" "cond_true 0x8 ?c"
    unfolding cond_codes f by (rule refl TrueI)+
  with signed unsigned show ?thesis
    unfolding sv Let_def cond_complement d_def M_def by (intro conjI; simp)
qed

subsection \<open>Two banks of stack pointers\<close>

lemma swap_off_seg:
  "c_R (swap_spoff (swap_spseg c)) = (c_R c)(14 := c_nspseg c, 15 := c_nspoff c)"
  "c_R (swap_spseg (swap_spoff c)) = (c_R c)(14 := c_nspseg c, 15 := c_nspoff c)"
  "c_nspoff (swap_spseg (swap_spoff c)) = rw 15 c" "c_nspseg (swap_spseg (swap_spoff c)) = rw 14 c"
  by (simp_all add: swap_spoff_def swap_spseg_def Let_def rw_def ww_def fun_eq_iff)

lemma swap_fcw:
  "c_fcw (swap_spoff c) = c_fcw c" "c_fcw (swap_spseg c) = c_fcw c"
  "swap_spoff (c\<lparr>c_fcw := f\<rparr>) = (swap_spoff c)\<lparr>c_fcw := f\<rparr>"
  "swap_spseg (c\<lparr>c_fcw := f\<rparr>) = (swap_spseg c)\<lparr>c_fcw := f\<rparr>"
  by (simp_all add: swap_spoff_def swap_spseg_def Let_def rw_def ww_def set_R_def)

lemma swap_commute: "swap_spoff (swap_spseg c) = swap_spseg (swap_spoff c)"
  by (simp add: swap_spoff_def swap_spseg_def Let_def rw_def ww_def set_R_def fun_eq_iff)

lemma tst_xor_bit: "tst (x XOR y) (push_bit n 1) \<longleftrightarrow> tst x (push_bit n 1) \<noteq> tst y (push_bit n 1)"
  for x y :: "'a::len word"
  unfolding tst_bit by (simp add: bit_simps)

lemma tst_xor_modes:
  "tst (x XOR y) FCW_SN \<longleftrightarrow> tst x FCW_SN \<noteq> tst y FCW_SN"
  "tst (x XOR y) FCW_SEG \<longleftrightarrow> tst x FCW_SEG \<noteq> tst y FCW_SEG" for x y :: u16
  using tst_xor_bit [of x y 14] tst_xor_bit [of x y 15] by (simp_all add: push_bit_eq_mult)

text \<open>C28: A change to system mode puts the saved system stack pointer in R14 and R15, saves those of
  the program there and touches no other register; the way back to normal mode restores the whole
  CPU when the system mode was segmented, and leaves R14 exchanged with the saved segment when it
  was not.\<close>

theorem stack_bank_switch:
  assumes "\<not> SYSMODE c" "tst nf FCW_SN" "\<not> tst back' FCW_SN"
  defines "g \<equiv> change_fcw nf c"
  shows "c_R g = (c_R c)(14 := c_nspseg c, 15 := c_nspoff c) \<and> SYSMODE g
    \<and> c_nspseg g = rw 14 c \<and> c_nspoff g = rw 15 c \<and> c_fcw g = nf
    \<and> change_fcw back' g = (if tst nf FCW_SEG then c else swap_spseg c)\<lparr>c_fcw := back'\<rparr>"
proof -
  have g: "g = (swap_spseg (swap_spoff c))\<lparr>c_fcw := nf\<rparr>"
    using assms(1,2) by (simp add: g_def change_fcw_def SYSMODE_def Let_def tst_xor_modes)
  have "change_fcw back' g = (if tst nf FCW_SEG then swap_spseg (swap_spoff g) else swap_spoff g)
      \<lparr>c_fcw := back'\<rparr>"
    using assms(2,3) by (simp add: g change_fcw_def Let_def tst_xor_modes)
  then show ?thesis
    using assms(2) by (simp add: g swap_off_seg swap_fcw swap_commute SYSMODE_def)
qed

theorem stack_bank_switch_witness:
  "let c = cpu_zero\<lparr>c_R := (\<lambda>_. 7), c_nspseg := 0x0300, c_nspoff := 0x8000\<rparr>; g = change_fcw 0xC000 c
   in rw 14 g = 0x0300 \<and> rw 15 g = 0x8000 \<and> c_nspoff g = 7 \<and> change_fcw 0 g = c"
  using stack_bank_switch [of "cpu_zero\<lparr>c_R := (\<lambda>_. 7), c_nspseg := 0x0300, c_nspoff := 0x8000\<rparr>"
      "0xC000" 0]
  by (simp add: SYSMODE_def cpu_zero_def rw_def)

end
