(* ===== verification/Trap_Props.thy ===== *)
theory Trap_Props
  imports Cpu_Step Mmu_Lemmas Cpu_Reg_Props
begin

text \<open>
  Traps and interrupts of \<open>src/src/cpu.c\<close>: which request is taken, and the way into a handler
  and back.
\<close>

subsection \<open>Segmented addresses\<close>

text \<open>The linear address of a segment word and an offset.\<close>

definition seg_off :: "u16 \<Rightarrow> u16 \<Rightarrow> u32" where
  "seg_off h off = push_bit 8 (ucast h) OR ucast off"

definition seg_word :: "u16 \<Rightarrow> bool" where
  "seg_word h \<longleftrightarrow> h AND 0x7F00 = h"

lemma bit_seg_masks:
  "bit (0x7F00 :: int) i \<longleftrightarrow> 8 \<le> i \<and> i < 15"
  "bit (0x7F000000 :: int) i \<longleftrightarrow> 24 \<le> i \<and> i < 31"
  "bit (0x007F0000 :: int) i \<longleftrightarrow> 16 \<le> i \<and> i < 23"
  "bit (0x7FFFFF :: int) i \<longleftrightarrow> i < 23" "bit (0x7F :: int) i \<longleftrightarrow> i < 7"
  "bit (0xFFFFFF :: int) i \<longleftrightarrow> i < 24" "bit (0x80000000 :: int) i \<longleftrightarrow> i = 31"
  "bit (0x800000 :: int) i \<longleftrightarrow> i = 23"
proof -
  have "bit (push_bit 8 (mask 7) :: int) i \<longleftrightarrow> 8 \<le> i \<and> i < 15"
    "bit (push_bit 24 (mask 7) :: int) i \<longleftrightarrow> 24 \<le> i \<and> i < 31"
    "bit (push_bit 16 (mask 7) :: int) i \<longleftrightarrow> 16 \<le> i \<and> i < 23"
    "bit (mask 23 :: int) i \<longleftrightarrow> i < 23" "bit (mask 7 :: int) i \<longleftrightarrow> i < 7"
    "bit (mask 24 :: int) i \<longleftrightarrow> i < 24"
    by (auto simp: bit_mask_iff bit_push_bit_iff bit_1_iff)
  then show "bit (0x7F00 :: int) i \<longleftrightarrow> 8 \<le> i \<and> i < 15"
    "bit (0x7F000000 :: int) i \<longleftrightarrow> 24 \<le> i \<and> i < 31"
    "bit (0x007F0000 :: int) i \<longleftrightarrow> 16 \<le> i \<and> i < 23"
    "bit (0x7FFFFF :: int) i \<longleftrightarrow> i < 23" "bit (0x7F :: int) i \<longleftrightarrow> i < 7"
    "bit (0xFFFFFF :: int) i \<longleftrightarrow> i < 24"
    by (simp_all add: mask_eq_exp_minus_1)
  have "(0x80000000 :: int) = 2 ^ 31" by simp
  then show "bit (0x80000000 :: int) i \<longleftrightarrow> i = 31" by (simp only: bit_exp_iff) auto
  have "(0x800000 :: int) = 2 ^ 23" by simp
  then show "bit (0x800000 :: int) i \<longleftrightarrow> i = 23" by (simp only: bit_exp_iff) auto
qed

lemma seg_word_bits: "seg_word h \<Longrightarrow> bit h i \<Longrightarrow> 8 \<le> i \<and> i < 15"
proof -
  assume "seg_word h" "bit h i"
  then have "bit (h AND 0x7F00) i" by (simp add: seg_word_def)
  then show ?thesis by (simp add: bit_simps bit_seg_masks)
qed

lemma seg_off_parts:
  assumes "seg_word h"
  shows "seg_off h off AND 0xFFFF0000 = push_bit 8 (ucast h)"
    "seg_off h off AND 0xFFFF = ucast off"
    "(ucast (seg_off h off) :: u16) = off"
    "(ucast (drop_bit 8 (seg_off h off) AND 0x7F00) :: u16) = h"
    "(ucast (drop_bit 16 (seg_off h off)) AND 0x7F :: u8) = ucast (drop_bit 8 h)"
    "seg_off h off AND ADDR_MASK = seg_off h off"
    "drop_bit 16 (seg_off h off) AND 0xFF = ucast (drop_bit 8 h)"
  by (rule bit_word_eqI, auto simp: seg_off_def bit_simps bit_byte_masks bit_seg_masks
      dest: seg_word_bits [OF assms] bit_imp_le_length simp flip: mask_eq_exp_minus_1)+

lemma ucast_down:
  "(ucast (x - y) :: u16) = ucast x - ucast y" "(ucast (x + y) :: u16) = ucast x + ucast y"
  for x y :: u32
proof -
  have "(word_of_int (k mod 2 ^ LENGTH(32)) :: u16) = word_of_int k" for k
    unfolding word_of_int_eq_iff take_bit_eq_mod [symmetric] by simp
  then show "(ucast (x - y) :: u16) = ucast x - ucast y" "(ucast (x + y) :: u16) = ucast x + ucast y"
    unfolding ucast_eq uint_word_ariths by (simp_all only: wi_hom_add wi_hom_sub)
qed

lemma seg_off_steps:
  assumes "seg_word h"
  shows "addr_sub (seg_off h off) n = seg_off h (off - ucast n)"
    "addr_add (seg_off h off) n = seg_off h (off + ucast n)"
proof -
  have u: "(x AND 0xFFFF) = ucast (ucast x :: u16)" for x :: u32
    by (rule bit_word_eqI) (auto simp: bit_simps bit_byte_masks)
  have low: "(ucast (seg_off h off - n) :: u16) = off - ucast n"
    "(ucast (seg_off h off + n) :: u16) = off + ucast n"
    using seg_off_parts(3) [OF assms, of off] by (simp_all add: ucast_down)
  show "addr_sub (seg_off h off) n = seg_off h (off - ucast n)"
    "addr_add (seg_off h off) n = seg_off h (off + ucast n)"
    unfolding addr_sub_def addr_add_def seg_off_parts(1) [OF assms] u low by (simp_all add: seg_off_def)
qed

text \<open>The stack pointer of a segmented CPU whose segment word is clean.\<close>

lemma seg_addr_pair:
  "seg_addr (push_bit 16 (ucast (h :: u16)) OR ucast (l :: u16)) = seg_off (h AND 0x7F00) l"
  by (rule bit_word_eqI) (auto simp: seg_addr_def seg_off_def bit_simps bit_byte_masks bit_seg_masks
      dest: bit_imp_le_length)

lemma seg_addr_make:
  assumes "a AND 0x7FFFFF = a"
  shows "seg_addr (push_bit 16 (ucast (ucast (drop_bit 16 (make_seg a)) :: u16))
           OR ucast (ucast (make_seg a) :: u16)) = a"
proof -
  have a: "bit a i \<Longrightarrow> i < 23" for i
  proof -
    assume "bit a i"
    then have "bit (a AND 0x7FFFFF) i" using assms by simp
    then show "i < 23" by (simp add: bit_simps bit_seg_masks)
  qed
  have "seg_addr (make_seg a) = a"
    by (rule bit_word_eqI) (auto simp: seg_addr_def make_seg_def bit_simps bit_byte_masks
        bit_seg_masks dest: a)
  then show ?thesis by (simp only: long_parts)
qed

lemma segmented_sp:
  assumes "SEG c" "seg_word (rw 14 c)"
  shows "sp_reg c = 14" "addr_from_reg 14 c = seg_off (rw 14 c) (rw 15 c)"
proof -
  show "sp_reg c = 14" using assms(1) by (simp add: sp_reg_def)
  have "rl 14 c = push_bit 16 (ucast (rw 14 c)) OR ucast (rw 15 c)"
    by (simp add: rl_def rw_def)
  then show "addr_from_reg 14 c = seg_off (rw 14 c) (rw 15 c)"
    using assms by (simp add: addr_from_reg_def seg_addr_pair seg_word_def)
qed

lemma segmented_sp_set:
  assumes "SEG c" "seg_word h"
  shows "addr_to_reg 14 (seg_off h off) c = ww 15 off (ww 14 h c)"
  using assms by (simp add: addr_to_reg_def seg_off_parts Let_def)

subsection \<open>Words on an untranslated stack\<close>

text \<open>Translation is off, or the segment is in the half of the segment numbers the unit passes.\<close>

definition untranslated :: "MMU \<Rightarrow> u16 \<Rightarrow> bool" where
  "untranslated u h \<longleftrightarrow>
     \<not> tst (u_mode u) MODE_MSEN \<or> \<not> tst (u_mode u) MODE_TRNS
     \<or> drop_bit 6 (ucast (drop_bit 8 h) :: u8) AND 1 \<noteq> drop_bit 5 (u_mode u) AND 1"

text \<open>A segmented CPU whose stack segment \<open>h\<close> is DRAM.\<close>

definition stack_in :: "u16 \<Rightarrow> Machine \<Rightarrow> bool" where
  "stack_in h m \<longleftrightarrow>
     SEG (m_cpu m) \<and> rw 14 (m_cpu m) = h \<and> seg_word h \<and> 0x0800 \<le> h \<and> h \<le> 0x1700
     \<and> untranslated (m_mmu m) h \<and> \<not> m_flat_mem m"

definition store_word :: "u32 \<Rightarrow> u16 \<Rightarrow> Machine \<Rightarrow> Machine" where
  "store_word a v m = set_ram (a + 1) (ucast v) (set_ram a (ucast (drop_bit 8 v)) m)"

definition word_at :: "u32 \<Rightarrow> Machine \<Rightarrow> u16" where
  "word_at a m = be16 (m_ram m a) (m_ram m (a + 1))"

lemma translate_off:
  assumes "seg_word h" "untranslated (m_mmu m) h"
  shows "run_state (translate (seg_off h off) wr fe) m = ((seg_off h off, False), m)"
proof -
  have sn: "ucast (drop_bit 16 (seg_off h off)) AND 0x7F = (ucast (drop_bit 8 h) :: u8)"
    by (rule seg_off_parts(5) [OF assms(1)])
  have "push_bit 16 (ucast ((ucast (drop_bit 8 h) :: u8) AND 0x7F)) OR ucast off = seg_off h off"
  proof (rule bit_word_eqI)
    fix n
    assume "n < LENGTH(32)"
    show "bit (push_bit 16 (ucast ((ucast (drop_bit 8 h) :: u8) AND 0x7F)) OR ucast off :: u32) n
        = bit (seg_off h off) n"
    proof (cases "n < 16")
      case True
      then show ?thesis
        by (auto simp: seg_off_def bit_simps dest: seg_word_bits [OF assms(1)])
    next
      case False
      then have "8 + (n - 16) = n - 8" by simp
      with False show ?thesis
        by (auto simp: seg_off_def bit_simps bit_seg_masks
            dest: seg_word_bits [OF assms(1)] bit_imp_le_length)
    qed
  qed
  then show ?thesis
    using assms(2)
    by (auto simp: translate_def mmu_translate_def sn seg_off_parts(3) [OF assms(1)] untranslated_def
        Let_def)
qed

lemma dram_seg:
  assumes "seg_word h" "0x0800 \<le> h" "h \<le> 0x1700"
  shows "drop_bit 16 (seg_off h off) AND 0xFF \<ge> 8" "drop_bit 16 (seg_off h off) AND 0xFF \<le> 0x17"
    "\<not> seg_off h off < ROM_SIZE" "\<not> seg_off h off < ROM_SIZE - 1"
proof -
  have n: "unat (ucast (drop_bit 8 h) :: u32) = unat h div 256"
  proof -
    have "unat (drop_bit 8 h) < 2 ^ LENGTH(16)" by (rule unsigned_less)
    then have "unat (drop_bit 8 h) < 2 ^ 32" by simp
    then have "unat (ucast (drop_bit 8 h) :: u32) = unat (drop_bit 8 h)"
      by (simp only: unsigned_ucast_eq) (simp add: take_bit_nat_eq_self)
    moreover have "unat (drop_bit 8 h) = unat h div 2 ^ 8"
      by (simp only: unat_drop_bit_eq) (simp only: drop_bit_eq_div)
    ultimately show ?thesis by simp
  qed
  have h: "0x0800 \<le> unat h" "unat h \<le> 0x1700"
    using assms(2,3) by (simp_all add: word_le_nat_alt)
  show s: "drop_bit 16 (seg_off h off) AND 0xFF \<ge> 8" "drop_bit 16 (seg_off h off) AND 0xFF \<le> 0x17"
    unfolding seg_off_parts(7) [OF assms(1)] word_le_nat_alt n using h by simp_all
  then have "seg_populated (seg_off h off AND ADDR_MASK)"
    unfolding seg_off_parts(6) [OF assms(1)] by (simp add: seg_populated_def Let_def)
  then have "0x80000 \<le> seg_off h off AND ADDR_MASK" by (simp only: seg_populated_iff)
  then show "\<not> seg_off h off < ROM_SIZE" "\<not> seg_off h off < ROM_SIZE - 1"
    unfolding seg_off_parts(6) [OF assms(1)]
    by (auto simp: word_le_nat_alt word_less_nat_alt)
qed

lemma run_stack_word:
  assumes "stack_in h m"
  shows "run_state (mem_w16 (seg_off h off) v) m = ((), store_word (seg_off h off) v m)"
    "run_state (mem_r16 (seg_off h off)) m = (word_at (seg_off h off) m, m)"
proof -
  have h: "seg_word h" "0x0800 \<le> h" "h \<le> 0x1700" "untranslated (m_mmu m) h" "\<not> m_flat_mem m"
    using assms by (simp_all add: stack_in_def)
  note d = dram_seg [OF h(1-3), of off] seg_off_parts(6) [OF h(1)]
  have "phys_write16 (seg_off h off) v m = store_word (seg_off h off) v m"
    using d h(5) by (simp add: phys_write16_def store_word_def Let_def)
  then show "run_state (mem_w16 (seg_off h off) v) m = ((), store_word (seg_off h off) v m)"
    by (simp add: mem_w16_def run_state_bind translate_off [OF h(1,4)] run_handler)
  have "phys_read16 m (seg_off h off) = word_at (seg_off h off) m"
    using d h(5) by (simp add: phys_read16_def word_at_def Let_def)
  then show "run_state (mem_r16 (seg_off h off)) m = (word_at (seg_off h off) m, m)"
    by (simp add: mem_r16_def run_state_bind translate_off [OF h(1,4)] run_handler)
qed

lemma store_word_sel [simp]:
  "m_cpu (store_word a v m) = m_cpu m" "m_mmu (store_word a v m) = m_mmu m"
  "m_flat_mem (store_word a v m) = m_flat_mem m"
  by (simp_all add: store_word_def set_ram_def)

lemma store_word_cpu [simp]: "(store_word a v m)\<lparr>m_cpu := c\<rparr> = store_word a v (m\<lparr>m_cpu := c\<rparr>)"
  by (simp add: store_word_def set_ram_def)

lemma stack_in_store [simp]: "stack_in h (store_word a v m) = stack_in h m"
  by (simp add: stack_in_def)

lemma stack_in_sp:
  "stack_in h m \<Longrightarrow> stack_in h (m\<lparr>m_cpu := ww 15 o' (m_cpu m)\<rparr>)"
  by (simp add: stack_in_def SEG_def rw_def ww_def)

lemma run_push_pop:
  assumes "stack_in h m"
  defines "c \<equiv> m_cpu m" and "sp \<equiv> rw 15 (m_cpu m)"
  shows "run_state (push_word v) m
      = ((), store_word (seg_off h (sp - 2)) v (m\<lparr>m_cpu := ww 15 (sp - 2) c\<rparr>))"
    "run_state pop_word m = (word_at (seg_off h sp) m, m\<lparr>m_cpu := ww 15 (sp + 2) c\<rparr>)"
proof -
  have h: "SEG c" "rw 14 c = h" "seg_word h"
    using assms by (simp_all add: stack_in_def)
  have same: "ww 14 h (m_cpu m) = m_cpu m" using h(2) unfolding c_def by (rule word_reg.put_same)
  note sp = segmented_sp [OF h(1), unfolded h(2), OF h(3)]
  show "run_state (push_word v) m
      = ((), store_word (seg_off h (sp - 2)) v (m\<lparr>m_cpu := ww 15 (sp - 2) c\<rparr>))"
    using stack_in_sp [OF assms(1)] h(1) sp
    by (simp add: push_word_def run_state_bind run_handler seg_off_steps [OF h(3)]
        segmented_sp_set [OF _ h(3)] same run_stack_word sp_def c_def)
  show "run_state pop_word m = (word_at (seg_off h sp) m, m\<lparr>m_cpu := ww 15 (sp + 2) c\<rparr>)"
    using h(1) sp
    by (simp add: pop_word_def run_state_bind run_handler seg_off_steps [OF h(3)]
        segmented_sp_set [OF _ h(3)] same run_stack_word [OF assms(1)] sp_def c_def)
qed

subsection \<open>The frame\<close>

lemma seg_off_inj: "seg_word h \<Longrightarrow> seg_off h a = seg_off h b \<longleftrightarrow> a = b"
  by (metis seg_off_parts(3))

lemma seg_off_succ:
  assumes "seg_word h" "even a"
  shows "seg_off h a + 1 = seg_off h (a + 1)"
proof -
  have "\<not> bit a 0" using assms(2) by (simp add: bit_0)
  then have "\<not> bit (seg_off h a) 0"
    unfolding seg_off_def bit_or_iff bit_push_bit_iff bit_unsigned_iff by (simp del: bit_0)
  then have "seg_off h a + 1 = seg_off h a OR 1" by (simp add: or_one_eq bit_0)
  moreover have "a + 1 = a OR 1" using assms(2) by (simp add: or_one_eq)
  moreover have "seg_off h a OR 1 = seg_off h (a OR 1)"
    by (rule bit_word_eqI) (auto simp: seg_off_def bit_simps)
  ultimately show ?thesis by simp
qed

lemma word_at_store:
  assumes "seg_word h" "even a" "even b"
  shows "word_at (seg_off h b) (store_word (seg_off h a) v m)
       = (if a = b then v else word_at (seg_off h b) m)"
proof -
  have "a + 1 \<noteq> b" "b + 1 \<noteq> a" using assms(2,3) by auto
  moreover have "be16 (ucast (drop_bit 8 v)) (ucast v) = v"
    by (simp add: be16_def) (rule bit_word_eqI, auto simp: bit_simps)
  ultimately show ?thesis
    using assms by (auto simp: word_at_def store_word_def set_ram_def seg_off_succ seg_off_inj)
qed

text \<open>What \<open>take_interrupt\<close> leaves below the stack pointer.\<close>

definition frame :: "u16 \<Rightarrow> u16 \<Rightarrow> u16 \<Rightarrow> u16 \<Rightarrow> u32 \<Rightarrow> Machine \<Rightarrow> Machine" where
  "frame h p tag fcw pc m =
     store_word (seg_off h p) tag
       (store_word (seg_off h (p + 2)) fcw
         (store_word (seg_off h (p + 6)) (ucast (make_seg pc))
           (store_word (seg_off h (p + 4)) (ucast (drop_bit 16 (make_seg pc))) m)))"

lemma ww_sel [simp]: "c_pc (ww r v c) = c_pc c" "c_fcw (ww r v c) = c_fcw c"
  "SEG (ww r v c) = SEG c" "ww r v (ww r x c) = ww r v c"
  by (simp_all add: ww_def SEG_def)

lemma run_push_frame:
  assumes "stack_in h m"
  shows "run_state (push_frame fcw tag) m
      = ((), frame h (rw 15 (m_cpu m) - 8) tag fcw (c_pc (m_cpu m))
               (m\<lparr>m_cpu := ww 15 (rw 15 (m_cpu m) - 8) (m_cpu m)\<rparr>))"
proof -
  let ?c = "m_cpu m" and ?sp = "rw 15 (m_cpu m)"
  have h: "SEG ?c" "rw 14 ?c = h" "seg_word h" using assms by (simp_all add: stack_in_def)
  have same: "ww 14 h ?c = ?c" using h(2) by (rule word_reg.put_same)
  note sp = segmented_sp [OF h(1), unfolded h(2), OF h(3)]
  define m1 where "m1 = m\<lparr>m_cpu := ww 15 (?sp - 4) ?c\<rparr>"
  define m2 where "m2 = store_word (seg_off h (?sp - 2)) (ucast (make_seg (c_pc ?c)))
      (store_word (seg_off h (?sp - 4)) (ucast (drop_bit 16 (make_seg (c_pc ?c)))) m1)"
  have m1: "stack_in h m1" "c_pc (m_cpu m1) = c_pc ?c"
    using stack_in_sp [OF assms] by (simp_all add: m1_def ww_def)
  have m2: "stack_in h m2" "m_cpu m2 = ww 15 (?sp - 4) ?c" using m1 by (simp_all add: m2_def m1_def)
  have e: "?sp - 4 - 2 = ?sp - 6" "?sp - 6 - 2 = ?sp - 8" "?sp - 8 + 2 = ?sp - 6"
    "?sp - 8 + 4 = ?sp - 4" "?sp - 8 + 6 = ?sp - 2" by simp_all
  have "run_state (push_frame fcw tag) m = run_state (do { push_word fcw; push_word tag }) m2"
    using h(1) sp m1
    by (simp add: push_frame_def run_state_bind run_handler seg_off_steps [OF h(3)]
        segmented_sp_set [OF _ h(3)] same run_stack_word m1_def [symmetric] m2_def)
  also have "\<dots> = ((), store_word (seg_off h (?sp - 8)) tag (store_word (seg_off h (?sp - 6)) fcw
      (m2\<lparr>m_cpu := ww 15 (?sp - 8) ?c\<rparr>)))"
  proof -
    define m3 where "m3 = store_word (seg_off h (?sp - 6)) fcw (m2\<lparr>m_cpu := ww 15 (?sp - 6) ?c\<rparr>)"
    have m3: "stack_in h m3" "m_cpu m3 = ww 15 (?sp - 6) ?c"
      using stack_in_sp [OF m2(1), of "?sp - 6"] m2(2) by (simp_all add: m3_def)
    have "run_state (push_word fcw) m2 = ((), m3)"
      using run_push_pop(1) [OF m2(1), of fcw] by (simp add: m2(2) m3_def word_reg.get_put e)
    moreover have "run_state (push_word tag) m3
        = ((), store_word (seg_off h (?sp - 8)) tag (m3\<lparr>m_cpu := ww 15 (?sp - 8) ?c\<rparr>))"
      using run_push_pop(1) [OF m3(1), of tag] by (simp add: m3(2) word_reg.get_put e)
    ultimately show ?thesis by (simp add: run_state_bind m3_def)
  qed
  finally show ?thesis
    by (simp add: frame_def e m2_def m1_def)
qed

subsection \<open>Reads that only look\<close>

text \<open>A read may record its access and a violation in the MMU, and set the fault flag.\<close>

definition looks :: "Machine \<Rightarrow> Machine \<Rightarrow> bool" where
  "looks m m' \<longleftrightarrow>
     (\<exists>u f. m' = m\<lparr>m_mmu := u, m_cpu := (m_cpu m)\<lparr>c_fault := f\<rparr>\<rparr> \<and> u_mode u = u_mode (m_mmu m))"

interpretation look: step_relation looks
proof unfold_locales
  fix m m' m'' :: Machine
  have "m = m\<lparr>m_mmu := m_mmu m, m_cpu := (m_cpu m)\<lparr>c_fault := c_fault (m_cpu m)\<rparr>\<rparr>" by simp
  then show "looks m m" unfolding looks_def by blast
  show "looks m m' \<Longrightarrow> looks m' m'' \<Longrightarrow> looks m m''"
    unfolding looks_def by (elim exE conjE) (simp, blast)
qed

lemma look_translate: "state_io_rel looks (translate a wr fe)"
proof -
  have "looks m (snd (run_state (translate a wr fe) m))" for m :: Machine
  proof -
    obtain p f u where t: "mmu_translate (ucast (drop_bit 16 a) AND 0x7F) (ucast a) wr
        (\<not> SYSMODE (m_cpu m)) fe (m_mmu m) = (p, f, u)" by (metis prod_cases3)
    have "u_mode u = u_mode (m_mmu m)" using t translate_fields(1) by (metis snd_conv)
    moreover have "snd (run_state (translate a wr fe) m)
        = m\<lparr>m_mmu := u, m_cpu := (m_cpu m)\<lparr>c_fault := f \<or> c_fault (m_cpu m)\<rparr>\<rparr>"
      by (simp add: translate_def t Let_def)
    ultimately show ?thesis unfolding looks_def by blast
  qed
  then show ?thesis by (simp add: state_io_rel_def)
qed

lemma look_mem_r16: "state_io_rel looks (mem_r16 a)"
  unfolding mem_r16_def by (intro look.io_rules look_translate)

lemma look_vector: "looks m (snd (run_state (fetch_vector va pv) m))"
proof -
  have "state_io_rel looks (fetch_vector va pv)"
    unfolding fetch_vector_def by (intro look.io_rules look_mem_r16)
  then show ?thesis by (simp add: state_io_rel_def)
qed

subsection \<open>Into a handler and back\<close>

definition banks :: "CPU \<Rightarrow> (nib \<Rightarrow> u16) \<times> u16 \<times> u16" where
  "banks c = (c_R c, c_nspseg c, c_nspoff c)"

lemma banks_swap:
  "banks c = banks d \<Longrightarrow> banks (swap_spoff c) = banks (swap_spoff d)"
  "banks c = banks d \<Longrightarrow> banks (swap_spseg c) = banks (swap_spseg d)"
  "banks (c\<lparr>c_fcw := f\<rparr>) = banks c"
  by (simp_all add: banks_def swap_spoff_def swap_spseg_def rw_def ww_def Let_def)

text \<open>Trap entry changes the banks as its return expects, from every mode.\<close>

lemma trap_banks:
  fixes c d
  defines "f \<equiv> c_fcw c"
  assumes "banks d = banks (change_fcw (f OR FCW_SN OR FCW_SEG) c)"
    and "tst (c_fcw d) FCW_SN" "tst (c_fcw d) FCW_SEG"
  shows "banks (change_fcw f d) = banks c"
proof -
  have on: "tst (f OR FCW_SN OR FCW_SEG) FCW_SN" "tst (f OR FCW_SN OR FCW_SEG) FCW_SEG" by simp_all
  consider "\<not> tst f FCW_SN" | "tst f FCW_SN" "tst f FCW_SEG" | "tst f FCW_SN" "\<not> tst f FCW_SEG" by blast
  then show ?thesis
  proof cases
    case 1
    then have "banks d = banks (swap_spseg (swap_spoff c))"
      using assms(2) on by (simp add: change_fcw_def Let_def f_def [symmetric] tst_xor_modes banks_swap(3))
    then have "banks (swap_spseg (swap_spoff d)) = banks c"
      by (metis banks_swap(1,2) swap_commute swap_spoff_twice swap_spseg_twice)
    with 1 assms(3,4) show ?thesis by (simp add: change_fcw_def Let_def tst_xor_modes banks_swap(3))
  next
    case 2
    then show ?thesis
      using assms(2-4) on by (simp add: change_fcw_def Let_def f_def [symmetric] tst_xor_modes banks_swap(3))
  next
    case 3
    then have "banks d = banks (swap_spseg c)"
      using assms(2) on by (simp add: change_fcw_def Let_def f_def [symmetric] tst_xor_modes banks_swap(3))
    then have "banks (swap_spseg d) = banks c" by (metis banks_swap(2) swap_spseg_twice)
    with 3 assms(3,4) show ?thesis by (simp add: change_fcw_def Let_def tst_xor_modes banks_swap(3))
  qed
qed

text \<open>The machine at the first instruction of the handler.\<close>

lemma run_take_interrupt:
  fixes m vecoff irq kind
  defines "c \<equiv> m_cpu m"
  defines "c1 \<equiv> change_fcw (c_fcw c OR FCW_SN OR FCW_SEG) c"
  assumes stack: "stack_in h (m\<lparr>m_cpu := c1\<rparr>)"
  obtains tag u f pc nf q ser where
    "snd (run_state (take_interrupt None vecoff irq kind) m)
      = (frame h (rw 15 c1 - 8) tag (c_fcw c) (c_pc c) m)
          \<lparr>m_mmu := u, m_cpu := (change_fcw nf ((ww 15 (rw 15 c1 - 8) (c1\<lparr>c_irq_req := q\<rparr>))
             \<lparr>c_fault := f, c_pc := pc\<rparr>))\<lparr>c_halted := False, c_serviced := ser\<rparr>\<rparr>"
    "u_mode u = u_mode (m_mmu m)"
proof -
  define q where "q = c_irq_req c1 AND NOT irq"
  define m1 where "m1 = m\<lparr>m_cpu := c1\<lparr>c_irq_req := q\<rparr>\<rparr>"
  have m1: "stack_in h m1" "rw 15 (m_cpu m1) = rw 15 c1" "c_pc (m_cpu m1) = c_pc c"
    using stack by (simp_all add: stack_in_def m1_def SEG_def rw_def c1_def change_fcw_def Let_def
        swap_spoff_def swap_spseg_def)
  obtain vec per tag where run: "run_state (take_interrupt None vecoff irq kind) m =
      run_state (do { push_frame (c_fcw c) tag;
        v \<leftarrow> fetch_vector vec per;
        modc (\<lambda>c. c\<lparr>c_pc := pc_of_words (fst (snd v)) (snd (snd v))\<rparr>);
        modc (change_fcw (fst v));
        modc (\<lambda>c. c\<lparr>c_halted := False, c_serviced := irq\<rparr>) }) m1"
    by (simp add: take_interrupt_def call_hook_def run_state_bind run_handler m1_def q_def c1_def c_def)
  define m2 where "m2 = frame h (rw 15 c1 - 8) tag (c_fcw c) (c_pc c)
      (m1\<lparr>m_cpu := ww 15 (rw 15 c1 - 8) (m_cpu m1)\<rparr>)"
  have push: "run_state (push_frame (c_fcw c) tag) m1 = ((), m2)"
    using run_push_frame [OF m1(1)] by (simp add: m1(2,3) m2_def)
  obtain v m3 where vec: "run_state (fetch_vector vec per) m2 = (v, m3)" by fastforce
  then obtain u f where m3: "m3 = m2\<lparr>m_mmu := u, m_cpu := (m_cpu m2)\<lparr>c_fault := f\<rparr>\<rparr>"
      "u_mode u = u_mode (m_mmu m2)"
    using look_vector [of m2 vec per] by (auto simp: looks_def)
  show ?thesis
  proof (rule that)
    show "u_mode u = u_mode (m_mmu m)" using m3(2) by (simp add: m2_def frame_def m1_def)
    show "snd (run_state (take_interrupt None vecoff irq kind) m)
      = (frame h (rw 15 c1 - 8) tag (c_fcw c) (c_pc c) m)
          \<lparr>m_mmu := u, m_cpu := (change_fcw (fst v) ((ww 15 (rw 15 c1 - 8) (c1\<lparr>c_irq_req := q\<rparr>))
             \<lparr>c_fault := f, c_pc := pc_of_words (fst (snd v)) (snd (snd v))\<rparr>))
             \<lparr>c_halted := False, c_serviced := irq\<rparr>\<rparr>"
    proof -
      have "snd (run_state (take_interrupt None vecoff irq kind) m) = m3\<lparr>m_cpu :=
          (change_fcw (fst v) ((m_cpu m3)\<lparr>c_pc := pc_of_words (fst (snd v)) (snd (snd v))\<rparr>))
            \<lparr>c_halted := False, c_serviced := irq\<rparr>\<rparr>"
        unfolding run by (simp add: run_state_bind run_handler push vec)
      then show ?thesis
        by (simp add: m3(1) m2_def frame_def m1_def ww_def set_R_def store_word_def set_ram_def)
    qed
  qed
qed

text \<open>The way back, from a machine whose frame is on top of the stack.\<close>

lemma run_iret:
  fixes m
  defines "c \<equiv> m_cpu m" and "sp \<equiv> rw 15 (m_cpu m)"
  assumes "stack_in h m" "SYSMODE (m_cpu m)"
  shows "snd (run_state exec_iret m) = m\<lparr>m_cpu := change_fcw (word_at (seg_off h (sp + 2)) m)
      ((ww 15 (sp + 8) c)\<lparr>c_pc := seg_addr (push_bit 16 (ucast (word_at (seg_off h (sp + 4)) m))
          OR ucast (word_at (seg_off h (sp + 6)) m))\<rparr>)\<rparr>"
proof -
  have word [simp]: "word_at a (m\<lparr>m_cpu := d\<rparr>) = word_at a m" for a d by (simp add: word_at_def)
  have pop: "run_state pop_word (m\<lparr>m_cpu := ww 15 x c\<rparr>)
      = (word_at (seg_off h x) m, m\<lparr>m_cpu := ww 15 (x + 2) c\<rparr>)" for x
    using run_push_pop(2) [OF stack_in_sp [OF assms(3), of x]]
    by (simp add: word_reg.get_put c_def)
  have first: "run_state pop_word m = (word_at (seg_off h sp) m, m\<lparr>m_cpu := ww 15 (sp + 2) c\<rparr>)"
    using run_push_pop(2) [OF assms(3)] by (simp add: c_def sp_def)
  have "SEG c" using assms(3) by (simp add: stack_in_def c_def)
  then show ?thesis
    using assms(4)
    by (simp add: exec_iret_def check_priv_def run_state_bind run_handler first pop c_def [symmetric]
        add.assoc)
qed

lemma word_at_fields [simp]:
  "word_at a (m\<lparr>m_mmu := u\<rparr>) = word_at a m" "word_at a (m\<lparr>m_cpu := d\<rparr>) = word_at a m"
  by (simp_all add: word_at_def)

lemma frame_words:
  assumes "seg_word h" "even p"
  shows "word_at (seg_off h (p + 2)) (frame h p tag fcw pc m) = fcw"
    "word_at (seg_off h (p + 4)) (frame h p tag fcw pc m) = ucast (drop_bit 16 (make_seg pc))"
    "word_at (seg_off h (p + 6)) (frame h p tag fcw pc m) = ucast (make_seg pc)"
  using assms by (simp_all add: frame_def word_at_store)

definition frame_cells :: "u16 \<Rightarrow> u16 \<Rightarrow> u32 list" where
  "frame_cells h p = map (\<lambda>k. seg_off h (p + of_nat k)) [0..<8]"

lemma frame_ram:
  assumes "seg_word h" "even p" "a \<notin> set (frame_cells h p)"
  shows "m_ram (frame h p tag fcw pc m) a = m_ram m a"
proof -
  have "a \<noteq> seg_off h p" "a \<noteq> seg_off h (p + 1)" "a \<noteq> seg_off h (p + 2)" "a \<noteq> seg_off h (p + 3)"
    "a \<noteq> seg_off h (p + 4)" "a \<noteq> seg_off h (p + 5)" "a \<noteq> seg_off h (p + 6)" "a \<noteq> seg_off h (p + 7)"
    using assms(3) by (simp_all add: frame_cells_def upt_rec)
  moreover from this have "a \<noteq> seg_off h (3 + p)" "a \<noteq> seg_off h (5 + p)" "a \<noteq> seg_off h (7 + p)"
    by (simp_all only: add.commute [of _ p] not_False_eq_True)
  ultimately show ?thesis
    using assms(1,2) by (simp add: frame_def store_word_def set_ram_def seg_off_succ)
qed

text \<open>C2: A trap or interrupt on a good stack is transparent.  The conditions: a machine without a
  system-call hook and not in flat-memory mode; a system stack that, seen after the switch to segmented system
  mode (\<open>c1\<close>), is an even offset under a clean segment word in R14, in one of the segments 08 to 17,
  which the MMU does not translate (\<open>stack_in\<close>); a program counter that is a 7-bit segment above a 16-bit
  offset; and a flag and control word of the handler, fetched from the vector, with the system and
  segmentation bits set.  Then, whichever of normal, system segmented and system non-segmented mode
  the interrupted program was in, taking the interrupt and executing IRET in the state it leaves restores all
  sixteen registers, the program counter, the flag and control word, both saved stack pointers and
  the program status area pointer, and changes no memory outside the eight bytes of the frame below
  the system stack pointer.\<close>

theorem trap_round_trip:
  fixes m vecoff irq kind
  defines "c \<equiv> m_cpu m"
  defines "c1 \<equiv> change_fcw (c_fcw c OR FCW_SN OR FCW_SEG) c"
  defines "m' \<equiv> snd (run_state (take_interrupt None vecoff irq kind) m)"
  defines "m'' \<equiv> snd (run_state exec_iret m')"
  assumes "stack_in h (m\<lparr>m_cpu := c1\<rparr>)" "even (rw 15 c1)" "c_pc c AND 0x7FFFFF = c_pc c"
    and "SYSMODE (m_cpu m')" "SEG (m_cpu m')"
  shows "c_R (m_cpu m'') = c_R c \<and> c_pc (m_cpu m'') = c_pc c \<and> c_fcw (m_cpu m'') = c_fcw c
    \<and> c_nspseg (m_cpu m'') = c_nspseg c \<and> c_nspoff (m_cpu m'') = c_nspoff c
    \<and> c_psap (m_cpu m'') = c_psap c
    \<and> (\<forall>a. a \<in> set (frame_cells h (rw 15 c1 - 8)) \<or> m_ram m'' a = m_ram m a)"
proof -
  let ?p = "rw 15 c1 - 8"
  obtain tag u f pc nf q ser where u: "u_mode u = u_mode (m_mmu m)" and m':
    "m' = (frame h ?p tag (c_fcw c) (c_pc c) m) \<lparr>m_mmu := u, m_cpu := (change_fcw nf
        ((ww 15 ?p (c1\<lparr>c_irq_req := q\<rparr>))\<lparr>c_fault := f, c_pc := pc\<rparr>))
          \<lparr>c_halted := False, c_serviced := ser\<rparr>\<rparr>"
    using run_take_interrupt [OF assms(5) [unfolded c1_def c_def], of vecoff irq kind]
    unfolding m'_def c1_def c_def by metis
  have nf: "tst nf FCW_SN" "tst nf FCW_SEG"
    using assms(8,9) by (simp_all add: m' SYSMODE_def SEG_def change_fcw_def Let_def)
  have c1: "tst (c_fcw c1) FCW_SN" "tst (c_fcw c1) FCW_SEG" by (simp_all add: c1_def change_fcw_def Let_def)
  define d where "d = ((ww 15 ?p (c1\<lparr>c_irq_req := q\<rparr>))\<lparr>c_fault := f, c_pc := pc\<rparr>)
      \<lparr>c_fcw := nf, c_halted := False, c_serviced := ser\<rparr>"
  have cpu: "m_cpu m' = d"
    using nf c1 by (simp add: m' d_def change_fcw_def Let_def tst_xor_modes)
  have ram: "m_ram m' = m_ram (frame h ?p tag (c_fcw c) (c_pc c) m)" by (simp add: m')
  have h: "seg_word h" "rw 14 c1 = h" using assms(5) by (simp_all add: stack_in_def)
  have p: "even ?p" using assms(6) by simp
  have words: "word_at (seg_off h (?p + 2)) m' = c_fcw c"
    "word_at (seg_off h (?p + 4)) m' = ucast (drop_bit 16 (make_seg (c_pc c)))"
    "word_at (seg_off h (?p + 6)) m' = ucast (make_seg (c_pc c))"
    using frame_words [OF h(1) p] by (simp_all only: m' word_at_fields)
  have stack: "stack_in h m'"
    using assms(5) nf u
    by (simp add: stack_in_def cpu d_def SEG_def rw_def ww_def untranslated_def)
       (simp add: m' frame_def)
  have rd: "rw 15 d = ?p" by (simp add: d_def rw_def ww_def)
  have "SYSMODE (m_cpu m')" by (rule assms(8))
  from run_iret [OF stack this]
  have m'': "m'' = m'\<lparr>m_cpu := change_fcw (c_fcw c) ((ww 15 (?p + 8) d)\<lparr>c_pc := c_pc c\<rparr>)\<rparr>"
    unfolding m''_def by (simp only: cpu rd words seg_addr_make [OF assms(7)])
  let ?e = "(ww 15 (?p + 8) d)\<lparr>c_pc := c_pc c\<rparr>"
  have "banks ?e = banks c1" by (simp add: banks_def d_def ww_def rw_def)
  then have "banks (change_fcw (c_fcw c) ?e) = banks c"
    unfolding c1_def by (rule trap_banks) (simp_all add: d_def nf)
  moreover have "m_ram m'' a = m_ram m a" if "a \<notin> set (frame_cells h ?p)" for a
    using frame_ram [OF h(1) p that] by (simp add: m'' ram)
  moreover have "c_psap ?e = c_psap c"
    by (simp add: d_def c1_def ww_def set_R_def change_fcw_def Let_def swap_spoff_def swap_spseg_def)
  ultimately show ?thesis
    by (auto simp: m'' banks_def change_fcw_def Let_def swap_spoff_def swap_spseg_def ww_def set_R_def)
qed

text \<open>A system call from normal mode, the system stack at the bottom of the DRAM.\<close>

definition trap_machine :: Machine where
  "trap_machine = machine_zero
     \<lparr>m_rom := (\<lambda>a. if a = 0x1A then 0xC0 else if a = 0x1F then 0x40 else 0),
      m_cpu := cpu_zero\<lparr>c_R := (\<lambda>r. ucast r + 1), c_pc := 0x00080100, c_fcw := 0x1880,
        c_nspseg := 0x0800, c_nspoff := 0x2000\<rparr>\<rparr>"

lemma trap_machine_entry:
  "(let c = m_cpu (snd (run_state (take_interrupt None V_SYSCALL IRQ_SYSCALL 0) trap_machine))
    in SYSMODE c \<and> SEG c \<and> c_pc c = 0x40)"
proof -
  let ?c = "m_cpu trap_machine"
  let ?c1 = "change_fcw (c_fcw ?c OR FCW_SN OR FCW_SEG) ?c"
  let ?m1 = "trap_machine\<lparr>m_cpu := ?c1\<lparr>c_irq_req := 0\<rparr>\<rparr>"
  have s: "stack_in 0x0800 ?m1" "vector_addr V_SYSCALL ?c = 0x18" "vi_slot 0 ?c = 0"
    "c_fcw ?c = 0x1880" "c_cur_op ?c = 0" "c_irq_req ?c1 AND NOT IRQ_SYSCALL = 0" by code_simp+
  define m2 where "m2 = snd (run_state (push_frame 0x1880 0) ?m1)"
  have m2: "run_state (push_frame 0x1880 0) ?m1 = ((), m2)" "m_rom m2 = m_rom trap_machine" "m_mmu m2 = mmu_zero" "\<not> m_flat_mem m2"
    using run_push_frame [OF s(1), of "0x1880" 0] by (simp_all add: m2_def frame_def trap_machine_def machine_zero_def store_word_def set_ram_def)
  have tr: "run_state (translate (ucast off) False False) m2 = ((ucast off, False), m2)" for off :: u16
    using translate_off [where h = 0 and m = m2 and off = off and wr = False and fe = False] m2(3) by (simp add: seg_word_def seg_off_def untranslated_def mmu_zero_def)
  have vec: "run_state (fetch_vector 0x18 0) m2 = ((0xC000, 0, 0x40), m2)"
    using tr [of "0x1A"] tr [of "0x1C"] tr [of "0x1E"]
    by (simp add: fetch_vector_def mem_r16_def run_state_bind run_handler run_state_return addr_add_def
       phys_read16_def m2(2,4) trap_machine_def be16_def)
  have "snd (run_state (take_interrupt None V_SYSCALL IRQ_SYSCALL 0) trap_machine)
    = m2\<lparr>m_cpu := (change_fcw 0xC000 ((m_cpu m2)\<lparr>c_pc := pc_of_words 0 0x40\<rparr>))\<lparr>c_halted := False, c_serviced := IRQ_SYSCALL\<rparr>\<rparr>"
    using m2(1) s(6) by (simp add: take_interrupt_def call_hook_def run_state_bind run_handler s(2-5) vec)
  then show ?thesis by (simp add: SYSMODE_def SEG_def change_fcw_def pc_of_words_def Let_def swap_spoff_def swap_spseg_def)
qed

theorem trap_round_trip_witness:
  "let m' = snd (run_state (take_interrupt None V_SYSCALL IRQ_SYSCALL 0) trap_machine);
       m'' = snd (run_state exec_iret m')
   in c_pc (m_cpu m') = 0x40 \<and> c_pc (m_cpu m'') = 0x00080100 \<and> c_fcw (m_cpu m'') = 0x1880
      \<and> c_R (m_cpu m'') = (\<lambda>r. ucast r + 1)"
proof -
  let ?c1 = "change_fcw (c_fcw (m_cpu trap_machine) OR FCW_SN OR FCW_SEG) (m_cpu trap_machine)"
  have "stack_in 0x0800 (trap_machine\<lparr>m_cpu := ?c1\<rparr>) \<and> rw 15 ?c1 = 0x2000
      \<and> c_pc (m_cpu trap_machine) AND 0x7FFFFF = c_pc (m_cpu trap_machine)"
    by code_simp
  moreover from this have "even (rw 15 ?c1)" by simp
  ultimately show ?thesis
    using trap_round_trip [of "0x0800" trap_machine V_SYSCALL IRQ_SYSCALL 0] trap_machine_entry
    by (simp add: Let_def trap_machine_def)
qed

end
