(* ===== verification/Cpu_Mode.thy ===== *)
theory Cpu_Mode
  imports Cpu_Step Decode_Props
begin

text \<open>
  Privilege in \<open>src/src/cpu.c\<close>.  A program in normal mode cannot change the mode bits of the
  flag word, the control registers, the mapping, the port registers or any device: whatever
  instruction the decoder returns, executing it leaves the privileged part of the machine as
  it was.  The step relation of the state monad carries the fact through the handlers.
\<close>

subsection \<open>The privileged part of the machine\<close>

text \<open>What is left of the CPU when everything a normal-mode program may change is blanked.\<close>

definition cpu_guard :: "CPU \<Rightarrow> CPU" where
  "cpu_guard c =
     c\<lparr>c_R := \<lambda>_. 0, c_pc := 0, c_fcw := c_fcw c AND 0xFF00, c_irq_req := 0, c_cur_op := 0,
       c_opcode := \<lambda>_. 0, c_oplen := 0, c_seg_w1 := False, c_seg_w2 := False,
       c_instr_start := 0, c_repeat_pending := False, c_fault := False, c_insns := 0,
       c_serviced := 0\<rparr>"

text \<open>The mapping: everything but the accounting bits and the violation registers.\<close>

definition mmu_guard :: "MMU \<Rightarrow> MMU" where
  "mmu_guard u =
     u\<lparr>u_desc := (\<lambda>i. (u_desc u i)\<lparr>d_attr := d_attr (u_desc u i) AND NOT (A_REF OR A_CHG)\<rparr>),
       u_viol_type := 0, u_viol_sn := 0, u_viol_off := 0, u_bcsr := 0, u_viol_captured := False,
       u_segt := False, u_warn_pending := False\<rparr>"

text \<open>
  The machine without memory; the breakpoint table and the stop it may raise belong to the
  debugger.
\<close>

definition privileged :: "Machine \<Rightarrow> Machine" where
  "privileged m =
     m\<lparr>m_cpu := cpu_guard (m_cpu m), m_mmu := mmu_guard (m_mmu m), m_ram := \<lambda>_. 0,
       m_brks := [], m_stop := False, m_stop_why := [], m_ub := False\<rparr>"

definition guarded :: "Machine \<Rightarrow> Machine \<Rightarrow> bool" where
  "guarded m m' \<longleftrightarrow> SYSMODE (m_cpu m) \<or> privileged m' = privileged m"

lemma fcw_high: "tst (f AND 0xFF00) FCW_SN = tst f FCW_SN" for f :: u16
  by simp

lemma privileged_sysmode:
  assumes "privileged m = privileged m'"
  shows "SYSMODE (m_cpu m) = SYSMODE (m_cpu m')"
proof -
  have "c_fcw (m_cpu (privileged m)) = c_fcw (m_cpu (privileged m'))" using assms by simp
  then have "c_fcw (m_cpu m) AND 0xFF00 = c_fcw (m_cpu m') AND 0xFF00"
    by (simp add: privileged_def cpu_guard_def)
  then show ?thesis unfolding SYSMODE_def by (metis fcw_high)
qed

interpretation guard: step_relation guarded
proof unfold_locales
  fix m m' m''
  show "guarded m m" by (simp add: guarded_def)
  show "guarded m m' \<Longrightarrow> guarded m' m'' \<Longrightarrow> guarded m m''"
    using privileged_sysmode [of m m'] by (auto simp: guarded_def)
qed

lemma guard_modc: "(\<And>c. cpu_guard (f c) = cpu_guard c) \<Longrightarrow> state_io_rel guarded (modc f)"
  by (rule guard.io_modc) (simp add: guarded_def privileged_def)

lemma guard_modm: "(\<And>m. privileged (f m) = privileged m) \<Longrightarrow> state_io_rel guarded (modm f)"
  by (rule guard.io_modm) (simp add: guarded_def)

text \<open>Behind \<open>check_priv\<close> a handler only has to keep the part when it is refused.\<close>

lemma guard_request: "cpu_guard (request b c) = cpu_guard c"
  by (simp add: cpu_guard_def request_def)

lemma guard_check_priv:
  assumes "state_io_rel guarded (g False)"
  shows "state_io_rel guarded (State_Monad.bind check_priv g)"
proof -
  have "guarded m m'" if r: "run_state (State_Monad.bind check_priv g) m = (a, m')" for m a m'
  proof (cases "SYSMODE (m_cpu m)")
    case True
    then show ?thesis by (simp add: guarded_def)
  next
    case False
    let ?m = "m\<lparr>m_cpu := request IRQ_TRAP (m_cpu m)\<rparr>"
    have run: "run_state (g False) ?m = (a, m')"
      using r False by (simp add: check_priv_def run_handler run_state_bind)
    have "guarded m ?m" by (simp add: guarded_def privileged_def guard_request)
    moreover have "guarded ?m m'" using assms run unfolding state_io_rel_def by (metis snd_conv)
    ultimately show ?thesis by (rule guard.R_trans)
  qed
  then show ?thesis unfolding state_io_rel_def by (metis prod.collapse)
qed

subsection \<open>Registers, flags and memory\<close>

named_theorems guard_simps

lemma guard_set_R [guard_simps]: "cpu_guard (set_R r v c) = cpu_guard c"
  by (simp add: cpu_guard_def set_R_def)

lemma guard_reg [guard_simps]:
  "cpu_guard (wb r v c) = cpu_guard c" "cpu_guard (ww r x c) = cpu_guard c"
  "cpu_guard (wl r y c) = cpu_guard c" "cpu_guard (wq r z c) = cpu_guard c"
  by (simp_all add: wb_def ww_def wl_def wq_def Let_def guard_set_R)

lemma guard_reg_write [guard_simps]: "cpu_guard (reg_write r v w c) = cpu_guard c"
  "cpu_guard (ureg_write s v w c) = cpu_guard c"
  by (simp_all add: ureg_write_def reg_write_def guard_reg split: Width.splits)

lemma guard_addr_reg [guard_simps]:
  "cpu_guard (addr_to_reg r a c) = cpu_guard c" "cpu_guard (add_to_addr_reg r d c) = cpu_guard c"
  by (simp_all add: addr_to_reg_def add_to_addr_reg_def guard_reg Let_def)

lemma guard_fields [guard_simps]:
  "cpu_guard (c\<lparr>c_pc := a\<rparr>) = cpu_guard c" "cpu_guard (c\<lparr>c_irq_req := q\<rparr>) = cpu_guard c"
  "cpu_guard (c\<lparr>c_repeat_pending := b\<rparr>) = cpu_guard c"
  "cpu_guard (c\<lparr>c_fault := b\<rparr>) = cpu_guard c" "cpu_guard (c\<lparr>c_insns := n\<rparr>) = cpu_guard c"
  "cpu_guard (c\<lparr>c_serviced := q\<rparr>) = cpu_guard c" "cpu_guard (c\<lparr>c_cur_op := v\<rparr>) = cpu_guard c"
  "cpu_guard (c\<lparr>c_oplen := k\<rparr>) = cpu_guard c" "cpu_guard (set_opcode i v c) = cpu_guard c"
  by (simp_all add: cpu_guard_def set_opcode_def)

text \<open>A new flag word that agrees with the old one above the flags.\<close>

lemma guard_fcw:
  assumes "f AND 0xFF00 = c_fcw c AND 0xFF00"
  shows "cpu_guard (c\<lparr>c_fcw := f\<rparr>) = cpu_guard c"
  using assms by (simp add: cpu_guard_def)

lemma high_part:
  fixes x mk f :: u16
  assumes "mk AND 0xFF00 = 0"
  shows "((x AND NOT mk) OR (f AND mk)) AND 0xFF00 = x AND 0xFF00"
    "(x OR mk) AND 0xFF00 = x AND 0xFF00" "(x AND NOT mk) AND 0xFF00 = x AND 0xFF00"
    "(x XOR mk) AND 0xFF00 = x AND 0xFF00"
proof -
  have b: "bit mk i \<and> 8 \<le> i \<and> i < 16 \<longleftrightarrow> False" for i
    using assms [THEN arg_cong, of "\<lambda>w. bit w i"] by (auto simp: bit_simps bit_byte_masks)
  show "((x AND NOT mk) OR (f AND mk)) AND 0xFF00 = x AND 0xFF00"
    "(x OR mk) AND 0xFF00 = x AND 0xFF00" "(x AND NOT mk) AND 0xFF00 = x AND 0xFF00"
    "(x XOR mk) AND 0xFF00 = x AND 0xFF00"
    by (rule bit_word_eqI, use b in \<open>auto simp: bit_simps bit_byte_masks\<close>)+
qed

lemma guard_merge: "mk AND 0xFF00 = 0 \<Longrightarrow> cpu_guard (merge_flags mk f c) = cpu_guard c"
  unfolding merge_flags_def by (rule guard_fcw) (rule high_part(1))

lemma guard_put_flag: "mk AND 0xFF00 = 0 \<Longrightarrow> cpu_guard (put_flag mk b c) = cpu_guard c"
  unfolding put_flag_def by (rule guard_fcw) (simp add: high_part)

lemma rmask_low: "rmask (alu_exec opn a b k w) AND 0xFF00 = 0"
  by (cases opn)
    (simp_all add: alu_exec_def do_add_def do_sub_def logic_def logic_mask_def do_neg_def do_inc_def
      do_dec_def do_shift_left_def do_shift_right_def do_rotate_def do_dab_def Let_def
      split: prod.splits)

lemma guard_apply [guard_simps]: "cpu_guard (apply_flags (alu_exec opn a b k w) c) = cpu_guard c"
  unfolding apply_flags_def by (rule guard_merge) (rule rmask_low)

lemma guard_flag [guard_simps]:
  "cpu_guard (put_flag F_Z b c) = cpu_guard c" "cpu_guard (put_flag F_PV b c) = cpu_guard c"
  "cpu_guard (merge_flags 0x00FC f c) = cpu_guard c"
  "cpu_guard (merge_flags 0x0050 f c) = cpu_guard c"
  "cpu_guard (merge_flags 0x00F0 f c) = cpu_guard c"
  by (simp_all add: guard_put_flag guard_merge)

lemmas [guard_simps] = guard_request

subsection \<open>Memory\<close>

lemma mmu_guard_account: "mmu_guard (account i wr u) = mmu_guard u"
proof -
  have a: "(x OR A_REF) AND NOT (A_REF OR A_CHG) = x AND NOT (A_REF OR A_CHG)"
    "(x OR A_CHG) AND NOT (A_REF OR A_CHG) = x AND NOT (A_REF OR A_CHG)" for x :: u8
    by (simp_all add: bit.conj_disj_distrib2)
  show ?thesis
    by (simp add: mmu_guard_def account_def set_attr_def Let_def fun_eq_iff a
        bit.conj_disj_distrib2)
qed

lemma mmu_guard_latch: "mmu_guard (latch_viol v sn off wr nm st sp u) = mmu_guard u"
  by (simp add: mmu_guard_def latch_viol_def Let_def)

lemma mmu_guard_translate: "mmu_guard (snd (snd (mmu_translate sn off wr nm fe u))) = mmu_guard u"
  by (simp add: mmu_translate_def Let_def mmu_guard_account mmu_guard_latch)

lemma privileged_ram: "privileged (set_ram a v m) = privileged m"
  by (simp add: privileged_def set_ram_def)

lemma privileged_phys_write:
  "privileged (phys_write8 a v m) = privileged m" "privileged (phys_write16 a x m) = privileged m"
  by (simp_all add: phys_write8_def phys_write16_def privileged_ram Let_def)

lemma guard_translate: "state_io_rel guarded (translate a wr fe)"
proof -
  have "privileged (snd (run_state (translate a wr fe) m)) = privileged m" for m
    by (simp add: translate_def privileged_def guard_fields Let_def
        split: prod.splits)
      (metis mmu_guard_translate snd_conv)
  then show ?thesis by (simp add: state_io_rel_def guarded_def)
qed

lemma guard_memory:
  "state_io_rel guarded (ifetch16 a)" "state_io_rel guarded (mem_r16 a)"
  "state_io_rel guarded (mem_w16 a x)" "state_io_rel guarded (mem_r8 a)"
  "state_io_rel guarded (mem_w8 a v)"
  unfolding ifetch16_def mem_r16_def mem_w16_def mem_r8_def mem_w8_def
  by (intro guard.io_rules guard_translate guard_modm privileged_phys_write)+

lemma guard_memory_w:
  "state_io_rel guarded (mem_read_w a w)" "state_io_rel guarded (mem_write_w a v w)"
  unfolding mem_read_w_def mem_write_w_def by (intro guard.io_rules guard_memory)+

lemma guard_stack: "state_io_rel guarded (push_word v)" "state_io_rel guarded pop_word"
  unfolding push_word_def pop_word_def
  by (intro guard.io_rules guard_memory guard_modc; simp add: guard_simps)+

lemmas guard_rules = guard.io_rules guard_memory guard_memory_w guard_stack

subsection \<open>The handlers\<close>

lemma guard_count_down: "state_io_rel guarded (count_down r)" "state_io_rel guarded (repeat_if b)"
  unfolding count_down_def repeat_if_def
  by (intro guard_rules guard_modc; simp add: guard_simps)+

lemma guard_unified: "state_io_rel guarded (exec_unified w)"
  unfolding exec_unified_def Let_def
  by (intro guard_rules guard_modc; simp add: guard_simps)

lemma guard_pure:
  "cpu_guard (exec_exts w c) = cpu_guard c" "cpu_guard (exec_tcc w c) = cpu_guard c"
  "cpu_guard (exec_dab c) = cpu_guard c" "cpu_guard (exec_lea w c) = cpu_guard c"
  "cpu_guard (exec_bcdrotate w c) = cpu_guard c" "cpu_guard (exec_bitdynamic w c) = cpu_guard c"
  "cpu_guard (exec_djnz c) = cpu_guard c" "cpu_guard (exec_shift w c) = cpu_guard c"
  "cpu_guard (jump_if cc t c) = cpu_guard c"
  by (simp_all add: exec_exts_def exec_tcc_def exec_dab_def exec_lea_def exec_bcdrotate_def
      exec_bitdynamic_def exec_djnz_def exec_shift_def jump_if_def guard_simps Let_def
      split: prod.splits)

lemma guard_call: "state_io_rel guarded (call_to t)"
  unfolding call_to_def by (intro guard_rules guard_modc; simp add: guard_simps)

lemma guard_ret: "state_io_rel guarded exec_ret"
  unfolding exec_ret_def by (intro guard_rules guard_modc; simp add: guard_simps)

lemma guard_branch: "state_io_rel guarded (exec_branch w)"
  unfolding exec_branch_def
  by (cases "cw_br_mode w";
      simp only: BranchMode.case;
      intro guard_rules guard_modc guard_call guard_ret;
      simp add: guard_pure)

lemma guard_stack_ops:
  "state_io_rel guarded (stack_predec sp n)" "state_io_rel guarded (stack_postinc sp a n)"
  "state_io_rel guarded (store_long a h l)" "state_io_rel guarded (load_long a)"
  unfolding stack_predec_def stack_postinc_def store_long_def load_long_def
  by (intro guard_rules guard_modc; simp add: guard_simps)+

lemma guard_exec_stack: "state_io_rel guarded (exec_stack w)"
  unfolding exec_stack_def Let_def
  by (cases "cw_stk_mode w";
      simp only: StackMode.case;
      intro guard_rules guard_stack_ops guard_modc;
      simp add: guard_simps)

lemma guard_mul: "state_io_rel guarded (exec_mul w)"
  unfolding exec_mul_def Let_def
  by (cases "cw_src2 w";
      simp only: SrcSel.case;
      intro guard_rules guard_modc;
      simp add: guard_simps)

lemma guard_div_parts:
  "state_io_rel guarded (note_div_overflow k a b)" "state_io_rel guarded (div_operand w width)"
proof -
  show "state_io_rel guarded (note_div_overflow k a b)"
    unfolding note_div_overflow_def
    by (intro guard_rules guard_modm) (simp add: privileged_def)
  show "state_io_rel guarded (div_operand w width)"
    unfolding div_operand_def Let_def
    by (cases "cw_src2 w"; simp only: SrcSel.case; intro guard_rules)
qed

lemma guard_div: "state_io_rel guarded (exec_div w)"
  unfolding exec_div_def Let_def case_prod_beta
  by (intro guard_rules guard_div_parts guard_modc;
      simp add: guard_simps split: option.splits prod.splits)

lemma guard_ldm: "state_io_rel guarded (exec_ldm w)"
  unfolding exec_ldm_def Let_def by (intro guard_rules guard_modc; simp add: guard_simps)

lemma guard_exchange: "state_io_rel guarded (exec_exchange w)"
  unfolding exec_exchange_def Let_def by (intro guard_rules guard_modc; simp add: guard_simps)

lemma guard_exec_translate: "state_io_rel guarded (exec_translate w)"
  unfolding exec_translate_def Let_def
  by (intro guard_rules guard_count_down guard_modc; simp add: guard_simps)

lemma guard_block_transfer: "state_io_rel guarded (exec_block_transfer w)"
  unfolding exec_block_transfer_def Let_def
  by (intro guard_rules guard_count_down guard_modc; simp add: guard_simps)

lemma guard_block_match:
  assumes "\<And>c. cpu_guard (advance c) = cpu_guard c"
  shows "state_io_rel guarded (block_match w (alu_exec opn a b k wd) advance)"
  unfolding block_match_def Let_def
  by (intro guard_rules guard_count_down guard_modc; simp add: guard_simps assms)

lemma guard_block_search:
  "state_io_rel guarded (exec_block_compare w)" "state_io_rel guarded (exec_block_string w)"
  unfolding exec_block_compare_def exec_block_string_def Let_def
  by (intro guard_rules guard_block_match; simp add: guard_simps)+

text \<open>The privileged instructions, all behind \<open>check_priv\<close>.\<close>

lemma guard_refused: "state_io_rel guarded (whenb False f)"
  by (simp add: whenb_def guard.io_read)

lemma guard_privileged:
  "state_io_rel guarded (exec_io w)" "state_io_rel guarded exec_ldctl"
  "state_io_rel guarded (exec_ldps w)" "state_io_rel guarded exec_iret"
  "state_io_rel guarded (exec_block_io w)" "state_io_rel guarded (exec_multiproc w)"
  "state_io_rel guarded exec_halt"
  unfolding exec_io_def exec_ldctl_def exec_ldps_def exec_iret_def exec_block_io_def
    exec_multiproc_def exec_halt_def Let_def
  by (intro guard_check_priv guard_refused guard_rules)+

lemma mode_bits_low: "mk AND NOT 0x00FC = 0 \<Longrightarrow> mk AND 0xFF00 = 0" for mk :: u16
proof -
  assume "mk AND NOT 0x00FC = 0"
  then have "(mk AND NOT 0x00FC) AND 0xFF00 = 0" by simp
  then show ?thesis by (simp add: and.assoc)
qed

lemma guard_fcwop:
  assumes "cw_fcw_op w = FcwToggle \<longrightarrow> cw_fcw_mask w AND 0xFF00 = 0"
  shows "state_io_rel guarded (exec_fcwop w)"
proof (cases "(cw_fcw_op w = FcwSet \<or> cw_fcw_op w = FcwClear) \<and> tst (cw_fcw_mask w) (NOT 0x00FC)")
  case True
  then show ?thesis
    unfolding exec_fcwop_def Let_def
    by (simp only: if_True simp_thms) (intro guard_check_priv guard_refused)
next
  case False
  then have "cw_fcw_mask w AND 0xFF00 = 0 \<or> cw_fcw_op w = FcwLoadLo \<or> cw_fcw_op w = FcwStoreLo"
    using assms mode_bits_low [of "cw_fcw_mask w"] by (cases "cw_fcw_op w") (auto simp: tst_def)
  with False show ?thesis
    unfolding exec_fcwop_def Let_def
    by (cases "cw_fcw_op w")
      (auto intro!: guard_modc guard_fcw simp: high_part guard_simps)
qed

lemma guard_execute:
  assumes "cw_fcw_op w = FcwToggle \<longrightarrow> cw_fcw_mask w AND 0xFF00 = 0"
  shows "state_io_rel guarded (execute w)"
  unfolding execute_def
  by (cases "cw_exec w";
      simp only: InstrClass.case;
      (intro guard_unified guard_fcwop guard_exec_stack guard_branch guard_exchange guard_privileged
        guard_block_transfer guard_block_search guard_ldm guard_mul guard_div guard_exec_translate
        guard_modc assms)?;
      simp add: guard_pure guard_simps)

subsection \<open>The instruction cycle\<close>

lemma guard_option:
  assumes "x = None \<Longrightarrow> state_io_rel guarded f" "\<And>y. x = Some y \<Longrightarrow> state_io_rel guarded (g y)"
  shows "state_io_rel guarded (case x of None \<Rightarrow> f | Some y \<Rightarrow> g y)"
  using assms by (cases x) simp_all

lemma decode_toggle:
  assumes "decode_lookup op w n segmented = Some c"
  shows "cw_fcw_op c = FcwToggle \<longrightarrow> cw_fcw_mask c AND 0xFF00 = 0"
proof -
  have "sub_decode (rom (drop_bit 8 op)) op w n = Some c"
    using assms by (auto simp: decode_lookup_def split: option.splits if_splits)
  then show ?thesis using sub_decode_ok by (simp add: cw_ok_def)
qed

lemma guard_fetch_words: "state_io_rel guarded (fetch_words is p)"
  by (induction "is" arbitrary: p)
    (auto intro!: guard_rules guard_modc simp: guard_simps Let_def)

lemma guard_flags_of_fetch:
  "cpu_guard (c\<lparr>c_seg_w1 := b, c_seg_w2 := d\<rparr>) = cpu_guard c"
  "cpu_guard (c\<lparr>c_fault := b, c_repeat_pending := d, c_instr_start := a\<rparr>) = cpu_guard c"
  by (simp_all add: cpu_guard_def)

lemma guard_fetch: "state_io_rel guarded fetch_instruction"
  unfolding fetch_instruction_def Let_def
  by (intro guard_rules guard_fetch_words guard_modc; simp add: guard_simps guard_flags_of_fetch)

lemma guard_dbg: "state_io_rel guarded dbg_pc_hit"
  by (simp add: dbg_pc_hit_def state_io_rel_def guarded_def privileged_def Let_def
      split: prod.splits)

lemma guard_warning: "state_io_rel guarded consume_warning"
  unfolding consume_warning_def
  by (intro guard_rules guard_modc guard_modm;
      simp add: guard_simps privileged_def mmu_guard_def)

lemma guard_run_once:
  assumes "cw_fcw_op w = FcwToggle \<longrightarrow> cw_fcw_mask w AND 0xFF00 = 0"
  shows "state_io_rel guarded (run_once w)"
  unfolding run_once_def
  by (intro guard_rules guard_execute guard_warning guard_modc assms) (simp add: guard_simps)

lemma guard_repeat_pass:
  assumes "cw_fcw_op w = FcwToggle \<longrightarrow> cw_fcw_mask w AND 0xFF00 = 0"
  shows "state_io_rel guarded (repeat_pass w)"
  unfolding repeat_pass_def
  by (intro guard_rules guard_run_once guard_modc assms; simp add: guard_simps)

lemma guard_repeat_loop:
  assumes "cw_fcw_op w = FcwToggle \<longrightarrow> cw_fcw_mask w AND 0xFF00 = 0"
    and "repeat_loop w m = Some m'"
  shows "guarded m m'"
proof -
  obtain r where r: "while_option (\<lambda>(ret, m). \<not> ret \<and> c_repeat_pending (m_cpu m))
      (\<lambda>(ret, m). run_state (repeat_pass w) m) (False, m) = Some (r, m')"
    using assms(2) by (auto simp: repeat_loop_def)
  have step: "guarded m (snd (run_state (repeat_pass w) s))" if "guarded m s" for s
    using guard.R_trans [OF that] guard_repeat_pass [OF assms(1)] unfolding state_io_rel_def by blast
  have "(\<lambda>(ret, s). guarded m s) (r, m')"
    by (rule while_option_rule [OF _ r])
      (use step in \<open>auto simp: guard.R_refl case_prod_beta\<close>)
  then show ?thesis by simp
qed

lemma guard_bind_run:
  assumes "run_state f m = (x, s)" "guarded m s" "state_io_rel guarded (g x)"
  shows "guarded m (snd (run_state (State_Monad.bind f g) m))"
proof -
  have "guarded s (snd (run_state (g x) s))" using assms(3) by (simp add: state_io_rel_def)
  with assms(1,2) show ?thesis by (simp add: run_state_bind guard.R_trans)
qed

lemma guard_sample: "cpu_guard (sample_lines c) = cpu_guard c"
  by (simp add: sample_lines_def Let_def guard_simps)

lemma guard_no_interrupt:
  assumes "select_irq (sample_lines (m_cpu m)) = None"
  shows "run_state (handle_interrupts hook) m = (False, m\<lparr>m_cpu := sample_lines (m_cpu m)\<rparr>)"
  using assms by (simp add: handle_interrupts_def run_state_bind run_handler)

text \<open>A property of the value a handler returns, whatever the machine.\<close>

definition returns :: "('a \<Rightarrow> bool) \<Rightarrow> 'a handler \<Rightarrow> bool" where
  "returns P f \<longleftrightarrow> (\<forall>m. P (fst (run_state f m)))"

lemma returns_return: "P x \<Longrightarrow> returns P (State_Monad.return x)"
  by (simp add: returns_def)

lemma returns_bind: "(\<And>y. returns P (g y)) \<Longrightarrow> returns P (State_Monad.bind f g)"
  by (simp add: returns_def run_state_bind case_prod_beta)

lemma returns_if:
  "(b \<Longrightarrow> returns P h) \<Longrightarrow> (\<not> b \<Longrightarrow> returns P k) \<Longrightarrow> returns P (if b then h else k)"
  by simp

lemma returns_option:
  "(z = None \<Longrightarrow> returns P h) \<Longrightarrow> (\<And>y. z = Some y \<Longrightarrow> returns P (l y)) \<Longrightarrow>
     returns P (case z of None \<Rightarrow> h | Some y \<Rightarrow> l y)"
  by (cases z) simp_all

definition spares_modes :: "CtrlWord \<Rightarrow> bool" where
  "spares_modes w \<longleftrightarrow> (cw_fcw_op w = FcwToggle \<longrightarrow> cw_fcw_mask w AND 0xFF00 = 0)"

lemma begin_word: "returns (\<lambda>r. case r of None \<Rightarrow> True | Some w \<Rightarrow> spares_modes w) (cpu_begin hook)"
  unfolding cpu_begin_def Let_def
  by (intro returns_return returns_bind returns_if returns_option;
      simp add: spares_modes_def decode_toggle)

lemma sample_serviced: "select_irq (sample_lines (c\<lparr>c_serviced := q\<rparr>)) = select_irq (sample_lines c)"
proof -
  have "select_irq (c\<lparr>c_serviced := q\<rparr>) = select_irq c" for c
  proof -
    have "c_irq_req (c\<lparr>c_serviced := q\<rparr>) = c_irq_req c" "c_fcw (c\<lparr>c_serviced := q\<rparr>) = c_fcw c"
      by simp_all
    then show ?thesis by (simp only: select_irq_def)
  qed
  moreover have "sample_lines (c\<lparr>c_serviced := q\<rparr>) = (sample_lines c)\<lparr>c_serviced := q\<rparr>"
  proof -
    have r: "(if b then request k (d\<lparr>c_serviced := q\<rparr>) else d\<lparr>c_serviced := q\<rparr>)
        = (if b then request k d else d)\<lparr>c_serviced := q\<rparr>" for b k d
      by (simp add: request_def)
    have f: "c_nmi_line (c\<lparr>c_serviced := q\<rparr>) = c_nmi_line c" "c_segt_line (c\<lparr>c_serviced := q\<rparr>) = c_segt_line c"
      "c_nvi_line (c\<lparr>c_serviced := q\<rparr>) = c_nvi_line c" "c_vi_line (c\<lparr>c_serviced := q\<rparr>) = c_vi_line c"
      "c_fcw (c\<lparr>c_serviced := q\<rparr>) = c_fcw c" for c by simp_all
    show ?thesis unfolding sample_lines_def Let_def by (simp only: r f)
  qed
  ultimately show ?thesis by simp
qed

lemma guard_begin:
  assumes "select_irq (sample_lines (m_cpu m)) = None"
  shows "guarded m (snd (run_state (cpu_begin hook) m))"
proof -
  let ?m = "m\<lparr>m_cpu := (m_cpu m)\<lparr>c_serviced := 0\<rparr>\<rparr>"
  have m: "guarded m ?m" by (simp add: guarded_def privileged_def guard_simps)
  have irq: "run_state (handle_interrupts hook) ?m
      = (False, ?m\<lparr>m_cpu := sample_lines (m_cpu ?m)\<rparr>)"
    by (rule guard_no_interrupt) (simp add: sample_serviced assms)
  have s: "guarded ?m (?m\<lparr>m_cpu := sample_lines (m_cpu ?m)\<rparr>)"
    by (simp add: guarded_def privileged_def guard_sample)
  obtain G where G: "cpu_begin hook =
      State_Monad.bind (modc (\<lambda>c. c\<lparr>c_serviced := 0\<rparr>))
        (\<lambda>_. State_Monad.bind (handle_interrupts hook) G)"
    and rest: "\<And>b. state_io_rel guarded (G b)"
    by (rule that [OF cpu_begin_def], unfold Let_def,
        intro guard_option guard_rules guard_fetch guard_dbg guard_run_once guard_modc;
        simp add: guard_simps decode_toggle)
  have "guarded ?m (snd (run_state (State_Monad.bind (handle_interrupts hook) G) ?m))"
    by (rule guard_bind_run [OF irq s rest])
  then show ?thesis
    using guard.R_trans [OF m] by (simp add: G run_state_bind run_handler)
qed

text \<open>C1: A program in normal mode is confined.  As long as no interrupt is taken, whatever instruction
  it executes - any opcode, any operands, a whole repeated block instruction included - a step of
  the CPU leaves the privileged part of the machine as it was: the mode and interrupt-enable bits
  of the flag word, the control registers and the saved system stack pointer, the segment
  descriptors but for their accounting bits, the disks, the serial, timer and clock chips and
  everything printed.\<close>

theorem normal_mode_confined:
  assumes "\<not> SYSMODE (m_cpu m)" "select_irq (sample_lines (m_cpu m)) = None"
    and "cpu_step hook m = Some m'"
  shows "privileged m' = privileged m"
proof -
  obtain r s where run: "run_state (cpu_begin hook) m = (r, s)" by fastforce
  have s: "guarded m s" using guard_begin [OF assms(2), of hook] run by simp
  have "guarded m m'"
  proof (cases r)
    case None
    then show ?thesis using assms(3) run s by (simp add: cpu_step_def)
  next
    case (Some w)
    have "case r of None \<Rightarrow> True | Some w \<Rightarrow> spares_modes w"
      using begin_word [of hook] run unfolding returns_def by (metis fst_conv)
    then have "cw_fcw_op w = FcwToggle \<longrightarrow> cw_fcw_mask w AND 0xFF00 = 0"
      using Some by (simp add: spares_modes_def)
    moreover have "repeat_loop w s = Some m'" using assms(3) run Some by (simp add: cpu_step_def)
    ultimately show ?thesis using guard.R_trans [OF s] guard_repeat_loop by blast
  qed
  with assms(1) show ?thesis by (simp add: guarded_def)
qed

text \<open>A HALT at address 0 of the boot ROM, in normal mode: it is refused and requests the trap.\<close>

definition halt_machine :: Machine where
  "halt_machine = machine_zero\<lparr>m_rom := (\<lambda>a. if a = 0 then 0x7A else 0)\<rparr>"

lemma halt_step:
  "map_option (\<lambda>m. c_irq_req (m_cpu m)) (cpu_step None halt_machine) = Some IRQ_TRAP"
  by code_simp

theorem normal_mode_confined_witness:
  "\<exists>m'. cpu_step None halt_machine = Some m' \<and> c_irq_req (m_cpu m') = IRQ_TRAP
     \<and> privileged m' = privileged halt_machine"
proof -
  obtain m' where m': "cpu_step None halt_machine = Some m'" "c_irq_req (m_cpu m') = IRQ_TRAP"
    using halt_step by auto
  have "\<not> SYSMODE (m_cpu halt_machine)" "select_irq (sample_lines (m_cpu halt_machine)) = None"
    by (simp_all add: halt_machine_def machine_zero_def cpu_zero_def SYSMODE_def select_irq_def
        sample_lines_def)
  from normal_mode_confined [OF this m'(1)] m' show ?thesis by blast
qed

end
