(* ===== verification/Bus_Frame.thy ===== *)
theory Bus_Frame
  imports Bus_Io
begin

text \<open>
  What the bus of \<open>src/src/bus.c\<close> leaves alone.  No memory access, port access, disk command,
  clock operation or serial service changes the CPU, the ROM, the memory model, the serial
  options or the configuration of the stop channels; and a run is stopped from the bus only by
  the mark or by the doorbell.
  The first part is a projection \<open>core\<close> that every device function keeps; a relation that
  looks at nothing else holds of every bus operation once it holds of the two stops.
\<close>

subsection \<open>The core of a machine\<close>

definition stop_config :: "Machine \<Rightarrow> u16 \<times> u8 list option \<times> bool \<times> u64 \<times> u64 \<times> bool" where
  "stop_config m =
     (m_stop_port m, m_stop_mark m, m_park_watch m, q_idle_quiet (m_scr m), m_insn_limit m, m_stop_at_break m)"

definition core :: "Machine \<Rightarrow> CPU \<times> (u32 \<Rightarrow> u8) \<times> (bool \<times> u8)
    \<times> (bool \<times> (nat \<Rightarrow> bool) \<times> bool \<times> bool)
    \<times> (u16 \<times> u8 list option \<times> bool \<times> u64 \<times> u64 \<times> bool) \<times> (bool \<times> string \<times> bool)" where
  "core m = (m_cpu m, m_rom m, (m_flat_mem m, m_flat_maxseg m),
     (m_lr_scc m, m_wire_port_on m, m_any_wire m, m_rx_overrun_on m),
     stop_config m, (m_stop m, m_stop_why m, m_max_reached m))"

named_theorems core_simps

lemma core_cpu: "core m' = core m \<Longrightarrow> m_cpu m' = m_cpu m"
  by (simp add: core_def)

lemma core_if [core_simps]: "core (if b then x else y) = (if b then core x else core y)"
  by simp

lemma core_snd_if [core_simps]:
  "core (snd (if b then x else y)) = (if b then core (snd x) else core (snd y))" for x y :: "'a \<times> Machine"
  by simp

lemma core_updates [core_simps]:
  "core (set_ram a v m) = core m" "core (scc_upd p f m) = core m" "core (host_put p v m) = core m"
  "core (upd_rtc h m) = core m" "core (set_cio1 r v m) = core m" "core (upd_disk fl k m) = core m"
  "core (note_ram_bound d n m) = core m" "core (ram_store a bs m) = core m"
  "core (m\<lparr>m_mmu := u\<rparr>) = core m" "core (m\<lparr>m_ub := b\<rparr>) = core m" "core (m\<lparr>m_brks := bs'\<rparr>) = core m"
  "core (m\<lparr>m_host_rx := rx\<rparr>) = core m" "core (m\<lparr>m_rtc := rt\<rparr>) = core m"
  "core (m\<lparr>m_stop_mark_pos := pos\<rparr>) = core m" "core (m\<lparr>m_hdc_cmdblk := cb\<rparr>) = core m"
  "core (m\<lparr>m_disk_vi := b\<rparr>) = core m" "core (m\<lparr>m_cio1_reset := b\<rparr>) = core m"
  "core (m\<lparr>m_cio2_reset := b\<rparr>) = core m" "core (m\<lparr>m_cio2 := c2\<rparr>) = core m"
  "core (m\<lparr>m_ct3_running := b, m_ct3_accum := acc\<rparr>) = core m" "core (m\<lparr>m_ct3_accum := acc\<rparr>) = core m"
  "core (m\<lparr>m_ct3_running := b\<rparr>) = core m" "core (m\<lparr>m_tick_counter := tick\<rparr>) = core m"
  by (simp_all add: core_def stop_config_def set_ram_def scc_upd_def host_put_def upd_rtc_def
      set_cio1_def upd_disk_def note_ram_bound_def ram_store_def)

lemma core_scr [core_simps]:
  "q_idle_quiet (g (m_scr m)) = q_idle_quiet (m_scr m) \<Longrightarrow> core (upd_scr g m) = core m"
  by (simp add: core_def stop_config_def upd_scr_def)

subsection \<open>Devices\<close>

lemma core_phys_write [core_simps]: "core (phys_write8 a v m) = core m" "core (phys_write16 a x m) = core m"
  by (simp_all only: phys_write8_def phys_write16_def Let_def core_if core_updates if_cancel)

lemma core_fold: "(\<And>x m. core (f x m) = core m) \<Longrightarrow> core (fold f xs m) = core m"
  by (rule fold_keeps [where P = "\<lambda>s. core s = core m"]) simp_all

lemma core_rtc [core_simps]:
  "core (rtc_advance m) = core m" "core (rtc_set_stop b m) = core m"
  "core (rtc_pb_write v m) = core m" "core (snd (rtc_pb_read v m)) = core m"
proof -
  show a: "core (rtc_advance m) = core m" for m
    by (simp only: rtc_advance_def Let_def core_if core_updates if_cancel)
  show s: "core (rtc_set_stop b m) = core m" for b m
    by (simp only: rtc_set_stop_def Let_def core_if core_updates a if_cancel)
  show "core (rtc_pb_write v m) = core m"
    by (simp only: rtc_pb_write_def Let_def core_if core_updates a s if_cancel)
  show "core (snd (rtc_pb_read v m)) = core m"
    by (simp only: rtc_pb_read_def Let_def core_snd_if snd_conv core_updates a if_cancel)
qed

lemma core_hdc_sectors [core_simps]:
  "core (hdc_read_sectors fl lba b dma m) = core m" "core (hdc_write_sectors fl lba b dma m) = core m"
proof -
  have "core (fold (\<lambda>i. phys_write8 (f i) (g i)) xs m) = core m" for f g and xs :: "nat list" and m
    by (rule core_fold) (rule core_phys_write)
  then have "core (fold (\<lambda>s. fold (\<lambda>i. phys_write8 (f s i) (g s i)) xs) ys m) = core m"
    for f g and xs ys :: "nat list" and m
    by (rule core_fold)
  then show "core (hdc_read_sectors fl lba b dma m) = core m"
    by (simp only: hdc_read_sectors_def Let_def core_if core_updates if_cancel)
  show "core (hdc_write_sectors fl lba b dma m) = core m"
    by (simp only: hdc_write_sectors_def Let_def core_if core_updates if_cancel)
qed

lemma core_hdc [core_simps]: "core (hdc_doorbell m) = core m"
proof -
  have "core (snd (hdc_command fl opc lba b dma m)) = core m" for fl opc lba b dma m
    by (simp only: hdc_command_def Let_def core_snd_if snd_conv core_if core_updates core_hdc_sectors if_cancel)
  then have "core (hdc_process cb fl m) = core m" for cb fl m
    by (simp only: hdc_process_def Let_def case_prod_beta core_if core_updates core_phys_write if_cancel)
  then show ?thesis by (simp only: hdc_doorbell_def Let_def)
qed

lemma core_cio1 [core_simps]: "core (cio1_write r v m) = core m"
  by (simp only: cio1_write_def Let_def core_if core_updates core_rtc if_cancel)

lemma core_scc_read [core_simps]: "core (snd (scc_read chip chan r m)) = core m"
proof (cases "scc_chan_of m chip chan")
  case (Some ch)
  have "q_idle_quiet (if c then q\<lparr>q_guest_polls := True\<rparr> else q) = q_idle_quiet q" for c q by simp
  then show ?thesis
    by (simp only: scc_read_def Some option.case Let_def core_snd_if snd_conv core_if core_updates)
      (simp add: core_scr core_updates)
qed (simp add: scc_read_def)

lemma core_scc_rx [core_simps]: "core (scc_rx_console b m) = core m" "core (scc_wire_service m) = core m"
proof -
  show "core (scc_rx_console b m) = core m" by (simp add: scc_rx_console_def core_simps)
  have "core (snd (host_poll p m)) = core m" for p m by (simp add: host_poll_def core_simps split: list.splits)
  then have "core (wire_service_port p m) = core m" for p m
    by (simp add: wire_service_port_def Let_def case_prod_beta core_simps split: option.splits)
  then show "core (scc_wire_service m) = core m"
    unfolding scc_wire_service_def by (rule core_fold)
qed

lemma core_io_read [core_simps]: "core (snd (io_read port b s m)) = core m"
  by (cases "scc_chip_at m port")
    (simp_all only: io_read_def Let_def case_prod_beta snd_conv option.case core_snd_if
      core_updates core_rtc core_scc_read if_cancel)

subsection \<open>Relations that the bus keeps\<close>

locale bus_relation = step_relation +
  assumes R_core: "core m' = core m \<Longrightarrow> R m m'"
    and R_mark: "m_stop_mark m \<noteq> None \<Longrightarrow>
      R m (m\<lparr>m_stop := True, m_stop_why := ''the guest printed the stop mark''\<rparr>)"
    and R_doorbell: "m_stop_port m \<noteq> 0 \<Longrightarrow>
      R m (m\<lparr>m_stop := True, m_stop_why := ''the guest rang the stop doorbell''\<rparr>)"
begin

lemma R_then: "R m m1 \<Longrightarrow> core m2 = core m1 \<Longrightarrow> R m m2"
  using R_core R_trans by blast

lemma R_if: "R m x \<Longrightarrow> R m y \<Longrightarrow> R m (if b then x else y)"
  by simp

lemma R_stop_mark: "R m (stop_mark_watch p v m)"
proof (cases "m_stop_mark m")
  case (Some mark)
  define pos where "pos = mark_advance mark (m_stop_mark_pos m p) v"
  define m2 where "m2 = (if pos > length mark
    then m\<lparr>m_stop_mark_pos := (m_stop_mark_pos m)(p := pos), m_ub := True\<rparr>
    else m\<lparr>m_stop_mark_pos := (m_stop_mark_pos m)(p := pos)\<rparr>)"
  have "core m2 = core m" by (simp only: m2_def core_if core_updates if_cancel)
  then have a: "R m m2" by (rule R_core)
  have "m_stop_mark m2 \<noteq> None" using Some by (simp add: m2_def)
  then have "R m (m2\<lparr>m_stop := True, m_stop_why := ''the guest printed the stop mark''\<rparr>)"
    using R_trans [OF a] R_mark by blast
  with a show ?thesis
    unfolding stop_mark_watch_def Some option.case Let_def pos_def [symmetric] m2_def [symmetric]
    by (intro R_if)
qed (simp add: stop_mark_watch_def R_refl)

lemma R_console_transmit: "R m (console_transmit v m)"
proof -
  define m1 where "m1 = upd_scr (\<lambda>q.
                case q_mark q of
                  None \<Rightarrow> q
                | Some mark \<Rightarrow>
                    if q_mark_seen q then q
                    else (let q = q\<lparr>q_mark_pos := mark_advance mark (q_mark_pos q) v\<rparr>
                          in if mark_at mark (q_mark_pos q) = 0 then q\<lparr>q_mark_seen := True\<rparr>
                             else q))
      (upd_scr (\<lambda>q. q\<lparr>q_last_tx_insn := c_insns (m_cpu m), q_rx_poll_streak := 0\<rparr>) (host_put 0 v m))"
  have "R m m1" by (rule R_core) (simp add: m1_def core_simps Let_def split: option.split)
  then have "R m (stop_mark_watch 0 v m1)" using R_stop_mark R_trans by blast
  then show ?thesis
    unfolding console_transmit_def Let_def m1_def [unfolded Let_def, symmetric]
    by (intro R_if) (erule R_then, simp add: core_simps)+
qed

lemma R_scc_write: "R m (scc_write chip chan r v m)"
proof (cases "scc_chan_of m chip chan")
  case (Some ch)
  have u: "R m (scc_upd p f m')" if "R m m'" for p f m' using that by (rule R_then) (simp add: core_simps)
  have t: "R m (console_transmit v m')" "R m (stop_mark_watch p v m')" "R m (host_put p v m')" if "R m m'" for p m'
    using that R_console_transmit R_stop_mark R_trans R_then by (blast, blast, blast intro: core_updates)
  show ?thesis
    by (simp only: scc_write_def Some option.case Let_def) (intro R_if u t R_refl)
qed (simp add: scc_write_def R_refl)

lemma R_io_read: "R m (snd (io_read port b s m))"
  by (rule R_core) (rule core_io_read)

lemma R_io_write: "R m (io_write port d b s m)"
proof -
  have c: "R m (cio1_write r v m)" "R m (hdc_doorbell m)" "R m (m\<lparr>m_mmu := u\<rparr>)" for r v u
    by (rule R_core; simp add: core_simps)+
  have d: "R m (let reg = cio_reg port;
        m = (if reg = 0x00 \<and> \<not> tst v 0x01 then m\<lparr>m_cio2_reset := False\<rparr> else m)
        in m\<lparr>m_cio2 := (m_cio2 m)(reg := v)\<rparr>)" for v
    by (rule R_core) (simp only: Let_def core_updates core_if if_cancel)
  have w: "R m (if port = m_stop_port m \<and> m_stop_port m \<noteq> 0 then x else y)"
    if "m_stop_port m \<noteq> 0 \<Longrightarrow> R m x" "R m y" for x y
    using that by simp
  have b: "R m (if data = 0xC900
      then m\<lparr>m_stop := True, m_stop_why := ''the guest rang the stop doorbell''\<rparr> else m)"
    if "m_stop_port m \<noteq> 0" for data :: u16
    using R_doorbell [OF that] R_refl by simp
  show ?thesis
    unfolding io_write_def Let_def [of "port AND 0xFF"] Let_def [of "ucast (drop_bit 8 d) :: u8"]
    by (cases "scc_chip_at m port"; simp only: option.case; intro R_if w d b c R_scc_write R_refl; assumption)
qed

end

subsection \<open>The CPU\<close>

interpretation cpu: bus_relation "\<lambda>m m'. m_cpu m' = m_cpu m"
  by unfold_locales (simp_all, erule core_cpu)

lemma bus_cpu [simp]:
  "m_cpu (scc_upd p f m) = m_cpu m" "m_cpu (upd_scr g m) = m_cpu m" "m_cpu (host_put p v m) = m_cpu m"
  "m_cpu (upd_rtc h m) = m_cpu m" "m_cpu (set_cio1 r v m) = m_cpu m"
  "m_cpu (scc_rx_console b m) = m_cpu m" "m_cpu (scc_wire_service m) = m_cpu m"
  by (simp_all add: scc_upd_def upd_scr_def host_put_def upd_rtc_def set_cio1_def core_cpu [OF core_scc_rx(1)]
      core_cpu [OF core_scc_rx(2)])

lemma phys_write_cpu: "m_cpu (phys_write8 a v m) = m_cpu m" "m_cpu (phys_write16 a x m) = m_cpu m"
  by (rule core_cpu; rule core_phys_write)+

lemma io_cpu: "m_cpu (snd (io_read port b s m)) = m_cpu m" "m_cpu (io_write port d b s m) = m_cpu m"
  by (rule cpu.R_io_read, rule cpu.R_io_write)

end
