(* ===== verification/Address_Inv.thy ===== *)
theory Address_Inv
  imports Run_Loop Trap_Props Bus_Frame
begin

text \<open>
  An address of the CPU has a 7-bit segment above a 16-bit offset.  Every instruction, trap
  and interrupt of \<open>src/src/cpu.c\<close> keeps the program counter and the program status area
  pointer in that form, and nothing on the bus touches them.
\<close>

subsection \<open>Addresses\<close>

definition addr23 :: "u32 \<Rightarrow> bool" where
  "addr23 a \<longleftrightarrow> a AND 0x7FFFFF = a"

lemma addr23_bits: "addr23 a \<longleftrightarrow> (\<forall>i. bit a i \<longrightarrow> i < 23)"
proof
  assume "addr23 a"
  then have "bit a i \<Longrightarrow> bit (a AND 0x7FFFFF) i" for i by (simp add: addr23_def)
  then show "\<forall>i. bit a i \<longrightarrow> i < 23" by (auto simp: bit_simps bit_seg_masks)
next
  assume "\<forall>i. bit a i \<longrightarrow> i < 23"
  then show "addr23 a"
    unfolding addr23_def by (intro bit_word_eqI) (auto simp: bit_simps bit_seg_masks)
qed

lemma addr23_or: "addr23 a \<Longrightarrow> addr23 b \<Longrightarrow> addr23 (a OR b)"
  by (auto simp: addr23_bits bit_simps)

lemma addr23_and: "addr23 a \<Longrightarrow> addr23 (a AND b)" "addr23 b \<Longrightarrow> addr23 (a AND b)"
  by (auto simp: addr23_bits bit_simps)

lemma addr23_offset: "addr23 (ucast (x :: u16))" "addr23 (a AND 0xFFFF)"
proof -
  show "addr23 (ucast (x :: u16))"
    unfolding addr23_bits by (auto simp: bit_simps dest: bit_imp_le_length)
  show "addr23 (a AND 0xFFFF)"
    by (auto simp: addr23_bits bit_simps bit_byte_masks)
qed

lemma addr23_segment:
  "addr23 (push_bit 8 (ucast (x AND 0x7F00 :: u16)))" "addr23 (drop_bit 8 (v AND 0x7F000000))"
  "addr23 (a AND 0x7F0000)"
  by (auto simp: addr23_bits bit_simps bit_seg_masks dest: bit_imp_le_length)

lemma addr23_steps:
  "addr23 a \<Longrightarrow> addr23 (addr_add a n)" "addr23 a \<Longrightarrow> addr23 (addr_sub a n)"
  "addr23 a \<Longrightarrow> addr23 (displaced a d)"
  by (simp_all add: addr_add_def addr_sub_def displaced_def addr23_or addr23_and addr23_offset)

lemma addr23_forms:
  "addr23 (seg_addr v)" "addr23 (pc_seg c)" "addr23 (addr_from_reg r c)"
  "addr23 (seg_addr_op k c)" "addr23 (pc_of_words s o')"
  "addr23 (c_pc c) \<Longrightarrow> addr23 (rel_pc n c)" "addr23 (pc_seg c OR ucast (x :: u16))"
proof -
  show s: "addr23 (seg_addr v)" for v
    by (simp add: seg_addr_def addr23_or addr23_segment addr23_offset)
  show p: "addr23 (pc_seg c)" for c by (simp add: pc_seg_def addr23_segment)
  show "addr23 (pc_seg c OR ucast (x :: u16))" by (intro addr23_or p addr23_offset)
  show "addr23 (addr_from_reg r c)"
    by (simp add: addr_from_reg_def s addr23_or p addr23_offset)
  have "addr23 (ucast (w AND 0xFF :: u16))" for w by (rule addr23_offset)
  then show "addr23 (seg_addr_op k c)"
    by (simp add: seg_addr_op_def Let_def addr23_or addr23_segment addr23_offset p)
  show "addr23 (pc_of_words s o')" by (simp add: pc_of_words_def addr23_or addr23_segment addr23_offset)
  show "addr23 (c_pc c) \<Longrightarrow> addr23 (rel_pc n c)" by (simp add: rel_pc_def addr23_steps)
qed

subsection \<open>The invariant\<close>

definition cpu_wf :: "CPU \<Rightarrow> bool" where
  "cpu_wf c \<longleftrightarrow> addr23 (c_pc c) \<and> addr23 (c_psap c) \<and> addr23 (c_instr_start c)"

definition keeps_wf :: "Machine \<Rightarrow> Machine \<Rightarrow> bool" where
  "keeps_wf m m' \<longleftrightarrow> (cpu_wf (m_cpu m) \<longrightarrow> cpu_wf (m_cpu m'))"

interpretation wf: step_relation keeps_wf
  by unfold_locales (auto simp: keeps_wf_def)

lemma wf_modc: "(\<And>c. cpu_wf c \<Longrightarrow> cpu_wf (f c)) \<Longrightarrow> state_io_rel keeps_wf (modc f)"
  by (rule wf.io_modc) (simp add: keeps_wf_def)

lemma wf_modm: "(\<And>m. m_cpu (f m) = m_cpu m) \<Longrightarrow> state_io_rel keeps_wf (modm f)"
  by (rule wf.io_modm) (simp add: keeps_wf_def)

text \<open>A value read from a well-formed CPU, used by what follows.\<close>

lemma wf_read:
  assumes "\<And>c. cpu_wf c \<Longrightarrow> P (h c)" "\<And>x. P x \<Longrightarrow> state_io_rel keeps_wf (g x)"
  shows "state_io_rel keeps_wf (State_Monad.bind (askc h) g)"
proof -
  have "keeps_wf m (snd (run_state (State_Monad.bind (askc h) g) m))" for m
  proof (cases "cpu_wf (m_cpu m)")
    case True
    then have "state_io_rel keeps_wf (g (h (m_cpu m)))" using assms by blast
    then show ?thesis by (simp add: run_state_bind run_handler state_io_rel_def)
  qed (simp add: keeps_wf_def)
  then show ?thesis by (simp add: state_io_rel_def)
qed

text \<open>Updates that leave the three addresses alone.\<close>

definition same_addrs :: "CPU \<Rightarrow> CPU \<Rightarrow> bool" where
  "same_addrs c d \<longleftrightarrow> c_pc c = c_pc d \<and> c_psap c = c_psap d \<and> c_instr_start c = c_instr_start d"

lemma cpu_wf_same: "same_addrs d c \<Longrightarrow> cpu_wf c \<Longrightarrow> cpu_wf d"
  by (simp add: same_addrs_def cpu_wf_def)

lemma wf_modc_same: "(\<And>c. same_addrs (f c) c) \<Longrightarrow> state_io_rel keeps_wf (modc f)"
  by (rule wf_modc) (rule cpu_wf_same)

named_theorems addr_simps

lemma same_refl [addr_simps]: "same_addrs c c"
  by (simp add: same_addrs_def)

lemma same_set_R [addr_simps]: "same_addrs (set_R r v c) d = same_addrs c d"
  by (simp add: same_addrs_def set_R_def)

lemma same_reg [addr_simps]:
  "same_addrs (wb r v c) d = same_addrs c d" "same_addrs (ww r x c) d = same_addrs c d"
  "same_addrs (wl r y c) d = same_addrs c d" "same_addrs (wq r z c) d = same_addrs c d"
  "same_addrs (reg_write r v' w c) d = same_addrs c d"
  "same_addrs (ureg_write s v' w c) d = same_addrs c d"
  "same_addrs (addr_to_reg r a c) d = same_addrs c d"
  "same_addrs (add_to_addr_reg r dl c) d = same_addrs c d"
  by (simp_all add: wb_def ww_def wl_def wq_def ureg_write_def reg_write_def addr_to_reg_def
      add_to_addr_reg_def Let_def same_set_R split: Width.splits)

lemma same_fields [addr_simps]:
  "same_addrs (c\<lparr>c_fcw := f\<rparr>) d = same_addrs c d" "same_addrs (c\<lparr>c_irq_req := q\<rparr>) d = same_addrs c d"
  "same_addrs (c\<lparr>c_repeat_pending := b\<rparr>) d = same_addrs c d"
  "same_addrs (c\<lparr>c_fault := b\<rparr>) d = same_addrs c d" "same_addrs (c\<lparr>c_insns := n\<rparr>) d = same_addrs c d"
  "same_addrs (c\<lparr>c_serviced := q\<rparr>) d = same_addrs c d"
  "same_addrs (c\<lparr>c_cur_op := v\<rparr>) d = same_addrs c d" "same_addrs (c\<lparr>c_oplen := k\<rparr>) d = same_addrs c d"
  "same_addrs (c\<lparr>c_halted := b\<rparr>) d = same_addrs c d" "same_addrs (c\<lparr>c_refresh := v\<rparr>) d = same_addrs c d"
  "same_addrs (c\<lparr>c_nspseg := v\<rparr>) d = same_addrs c d" "same_addrs (c\<lparr>c_nspoff := v\<rparr>) d = same_addrs c d"
  "same_addrs (c\<lparr>c_seg_w1 := b, c_seg_w2 := b'\<rparr>) d = same_addrs c d"
  "same_addrs (set_opcode i v c) d = same_addrs c d" "same_addrs (request q c) d = same_addrs c d"
  "same_addrs (merge_flags mk f c) d = same_addrs c d" "same_addrs (apply_flags r c) d = same_addrs c d"
  "same_addrs (put_flag mk b c) d = same_addrs c d"
  by (simp_all add: same_addrs_def set_opcode_def request_def merge_flags_def apply_flags_def
      put_flag_def)

lemma same_change_fcw [addr_simps]: "same_addrs (change_fcw f c) d = same_addrs c d"
  by (simp add: change_fcw_def swap_spoff_def swap_spseg_def Let_def same_fields same_reg)

lemma wf_same_iff:
  assumes "\<And>d. same_addrs (f c) d = same_addrs c d"
  shows "cpu_wf (f c) = cpu_wf c"
  using assms [of c] by (simp add: same_addrs_def cpu_wf_def)

subsection \<open>Memory\<close>

lemma wf_translate: "state_io_rel keeps_wf (translate a wr fe)"
proof -
  have "keeps_wf m (snd (run_state (translate a wr fe) m))" for m
    by (simp add: translate_def keeps_wf_def cpu_wf_def Let_def split: prod.splits)
  then show ?thesis by (simp add: state_io_rel_def)
qed

lemma wf_memory:
  "state_io_rel keeps_wf (ifetch16 a)" "state_io_rel keeps_wf (mem_r16 a)"
  "state_io_rel keeps_wf (mem_w16 a x)" "state_io_rel keeps_wf (mem_r8 a)"
  "state_io_rel keeps_wf (mem_w8 a v)"
  unfolding ifetch16_def mem_r16_def mem_w16_def mem_r8_def mem_w8_def
  by (intro wf.io_rules wf_translate wf_modm phys_write_cpu)+

lemma wf_memory_w:
  "state_io_rel keeps_wf (mem_read_w a w)" "state_io_rel keeps_wf (mem_write_w a v w)"
  unfolding mem_read_w_def mem_write_w_def by (intro wf.io_rules wf_memory)+

lemma wf_stack: "state_io_rel keeps_wf (push_word v)" "state_io_rel keeps_wf pop_word"
  unfolding push_word_def pop_word_def
  by (intro wf.io_rules wf_memory wf_modc_same; simp add: addr_simps)+

lemma wf_check_priv: "state_io_rel keeps_wf check_priv"
  unfolding check_priv_def by (intro wf.io_rules wf_modc_same) (simp add: addr_simps)

lemma wf_count_down: "state_io_rel keeps_wf (count_down r)" "state_io_rel keeps_wf (repeat_if b)"
  unfolding count_down_def repeat_if_def
  by (intro wf.io_rules wf_modc_same; simp add: addr_simps)+

lemmas wf_rules = wf.io_rules wf_memory wf_memory_w wf_stack wf_check_priv wf_count_down

subsection \<open>The handlers\<close>

lemma wf_unified: "state_io_rel keeps_wf (exec_unified w)"
  unfolding exec_unified_def Let_def
  by (intro wf_rules wf_modc_same; simp add: addr_simps)

lemma same_pure:
  "same_addrs (exec_exts w c) c" "same_addrs (exec_tcc w c) c" "same_addrs (exec_dab c) c"
  "same_addrs (exec_lea w c) c" "same_addrs (exec_bcdrotate w c) c"
  "same_addrs (exec_bitdynamic w c) c" "same_addrs (exec_shift w c) c"
  by (simp_all add: exec_exts_def exec_tcc_def exec_dab_def exec_lea_def exec_bcdrotate_def
      exec_bitdynamic_def exec_shift_def addr_simps Let_def split: prod.splits)

lemma wf_jump: "(\<And>c. cpu_wf c \<Longrightarrow> addr23 (t c)) \<Longrightarrow> cpu_wf c \<Longrightarrow> cpu_wf (jump_if cc t c)"
  by (simp add: jump_if_def cpu_wf_def)

lemma wf_pc: "addr23 a \<Longrightarrow> cpu_wf c \<Longrightarrow> cpu_wf (c\<lparr>c_pc := a\<rparr>)"
  by (simp add: cpu_wf_def)

lemma wf_djnz: "cpu_wf c \<Longrightarrow> cpu_wf (exec_djnz c)"
proof -
  have "cpu_wf (ww r x c) = cpu_wf c" "cpu_wf (wb r v c) = cpu_wf c" for r x v
    by (rule wf_same_iff; simp add: addr_simps)+
  then show "cpu_wf c \<Longrightarrow> cpu_wf (exec_djnz c)"
    by (auto simp: exec_djnz_def Let_def split: prod.splits if_splits intro!: wf_pc addr23_steps)
       (auto simp: cpu_wf_def)
qed

lemma wf_call: "addr23 t \<Longrightarrow> state_io_rel keeps_wf (call_to t)"
  unfolding call_to_def by (intro wf_rules wf_modc wf_pc)

lemma wf_ret: "state_io_rel keeps_wf exec_ret"
  unfolding exec_ret_def
  by (intro wf_rules wf_read [where P = "\<lambda>x. \<forall>y :: u16. addr23 (x OR ucast y)" and h = pc_seg]
      wf_modc wf_pc; simp add: addr23_forms)

lemma cpu_wf_pc: "cpu_wf c \<Longrightarrow> addr23 (c_pc c)"
  by (simp add: cpu_wf_def)

lemma wf_branch: "state_io_rel keeps_wf (exec_branch w)"
  unfolding exec_branch_def
  by (cases "cw_br_mode w";
      simp only: BranchMode.case;
      (intro wf_ret wf_read [where P = addr23] wf_call)?;
      (intro wf_modc wf_jump wf_djnz)?;
      (assumption)?;
      simp add: addr23_forms addr23_steps cpu_wf_pc)

lemma wf_stack_ops:
  "state_io_rel keeps_wf (stack_predec sp n)" "state_io_rel keeps_wf (stack_postinc sp a n)"
  "state_io_rel keeps_wf (store_long a h l)" "state_io_rel keeps_wf (load_long a)"
  unfolding stack_predec_def stack_postinc_def store_long_def load_long_def
  by (intro wf_rules wf_modc_same; simp add: addr_simps)+

lemma wf_exec_stack: "state_io_rel keeps_wf (exec_stack w)"
  unfolding exec_stack_def Let_def
  by (cases "cw_stk_mode w";
      simp only: StackMode.case;
      intro wf_rules wf_stack_ops wf_modc_same;
      simp add: addr_simps)

lemma wf_mul: "state_io_rel keeps_wf (exec_mul w)"
  unfolding exec_mul_def Let_def
  by (cases "cw_src2 w"; simp only: SrcSel.case; intro wf_rules wf_modc_same; simp add: addr_simps)

lemma wf_div_parts:
  "state_io_rel keeps_wf (note_div_overflow k a b)" "state_io_rel keeps_wf (div_operand w width)"
proof -
  show "state_io_rel keeps_wf (note_div_overflow k a b)"
    unfolding note_div_overflow_def by (intro wf_rules wf_modm) simp
  show "state_io_rel keeps_wf (div_operand w width)"
    unfolding div_operand_def Let_def by (cases "cw_src2 w"; simp only: SrcSel.case; intro wf_rules)
qed

lemma wf_div: "state_io_rel keeps_wf (exec_div w)"
  unfolding exec_div_def Let_def case_prod_beta
  by (intro wf_rules wf_div_parts wf_modc_same; simp add: addr_simps split: option.splits prod.splits)

lemma wf_ldm: "state_io_rel keeps_wf (exec_ldm w)"
  unfolding exec_ldm_def Let_def by (intro wf_rules wf_modc_same; simp add: addr_simps)

lemma wf_exchange: "state_io_rel keeps_wf (exec_exchange w)"
  unfolding exec_exchange_def Let_def by (intro wf_rules wf_modc_same; simp add: addr_simps)

lemma wf_exec_translate: "state_io_rel keeps_wf (exec_translate w)"
  unfolding exec_translate_def Let_def by (intro wf_rules wf_modc_same; simp add: addr_simps)

lemma wf_block_transfer: "state_io_rel keeps_wf (exec_block_transfer w)"
  unfolding exec_block_transfer_def Let_def by (intro wf_rules wf_modc_same; simp add: addr_simps)

lemma wf_block_match:
  assumes "\<And>c. same_addrs (advance c) c"
  shows "state_io_rel keeps_wf (block_match w r advance)"
  unfolding block_match_def Let_def
  by (intro wf_rules wf_modc_same; simp add: addr_simps assms)

lemma wf_block_search:
  "state_io_rel keeps_wf (exec_block_compare w)" "state_io_rel keeps_wf (exec_block_string w)"
  unfolding exec_block_compare_def exec_block_string_def Let_def
  by (intro wf_rules wf_block_match; simp add: addr_simps)+

lemma wf_fcwop: "state_io_rel keeps_wf (exec_fcwop w)"
  unfolding exec_fcwop_def Let_def
  by (cases "cw_fcw_op w"; simp only: FcwOpKind.case; intro wf_rules wf_modc_same; simp add: addr_simps)

subsection \<open>Input, output and program status\<close>

lemma wf_io: "state_io_rel keeps_wf (do_io_read port b s)" "state_io_rel keeps_wf (do_io_write port v b s)"
  by (simp_all add: do_io_read_def do_io_write_def state_io_rel_def modm_def keeps_wf_def io_cpu)

lemma wf_exec_io: "state_io_rel keeps_wf (exec_io w)" "state_io_rel keeps_wf (exec_block_io w)"
  unfolding exec_io_def exec_block_io_def Let_def
  by (intro wf_rules wf_io wf_modc_same; simp add: addr_simps)+

lemma wf_misc: "state_io_rel keeps_wf (exec_multiproc w)" "state_io_rel keeps_wf exec_halt"
  unfolding exec_multiproc_def exec_halt_def
  by (cases "cw_mp_op w"; simp only: MPOpKind.case; intro wf_rules wf_modc_same; simp add: addr_simps)
     (intro wf_rules wf_modc_same; simp add: addr_simps)

lemma wf_ldctl: "state_io_rel keeps_wf exec_ldctl"
proof -
  have p: "addr23 (c_psap c) \<Longrightarrow> addr23 ((c_psap c AND 0xFFFF) OR push_bit 8 (ucast (v AND 0x7F00)))"
    "addr23 (c_psap c) \<Longrightarrow> addr23 ((c_psap c AND 0xFFFF0000) OR ucast v)" for c and v :: u16
    by (simp_all add: addr23_or addr23_and addr23_offset addr23_segment)
  have "cpu_wf (ldctl_write cr v c)" if "cpu_wf c" for cr v c
    using that p cpu_wf_same [OF _ that, of "change_fcw v c"]
    by (auto simp: ldctl_write_def cpu_wf_def addr_simps)
  then show ?thesis
    unfolding exec_ldctl_def Let_def
    by (intro wf_rules wf_modc; simp add: wf_same_iff addr_simps)
qed

lemma wf_status: "state_io_rel keeps_wf (exec_ldps w)" "state_io_rel keeps_wf exec_iret"
proof -
  have f: "cpu_wf c \<Longrightarrow> cpu_wf (change_fcw v c)" for v c by (simp add: wf_same_iff addr_simps)
  have p: "addr23 (push_bit 8 (ucast (s AND 0x7F00 :: u16)) OR ucast (o' :: u16))" for s o'
    using addr23_forms(5) by (simp only: pc_of_words_def)
  show "state_io_rel keeps_wf (exec_ldps w)" "state_io_rel keeps_wf exec_iret"
    unfolding exec_ldps_def exec_iret_def Let_def
    by (intro wf_rules wf_modc wf_pc f p addr23_offset addr23_forms; assumption)+
qed

lemma wf_execute: "state_io_rel keeps_wf (execute w)"
  unfolding execute_def
  by (cases "cw_exec w";
      simp only: InstrClass.case;
      (intro wf_unified wf_fcwop wf_exec_stack wf_branch wf_exchange wf_exec_io wf_misc wf_ldctl
        wf_block_transfer wf_block_search wf_ldm wf_mul wf_div wf_exec_translate wf_status)?;
      (intro wf_modc_same)?;
      simp add: same_pure addr_simps)

subsection \<open>Interrupts and the instruction cycle\<close>

lemma wf_option:
  assumes "x = None \<Longrightarrow> state_io_rel keeps_wf f" "\<And>y. x = Some y \<Longrightarrow> state_io_rel keeps_wf (g y)"
  shows "state_io_rel keeps_wf (case x of None \<Rightarrow> f | Some y \<Rightarrow> g y)"
  using assms by (cases x) simp_all

lemma wf_push_frame: "state_io_rel keeps_wf (push_frame f t)"
  unfolding push_frame_def by (intro wf_rules wf_modc_same; simp add: addr_simps)

lemma wf_fetch_vector: "state_io_rel keeps_wf (fetch_vector a b)"
  unfolding fetch_vector_def by (intro wf_rules)

lemma wf_interrupts: "state_io_rel keeps_wf (handle_interrupts None)"
proof -
  have f: "cpu_wf c \<Longrightarrow> cpu_wf (change_fcw (g c) c)" for g c by (simp add: wf_same_iff addr_simps)
  have take: "state_io_rel keeps_wf (take_interrupt None v i k)" for v i k
    unfolding take_interrupt_def call_hook_def option.case
    by (intro wf_rules wf_push_frame wf_fetch_vector)
      (rule wf_modc_same wf_modc; simp add: addr_simps f wf_pc addr23_forms)+
  have "same_addrs (sample_lines c) c" for c by (simp add: sample_lines_def addr_simps Let_def)
  then show ?thesis
    unfolding handle_interrupts_def
    by (intro wf_rules wf_option take wf_modc_same) (auto intro: wf_rules take split: prod.splits)
qed

lemma wf_fetch_words: "state_io_rel keeps_wf (fetch_words is p)"
  by (induction "is" arbitrary: p)
    (auto intro!: wf_rules wf_modc_same simp: addr_simps Let_def)

lemma wf_fetch: "state_io_rel keeps_wf fetch_instruction"
  unfolding fetch_instruction_def Let_def
  by (rule wf_read [where P = addr23], simp add: cpu_wf_pc)
    (intro wf_rules wf_fetch_words wf_modc_same wf_modc; simp add: addr_simps cpu_wf_def)

lemma wf_dbg: "state_io_rel keeps_wf dbg_pc_hit"
  by (simp add: dbg_pc_hit_def state_io_rel_def keeps_wf_def Let_def split: prod.splits)

lemma wf_run_once: "state_io_rel keeps_wf (run_once w)"
  unfolding run_once_def consume_warning_def
  by (intro wf_rules wf_execute wf_modm wf_modc_same; simp add: addr_simps)

lemma wf_set_pc: "addr23 a \<Longrightarrow> cpu_wf c \<Longrightarrow> cpu_wf ((request q c)\<lparr>c_pc := a\<rparr>)"
  by (simp add: cpu_wf_def request_def)

lemma wf_begin: "state_io_rel keeps_wf (cpu_begin None)"
proof -
  have "cpu_wf (request q (c\<lparr>c_pc := addr_add (c_pc c) k\<rparr>))" if "cpu_wf c" for q k c
    using that by (simp add: cpu_wf_def request_def addr23_steps)
  then show ?thesis
    unfolding cpu_begin_def Let_def
    by (intro wf_option wf_read [where P = addr23 and h = c_instr_start] wf_rules wf_interrupts
        wf_fetch wf_dbg wf_run_once)
      ((rule wf_modc_same; simp add: addr_simps; fail)
        | (rule wf_modc; simp add: wf_pc wf_set_pc addr23_steps; fail)
        | simp add: cpu_wf_def)+
qed

lemma wf_repeat_pass: "state_io_rel keeps_wf (repeat_pass w)"
proof -
  have "cpu_wf (c\<lparr>c_pc := c_instr_start c\<rparr>)" "cpu_wf ((request q c)\<lparr>c_pc := c_instr_start c\<rparr>)"
    if "cpu_wf c" for q c
    using that by (simp_all add: cpu_wf_def request_def)
  then show ?thesis
    unfolding repeat_pass_def
    by (intro wf_rules wf_run_once) (rule wf_modc_same wf_modc; simp add: addr_simps; fail)+
qed

lemma wf_step:
  assumes "cpu_step None m = Some m'" "cpu_wf (m_cpu m)"
  shows "cpu_wf (m_cpu m')"
proof -
  obtain r s where run: "run_state (cpu_begin None) m = (r, s)" by fastforce
  have s: "cpu_wf (m_cpu s)"
    using wf_begin assms(2) run unfolding state_io_rel_def keeps_wf_def by (metis snd_conv)
  show ?thesis
  proof (cases r)
    case None
    then show ?thesis using assms(1) run s by (simp add: cpu_step_def)
  next
    case (Some w)
    then obtain q where q: "while_option (\<lambda>(ret, m). \<not> ret \<and> c_repeat_pending (m_cpu m))
        (\<lambda>(ret, m). run_state (repeat_pass w) m) (False, s) = Some (q, m')"
      using assms(1) run by (auto simp: cpu_step_def repeat_loop_def)
    have "(\<lambda>(ret, m). cpu_wf (m_cpu m)) (q, m')"
    proof (rule while_option_rule [OF _ q])
      fix x :: "bool \<times> Machine"
      assume "(\<lambda>(ret, m). cpu_wf (m_cpu m)) x"
      then show "(\<lambda>(ret, m). cpu_wf (m_cpu m)) ((\<lambda>(ret, m). run_state (repeat_pass w) m) x)"
        using wf_repeat_pass [of w] by (auto simp: state_io_rel_def keeps_wf_def split: prod.splits)
    qed (use s in simp)
    then show ?thesis by simp
  qed
qed

subsection \<open>The run loop\<close>

lemma before_step_wf: "cpu_wf (m_cpu m) \<Longrightarrow> cpu_wf (m_cpu (before_step m))"
proof -
  have f: "m_cpu (feed_console m) = m_cpu m" for m
  proof -
    have "m_cpu (snd (host_poll p m)) = m_cpu m" for p m by (simp add: host_poll_def split: list.splits)
    then show ?thesis
      by (simp add: feed_console_def feed_byte_def console_key_def Let_def case_prod_beta)
  qed
  have c: "m_cpu (ct3_count m) = m_cpu m" for m by (simp add: ct3_count_def Let_def)
  have a: "cpu_wf (m_cpu m) \<Longrightarrow> cpu_wf (m_cpu (aggregate_vi m))" for m
    by (simp add: aggregate_vi_def cpu_wf_def split: option.splits prod.splits)
  show "cpu_wf (m_cpu m) \<Longrightarrow> cpu_wf (m_cpu (before_step m))"
    by (simp add: before_step_def Let_def a c f)
qed

lemma after_step_cpu: "m_cpu (l_m (after_step l m)) = m_cpu m"
proof -
  define m1 where "m1 = (if c_serviced (m_cpu m) = IRQ_VI \<and> m_last_vi_disk m then m\<lparr>m_disk_vi := False\<rparr> else m)"
  have 1: "m_cpu m1 = m_cpu m" by (simp add: m1_def)
  obtain fired q m2 where s: "park_step (l_park l) m1 = (fired, q, m2)" by (metis prod_cases3)
  then have "m_cpu m2 = m_cpu m1" by (auto simp: park_step_def Let_def split: if_splits)
  with 1 show ?thesis
    unfolding after_step_def Let_def m1_def [symmetric] by (simp add: s stop_because_def)
qed

lemma iteration_wf:
  assumes "run_iteration None l = Some l'" "cpu_wf (m_cpu (l_m l))"
  shows "cpu_wf (m_cpu (l_m l'))"
proof -
  consider "l' = l\<lparr>l_over := True\<rparr>" | w b where "m_cpu (l_m l') = m_cpu (l_m l)"
    | m' where "cpu_step None (before_step (l_m l)) = Some m'" "l' = after_step l m'"
    using assms(1) by (auto simp: run_iteration_def stop_because_def Let_def split: if_splits)
  then show ?thesis
    using assms(2) by cases (auto simp: after_step_cpu intro: wf_step before_step_wf)
qed

lemma run_wf:
  assumes "machine_run n None l = Some l'" "cpu_wf (m_cpu (l_m l))"
  shows "cpu_wf (m_cpu (l_m l'))"
  using assms
proof (induction n arbitrary: l)
  case (Suc n)
  show ?case
  proof (cases "l_over l")
    case False
    then obtain l1 where "run_iteration None l = Some l1" "machine_run n None l1 = Some l'"
      using Suc.prems(1) by (auto split: option.splits)
    then show ?thesis using Suc.IH Suc.prems(2) iteration_wf by blast
  qed (use Suc.prems in simp)
qed simp

text \<open>C5: Addresses stay well formed.  In every state of a run of the machine, however long and
  whatever the guest executes, the program counter and the program status area pointer have a
  7-bit segment above a 16-bit offset, so that a translation never sees a segment number outside
  the MMU's range.\<close>

theorem addresses_well_formed:
  assumes "c_instr_start (m_cpu m) AND 0x7FFFFF = c_instr_start (m_cpu m)"
    and "machine_run n None (machine_start m) = Some l"
  shows "c_pc (m_cpu (l_m l)) AND 0x7FFFFF = c_pc (m_cpu (l_m l))
    \<and> c_psap (m_cpu (l_m l)) AND 0x7FFFFF = c_psap (m_cpu (l_m l))"
proof -
  have "cpu_wf (m_cpu (l_m (machine_start m)))"
  proof -
    have "addr23 0" "addr23 (c_instr_start (m_cpu m))" using assms(1) by (simp_all add: addr23_def)
    then show ?thesis by (simp add: machine_start_def cpu_reset_def cpu_wf_def addr23_forms(5) Let_def)
  qed
  then have "cpu_wf (m_cpu (l_m l))" by (rule run_wf [OF assms(2)])
  then show ?thesis by (simp add: cpu_wf_def addr23_def)
qed

text \<open>A machine whose boot ROM holds a HALT.\<close>

definition boot_machine :: Machine where
  "boot_machine = machine_zero\<lparr>m_rom := (\<lambda>a. if a = 0 then 0x7A else 0)\<rparr>"

lemma boot_runs: "map_option (\<lambda>l. c_insns (m_cpu (l_m l))) (machine_run 1 None (machine_start boot_machine)) = Some 1"
  by code_simp

theorem addresses_well_formed_witness:
  "\<exists>l. machine_run 1 None (machine_start boot_machine) = Some l \<and> c_insns (m_cpu (l_m l)) = 1
     \<and> c_pc (m_cpu (l_m l)) AND 0x7FFFFF = c_pc (m_cpu (l_m l))"
proof -
  obtain l where l: "machine_run 1 None (machine_start boot_machine) = Some l"
      "c_insns (m_cpu (l_m l)) = 1"
    using boot_runs by auto
  have "c_instr_start (m_cpu boot_machine) AND 0x7FFFFF = c_instr_start (m_cpu boot_machine)"
    by (simp add: boot_machine_def machine_zero_def cpu_zero_def)
  from addresses_well_formed [OF this l(1)] l show ?thesis by blast
qed

end
