(* ===== verification/Repeat_Props.thy ===== *)
theory Repeat_Props
  imports Cpu_Step Bus_Frame
begin

text \<open>
  The repeat loop of \<open>cpu_step\<close> in \<open>src/src/cpu.c\<close>.  A repeated block instruction counts
  its register down to zero, so the loop ends when nothing else of the instruction writes
  that register; when one of its pointers is the count register it may run for ever.
\<close>

subsection \<open>Handlers that leave the count alone\<close>

definition quiet :: "nib \<Rightarrow> Machine \<Rightarrow> Machine \<Rightarrow> bool" where
  "quiet r m m' \<longleftrightarrow>
     rw r (m_cpu m') = rw r (m_cpu m) \<and> SEG (m_cpu m') = SEG (m_cpu m)
     \<and> c_opcode (m_cpu m') = c_opcode (m_cpu m)
     \<and> c_repeat_pending (m_cpu m') = c_repeat_pending (m_cpu m)"

interpretation quiet: step_relation "quiet r" for r
  by unfold_locales (simp_all add: quiet_def)

definition quiet_cpu :: "nib \<Rightarrow> CPU \<Rightarrow> CPU \<Rightarrow> bool" where
  "quiet_cpu r c d \<longleftrightarrow>
     rw r c = rw r d \<and> SEG c = SEG d \<and> c_opcode c = c_opcode d \<and> c_repeat_pending c = c_repeat_pending d"

lemma quiet_modc: "(\<And>c. quiet_cpu r (f c) c) \<Longrightarrow> state_io_rel (quiet r) (modc f)"
  by (rule quiet.io_modc) (simp add: quiet_def quiet_cpu_def)

lemma quiet_modm: "(\<And>m. m_cpu (f m) = m_cpu m) \<Longrightarrow> state_io_rel (quiet r) (modm f)"
  by (rule quiet.io_modm) (simp add: quiet_def)

lemma quiet_translate: "state_io_rel (quiet r) (translate a wr fe)"
proof -
  have "quiet r m (snd (run_state (translate a wr fe) m))" for m
    by (simp add: translate_def quiet_def SEG_def rw_def Let_def split: prod.splits)
  then show ?thesis by (simp add: state_io_rel_def)
qed

lemma quiet_memory:
  "state_io_rel (quiet r) (mem_r16 a)" "state_io_rel (quiet r) (mem_w16 a x)"
  "state_io_rel (quiet r) (mem_r8 a)" "state_io_rel (quiet r) (mem_w8 a v)"
  unfolding mem_r16_def mem_w16_def mem_r8_def mem_w8_def
  by (intro quiet.io_rules quiet_translate quiet_modm phys_write_cpu)+

lemma quiet_io: "state_io_rel (quiet r) (do_io_read port b s)" "state_io_rel (quiet r) (do_io_write port v b s)"
  by (simp_all add: do_io_read_def do_io_write_def state_io_rel_def modm_def quiet_def io_cpu)

lemma seg_low: "mk AND 0x8000 = 0 \<Longrightarrow> tst ((x AND NOT mk) OR (f AND mk)) FCW_SEG = tst x FCW_SEG"
  "mk AND 0x8000 = 0 \<Longrightarrow> tst (x AND NOT mk) FCW_SEG = tst x FCW_SEG"
  "mk AND 0x8000 = 0 \<Longrightarrow> tst (x OR mk) FCW_SEG = tst x FCW_SEG" for x mk f :: u16
proof -
  have b: "tst y FCW_SEG \<longleftrightarrow> bit y 15" for y :: u16
    using tst_bit [of y 15] by (simp add: push_bit_eq_mult)
  assume "mk AND 0x8000 = 0"
  then have "\<not> bit mk 15" unfolding b [symmetric] by (simp add: tst_def)
  then show "tst ((x AND NOT mk) OR (f AND mk)) FCW_SEG = tst x FCW_SEG"
    "tst (x AND NOT mk) FCW_SEG = tst x FCW_SEG" "tst (x OR mk) FCW_SEG = tst x FCW_SEG"
    unfolding b by (simp_all add: bit_simps)
qed

lemma quiet_flags:
  "quiet_cpu r (put_flag F_Z b c) c" "quiet_cpu r (put_flag F_PV b c) c"
  "quiet_cpu r (merge_flags 0x0050 f c) c" "quiet_cpu r (request q c) c"
  by (simp_all add: quiet_cpu_def put_flag_def merge_flags_def request_def SEG_def rw_def seg_low)

lemma quiet_compare: "quiet_cpu r (apply_flags (alu_exec OpCp a b k w) c) c"
  by (simp add: quiet_cpu_def apply_flags_def merge_flags_def SEG_def rw_def alu_exec_def do_sub_def
      Let_def seg_low split: prod.splits)

text \<open>The word register that an address register's increment writes.\<close>

definition stepped :: "bool \<Rightarrow> nib \<Rightarrow> nib" where
  "stepped seg r = (if seg then r OR 1 else r)"

lemma quiet_step: "stepped (SEG c) p \<noteq> r \<Longrightarrow> quiet_cpu r (add_to_addr_reg p d c) c"
proof -
  have seg: "SEG (set_R q v c) = SEG c" "c_opcode (set_R q v c) = c_opcode c"
    "c_repeat_pending (set_R q v c) = c_repeat_pending c" for q v
    by (simp_all add: SEG_def set_R_def)
  show "stepped (SEG c) p \<noteq> r \<Longrightarrow> quiet_cpu r (add_to_addr_reg p d c) c"
    by (cases "SEG c") (auto simp: quiet_cpu_def add_to_addr_reg_def stepped_def rw_def ww_def seg Let_def)
qed

subsection \<open>Handlers that count once\<close>

text \<open>
  From a machine with these instruction words, this segmentation and nothing pending, the
  handler counts \<open>r\<close> down at most once before it asks to be repeated, and asks only
  when the count is not zero.
\<close>

definition fresh :: "(nat \<Rightarrow> u16) \<Rightarrow> bool \<Rightarrow> CPU \<Rightarrow> bool" where
  "fresh ops seg c \<longleftrightarrow> c_opcode c = ops \<and> SEG c = seg \<and> \<not> c_repeat_pending c"

definition counted :: "(nat \<Rightarrow> u16) \<Rightarrow> bool \<Rightarrow> nib \<Rightarrow> u16 \<Rightarrow> CPU \<Rightarrow> bool" where
  "counted ops seg r n d \<longleftrightarrow> c_opcode d = ops \<and> SEG d = seg
     \<and> (c_repeat_pending d \<longrightarrow> rw r d = n - 1 \<and> rw r d \<noteq> 0)"

definition counts :: "(nat \<Rightarrow> u16) \<Rightarrow> bool \<Rightarrow> nib \<Rightarrow> 'a handler \<Rightarrow> bool" where
  "counts ops seg r f \<longleftrightarrow>
     (\<forall>m. fresh ops seg (m_cpu m) \<longrightarrow>
        counted ops seg r (rw r (m_cpu m)) (m_cpu (snd (run_state f m))))"

lemma quiet_fresh:
  assumes "quiet r m s"
  shows "fresh ops seg (m_cpu s) = fresh ops seg (m_cpu m)" "rw r (m_cpu s) = rw r (m_cpu m)"
  using assms by (auto simp: quiet_def fresh_def)

lemma counts_quiet_bind:
  assumes "state_io_rel (quiet r) f" "\<And>x. counts ops seg r (g x)"
  shows "counts ops seg r (State_Monad.bind f g)"
  unfolding counts_def
proof (intro allI impI)
  fix m :: Machine
  assume m: "fresh ops seg (m_cpu m)"
  obtain x s where f: "run_state f m = (x, s)" by fastforce
  have q: "quiet r m s" using assms(1) f unfolding state_io_rel_def by (metis snd_conv)
  then have "counted ops seg r (rw r (m_cpu s)) (m_cpu (snd (run_state (g x) s)))"
    using assms(2) [of x] m quiet_fresh(1) unfolding counts_def by blast
  then show "counted ops seg r (rw r (m_cpu m)) (m_cpu (snd (run_state (State_Monad.bind f g) m)))"
    by (simp add: run_state_bind f quiet_fresh(2) [OF q])
qed

lemma counts_read:
  assumes "\<And>c. c_opcode c = ops \<Longrightarrow> SEG c = seg \<Longrightarrow> counts ops seg r (g (h c))"
  shows "counts ops seg r (State_Monad.bind (askc h) g)"
  unfolding counts_def
proof (intro allI impI)
  fix m :: Machine
  assume m: "fresh ops seg (m_cpu m)"
  then have "counts ops seg r (g (h (m_cpu m)))" by (intro assms) (simp_all add: fresh_def)
  with m show "counted ops seg r (rw r (m_cpu m))
      (m_cpu (snd (run_state (State_Monad.bind (askc h) g) m)))"
    by (simp add: counts_def run_state_bind run_handler)
qed

lemma counts_modc:
  assumes "\<And>c. c_opcode c = ops \<Longrightarrow> SEG c = seg \<Longrightarrow> quiet_cpu r (f c) c" "\<And>x. counts ops seg r (g x)"
  shows "counts ops seg r (State_Monad.bind (modc f) g)"
  unfolding counts_def
proof (intro allI impI)
  fix m :: Machine
  assume m: "fresh ops seg (m_cpu m)"
  then have "quiet_cpu r (f (m_cpu m)) (m_cpu m)" by (intro assms) (simp_all add: fresh_def)
  then have q: "quiet r m (m\<lparr>m_cpu := f (m_cpu m)\<rparr>)" by (simp add: quiet_def quiet_cpu_def)
  define s where "s = m\<lparr>m_cpu := f (m_cpu m)\<rparr>"
  have s: "fresh ops seg (m_cpu s)" "rw r (m_cpu s) = rw r (m_cpu m)"
    using quiet_fresh [OF q] m by (simp_all add: s_def)
  have "counted ops seg r (rw r (m_cpu s)) (m_cpu (snd (run_state (g ()) s)))"
    using s(1) assms(2) [of "()"] unfolding counts_def by blast
  then show "counted ops seg r (rw r (m_cpu m)) (m_cpu (snd (run_state (State_Monad.bind (modc f) g) m)))"
    unfolding s(2) by (simp add: run_state_bind run_handler s_def)
qed

lemma counts_skip: "counts ops seg r skip"
  by (simp add: counts_def counted_def fresh_def run_handler)

lemma counts_if:
  "(b \<Longrightarrow> counts ops seg r f) \<Longrightarrow> (\<not> b \<Longrightarrow> counts ops seg r g) \<Longrightarrow> counts ops seg r (if b then f else g)"
  by simp

lemma counts_when: "(b \<Longrightarrow> counts ops seg r f) \<Longrightarrow> counts ops seg r (whenb b f)"
  by (simp add: whenb_def counts_skip)

text \<open>The tail of every block operation: count down, set flags, ask to be repeated.\<close>

lemma counts_tail:
  fixes fl :: "u16 \<Rightarrow> unit handler"
  assumes "\<And>cnt. state_io_rel (quiet r) (fl cnt)" "\<And>cnt. b cnt \<Longrightarrow> cnt \<noteq> 0"
  shows "counts ops seg r (do { cnt \<leftarrow> count_down r; fl cnt; repeat_if (b cnt) })"
  unfolding counts_def
proof (intro allI impI)
  fix m :: Machine
  assume m: "fresh ops seg (m_cpu m)"
  define n where "n = rw r (m_cpu m) - 1"
  define s where "s = m\<lparr>m_cpu := ww r n (m_cpu m)\<rparr>"
  obtain x t where t: "run_state (fl n) s = (x, t)" by (metis surj_pair)
  have q: "quiet r s t" using assms(1) [of n] t unfolding state_io_rel_def by (metis snd_conv)
  have "fresh ops seg (m_cpu s)" "rw r (m_cpu s) = n"
    using m by (simp_all add: fresh_def s_def rw_def ww_def SEG_def set_R_def)
  with quiet_fresh [OF q] have t': "fresh ops seg (m_cpu t)" "rw r (m_cpu t) = n" by simp_all
  have run: "run_state (do { cnt \<leftarrow> count_down r; fl cnt; repeat_if (b cnt) }) m
      = run_state (repeat_if (b n)) t"
    by (simp add: count_down_def run_state_bind run_handler n_def [symmetric] s_def [symmetric] t)
  show "counted ops seg r (rw r (m_cpu m))
      (m_cpu (snd (run_state (do { cnt \<leftarrow> count_down r; fl cnt; repeat_if (b cnt) }) m)))"
    using t' assms(2) [of n] unfolding run n_def
    by (auto simp: repeat_if_def run_handler fresh_def counted_def SEG_def rw_def)
qed

subsection \<open>The block instructions\<close>

text \<open>The registers an element of the instruction moves, besides its count.\<close>

definition moved :: "CtrlWord \<Rightarrow> (nat \<Rightarrow> u16) \<Rightarrow> bool \<Rightarrow> nib list" where
  "moved w ops seg =
     (let src = stepped seg (nib2 (ops 0)); dst = stepped seg (nib2 (ops 1))
      in case cw_exec w of
           ClsBlockTransfer \<Rightarrow> [src, dst]
         | ClsBlockCompare \<Rightarrow> [src]
         | ClsBlockString \<Rightarrow> [src, dst]
         | ClsBlockIO \<Rightarrow> [if cw_io_write w then src else dst]
         | ClsTranslate \<Rightarrow> (if cw_io_write w then [dst] else [dst, 1])
         | _ \<Rightarrow> [])"

definition is_block :: "CtrlWord \<Rightarrow> bool" where
  "is_block w \<longleftrightarrow> cw_exec w = ClsBlockTransfer \<or> cw_exec w = ClsBlockCompare
     \<or> cw_exec w = ClsBlockString \<or> cw_exec w = ClsBlockIO \<or> cw_exec w = ClsTranslate"

lemmas count_rules =
  counts_read counts_modc counts_tail counts_if counts_when counts_quiet_bind quiet.io_rules
  quiet_memory quiet_io quiet_modc quiet_flags quiet_compare quiet_step

lemma counts_block_transfer:
  assumes "nib1 (ops 1) \<notin> {stepped seg (nib2 (ops 0)), stepped seg (nib2 (ops 1))}"
  shows "counts ops seg (nib1 (ops 1)) (exec_block_transfer w)"
  unfolding exec_block_transfer_def
  by (rule count_rules | use assms in auto)+

lemma quiet_check_priv: "state_io_rel (quiet r) check_priv"
  unfolding check_priv_def by (rule count_rules)+

lemma counts_block_io:
  assumes "nib1 (ops 1) \<noteq> stepped seg (nib2 (ops (if cw_io_write w then 0 else 1)))"
  shows "counts ops seg (nib1 (ops 1)) (exec_block_io w)"
  unfolding exec_block_io_def Let_def
  by (rule quiet_check_priv count_rules | use assms in auto)+

lemma quiet_wb: "r \<noteq> 1 \<Longrightarrow> quiet_cpu r (wb 1 v c) c"
  by (simp add: quiet_cpu_def wb_def rw_def set_R_def SEG_def)

lemma counts_translate:
  assumes "nib1 (ops 1) \<noteq> stepped seg (nib2 (ops 1))" "cw_io_write w \<or> nib1 (ops 1) \<noteq> 1"
  shows "counts ops seg (nib1 (ops 1)) (exec_translate w)"
  unfolding exec_translate_def Let_def
  by (rule count_rules quiet_wb | use assms in auto)+

lemma counts_match:
  assumes "\<And>c. SEG c = seg \<Longrightarrow> quiet_cpu (nib1 (ops 1)) (advance c) c"
  shows "counts ops seg (nib1 (ops 1)) (block_match w (alu_exec OpCp a b k wd) advance)"
  unfolding block_match_def Let_def
  by (rule count_rules | use assms in auto)+

lemma counts_block_compare:
  assumes "nib1 (ops 1) \<noteq> stepped seg (nib2 (ops 0))"
  shows "counts ops seg (nib1 (ops 1)) (exec_block_compare w)"
proof -
  have "counts ops seg (nib1 (ops 1)) (block_match w (alu_exec OpCp a b k wd)
      (add_to_addr_reg (nib2 (ops 0)) d))" for a b k wd d
    by (rule counts_match) (rule quiet_step, use assms in auto)
  note m = this [simplified]
  show ?thesis
    unfolding exec_block_compare_def by (rule m count_rules | simp)+
qed

lemma quiet_two_steps:
  assumes "stepped (SEG c) p \<noteq> r" "stepped (SEG c) q \<noteq> r"
  shows "quiet_cpu r (add_to_addr_reg q d (add_to_addr_reg p d c)) c"
proof -
  have "quiet_cpu r (add_to_addr_reg p d c) c" by (rule quiet_step) (rule assms)
  moreover from this have "quiet_cpu r (add_to_addr_reg q d (add_to_addr_reg p d c)) (add_to_addr_reg p d c)"
    by (intro quiet_step) (simp add: quiet_cpu_def assms)
  ultimately show ?thesis by (simp add: quiet_cpu_def)
qed

lemma counts_block_string:
  assumes "nib1 (ops 1) \<notin> {stepped seg (nib2 (ops 0)), stepped seg (nib2 (ops 1))}"
  shows "counts ops seg (nib1 (ops 1)) (exec_block_string w)"
proof -
  have "counts ops seg (nib1 (ops 1)) (block_match w (alu_exec OpCp a b k wd)
      (\<lambda>c. add_to_addr_reg (nib2 (ops 1)) d (add_to_addr_reg (nib2 (ops 0)) d c)))" for a b k wd d
    by (rule counts_match) (rule quiet_two_steps, use assms in auto)
  note m = this [simplified]
  show ?thesis
    unfolding exec_block_string_def Let_def by (rule m count_rules | simp)+
qed

lemma counts_execute:
  assumes "is_block w" "nib1 (ops 1) \<notin> set (moved w ops seg)"
  shows "counts ops seg (nib1 (ops 1)) (execute w)"
  using assms
  by (auto simp: is_block_def moved_def execute_def Let_def split: if_splits
      intro!: counts_block_transfer [simplified] counts_block_compare [simplified]
        counts_block_string [simplified] counts_block_io [simplified] counts_translate [simplified])

lemma quiet_warning: "state_io_rel (quiet r) consume_warning"
  unfolding consume_warning_def by (rule count_rules quiet_modm | simp)+

lemma counted_quiet: "quiet r s t \<Longrightarrow> counted ops seg r n (m_cpu s) \<Longrightarrow> counted ops seg r n (m_cpu t)"
  unfolding counted_def quiet_def by metis

lemma counts_bind_quiet:
  assumes "counts ops seg r f" "\<And>x. state_io_rel (quiet r) (g x)"
  shows "counts ops seg r (State_Monad.bind f g)"
  unfolding counts_def
proof (intro allI impI)
  fix m :: Machine
  assume m: "fresh ops seg (m_cpu m)"
  obtain x s where f: "run_state f m = (x, s)" by (metis surj_pair)
  then have "counted ops seg r (rw r (m_cpu m)) (m_cpu s)"
    using assms(1) m unfolding counts_def by (metis snd_conv)
  moreover have "quiet r s (snd (run_state (g x) s))"
    using assms(2) [of x] by (simp add: state_io_rel_def)
  ultimately show "counted ops seg r (rw r (m_cpu m)) (m_cpu (snd (run_state (State_Monad.bind f g) m)))"
    by (simp add: run_state_bind f counted_quiet)
qed

lemma quiet_insns: "quiet_cpu r (c\<lparr>c_insns := n\<rparr>) c"
  by (simp add: quiet_cpu_def SEG_def rw_def)

lemma counts_run_once:
  assumes "is_block w" "nib1 (ops 1) \<notin> set (moved w ops seg)"
  shows "counts ops seg (nib1 (ops 1)) (run_once w)"
  unfolding run_once_def
  by (intro counts_bind_quiet counts_execute assms quiet.io_bind quiet_modc quiet_insns quiet_warning)

text \<open>One pass of the loop: it returns, or nothing is pending, or the count went down to a value that
  is not zero.\<close>

lemma pass_counts:
  assumes "is_block w" "nib1 (ops 1) \<notin> set (moved w ops seg)"
    and "c_opcode (m_cpu m) = ops" "SEG (m_cpu m) = seg"
    and "run_state (repeat_pass w) m = (ret, m')"
  shows "ret \<or> counted ops seg (nib1 (ops 1)) (rw (nib1 (ops 1)) (m_cpu m)) (m_cpu m')"
proof (cases "preempted ((m_cpu m)\<lparr>c_repeat_pending := False\<rparr>)")
  case True
  then show ?thesis using assms(5) by (auto simp: repeat_pass_def run_state_bind run_handler)
next
  case False
  let ?m = "m\<lparr>m_cpu := (m_cpu m)\<lparr>c_repeat_pending := False\<rparr>\<rparr>"
  obtain s where s: "run_state (run_once w) ?m = ((), s)" by (metis (full_types) old.unit.exhaust surj_pair)
  have "fresh ops seg (m_cpu ?m)" using assms(3,4) by (simp add: fresh_def SEG_def)
  then have "counted ops seg (nib1 (ops 1)) (rw (nib1 (ops 1)) (m_cpu ?m)) (m_cpu s)"
    using counts_run_once [OF assms(1,2)] s unfolding counts_def by (metis snd_conv)
  then show ?thesis
    using assms(5) False s
    by (auto simp: repeat_pass_def run_state_bind run_handler rw_def split: if_splits)
qed

text \<open>The loop, counted: when a measure falls on every pass, no more passes are made than its first value.\<close>

lemma while_option_bound:
  assumes step: "\<And>s. P s \<Longrightarrow> b s \<Longrightarrow> P (c s) \<and> f (c s) < f s" and "P s"
  shows "\<exists>k \<le> f s. \<not> b ((c ^^ k) s) \<and> (\<forall>i < k. b ((c ^^ i) s)) \<and> while_option b c s = Some ((c ^^ k) s)"
  using assms(2)
proof (induction "f s" arbitrary: s rule: less_induct)
  case less
  show ?case
  proof (cases "b s")
    case False
    then show ?thesis by (intro exI [of _ 0]) (simp add: while_option_unfold)
  next
    case True
    with step less.prems have c: "P (c s)" "f (c s) < f s" by blast+
    from less.hyps [OF c(2,1)] obtain k where k: "k \<le> f (c s)" "\<not> b ((c ^^ k) (c s))"
      "\<forall>i < k. b ((c ^^ i) (c s))" "while_option b c (c s) = Some ((c ^^ k) (c s))" by blast
    have "b ((c ^^ i) s)" if "i < Suc k" for i
      using that True k(3) by (cases i) (simp_all add: funpow_Suc_right del: funpow.simps)
    with k c(2) True show ?thesis
      by (intro exI [of _ "Suc k"])
        (simp add: funpow_Suc_right while_option_unfold [of b c s] del: funpow.simps)
  qed
qed

text \<open>\<open>n\<close> passes of the loop, from the state it starts in; and the test for another pass.\<close>

definition passes :: "CtrlWord \<Rightarrow> nat \<Rightarrow> Machine \<Rightarrow> bool \<times> Machine" where
  "passes w n m = ((\<lambda>(ret, m). run_state (repeat_pass w) m) ^^ n) (False, m)"

definition again :: "bool \<times> Machine \<Rightarrow> bool" where
  "again x \<longleftrightarrow> \<not> fst x \<and> c_repeat_pending (m_cpu (snd x))"

text \<open>C6: A repeated block instruction ends, and when.  The block transfers, compares, string compares,
  I/O and translates whose count register is not one of the registers the instruction moves leave the
  repeat loop of \<open>cpu_step\<close> in every state, whatever the operands, faults and interrupts: after at
  most as many passes as the count register holds on entry, a count of zero standing for 65536, the
  loop's test fails for the first time, and the loop returns the state of that pass.\<close>

theorem repeat_terminates:
  assumes "is_block w"
    and "nib1 (c_opcode (m_cpu m) 1) \<notin> set (moved w (c_opcode (m_cpu m)) (SEG (m_cpu m)))"
  shows "\<exists>k. k \<le> Suc (unat (rw (nib1 (c_opcode (m_cpu m) 1)) (m_cpu m) - 1)) \<and> k \<le> 65536
    \<and> \<not> again (passes w k m) \<and> (\<forall>i < k. again (passes w i m))
    \<and> repeat_loop w m = Some (snd (passes w k m))"
proof -
  define ops seg where "ops = c_opcode (m_cpu m)" and "seg = SEG (m_cpu m)"
  define r where "r = nib1 (ops 1)"
  let ?c = "\<lambda>(ret :: bool, m). run_state (repeat_pass w) m"
  let ?P = "\<lambda>(ret, m). ret \<or> c_opcode (m_cpu m) = ops \<and> SEG (m_cpu m) = seg"
  let ?f = "\<lambda>x. if again x then Suc (unat (rw r (m_cpu (snd x)) - 1)) else 0"
  have step: "?P (?c x) \<and> ?f (?c x) < ?f x" if P: "?P x" and b: "again x" for x
  proof -
    obtain s where x: "x = (False, s)" using b by (cases x) (auto simp: again_def)
    obtain ret t where t: "run_state (repeat_pass w) s = (ret, t)" by fastforce
    have s: "c_opcode (m_cpu s) = ops" "SEG (m_cpu s) = seg" using P x by auto
    have "ret \<or> counted ops seg r (rw r (m_cpu s)) (m_cpu t)"
      using pass_counts [OF assms(1) assms(2) [folded ops_def seg_def] s t] by (simp add: r_def)
    then show ?thesis
    proof
      assume "ret"
      with b x t show ?thesis by (simp add: again_def)
    next
      assume c: "counted ops seg r (rw r (m_cpu s)) (m_cpu t)"
      have "unat (rw r (m_cpu t) - 1) < unat (rw r (m_cpu s) - 1)" if "c_repeat_pending (m_cpu t)"
      proof -
        have "rw r (m_cpu t) = rw r (m_cpu s) - 1" "rw r (m_cpu t) \<noteq> 0"
          using c that unfolding counted_def by metis+
        then show ?thesis by (metis measure_unat)
      qed
      with b x t c show ?thesis by (simp add: counted_def again_def)
    qed
  qed
  have "\<exists>k \<le> ?f (False, m). \<not> again ((?c ^^ k) (False, m)) \<and> (\<forall>i < k. again ((?c ^^ i) (False, m)))
      \<and> while_option again ?c (False, m) = Some ((?c ^^ k) (False, m))"
    by (rule while_option_bound [where P = ?P and f = ?f, OF step]) (simp_all add: ops_def seg_def)
  then obtain k where k: "k \<le> ?f (False, m)" "\<not> again (passes w k m)" "\<forall>i < k. again (passes w i m)"
    "while_option again ?c (False, m) = Some (passes w k m)" by (auto simp: passes_def)
  have again: "again = (\<lambda>(ret, m). \<not> ret \<and> c_repeat_pending (m_cpu m))" by (auto simp: again_def)
  have "k \<le> Suc (unat (rw r (m_cpu m) - 1))" using k(1) by (auto split: if_splits)
  moreover have "Suc (unat (rw r (m_cpu m) - 1)) \<le> 65536"
    using unsigned_less [of "rw r (m_cpu m) - 1", where ?'a = nat] by simp
  moreover have "repeat_loop w m = Some (snd (passes w k m))"
    using k(4) by (simp add: repeat_loop_def again)
  ultimately show ?thesis using k(2,3) unfolding r_def ops_def by (meson le_trans)
qed

subsection \<open>A loop that does not end\<close>

lemma while_diverges:
  assumes "P s" "\<And>s. P s \<Longrightarrow> b s \<and> P (c s)"
  shows "while_option b c s = None"
proof -
  have "P ((c ^^ k) s)" for k by (induction k) (use assms in auto)
  then have "b ((c ^^ k) s)" for k using assms(2) by blast
  then show ?thesis by (simp add: while_option_def)
qed

text \<open>LDIRB @R1,@R2,R1: the destination pointer is the count register.\<close>

definition ldirb :: CtrlWord where
  "ldirb = cw\<lparr>cw_name := ''LDIRB'', cw_exec := ClsBlockTransfer, cw_width := WByte, cw_words := 2,
             cw_block_rept := True\<rparr>"

definition stuck :: "Machine \<Rightarrow> bool" where
  "stuck m \<longleftrightarrow>
     (let c = m_cpu m
      in c_opcode c 0 = 0xBA21 \<and> c_opcode c 1 = 0x0110 \<and> \<not> SEG c \<and> rw 1 c = 0x1000
         \<and> c_repeat_pending c \<and> \<not> c_fault c \<and> c_irq_req c = 0 \<and> \<not> c_nmi_line c \<and> \<not> c_segt_line c
         \<and> \<not> c_vi_line c \<and> \<not> c_nvi_line c
         \<and> u_mode (m_mmu m) = 0 \<and> \<not> u_warn_pending (m_mmu m))"

lemma translate_off_mode:
  assumes "u_mode (m_mmu m) = 0"
  shows "\<exists>p. run_state (translate a wr fe) m = ((p, False), m)"
  using assms by (simp add: translate_def mmu_translate_def Let_def)

lemma untranslated_access:
  assumes "u_mode (m_mmu m) = 0"
  shows "\<exists>v. run_state (mem_r8 a) m = (v, m)"
    "\<exists>m'. run_state (mem_w8 a x) m = ((), m') \<and> m_cpu m' = m_cpu m \<and> m_mmu m' = m_mmu m"
proof -
  obtain p where p: "run_state (translate a False False) m = ((p, False), m)"
    using translate_off_mode [OF assms] by blast
  show "\<exists>v. run_state (mem_r8 a) m = (v, m)" by (simp add: mem_r8_def run_state_bind run_handler p)
  obtain q where q: "run_state (translate a True False) m = ((q, False), m)"
    using translate_off_mode [OF assms] by blast
  show "\<exists>m'. run_state (mem_w8 a x) m = ((), m') \<and> m_cpu m' = m_cpu m \<and> m_mmu m' = m_mmu m"
    by (simp add: mem_w8_def run_state_bind run_handler q phys_write8_def set_ram_def Let_def)
qed

text \<open>The element moves a byte, counts R1 up by one as a pointer and down by one as a count.\<close>

definition ldirb_regs :: "CPU \<Rightarrow> CPU" where
  "ldirb_regs c =
     (let c = add_to_addr_reg 1 1 (add_to_addr_reg 2 1 c);
          n = rw 1 c - 1
      in (put_flag F_PV (n = 0) (ww 1 n c))\<lparr>c_repeat_pending := True\<rparr>)"

lemma stuck_execute:
  assumes "stuck (m\<lparr>m_cpu := (m_cpu m)\<lparr>c_repeat_pending := True\<rparr>\<rparr>)"
  shows "\<exists>m'. run_state (execute ldirb) m = ((), m') \<and> m_cpu m' = ldirb_regs (m_cpu m)
    \<and> m_mmu m' = m_mmu m"
proof -
  let ?c = "m_cpu m"
  have st: "c_opcode ?c 0 = 0xBA21" "c_opcode ?c (Suc 0) = 0x0110" "\<not> SEG ?c" "rw 1 ?c = 0x1000"
    "u_mode (m_mmu m) = 0"
    using assms by (simp_all add: stuck_def Let_def SEG_def rw_def)
  obtain v where v: "run_state (mem_r8 (addr_from_reg 2 ?c)) m = (v, m)"
    using untranslated_access(1) [OF st(5)] by blast
  obtain s where s: "run_state (mem_w8 (addr_from_reg 1 ?c) v) m = ((), s)"
      "m_cpu s = ?c" "m_mmu s = m_mmu m"
    using untranslated_access(2) [OF st(5)] by blast
  have nibs: "nib2 0xBA21 = 2" "nib2 0x0110 = 1" "nib1 0x0110 = 1"
    by (simp_all add: nib1_def nib2_def)
  have n: "rw 1 (add_to_addr_reg 1 1 (add_to_addr_reg 2 1 ?c)) - 1 \<noteq> 0"
    using st(3,4) by (simp add: add_to_addr_reg_def rw_def ww_def SEG_def)
  show ?thesis
    using st n
    by (simp add: execute_def ldirb_def cw_def exec_block_transfer_def run_state_bind run_handler
        nibs v s block_delta_def count_down_def repeat_if_def ldirb_regs_def Let_def)
qed

lemma stuck_pass:
  assumes "stuck m"
  shows "\<exists>m'. run_state (repeat_pass ldirb) m = (False, m') \<and> stuck m'"
proof -
  let ?c = "(m_cpu m)\<lparr>c_repeat_pending := False\<rparr>"
  let ?m = "m\<lparr>m_cpu := ?c\<rparr>"
  have same: "?m\<lparr>m_cpu := (m_cpu ?m)\<lparr>c_repeat_pending := True\<rparr>\<rparr> = m"
    using assms by (simp add: stuck_def Let_def)
  have st: "stuck (?m\<lparr>m_cpu := (m_cpu ?m)\<lparr>c_repeat_pending := True\<rparr>\<rparr>)"
    unfolding same by (rule assms)
  obtain s where s: "run_state (execute ldirb) ?m = ((), s)" "m_cpu s = ldirb_regs ?c"
      "m_mmu s = m_mmu m"
    using stuck_execute [OF st] by auto
  have "\<not> preempted ?c" using assms by (simp add: stuck_def preempted_def Let_def)
  moreover have fault: "\<not> c_fault (ldirb_regs ?c)"
    using assms by (simp add: stuck_def ldirb_regs_def put_flag_def add_to_addr_reg_def ww_def
        set_R_def Let_def)
  moreover have w: "\<not> u_warn_pending (m_mmu m)" using assms by (simp add: stuck_def Let_def)
  ultimately have run: "run_state (repeat_pass ldirb) m
      = (False, s\<lparr>m_cpu := (m_cpu s)\<lparr>c_insns := c_insns (m_cpu s) + 1\<rparr>\<rparr>)"
    by (simp add: repeat_pass_def run_once_def consume_warning_def run_state_bind run_handler s)
  have "stuck (s\<lparr>m_cpu := (m_cpu s)\<lparr>c_insns := c_insns (m_cpu s) + 1\<rparr>\<rparr>)"
    using assms
    by (simp add: stuck_def s ldirb_regs_def add_to_addr_reg_def put_flag_def ww_def rw_def set_R_def
        SEG_def Let_def)
  with run show ?thesis by blast
qed

text \<open>A boot ROM with that instruction at address 0, memory as it comes.\<close>

definition loop_machine :: Machine where
  "loop_machine = machine_zero
     \<lparr>m_rom := (\<lambda>a. if a = 0 then 0xBA else if a = 1 then 0x21 else if a = 2 then 0x01
                   else if a = 3 then 0x10 else 0),
      m_cpu := cpu_zero\<lparr>c_R := (\<lambda>r. if r = 1 then 0x1000 else 0)\<rparr>\<rparr>"

lemma loop_machine_begins:
  "(let (r, m) = run_state (cpu_begin None) loop_machine
    in stuck m \<and> r = Some ldirb)"
  by code_simp

text \<open>C25: The exception is real: an LDIRB whose destination pointer is its count register, fetched and
  executed from a freshly reset machine, never leaves the repeat loop, so the step does not
  return.\<close>

theorem repeat_may_diverge: "cpu_step None loop_machine = None"
proof -
  obtain s where s: "run_state (cpu_begin None) loop_machine = (Some ldirb, s)" "stuck s"
    using loop_machine_begins by (auto split: prod.splits)
  have "while_option (\<lambda>(ret, m). \<not> ret \<and> c_repeat_pending (m_cpu m))
      (\<lambda>(ret, m). run_state (repeat_pass ldirb) m) (False, s) = None"
  proof (rule while_diverges [where P = "\<lambda>(ret, m). \<not> ret \<and> stuck m"])
    fix x :: "bool \<times> Machine"
    assume x: "case x of (ret, m) \<Rightarrow> \<not> ret \<and> stuck m"
    then obtain m where m: "x = (False, m)" "stuck m" by (cases x) auto
    then have "c_repeat_pending (m_cpu m)" by (simp add: stuck_def Let_def)
    then show "(case x of (ret, m) \<Rightarrow> \<not> ret \<and> c_repeat_pending (m_cpu m)) \<and>
        (case case x of (ret, m) \<Rightarrow> run_state (repeat_pass ldirb) m of (ret, m) \<Rightarrow> \<not> ret \<and> stuck m)"
      using stuck_pass [OF m(2)] m(1) by auto
  qed (use s in simp)
  then show ?thesis by (simp add: cpu_step_def s(1) repeat_loop_def)
qed

text \<open>With another count register the same instruction ends, from a machine in the same loop, within
  as many passes as that register counts.\<close>

theorem repeat_terminates_witness:
  "let m = loop_machine\<lparr>m_cpu := (m_cpu loop_machine)
         \<lparr>c_opcode := (\<lambda>i. if i = 0 then 0xBA21 else 0x0310), c_R := (c_R (m_cpu loop_machine))(3 := 7),
          c_repeat_pending := True\<rparr>\<rparr>
   in \<exists>k \<le> 7. repeat_loop ldirb m = Some (snd (passes ldirb k m)) \<and> \<not> again (passes ldirb k m)"
proof -
  let ?m = "loop_machine\<lparr>m_cpu := (m_cpu loop_machine)
         \<lparr>c_opcode := (\<lambda>i. if i = 0 then 0xBA21 else 0x0310), c_R := (c_R (m_cpu loop_machine))(3 := 7),
          c_repeat_pending := True\<rparr>\<rparr>"
  have "is_block ldirb
      \<and> nib1 (c_opcode (m_cpu ?m) 1) \<notin> set (moved ldirb (c_opcode (m_cpu ?m)) (SEG (m_cpu ?m)))"
    by code_simp
  note ends = repeat_terminates [OF conjunct1 [OF this] conjunct2 [OF this]]
  have "Suc (unat (rw (nib1 (c_opcode (m_cpu ?m) 1)) (m_cpu ?m) - 1)) = 7" by code_simp
  with ends show ?thesis unfolding Let_def by metis
qed

end
