(* ===== verification/Rtc_Props.thy ===== *)
theory Rtc_Props
  imports Rtc
begin

text \<open>
  The clock module of \<open>src/src/bus.c\<close> refines a calendar: in 24-hour mode its BCD registers
  are the encoding of a time, one tick is the next second of that time, and the divider
  delivers as many ticks as whole seconds of guest time have passed.
\<close>

subsection \<open>The calendar\<close>

record Time =
  t_year :: nat
  t_mon :: nat
  t_day :: nat
  t_hour :: nat
  t_min :: nat
  t_sec :: nat
  t_wday :: nat
  t_leap :: nat

text \<open>\<open>t_leap\<close> is the number of years since, or before, the last leap year modulo 4; 0 is a leap year.\<close>

definition month_days :: "nat \<Rightarrow> bool \<Rightarrow> nat" where
  "month_days mon leap =
     (if mon = 2 then (if leap then 29 else 28)
      else if mon = 4 \<or> mon = 6 \<or> mon = 9 \<or> mon = 11 then 30 else 31)"

definition time_ok :: "Time \<Rightarrow> bool" where
  "time_ok t \<longleftrightarrow>
     t_year t < 100 \<and> 1 \<le> t_mon t \<and> t_mon t \<le> 12 \<and> 1 \<le> t_day t
     \<and> t_day t \<le> month_days (t_mon t) (t_leap t = 0)
     \<and> t_hour t < 24 \<and> t_min t < 60 \<and> t_sec t < 60 \<and> t_wday t < 7 \<and> t_leap t < 4"

definition next_year :: "Time \<Rightarrow> Time" where
  "next_year t = t\<lparr>t_year := (t_year t + 1) mod 100, t_leap := (t_leap t + 3) mod 4\<rparr>"

definition next_day :: "Time \<Rightarrow> Time" where
  "next_day t =
     (let t' = t\<lparr>t_wday := (t_wday t + 1) mod 7\<rparr>
      in if t_day t < month_days (t_mon t) (t_leap t = 0) then t'\<lparr>t_day := t_day t + 1\<rparr>
         else if t_mon t < 12 then t'\<lparr>t_day := 1, t_mon := t_mon t + 1\<rparr>
         else (next_year t')\<lparr>t_day := 1, t_mon := 1\<rparr>)"

definition next_second :: "Time \<Rightarrow> Time" where
  "next_second t =
     (if t_sec t < 59 then t\<lparr>t_sec := t_sec t + 1\<rparr>
      else if t_min t < 59 then t\<lparr>t_sec := 0, t_min := t_min t + 1\<rparr>
      else if t_hour t < 23 then t\<lparr>t_sec := 0, t_min := 0, t_hour := t_hour t + 1\<rparr>
      else (next_day t)\<lparr>t_sec := 0, t_min := 0, t_hour := 0\<rparr>)"

subsection \<open>The encoding\<close>

definition lo :: "nat \<Rightarrow> u8" where "lo n = of_nat (n mod 10)"
definition hi :: "nat \<Rightarrow> u8" where "hi n = of_nat (n div 10)"

definition encodes_date :: "Time \<Rightarrow> (nib \<Rightarrow> u8) \<Rightarrow> bool" where
  "encodes_date t f \<longleftrightarrow>
     f 0x06 = of_nat (t_wday t) \<and> f 0x07 = lo (t_day t)
     \<and> f 0x08 = push_bit 2 (of_nat (t_leap t)) OR hi (t_day t)
     \<and> f 0x09 = lo (t_mon t) \<and> f 0x0A = hi (t_mon t)
     \<and> f 0x0B = lo (t_year t) \<and> f 0x0C = hi (t_year t)"

definition encodes :: "Time \<Rightarrow> RTC \<Rightarrow> bool" where
  "encodes t r \<longleftrightarrow>
     encodes_date t (r_regs r)
     \<and> r_regs r 0x00 = lo (t_sec t) \<and> r_regs r 0x01 = hi (t_sec t)
     \<and> r_regs r 0x02 = lo (t_min t) \<and> r_regs r 0x03 = hi (t_min t)
     \<and> r_regs r 0x04 = lo (t_hour t) \<and> r_regs r 0x05 = 0x08 OR hi (t_hour t)"

text \<open>Facts about digits, read off tables.\<close>

lemma all_upto: "list_all P [0..<n] \<Longrightarrow> k < n \<Longrightarrow> P k"
  by (simp add: list_all_iff)

lemma hour_digits:
  assumes "h < 24"
  shows "unat ((0x08 OR hi h) AND 0x03) * 10 + unat (lo h AND 0x0F) = h" "tst (0x08 OR hi h) 0x08"
proof -
  have "list_all (\<lambda>h. unat ((0x08 OR hi h) AND 0x03) * 10 + unat (lo h AND 0x0F) = h
      \<and> tst (0x08 OR hi h) 0x08) [0..<24]"
    by code_simp
  from all_upto [OF this assms] show "unat ((0x08 OR hi h) AND 0x03) * 10 + unat (lo h AND 0x0F) = h"
    "tst (0x08 OR hi h) 0x08" by auto
qed

lemma number_digits:
  assumes "n < 100"
  shows "unat (hi n AND 0x0F) * 10 + unat (lo n AND 0x0F) = n"
proof -
  have "list_all (\<lambda>n. unat (hi n AND 0x0F) * 10 + unat (lo n AND 0x0F) = n) [0..<100]"
    by code_simp
  from all_upto [OF this assms] show ?thesis .
qed

lemma month_digits:
  assumes "n < 13"
  shows "unat (hi n AND 0x01) * 10 + unat (lo n AND 0x0F) = n" "hi n AND 0x0E = 0"
proof -
  have "list_all (\<lambda>n. unat (hi n AND 0x01) * 10 + unat (lo n AND 0x0F) = n \<and> hi n AND 0x0E = 0) [0..<13]"
    by code_simp
  from all_upto [OF this assms] show "unat (hi n AND 0x01) * 10 + unat (lo n AND 0x0F) = n"
    "hi n AND 0x0E = 0" by auto
qed

text \<open>Register 8 holds the day's tens under the leap-year digit.\<close>

definition day_leap :: "nat \<Rightarrow> nat \<Rightarrow> u8" where
  "day_leap d l = push_bit 2 (of_nat l) OR hi d"

lemma day_digits:
  assumes "d < 32" "l < 4"
  shows "unat (day_leap d l AND 0x03) * 10 + unat (lo d AND 0x0F) = d
    \<and> (drop_bit 2 (day_leap d l) AND 3 = 0 \<longleftrightarrow> l = 0)
    \<and> (\<forall>e \<in> set [0..<32]. (day_leap d l AND 0x0C) OR hi e = day_leap e l)
    \<and> (day_leap d l AND 0x03) OR push_bit 2 ((drop_bit 2 (day_leap d l) + 3) AND 3)
      = day_leap d ((l + 3) mod 4)"
proof -
  have "list_all (\<lambda>d. list_all (\<lambda>l. unat (day_leap d l AND 0x03) * 10 + unat (lo d AND 0x0F) = d
    \<and> (drop_bit 2 (day_leap d l) AND 3 = 0 \<longleftrightarrow> l = 0)
    \<and> (\<forall>e \<in> set [0..<32]. (day_leap d l AND 0x0C) OR hi e = day_leap e l)
    \<and> (day_leap d l AND 0x03) OR push_bit 2 ((drop_bit 2 (day_leap d l) + 3) AND 3)
      = day_leap d ((l + 3) mod 4)) [0..<4]) [0..<32]"
    by code_simp
  from all_upto [OF all_upto [OF this assms(1)] assms(2)] show ?thesis .
qed

lemma encodes_date_regs:
  assumes "encodes_date t f"
  shows "f 0x06 = of_nat (t_wday t)" "f 0x07 = lo (t_day t)" "f 0x08 = day_leap (t_day t) (t_leap t)"
    "f 0x09 = lo (t_mon t)" "f 0x0A = hi (t_mon t)" "f 0x0B = lo (t_year t)" "f 0x0C = hi (t_year t)"
  using assms by (simp_all add: encodes_date_def day_leap_def)

subsection \<open>One tick\<close>

lemma month_length:
  assumes "1 \<le> mon" "mon \<le> 12"
  shows "rtc_mlen mon leap = month_days mon leap"
proof -
  have "list_all (\<lambda>m. \<forall>l \<in> {True, False}. m = 0 \<or> rtc_mlen m l = month_days m l) [0..<13]" by code_simp
  from all_upto [OF this, of mon] assms show ?thesis by (cases leap) auto
qed

lemma month_days_range: "28 \<le> month_days mon leap" "month_days mon leap \<le> 31"
  by (simp_all add: month_days_def)

lemma time_ok_day: "time_ok t \<Longrightarrow> t_day t < 32"
  using month_days_range(2) [of "t_mon t" "t_leap t = 0"] by (simp add: time_ok_def)

lemma unat_digit: "n < 256 \<Longrightarrow> unat (of_nat n :: u8) = n"
  by (simp add: unat_of_nat)

lemma year_tick_regs:
  assumes "encodes_date t (r_regs r)" "time_ok t"
  shows "r_regs (rtc_year_tick r) = (r_regs r)(0x0B := lo ((t_year t + 1) mod 100),
    0x0C := hi ((t_year t + 1) mod 100), 0x08 := day_leap (t_day t) ((t_leap t + 3) mod 4))"
proof -
  have "t_year t < 100" "t_leap t < 4" using assms(2) by (simp_all add: time_ok_def)
  then show ?thesis
    using number_digits [of "t_year t"] day_digits [OF time_ok_day [OF assms(2)], of "t_leap t"]
    by (simp add: rtc_year_tick_def Let_def rget_def encodes_date_regs [OF assms(1)] lo_def [symmetric]
      hi_def [symmetric])
qed

lemma rtc_day_tick_unfold:
  assumes "encodes_date t (r_regs r)" "time_ok t"
  shows "rtc_day_tick r =
    (let r = rput 0x06 (of_nat ((t_wday t + 1) mod 7)) r;
         last = (t_day t = month_days (t_mon t) (t_leap t = 0));
         r' = (if \<not> last then r
               else if t_mon t < 12 then rput 0x0A (hi (t_mon t + 1)) (rput 0x09 (lo (t_mon t + 1)) r)
               else rput 0x0A (hi 1) (rput 0x09 (lo 1) (rtc_year_tick r)));
         d = (if last then 1 else t_day t + 1);
         r'' = rput 0x07 (lo d) r'
     in rput 0x08 ((r_regs r'' 0x08 AND 0x0C) OR hi d) r'')"
proof -
  note regs = encodes_date_regs [OF assms(1)]
  have ok: "t_leap t < 4" "t_mon t < 13" "1 \<le> t_mon t" "t_mon t \<le> 12" "t_wday t < 7"
    "t_day t \<le> month_days (t_mon t) (t_leap t = 0)"
    using assms(2) by (auto simp: time_ok_def)
  have y: "r_regs (rtc_year_tick (rput 6 v r)) 0x0A = hi (t_mon t)" for v
    using regs by (simp add: rtc_year_tick_def Let_def)
  have m0: "hi n AND 0x0E = 0" if "n < 13" for n using month_digits [OF that] by simp
  show ?thesis
    using day_digits [OF time_ok_day [OF assms(2)] ok(1)] month_digits [OF ok(2)] ok
    by (simp add: rtc_day_tick_def Let_def rget_def regs month_length unat_digit y m0
      lo_def [symmetric] hi_def [symmetric])
qed

lemma encodes_dateI:
  assumes "f 0x06 = of_nat (t_wday t)" "f 0x07 = lo (t_day t)" "f 0x08 = day_leap (t_day t) (t_leap t)"
    "f 0x09 = lo (t_mon t)" "f 0x0A = hi (t_mon t)" "f 0x0B = lo (t_year t)" "f 0x0C = hi (t_year t)"
  shows "encodes_date t f"
  using assms by (simp add: encodes_date_def day_leap_def)

lemma day_tick_regs:
  assumes "encodes_date t (r_regs r)" "time_ok t"
  shows "encodes_date (next_day t) (r_regs (rtc_day_tick r))"
    "\<forall>i \<in> {0, 1, 2, 3, 4, 5}. r_regs (rtc_day_tick r) i = r_regs r i"
proof -
  note regs = encodes_date_regs [OF assms(1)]
  have ok: "t_leap t < 4" "t_mon t \<le> 12" "t_day t \<le> month_days (t_mon t) (t_leap t = 0)"
    using assms(2) by (auto simp: time_ok_def)
  have "(day_leap (t_day t) l AND 0x0C) OR hi e = day_leap e l" if "l < 4" "e < 32" for l e
    using day_digits [OF time_ok_day [OF assms(2)] that(1)] that(2) by simp
  note dl = this [OF ok(1)] this [of "(t_leap t + 3) mod 4"]
  have l31: "t_day t + 1 < 32" if "t_day t \<noteq> month_days (t_mon t) (t_leap t = 0)"
    using that ok(3) month_days_range(2) [of "t_mon t" "t_leap t = 0"] by simp
  define r6 where "r6 = rput 0x06 (of_nat ((t_wday t + 1) mod 7)) r"
  have e6: "encodes_date (t\<lparr>t_wday := (t_wday t + 1) mod 7\<rparr>) (r_regs r6)"
    by (rule encodes_dateI) (simp_all add: r6_def regs)
  have y6: "r_regs (rtc_year_tick r6) = (r_regs r6)(0x0B := lo ((t_year t + 1) mod 100),
    0x0C := hi ((t_year t + 1) mod 100), 0x08 := day_leap (t_day t) ((t_leap t + 3) mod 4))"
    using year_tick_regs [OF e6] assms(2) by (simp add: time_ok_def)
  define last where "last \<longleftrightarrow> t_day t = month_days (t_mon t) (t_leap t = 0)"
  have *: "rtc_day_tick r =
    (let r' = (if \<not> last then r6
               else if t_mon t < 12 then rput 0x0A (hi (t_mon t + 1)) (rput 0x09 (lo (t_mon t + 1)) r6)
               else rput 0x0A (hi 1) (rput 0x09 (lo 1) (rtc_year_tick r6)));
         d = (if last then 1 else t_day t + 1);
         r'' = rput 0x07 (lo d) r'
     in rput 0x08 ((r_regs r'' 0x08 AND 0x0C) OR hi d) r'')"
    by (simp add: rtc_day_tick_unfold [OF assms] r6_def Let_def last_def)
  have n: "next_day t = (let t' = t\<lparr>t_wday := (t_wday t + 1) mod 7\<rparr>
      in if \<not> last then t'\<lparr>t_day := t_day t + 1\<rparr>
         else if t_mon t < 12 then t'\<lparr>t_day := 1, t_mon := t_mon t + 1\<rparr>
         else (next_year t')\<lparr>t_day := 1, t_mon := 1\<rparr>)"
    using ok(3) by (auto simp: next_day_def last_def Let_def)
  have r6: "r_regs r6 = (r_regs r)(0x06 := of_nat ((t_wday t + 1) mod 7))" by (simp add: r6_def)
  have l31: "\<not> last \<Longrightarrow> t_day t + 1 < 32" using l31 by (simp add: last_def)
  show "\<forall>i \<in> {0, 1, 2, 3, 4, 5}. r_regs (rtc_day_tick r) i = r_regs r i"
    by (simp add: * Let_def y6) (simp add: r6)
  show "encodes_date (next_day t) (r_regs (rtc_day_tick r))"
    by (rule encodes_dateI)
      (use ok l31 in \<open>simp_all add: * n Let_def y6 r6 regs dl [simplified] next_year_def\<close>)
qed

lemma encodes_regs:
  assumes "encodes t r"
  shows "encodes_date t (r_regs r)" "r_regs r 0x00 = lo (t_sec t)" "r_regs r 0x01 = hi (t_sec t)"
    "r_regs r 0x02 = lo (t_min t)" "r_regs r 0x03 = hi (t_min t)"
    "r_regs r 0x04 = lo (t_hour t)" "r_regs r 0x05 = 0x08 OR hi (t_hour t)"
  using assms by (simp_all add: encodes_def)

text \<open>The date is read from the registers 6 to 12 only.\<close>

lemma encodes_date_upd:
  "i \<in> {0, 1, 2, 3, 4, 5} \<Longrightarrow> encodes_date t (f(i := v)) = encodes_date t f"
  by (auto simp: encodes_date_def)

lemma encodes_date_time [simp]:
  "encodes_date (t\<lparr>t_hour := h\<rparr>) f = encodes_date t f" "encodes_date (t\<lparr>t_min := h\<rparr>) f = encodes_date t f"
  "encodes_date (t\<lparr>t_sec := h\<rparr>) f = encodes_date t f"
  by (simp_all add: encodes_date_def)

lemma hour_tick_regs:
  assumes "encodes_date t (r_regs r)" "time_ok t" "r_regs r 0x04 = lo (t_hour t)"
    "r_regs r 0x05 = 0x08 OR hi (t_hour t)"
  defines "t' \<equiv> if t_hour t < 23 then t\<lparr>t_hour := t_hour t + 1\<rparr> else (next_day t)\<lparr>t_hour := 0\<rparr>"
  shows "encodes_date t' (r_regs (rtc_hour_tick r))"
    "r_regs (rtc_hour_tick r) 0x04 = lo (t_hour t')" "r_regs (rtc_hour_tick r) 0x05 = 0x08 OR hi (t_hour t')"
    "\<forall>i \<in> {0, 1, 2, 3}. r_regs (rtc_hour_tick r) i = r_regs r i"
proof -
  have "t_hour t < 24" using assms(2) by (simp add: time_ok_def)
  note h = this hour_digits [OF this]
  note d = day_tick_regs [OF assms(1,2)]
  have *: "rtc_hour_tick r = (let r' = (if t_hour t < 23 then r else rtc_day_tick r)
    in rput 0x05 (0x08 OR hi (t_hour t')) (rput 0x04 (lo (t_hour t')) r'))"
    using h by (simp add: rtc_hour_tick_def Let_def assms(3,4) rget_def t'_def lo_def [symmetric]
        hi_def [symmetric])
  show "encodes_date t' (r_regs (rtc_hour_tick r))"
    using d(1) assms(1) by (simp add: * Let_def encodes_date_upd t'_def)
  show "r_regs (rtc_hour_tick r) 0x04 = lo (t_hour t')" "r_regs (rtc_hour_tick r) 0x05 = 0x08 OR hi (t_hour t')"
    by (simp_all add: * Let_def)
  show "\<forall>i \<in> {0, 1, 2, 3}. r_regs (rtc_hour_tick r) i = r_regs r i"
    using d(2) by (simp add: * Let_def)
qed

lemma sixty_digits:
  assumes "n < 60"
  shows "(lo n + 1 \<le> 9 \<longleftrightarrow> n mod 10 \<noteq> 9) \<and> (n mod 10 \<noteq> 9 \<longrightarrow> lo n + 1 = lo (n + 1) \<and> hi n = hi (n + 1))
    \<and> (n mod 10 = 9 \<longrightarrow> lo (n + 1) = 0 \<and> hi n + 1 = hi (n + 1)) \<and> (hi n + 1 \<le> 5 \<longleftrightarrow> n < 50)"
proof -
  have "list_all (\<lambda>n. (lo n + 1 \<le> 9 \<longleftrightarrow> n mod 10 \<noteq> 9)
    \<and> (n mod 10 \<noteq> 9 \<longrightarrow> lo n + 1 = lo (n + 1) \<and> hi n = hi (n + 1))
    \<and> (n mod 10 = 9 \<longrightarrow> lo (n + 1) = 0 \<and> hi n + 1 = hi (n + 1)) \<and> (hi n + 1 \<le> 5 \<longleftrightarrow> n < 50)) [0..<60]"
    by code_simp
  from all_upto [OF this assms] show ?thesis .
qed

text \<open>Two digits, the lower counting to 9 and the upper to 5.\<close>

definition sixty_tick :: "nib \<Rightarrow> nib \<Rightarrow> RTC \<Rightarrow> bool \<times> RTC" where
  "sixty_tick i j r = (let (c, r) = digit_tick i 9 r in if \<not> c then (False, r) else digit_tick j 5 r)"

lemma rtc_tick_sixty:
  "rtc_tick r =
    (let (c, r) = sixty_tick 0 1 (r\<lparr>r_n_tick := r_n_tick r + 1\<rparr>)
     in if \<not> c then r else (let (c, r) = sixty_tick 2 3 r in if \<not> c then r else rtc_hour_tick r))"
  by (simp add: rtc_tick_def sixty_tick_def Let_def split: prod.splits)

lemma sixty_tick_regs:
  assumes "r_regs r i = lo n" "r_regs r j = hi n" "n < 60" "i \<noteq> j"
  shows "fst (sixty_tick i j r) = (n = 59)"
    "r_regs (snd (sixty_tick i j r))
      = (r_regs r)(i := lo (if n = 59 then 0 else n + 1), j := hi (if n = 59 then 0 else n + 1))"
proof -
  have 59: "n = 59 \<longleftrightarrow> n mod 10 = 9 \<and> \<not> n < 50" using assms(3) by presburger
  have lh: "lo 0 = 0" "hi 0 = 0" by (simp_all add: lo_def hi_def)
  show "fst (sixty_tick i j r) = (n = 59)"
    using sixty_digits [OF assms(3)] assms
    by (auto simp: sixty_tick_def digit_tick_def Let_def 59 linorder_not_le [symmetric])
  show "r_regs (snd (sixty_tick i j r))
      = (r_regs r)(i := lo (if n = 59 then 0 else n + 1), j := hi (if n = 59 then 0 else n + 1))"
    using sixty_digits [OF assms(3)] assms
    by (auto simp: sixty_tick_def digit_tick_def Let_def 59 lh not_less fun_eq_iff)
qed

lemma encodesI:
  assumes "encodes_date t (r_regs r)" "r_regs r 0x00 = lo (t_sec t)" "r_regs r 0x01 = hi (t_sec t)"
    "r_regs r 0x02 = lo (t_min t)" "r_regs r 0x03 = hi (t_min t)"
    "r_regs r 0x04 = lo (t_hour t)" "r_regs r 0x05 = 0x08 OR hi (t_hour t)"
  shows "encodes t r"
  using assms by (simp add: encodes_def)

lemma next_day_sel [simp]:
  "t_sec (next_day t) = t_sec t" "t_min (next_day t) = t_min t" "t_hour (next_day t) = t_hour t"
  by (simp_all add: next_day_def next_year_def Let_def)

lemma tick_encodes:
  assumes "encodes t r" "time_ok t"
  shows "encodes (next_second t) (rtc_tick r)"
proof -
  note e = encodes_regs [OF assms(1)]
  have ok: "t_sec t < 60" "t_min t < 60" using assms(2) by (simp_all add: time_ok_def)
  define r0 where "r0 = r\<lparr>r_n_tick := r_n_tick r + 1\<rparr>"
  define r1 where "r1 = snd (sixty_tick 0 1 r0)"
  define r2 where "r2 = snd (sixty_tick 2 3 r1)"
  have s: "fst (sixty_tick 0 1 r0) = (t_sec t = 59)"
    "r_regs r1 = (r_regs r)(0 := lo (if t_sec t = 59 then 0 else t_sec t + 1),
      1 := hi (if t_sec t = 59 then 0 else t_sec t + 1))"
    using sixty_tick_regs [of r0 0 "t_sec t" 1] e ok by (simp_all add: r0_def r1_def)
  have m: "fst (sixty_tick 2 3 r1) = (t_min t = 59)"
    "r_regs r2 = (r_regs r1)(2 := lo (if t_min t = 59 then 0 else t_min t + 1),
      3 := hi (if t_min t = 59 then 0 else t_min t + 1))"
    using sixty_tick_regs [of r1 2 "t_min t" 3] e ok s(2) by (simp_all add: r2_def)
  have *: "rtc_tick r = (if t_sec t \<noteq> 59 then r1 else if t_min t \<noteq> 59 then r2 else rtc_hour_tick r2)"
    using s(1) m(1) by (simp add: rtc_tick_sixty r0_def [symmetric] r1_def r2_def case_prod_beta)
  consider "t_sec t \<noteq> 59" | "t_sec t = 59" "t_min t \<noteq> 59" | "t_sec t = 59" "t_min t = 59" by blast
  then show ?thesis
  proof cases
    case 1
    then show ?thesis using e ok by (intro encodesI) (simp_all add: * next_second_def s encodes_date_upd)
  next
    case 2
    then show ?thesis using e ok by (intro encodesI) (simp_all add: * next_second_def s m encodes_date_upd)
  next
    case 3
    have r2: "encodes_date t (r_regs r2)" "r_regs r2 0x04 = lo (t_hour t)" "r_regs r2 0x05 = 0x08 OR hi (t_hour t)"
      using e by (simp_all add: s m encodes_date_upd)
    note h = hour_tick_regs [OF r2(1) assms(2) r2(2,3)]
    from h 3 show ?thesis
      by (intro encodesI) (auto simp: * next_second_def s m)
  qed
qed

lemma month_days_pos: "Suc 0 \<le> month_days mon leap"
  by (simp add: month_days_def)

lemma next_second_ok: "time_ok t \<Longrightarrow> time_ok (next_second t)"
  by (auto simp: month_days_pos time_ok_def next_second_def next_day_def next_year_def Let_def)

subsection \<open>The divider\<close>

lemma encodes_base [simp]:
  "encodes t (r\<lparr>r_base := b\<rparr>) = encodes t r" "encodes t (r\<lparr>r_n_tick_selected := k\<rparr>) = encodes t r"
  by (simp_all add: encodes_def)

lemma carry_encodes: "encodes t r \<Longrightarrow> time_ok t \<Longrightarrow> encodes (next_second t) (rtc_carry cs r)"
  by (simp add: rtc_carry_def Let_def tick_encodes)

lemma carry_loop_encodes:
  assumes "r_ips r \<noteq> 0" "encodes t r" "time_ok t"
  shows "encodes ((next_second ^^ (unat (now - r_base r) div unat (r_ips r))) t) (rtc_carry_loop cs now r)
    \<and> unat (now - r_base (rtc_carry_loop cs now r)) = unat (now - r_base r) mod unat (r_ips r)"
  using assms
proof (induction cs now r arbitrary: t rule: rtc_carry_loop.induct)
  case (1 cs now r)
  show ?case
  proof (cases "now - r_base r \<ge> r_ips r")
    case False
    then have "unat (now - r_base r) < unat (r_ips r)" by (simp add: word_less_nat_alt linorder_not_le)
    with False "1.prems" show ?thesis by (simp add: rtc_carry_loop.simps [of cs now r])
  next
    case True
    have "now - (r_base r + r_ips r) = (now - r_base r) - r_ips r" by (simp add: algebra_simps)
    with True have d: "unat (now - (r_base r + r_ips r)) = unat (now - r_base r) - unat (r_ips r)"
      by (simp only: unat_sub)
    have le: "unat (r_ips r) \<le> unat (now - r_base r)" "0 < unat (r_ips r)"
      using True "1.prems"(1) by (simp_all add: word_le_nat_alt unat_gt_0)
    note ih = "1.IH" [of "next_second t"]
    have s: "Suc ((unat (now - r_base r) - unat (r_ips r)) div unat (r_ips r)) = unat (now - r_base r) div unat (r_ips r)"
      using le by (simp add: le_div_geq)
    have "(next_second ^^ (unat (now - r_base r) div unat (r_ips r))) t
        = (next_second ^^ ((unat (now - r_base r) - unat (r_ips r)) div unat (r_ips r))) (next_second t)"
      by (simp add: s [symmetric] funpow_swap1)
    with ih True "1.prems" le d show ?thesis
      by (simp add: rtc_carry_loop.simps [of cs now r] carry_encodes next_second_ok le_mod_geq)
  qed
qed

lemma next_seconds_ok: "time_ok t \<Longrightarrow> time_ok ((next_second ^^ n) t)"
  by (induction n) (simp_all add: next_second_ok)

text \<open>C23: Refinement.  A running clock in 24-hour mode is a calendar: when the registers encode a
  valid time, advancing the chip to the current instruction count leaves the encoding of the
  time a whole number of seconds later, that number being the instructions since the last
  carry divided by the divider's period; the rest of the period is carried over, the time is
  valid again, and nothing but the clock module changes.\<close>

theorem clock_refines_calendar:
  assumes "encodes t (m_rtc m)" "time_ok t" "r_present (m_rtc m)" "\<not> r_stopped (m_rtc m)"
    "r_ips (m_rtc m) \<noteq> 0"
  defines "elapsed \<equiv> unat (c_insns (m_cpu m) - r_base (m_rtc m))"
    and "period \<equiv> unat (r_ips (m_rtc m))"
    and "m' \<equiv> rtc_advance m"
  shows "encodes ((next_second ^^ (elapsed div period)) t) (m_rtc m')
    \<and> time_ok ((next_second ^^ (elapsed div period)) t)
    \<and> unat (c_insns (m_cpu m') - r_base (m_rtc m')) = elapsed mod period
    \<and> m' = m\<lparr>m_rtc := m_rtc m'\<rparr>"
  using carry_loop_encodes [OF assms(5,1,2)] next_seconds_ok [OF assms(2)] assms(3-5)
  by (simp add: rtc_advance_def Let_def elapsed_def period_def m'_def)

text \<open>31 December 1983, 23:59:59, and three and a half seconds of guest time.\<close>

definition new_years_eve :: Machine where
  "new_years_eve = (let m = rtc_set_time 1983 12 31 23 59 59 machine_zero
     in m\<lparr>m_rtc := (m_rtc m)\<lparr>r_ips := 4\<rparr>, m_cpu := (m_cpu m)\<lparr>c_insns := 14\<rparr>\<rparr>)"

definition eve_time :: Time where
  "eve_time = \<lparr>t_year = 83, t_mon = 12, t_day = 31, t_hour = 23, t_min = 59, t_sec = 59, t_wday = 6, t_leap = 1\<rparr>"

lemma clock_refines_calendar_witness:
  "encodes \<lparr>t_year = 84, t_mon = 1, t_day = 1, t_hour = 0, t_min = 0, t_sec = 2, t_wday = 0, t_leap = 0\<rparr>
     (m_rtc (rtc_advance new_years_eve))"
proof -
  have "encodes eve_time (m_rtc new_years_eve)" by code_simp
  moreover have "time_ok eve_time" by code_simp
  moreover have "r_present (m_rtc new_years_eve)" by code_simp
  moreover have "\<not> r_stopped (m_rtc new_years_eve)" by code_simp
  moreover have "r_ips (m_rtc new_years_eve) \<noteq> 0" by code_simp
  ultimately have "encodes ((next_second ^^ (unat (c_insns (m_cpu new_years_eve) - r_base (m_rtc new_years_eve))
      div unat (r_ips (m_rtc new_years_eve)))) eve_time) (m_rtc (rtc_advance new_years_eve))"
    using clock_refines_calendar [of eve_time new_years_eve] by blast
  moreover have "(next_second ^^ (unat (c_insns (m_cpu new_years_eve) - r_base (m_rtc new_years_eve))
      div unat (r_ips (m_rtc new_years_eve)))) eve_time
    = \<lparr>t_year = 84, t_mon = 1, t_day = 1, t_hour = 0, t_min = 0, t_sec = 2, t_wday = 0, t_leap = 0\<rparr>"
    by code_simp
  ultimately show ?thesis by simp
qed

end
