(* ===== verification/Rtc_Seed.thy ===== *)
theory Rtc_Seed
  imports Rtc_Props
begin

text \<open>
  \<open>rtc_set_time\<close> of \<open>src/src/bus.c\<close>: the seed of the clock module is the encoding of a civil
  date, with the day of the week that the days of the century count off.
\<close>

subsection \<open>The civil calendar\<close>

text \<open>The Gregorian rule, and the days counted off one by one from 1 January 1901, a Tuesday
  (Sunday is 0).  Nothing of this is taken from the code.\<close>

definition leap_year :: "nat \<Rightarrow> bool" where
  "leap_year y \<longleftrightarrow> (4 dvd y \<and> \<not> 100 dvd y) \<or> 400 dvd y"

definition year_days :: "nat \<Rightarrow> nat" where
  "year_days y = sum_list (map (\<lambda>mo. month_days mo (leap_year y)) [1..<13])"

definition days_since_1901 :: "nat \<Rightarrow> nat \<Rightarrow> nat \<Rightarrow> nat" where
  "days_since_1901 y mo d =
     sum_list (map year_days [1901..<y]) + sum_list (map (\<lambda>k. month_days k (leap_year y)) [1..<mo]) + (d - 1)"

definition weekday :: "nat \<Rightarrow> nat \<Rightarrow> nat \<Rightarrow> nat" where
  "weekday y mo d = (2 + days_since_1901 y mo d) mod 7"

definition civil_time :: "nat \<Rightarrow> nat \<Rightarrow> nat \<Rightarrow> nat \<Rightarrow> nat \<Rightarrow> nat \<Rightarrow> Time" where
  "civil_time y mo d h mi s =
     \<lparr>t_year = y mod 100, t_mon = mo, t_day = d, t_hour = h, t_min = mi, t_sec = s,
      t_wday = weekday y mo d, t_leap = (4 - y mod 4) mod 4\<rparr>"

definition civil_ok :: "nat \<Rightarrow> nat \<Rightarrow> nat \<Rightarrow> bool" where
  "civil_ok y mo d \<longleftrightarrow>
     1901 \<le> y \<and> y < 2099 \<and> 1 \<le> mo \<and> mo \<le> 12 \<and> 1 \<le> d \<and> d \<le> month_days mo (leap_year y)"

definition tomorrow :: "nat \<Rightarrow> nat \<Rightarrow> nat \<Rightarrow> nat \<times> nat \<times> nat" where
  "tomorrow y mo d =
     (if d < month_days mo (leap_year y) then (y, mo, d + 1)
      else if mo < 12 then (y, mo + 1, 1) else (y + 1, 1, 1))"

lemma leap_every_four:
  assumes "1901 \<le> y" "y \<le> 2099"
  shows "leap_year y \<longleftrightarrow> 4 dvd y"
proof -
  have "y = 2000" if "100 dvd y"
  proof -
    from that obtain k where k: "y = 100 * k" by (auto simp: dvd_def)
    with assms have "19 < k" "k < 21" by linarith+
    with k show ?thesis by simp
  qed
  moreover have "100 dvd y" if "400 dvd y" using that by (rule dvd_trans [rotated]) simp
  ultimately show ?thesis by (auto simp: leap_year_def)
qed

subsection \<open>The day of the week\<close>

text \<open>Between 1900 and 2099 the century corrections of the formula are constant.\<close>

lemma century:
  fixes z :: int
  assumes "1900 \<le> z" "z \<le> 2099"
  shows "z sdiv 4 = z div 4" "z sdiv 100 = z sdiv 400 + 15"
proof -
  show "z sdiv 4 = z div 4" using assms by (simp add: signed_divide_int_def)
  consider "z < 2000" | "2000 \<le> z" by linarith
  then show "z sdiv 100 = z sdiv 400 + 15"
  proof cases
    case 1
    then have "z div 100 = 19" "z div 400 = 4"
      using assms int_div_pos_eq [of z 100 19 "z - 1900"] int_div_pos_eq [of z 400 4 "z - 1600"] by simp_all
    with assms show ?thesis by (simp add: signed_divide_int_def)
  next
    case 2
    then have "z div 100 = 20" "z div 400 = 5"
      using assms int_div_pos_eq [of z 100 20 "z - 2000"] int_div_pos_eq [of z 400 5 "z - 2000"] by simp_all
    with assms show ?thesis by (simp add: signed_divide_int_def)
  qed
qed

definition month_off :: "nat \<Rightarrow> int" where
  "month_off mo = [0, 3, 2, 5, 0, 3, 5, 1, 4, 6, 2, 4] ! (mo - 1)"

lemma wday_formula:
  assumes "1901 \<le> y" "y \<le> 2099" "1 \<le> mo" "mo \<le> 12"
  shows "rtc_wday (int y) (int mo) (int d)
    = (let z = (if mo < 3 then int y - 1 else int y) in z + z div 4 - 15 + month_off mo + int d) mod 7"
proof -
  define z where "z = (if mo < 3 then int y - 1 else int y)"
  have "1900 \<le> z" "z \<le> 2099" using assms by (simp_all add: z_def)
  note c = century [OF this]
  have m: "nat ((int mo - 1) AND 15) = mo - 1"
  proof -
    have "list_all (\<lambda>m. m = 0 \<or> nat ((int m - 1) AND 15) = m - 1) [0..<13]" by code_simp
    from all_upto [OF this, of mo] assms(3,4) show ?thesis by auto
  qed
  have "0 \<le> month_off mo"
  proof -
    have "list_all (\<lambda>m. m = 0 \<or> 0 \<le> month_off m) [0..<13]" by code_simp
    from all_upto [OF this, of mo] assms(3,4) show ?thesis by auto
  qed
  with \<open>1900 \<le> z\<close> have p: "0 \<le> z + z div 4 - 15 + month_off mo + int d" by simp
  have "rtc_wday (int y) (int mo) (int d)
      = (z + z sdiv 4 - z sdiv 100 + z sdiv 400 + month_off mo + int d) smod 7"
    using m by (simp add: rtc_wday_def z_def month_off_def Let_def)
  also have "\<dots> = (z + z div 4 - 15 + month_off mo + int d) smod 7" by (simp add: c algebra_simps)
  also have "\<dots> = (z + z div 4 - 15 + month_off mo + int d) mod 7"
    using p by (auto simp: signed_modulo_int_def sgn_if)
  finally show ?thesis by (simp add: z_def Let_def)
qed

lemma mod7_step: "a + 1 = b + 7 * k \<Longrightarrow> b mod 7 = (a mod 7 + 1) mod (7::int)"
  by (simp add: mod_simps)

lemma wday_next_day:
  assumes "1901 \<le> y" "y \<le> 2099" "1 \<le> mo" "mo \<le> 12"
  shows "rtc_wday (int y) (int mo) (int (d + 1)) = (rtc_wday (int y) (int mo) (int d) + 1) mod 7"
  unfolding wday_formula [OF assms] Let_def by (rule mod7_step [of _ _ 0]) simp

lemma wday_next_month:
  assumes "1901 \<le> y" "y \<le> 2099" "1 \<le> mo" "mo < 12"
  shows "rtc_wday (int y) (int (mo + 1)) (int 1)
    = (rtc_wday (int y) (int mo) (int (month_days mo (4 dvd y))) + 1) mod 7"
proof (cases "mo = 2")
  case True
  define Y where "Y = int y"
  have l: "(4 dvd y) = (4 dvd Y)" by (simp add: Y_def) presburger
  have "(Y - 1) div 4 = Y div 4 - (if 4 dvd Y then 1 else 0)" by (simp, presburger)
  note y = this
  have mar: "rtc_wday (int y) (int 3) (int 1) = (Y + Y div 4 - 15 + 2 + 1) mod 7"
    using wday_formula [OF assms(1,2), of 3 1] by (simp add: month_off_def Y_def Let_def)
  have feb: "rtc_wday (int y) (int 2) (int d) = (Y - 1 + (Y - 1) div 4 - 15 + 3 + int d) mod 7" for d
    using wday_formula [OF assms(1,2), of 2 d] by (simp add: month_off_def Y_def Let_def)
  have "rtc_wday (int y) (int 3) (int 1)
      = (rtc_wday (int y) (int 2) (int (month_days 2 (4 dvd y))) + 1) mod 7"
    unfolding mar feb by (rule mod7_step [of _ _ 4]) (simp add: y l month_days_def)
  with True show ?thesis by simp
next
  case False
  have "list_all (\<lambda>m. \<forall>l \<in> {True, False}. m = 0 \<or> m = 2
      \<or> (month_off m + int (month_days m l) + 1 - month_off (m + 1) - 1) mod 7 = 0) [0..<12]"
    by code_simp
  from all_upto [OF this assms(4)] False assms(3)
  have "(month_off mo + int (month_days mo (4 dvd y)) + 1 - month_off (mo + 1) - 1) mod 7 = 0"
    by (cases "4 dvd y") auto
  then obtain k where k: "month_off mo + int (month_days mo (4 dvd y)) + 1 - month_off (mo + 1) - 1 = 7 * k"
    by (auto simp: mod_eq_0_iff_dvd dvd_def)
  have z: "(mo + 1 < 3) = (mo < 3)" using False assms by auto
  have mo: "1 \<le> mo + 1" "mo + 1 \<le> 12" "mo \<le> 12" using assms by auto
  show ?thesis
    unfolding wday_formula [OF assms(1,2) mo(1,2)] wday_formula [OF assms(1-3) mo(3)] z Let_def
    by (rule mod7_step [of _ _ k]) (use k in simp)
qed

lemma wday_next_year:
  assumes "1901 \<le> y" "y < 2099"
  shows "rtc_wday (int (y + 1)) 1 1 = (rtc_wday (int y) 12 31 + 1) mod 7"
proof -
  have "rtc_wday (int (y + 1)) (int 1) (int 1) = (rtc_wday (int y) (int 12) (int 31) + 1) mod 7"
    using assms by (subst (1 2) wday_formula) (auto simp: Let_def month_off_def intro: mod7_step [of _ _ 5])
  then show ?thesis by simp
qed

lemma wday_range:
  assumes "1901 \<le> y" "y \<le> 2099" "1 \<le> mo" "mo \<le> 12"
  shows "0 \<le> rtc_wday (int y) (int mo) (int d)" "rtc_wday (int y) (int mo) (int d) < 7"
  unfolding wday_formula [OF assms] by simp_all

text \<open>The formula of the code counts the days off.\<close>

lemma wday_day:
  assumes "1901 \<le> y" "y \<le> 2099" "1 \<le> mo" "mo \<le> 12"
  shows "rtc_wday (int y) (int mo) (int (Suc k)) = (rtc_wday (int y) (int mo) 1 + int k) mod 7"
  unfolding wday_formula [OF assms] wday_formula [OF assms, of 1, simplified] Let_def
  by (simp add: mod_simps algebra_simps)

lemma wday_month:
  assumes "1901 \<le> y" "y \<le> 2099" "1 \<le> mo" "mo \<le> 12"
  shows "rtc_wday (int y) (int mo) 1
    = (rtc_wday (int y) 1 1 + int (sum_list (map (\<lambda>k. month_days k (leap_year y)) [1..<mo]))) mod 7"
  using assms(3,4)
proof (induction mo rule: nat_induct_at_least)
  case base
  show ?case using wday_range [OF assms(1,2), of 1 1] by simp
next
  case (Suc mo)
  then have mo: "1 \<le> mo" "mo < 12" "mo \<le> 12" by simp_all
  obtain l where l: "month_days mo (leap_year y) = Suc l"
    using month_days_range(1) [of mo "leap_year y"] by (cases "month_days mo (leap_year y)") auto
  have "rtc_wday (int y) (int (mo + 1)) (int 1) = (rtc_wday (int y) (int mo) (int (Suc l)) + 1) mod 7"
    using wday_next_month [OF assms(1,2) mo(1,2)] l by (simp add: leap_every_four [OF assms(1,2)])
  also have "\<dots> = (rtc_wday (int y) (int mo) 1 + int (Suc l)) mod 7"
    unfolding wday_day [OF assms(1,2) mo(1,3)] by (simp add: mod_simps algebra_simps)
  also have "\<dots> = (rtc_wday (int y) 1 1
      + int (sum_list (map (\<lambda>k. month_days k (leap_year y)) [1..<mo])) + int (Suc l)) mod 7"
    by (simp add: Suc.IH [OF mo(3)] mod_simps)
  finally show ?case using mo(1) l by (simp add: algebra_simps)
qed

lemma wday_year:
  assumes "1901 \<le> y" "y \<le> 2099"
  shows "rtc_wday (int y) 1 1 = (2 + int (sum_list (map year_days [1901..<y]))) mod 7"
  using assms
proof (induction y rule: nat_induct_at_least)
  case base
  show ?case using wday_formula [of 1901 1 1] by (simp add: month_off_def)
next
  case (Suc y)
  then have y: "1901 \<le> y" "y < 2099" "y \<le> 2099" by simp_all
  have "[1..<13] = [1..<12] @ [12 :: nat]" by (simp add: upt_rec)
  then have days: "year_days y = sum_list (map (\<lambda>k. month_days k (leap_year y)) [1..<12]) + 31"
    by (simp add: year_days_def month_days_def)
  have "rtc_wday (int (y + 1)) 1 1 = (rtc_wday (int y) (int 12) (int (Suc 30)) + 1) mod 7"
    using wday_next_year [OF y(1,2)] by simp
  also have "\<dots> = (rtc_wday (int y) (int 12) 1 + 31) mod 7"
    by (subst wday_day [OF y(1,3)]) (simp_all add: mod_simps add.commute)
  also have "\<dots> = (rtc_wday (int y) 1 1 + int (year_days y)) mod 7"
    by (subst wday_month [OF y(1,3)]) (simp_all add: days mod_simps algebra_simps del: upt_Suc)
  finally show ?case using y by (simp add: Suc.IH [OF y(3)] mod_simps algebra_simps)
qed

lemma weekday_is_formula:
  assumes "1901 \<le> y" "y \<le> 2099" "1 \<le> mo" "mo \<le> 12" "1 \<le> d"
  shows "int (weekday y mo d) = rtc_wday (int y) (int mo) (int d)"
proof -
  obtain k where d: "d = Suc k" using assms(5) by (cases d) auto
  show ?thesis
    unfolding d wday_day [OF assms(1-4)] wday_month [OF assms(1-4)] wday_year [OF assms(1,2)]
    by (simp add: weekday_def days_since_1901_def zmod_int mod_simps algebra_simps)
qed

subsection \<open>The registers\<close>

lemma b8_digits: "b8 (int n smod 10) = lo n" "b8 (int n sdiv 10) = hi n"
proof -
  have "int n smod 10 = int (n mod 10)" "int n sdiv 10 = int (n div 10)"
    by (auto simp: signed_modulo_int_def signed_divide_int_def sgn_if zmod_int zdiv_int)
  then show "b8 (int n smod 10) = lo n" "b8 (int n sdiv 10) = hi n"
    by (simp_all only: b8_def lo_def hi_def of_int_of_nat_eq)
qed

lemma b8_hour:
  assumes "h < 24"
  shows "b8 (0x08 OR int h sdiv 10) = 0x08 OR hi h"
proof -
  have "list_all (\<lambda>h. b8 (0x08 OR int h sdiv 10) = 0x08 OR hi h) [0..<24]" by code_simp
  from all_upto [OF this assms] show ?thesis .
qed

lemma b8_day_leap:
  assumes "d < 32"
  shows "b8 (push_bit 2 ((4 - (int y AND 3)) AND 3) OR int d sdiv 10) = day_leap d ((4 - y mod 4) mod 4)"
proof -
  have "list_all (\<lambda>d. list_all (\<lambda>k. b8 (push_bit 2 ((4 - int k) AND 3) OR int d sdiv 10)
      = day_leap d ((4 - k) mod 4)) [0..<4]) [0..<32]"
    by code_simp
  from all_upto [OF all_upto [OF this assms], of "y mod 4"]
  have "b8 (push_bit 2 ((4 - int (y mod 4)) AND 3) OR int d sdiv 10) = day_leap d ((4 - y mod 4) mod 4)"
    by simp
  moreover have "int y AND 3 = int (y mod 4)"
    using take_bit_eq_mask [of 2 "int y"] by (simp add: mask_eq_exp_minus_1 take_bit_eq_mod zmod_int)
  ultimately show ?thesis by simp
qed

lemma b8_int: "b8 (int n) = of_nat n"
  by (simp add: b8_def)

lemma year_digits: "int y smod 100 = int (y mod 100)"
  by (auto simp: signed_modulo_int_def sgn_if zmod_int)

lemma civil_ok_bounds:
  assumes "civil_ok y mo d"
  shows "1901 \<le> y" "y \<le> 2099" "y < 2099" "1 \<le> mo" "mo \<le> 12" "1 \<le> d" "d < 32"
    "d \<le> month_days mo (4 dvd y)"
  using assms month_days_range(2) [of mo "4 dvd y"] leap_every_four [of y] by (auto simp: civil_ok_def)

lemma leap_digit: "(4 - y mod 4) mod 4 = 0 \<longleftrightarrow> 4 dvd (y :: nat)"
  by presburger

lemma leap_digit_step: "(7 - y mod 4) mod 4 = (4 - Suc y mod 4) mod (4 :: nat)"
proof -
  consider "y mod 4 = 0" | "y mod 4 = 1" | "y mod 4 = 2" | "y mod 4 = 3" by linarith
  then show ?thesis by cases (simp_all add: mod_Suc)
qed

lemma tomorrow_cases:
  assumes "civil_ok y mo d" "tomorrow y mo d = (y', mo', d')"
  shows "(d < month_days mo (4 dvd y) \<and> y' = y \<and> mo' = mo \<and> d' = d + 1)
    \<or> (d = month_days mo (4 dvd y) \<and> mo < 12 \<and> y' = y \<and> mo' = mo + 1 \<and> d' = 1)
    \<or> (d = 31 \<and> mo = 12 \<and> y' = y + 1 \<and> mo' = 1 \<and> d' = 1)"
  using assms(2) civil_ok_bounds [OF assms(1)]
  by (auto simp: tomorrow_def leap_every_four month_days_def split: if_splits)

lemma tomorrow_wday:
  assumes "civil_ok y mo d" "tomorrow y mo d = (y', mo', d')"
  shows "weekday y' mo' d' = (weekday y mo d + 1) mod 7"
proof -
  note b = civil_ok_bounds [OF assms(1)]
  have "rtc_wday (int y') (int mo') (int d') = (rtc_wday (int y) (int mo) (int d) + 1) mod 7"
    using tomorrow_cases [OF assms]
  proof (elim disjE conjE)
    assume "y' = y" "mo' = mo" "d' = d + 1"
    then show ?thesis by (simp only: wday_next_day [OF b(1,2,4,5)])
  next
    assume "d = month_days mo (4 dvd y)" "mo < 12" "y' = y" "mo' = mo + 1" "d' = 1"
    then show ?thesis by (simp only: wday_next_month [OF b(1,2,4)])
  next
    assume "d = 31" "mo = 12" "y' = y + 1" "mo' = 1" "d' = 1"
    then show ?thesis using wday_next_year [OF b(1,3)] by simp
  qed
  moreover have "1901 \<le> y'" "y' \<le> 2099" "1 \<le> mo'" "mo' \<le> 12" "1 \<le> d'"
    using tomorrow_cases [OF assms] b by auto
  ultimately have "int (weekday y' mo' d') = int ((weekday y mo d + 1) mod 7)"
    using b by (simp add: weekday_is_formula zmod_int add.commute)
  then show ?thesis by (simp only: of_nat_eq_iff)
qed

lemma tomorrow_time:
  assumes "civil_ok y mo d" "tomorrow y mo d = (y', mo', d')"
  shows "next_day (civil_time y mo d h mi s) = civil_time y' mo' d' h mi s"
  using tomorrow_cases [OF assms] civil_ok_bounds [OF assms(1)] tomorrow_wday [OF assms]
  by (auto simp: civil_time_def next_day_def next_year_def Let_def leap_digit month_days_def
      leap_digit_step mod_simps)

text \<open>C24: Seeding.  For every date from 1901 to 2098 the seed of the clock module is the encoding
  of that civil time, which is a valid time, with the day of the week that counting the days off from
  1 January 1901, a Tuesday, gives; and the calendar the chip counts agrees with the
  civil one from then on: the chip's next day is the encoding of tomorrow's date by the Gregorian
  rule, day of the week and leap digit included.\<close>

theorem clock_seed:
  assumes "civil_ok y mo d" "h < 24" "mi < 60" "s < 60"
  shows "encodes (civil_time y mo d h mi s)
      (m_rtc (rtc_set_time (int y) (int mo) (int d) (int h) (int mi) (int s) m))
    \<and> time_ok (civil_time y mo d h mi s)
    \<and> (case tomorrow y mo d of (y', mo', d') \<Rightarrow>
        next_day (civil_time y mo d h mi s) = civil_time y' mo' d' h mi s)"
proof (intro conjI)
  note b = civil_ok_bounds [OF assms(1)]
  note w = weekday_is_formula [OF b(1,2,4,5,6)]
  show "encodes (civil_time y mo d h mi s)
      (m_rtc (rtc_set_time (int y) (int mo) (int d) (int h) (int mi) (int s) m))"
    by (intro encodesI encodes_dateI)
      (simp_all add: rtc_set_time_def upd_rtc_def civil_time_def b8_digits b8_hour [OF assms(2)] 
        b8_day_leap [OF b(7), of y, simplified] w [symmetric] b8_int year_digits)
  show "time_ok (civil_time y mo d h mi s)"
    using assms b by (simp add: time_ok_def civil_time_def leap_digit weekday_def)
  show "case tomorrow y mo d of (y', mo', d') \<Rightarrow>
      next_day (civil_time y mo d h mi s) = civil_time y' mo' d' h mi s"
    using tomorrow_time [OF assms(1)] by (auto split: prod.split)
qed

text \<open>The last second of 29 February 2000, a Tuesday.\<close>

lemma clock_seed_witness:
  "encodes (civil_time 2000 2 29 23 59 59) (m_rtc (rtc_set_time 2000 2 29 23 59 59 machine_zero))
    \<and> t_wday (civil_time 2000 2 29 23 59 59) = 2
    \<and> next_day (civil_time 2000 2 29 23 59 59) = civil_time 2000 3 1 23 59 59"
proof -
  have "civil_ok 2000 2 29" by code_simp
  note c = clock_seed [OF this, of 23 59 59 machine_zero, simplified]
  have "tomorrow 2000 2 29 = (2000, 3, 1)" by code_simp
  moreover have "rtc_wday 2000 2 29 = 2" by code_simp
  then have "t_wday (civil_time 2000 2 29 23 59 59) = 2"
    using weekday_is_formula [of 2000 2 29] by (simp add: civil_time_def)
  ultimately show ?thesis using c by simp
qed

end
