(* ===== verification/User_Mem.thy ===== *)
theory User_Mem
  imports Phys_Mem
begin

text \<open>
  Guest memory of a user-mode process (\<open>src/src/uexec.c\<close>): the flat accessors by segment
  and offset, the address arithmetic of the system calls, which carries an offset overflow
  into the segment number, and the range checks made before a transfer.  A C \<open>int\<close> that only
  counts or addresses here stays far inside its range and is an \<open>int\<close>.
\<close>

subsection \<open>Accessors\<close>

text \<open>\<open>segp(seg)[off & 0xFFFF]\<close>: for any two ints, \<open>x & (2^k - 1)\<close> is \<open>x mod 2^k\<close>.\<close>

definition segp :: "int \<Rightarrow> int \<Rightarrow> u32" where
  "segp seg off = word_of_int ((seg mod 256) * 65536 + off mod 65536)"

definition gw8 :: "int \<Rightarrow> int \<Rightarrow> u8 \<Rightarrow> Machine \<Rightarrow> Machine" where
  "gw8 seg off v = set_ram (segp seg off) v"

definition gr8 :: "int \<Rightarrow> int \<Rightarrow> Machine \<Rightarrow> u8" where
  "gr8 seg off m = m_ram m (segp seg off)"

definition gw16 :: "int \<Rightarrow> int \<Rightarrow> u16 \<Rightarrow> Machine \<Rightarrow> Machine" where
  "gw16 seg off v m = gw8 seg (off + 1) (ucast v) (gw8 seg off (ucast (drop_bit 8 v)) m)"

definition gr16 :: "int \<Rightarrow> int \<Rightarrow> Machine \<Rightarrow> u16" where
  "gr16 seg off m = be16 (gr8 seg off m) (gr8 seg (off + 1) m)"

definition gw32 :: "int \<Rightarrow> int \<Rightarrow> u32 \<Rightarrow> Machine \<Rightarrow> Machine" where
  "gw32 seg off v m = gw16 seg (off + 2) (ucast v) (gw16 seg off (ucast (drop_bit 16 v)) m)"

subsection \<open>User addresses\<close>

text \<open>Byte \<open>k\<close> of a user buffer as (segment, offset); 0x100 is the segment with no memory.\<close>

definition u_addr :: "u32 \<Rightarrow> int \<Rightarrow> int \<times> int" where
  "u_addr v k =
     (let o' = uint (v AND 0xFFFF) + k;
          s = uint (drop_bit 24 v AND 0x7F) + o' div 65536
      in (if s > 0x7F then 0x100 else s, o' mod 65536))"

definition u_mapped :: "Machine \<Rightarrow> int \<Rightarrow> bool" where
  "u_mapped m seg \<longleftrightarrow> seg \<le> p_inst_max (m_proc m)"

text \<open>The loop of \<open>u_range_ok\<close> from position \<open>pos\<close>: one test per segment touched.\<close>

lemma u_addr_off: "0 \<le> snd (u_addr v k)" "snd (u_addr v k) < 65536"
  by (simp_all add: u_addr_def Let_def)

function u_range_from :: "Machine \<Rightarrow> u32 \<Rightarrow> int \<Rightarrow> int \<Rightarrow> bool" where
  "u_range_from m v n pos =
     (if pos < n
      then (let (seg, off) = u_addr v pos
            in u_mapped m seg \<and> u_range_from m v n (pos + (0x10000 - off)))
      else True)"
  by pat_completeness auto
termination
proof (relation "measure (\<lambda>(m, v, n, pos). nat (n - pos))")
  fix m v and n pos :: int and x seg off
  assume a: "pos < n" "x = u_addr v pos" "(seg, off) = x"
  then have "off < 65536" using u_addr_off(2) [of v pos] by (metis snd_conv)
  with a show "((m, v, n, pos + (0x10000 - off)), m, v, n, pos)
      \<in> measure (\<lambda>(m, v, n, pos). nat (n - pos))"
    by simp
qed simp

declare u_range_from.simps [simp del]

definition u_range_ok :: "Machine \<Rightarrow> u32 \<Rightarrow> int \<Rightarrow> bool" where
  "u_range_ok m v n = u_range_from m v n 0"

definition u_r8 :: "u32 \<Rightarrow> int \<Rightarrow> Machine \<Rightarrow> u8" where
  "u_r8 v k m = (let (s, o') = u_addr v k in gr8 s o' m)"

definition u_w8 :: "u32 \<Rightarrow> int \<Rightarrow> u8 \<Rightarrow> Machine \<Rightarrow> Machine" where
  "u_w8 v k b m = (let (s, o') = u_addr v k in gw8 s o' b m)"

text \<open>The transfer loops \<open>for (k = 0; k < n; k++)\<close> of the system calls.\<close>

definition u_read :: "u32 \<Rightarrow> nat \<Rightarrow> Machine \<Rightarrow> bytes" where
  "u_read v n m = map (\<lambda>k. u_r8 v (int k) m) [0..<n]"

fun u_store :: "u32 \<Rightarrow> int \<Rightarrow> bytes \<Rightarrow> Machine \<Rightarrow> Machine" where
  "u_store v k [] m = m"
| "u_store v k (b # bs) m = u_store v (k + 1) bs (u_w8 v k b m)"

text \<open>
  \<open>u_str\<close>: at most \<open>n\<close> bytes are scanned, \<open>USTR_MAX\<close> or one less than the buffer.  The
  result is the string without its NUL, \<open>None\<close> the failure.
\<close>

fun u_str_from :: "Machine \<Rightarrow> u32 \<Rightarrow> nat \<Rightarrow> int \<Rightarrow> bytes option" where
  "u_str_from m v 0 k = None"
| "u_str_from m v (Suc n) k =
     (let (seg, off) = u_addr v k
      in if \<not> u_mapped m seg then None
         else (let c = gr8 seg off m
               in if c = 0 then Some []
                  else map_option (\<lambda>s. c # s) (u_str_from m v n (k + 1))))"

abbreviation (input) USTR_MAX :: nat where "USTR_MAX \<equiv> 8192"

definition u_str :: "Machine \<Rightarrow> u32 \<Rightarrow> nat \<Rightarrow> bytes option" where
  "u_str m v bufsz = u_str_from m v (min USTR_MAX (bufsz - 1)) 0"

subsection \<open>Cells\<close>

lemma segp_bound: "0 \<le> (s mod 256) * 65536 + a mod 65536 \<and> (s mod 256) * 65536 + a mod 65536 < 0x1000000" for s a :: int
proof -
  have "0 \<le> s mod 256" "s mod 256 \<le> 255" "0 \<le> a mod 65536" "a mod 65536 < 65536"
    using pos_mod_bound [of 256 s] by simp_all
  then show ?thesis by linarith
qed

lemma uint_segp: "uint (segp s a) = (s mod 256) * 65536 + a mod 65536"
  unfolding segp_def by (subst uint_word_of_int) (use segp_bound [of s a] in simp)

lemma base_eq:
  fixes x y :: int
  assumes "0 \<le> x" "x < 65536" "0 \<le> y" "y < 65536"
  shows "a * 65536 + x = b * 65536 + y \<longleftrightarrow> a = b \<and> x = y"
proof
  assume e: "a * 65536 + x = b * 65536 + y"
  have "(a * 65536 + x) div 65536 = a" "(b * 65536 + y) div 65536 = b" using assms by simp_all
  with e have "a = b" by simp
  with e show "a = b \<and> x = y" by simp
qed simp

lemma segp_eq_iff:
  "segp s a = segp t b \<longleftrightarrow> s mod 256 = t mod 256 \<and> a mod 65536 = b mod 65536"
proof -
  have "segp s a = segp t b \<longleftrightarrow>
      (s mod 256) * 65536 + a mod 65536 = (t mod 256) * 65536 + b mod 65536"
    by (metis uint_segp unsigned_word_eqI)
  also have "\<dots> \<longleftrightarrow> s mod 256 = t mod 256 \<and> a mod 65536 = b mod 65536"
    by (rule base_eq) simp_all
  finally show ?thesis .
qed

text \<open>The linear address of a far pointer.\<close>

definition lin :: "u32 \<Rightarrow> int" where
  "lin v = uint (drop_bit 24 v AND 0x7F) * 65536 + uint (v AND 0xFFFF)"

lemma lin_parts:
  "0 \<le> uint (drop_bit 24 v AND 0x7F)" "uint (drop_bit 24 v AND 0x7F) \<le> 0x7F"
  "0 \<le> uint (v AND 0xFFFF)" "uint (v AND 0xFFFF) \<le> 0xFFFF" for v :: u32
proof -
  have "drop_bit 24 v AND 0x7F \<le> 0x7F" "v AND 0xFFFF \<le> 0xFFFF" by (rule word_and_le1)+
  then show "0 \<le> uint (drop_bit 24 v AND 0x7F)" "uint (drop_bit 24 v AND 0x7F) \<le> 0x7F"
    "0 \<le> uint (v AND 0xFFFF)" "uint (v AND 0xFFFF) \<le> 0xFFFF"
    unfolding word_le_def by simp_all
qed

lemma lin_range: "0 \<le> lin v" "lin v < 0x800000"
  unfolding lin_def using lin_parts [of v] by linarith+

lemma lin_split:
  fixes s x k :: int
  shows "(s * 65536 + x + k) div 65536 = s + (x + k) div 65536"
    "(s * 65536 + x + k) mod 65536 = (x + k) mod 65536"
  by (simp_all add: add.assoc)

lemma below_limit: "(a :: int) < 0x800000 \<longleftrightarrow> a div 65536 \<le> 0x7F"
  by linarith

lemma if_le_swap: "(if (0x7F :: int) < s then a else b) = (if s \<le> 0x7F then b else a)"
  by auto

lemma u_addr_lin:
  "u_addr v k =
     (if lin v + k < 0x800000 then (lin v + k) div 65536 else 0x100, (lin v + k) mod 65536)"
  unfolding u_addr_def Let_def below_limit unfolding lin_def lin_split
  by (simp only: if_le_swap)

lemma u_mapped_lin:
  assumes "p_inst_max (m_proc m) \<le> 0xFF"
  shows "u_mapped m (fst (u_addr v k)) \<longleftrightarrow>
    lin v + k < 0x800000 \<and> (lin v + k) div 65536 \<le> p_inst_max (m_proc m)"
  using assms by (auto simp: u_mapped_def u_addr_lin)

lemma segp_u_addr:
  assumes "0 \<le> lin v + k" "lin v + k < 0x800000"
  shows "segp (fst (u_addr v k)) (snd (u_addr v k)) = word_of_int (lin v + k)"
proof -
  have "(lin v + k) div 65536 mod 256 = (lin v + k) div 65536"
    using assms by (simp add: zdiv_int)
  then show ?thesis using assms(2) by (simp add: segp_def u_addr_lin)
qed

subsection \<open>Range checks\<close>

text \<open>All bytes up to the end of the segment of byte \<open>pos\<close> are in that segment.\<close>

lemma u_addr_same_segment:
  assumes "pos \<le> k" "k < pos + (0x10000 - snd (u_addr v pos))"
  shows "fst (u_addr v k) = fst (u_addr v pos)"
proof -
  define a where "a = lin v + pos"
  have "a \<le> lin v + k" "lin v + k < a + (65536 - a mod 65536)"
    using assms by (simp_all add: u_addr_lin a_def)
  moreover have "a = a div 65536 * 65536 + a mod 65536" by simp
  ultimately have "a div 65536 * 65536 \<le> lin v + k" "lin v + k < a div 65536 * 65536 + 65536"
    using pos_mod_sign [of 65536 a] by linarith+
  then have "(lin v + k) div 65536 = a div 65536"
    by (intro int_div_pos_eq [of _ _ _ "lin v + k - 65536 * (a div 65536)"]) linarith+
  then show ?thesis by (simp add: u_addr_lin below_limit a_def)
qed

lemma u_range_from_iff:
  "u_range_from m v n pos \<longleftrightarrow> (\<forall>k. pos \<le> k \<and> k < n \<longrightarrow> u_mapped m (fst (u_addr v k)))"
proof (induction m v n pos rule: u_range_from.induct)
  case (1 m v n pos)
  obtain seg off where so: "u_addr v pos = (seg, off)" by (cases "u_addr v pos")
  let ?next = "pos + (0x10000 - off)"
  show ?case
  proof (cases "pos < n")
    case True
    have "u_range_from m v n pos \<longleftrightarrow> u_mapped m (fst (u_addr v pos)) \<and> u_range_from m v n ?next"
      using True by (simp add: u_range_from.simps [of m v n pos] so)
    also have "\<dots> \<longleftrightarrow> u_mapped m (fst (u_addr v pos))
        \<and> (\<forall>k. ?next \<le> k \<and> k < n \<longrightarrow> u_mapped m (fst (u_addr v k)))"
      using "1.IH" [OF True refl so [symmetric]] by simp
    also have "\<dots> \<longleftrightarrow> (\<forall>k. pos \<le> k \<and> k < n \<longrightarrow> u_mapped m (fst (u_addr v k)))"
      using True u_addr_same_segment [of pos _ v] u_addr_off [of v pos] so by (smt (verit) snd_conv)
    finally show ?thesis .
  qed (simp add: u_range_from.simps [of m v n pos], linarith)
qed

lemma u_range_ok_iff:
  "u_range_ok m v n \<longleftrightarrow> (\<forall>k. 0 \<le> k \<and> k < n \<longrightarrow> u_mapped m (fst (u_addr v k)))"
  by (simp add: u_range_ok_def u_range_from_iff)

subsection \<open>Reading after writing\<close>

text \<open>The cell of byte \<open>k\<close>.\<close>

definition ucell :: "u32 \<Rightarrow> int \<Rightarrow> u32" where
  "ucell v k = segp (fst (u_addr v k)) (snd (u_addr v k))"

lemma u_r8_cell: "u_r8 v k m = m_ram m (ucell v k)"
  by (simp add: u_r8_def gr8_def ucell_def split: prod.splits)

lemma u_w8_cell: "u_w8 v k b m = set_ram (ucell v k) b m"
  by (simp add: u_w8_def gw8_def ucell_def split: prod.splits)

lemma ucell_inject:
  assumes "0 \<le> k" "lin v + k < 0x800000" "0 \<le> l" "lin v + l < 0x800000"
  shows "ucell v k = ucell v l \<longleftrightarrow> k = l"
proof -
  have "uint (word_of_int (lin v + k) :: u32) = lin v + k" "uint (word_of_int (lin v + l) :: u32) = lin v + l"
    by (subst uint_word_of_int; use assms lin_range [of v] in simp)+
  moreover have "ucell v k = word_of_int (lin v + k)" "ucell v l = word_of_int (lin v + l)"
    using assms lin_range [of v] by (simp_all add: ucell_def segp_u_addr)
  ultimately show ?thesis by (metis add_left_cancel)
qed

lemma set_ram_frame [simp]:
  "m_ram (set_ram a b m) = (m_ram m)(a := b)" "m_proc (set_ram a b m) = m_proc m"
  "m_cpu (set_ram a b m) = m_cpu m"
  by (simp_all add: set_ram_def)

lemma u_store_other:
  "(\<And>i. i < length bs \<Longrightarrow> a \<noteq> ucell v (k + int i)) \<Longrightarrow> m_ram (u_store v k bs m) a = m_ram m a"
proof (induction bs arbitrary: k m)
  case (Cons b bs)
  have "m_ram (u_store v (k + 1) bs (u_w8 v k b m)) a = m_ram (u_w8 v k b m) a"
    by (rule Cons.IH) (use Cons.prems [of "Suc _"] in \<open>simp add: algebra_simps\<close>)
  then show ?case using Cons.prems [of 0] by (simp add: u_w8_cell)
qed simp

lemma u_store_read:
  assumes "0 \<le> k" "lin v + k + int (length bs) \<le> 0x800000" "i < length bs"
  shows "m_ram (u_store v k bs m) (ucell v (k + int i)) = bs ! i"
  using assms
proof (induction bs arbitrary: k m i)
  case (Cons b bs)
  show ?case
  proof (cases i)
    case 0
    have "m_ram (u_store v (k + 1) bs (u_w8 v k b m)) (ucell v k) = m_ram (u_w8 v k b m) (ucell v k)"
      by (rule u_store_other) (use Cons.prems in \<open>simp add: ucell_inject\<close>)
    with 0 show ?thesis by (simp add: u_w8_cell)
  next
    case (Suc j)
    have "m_ram (u_store v (k + 1) bs (u_w8 v k b m)) (ucell v (k + 1 + int j)) = bs ! j"
      by (rule Cons.IH) (use Cons.prems Suc in simp_all)
    with Suc show ?thesis by (simp add: algebra_simps)
  qed
qed simp

text \<open>Stores change the memory only.\<close>

definition same_but_ram :: "Machine \<Rightarrow> Machine \<Rightarrow> bool" where
  "same_but_ram m m' \<longleftrightarrow> (\<exists>r. m' = m\<lparr>m_ram := r\<rparr>)"

lemma same_but_ram_set: "same_but_ram m (set_ram a b m)"
  by (auto simp: same_but_ram_def set_ram_def)

lemma same_but_ram_refl: "same_but_ram m m"
  unfolding same_but_ram_def by (rule exI [of _ "m_ram m"]) simp

lemma same_but_ram_trans: "same_but_ram m m' \<Longrightarrow> same_but_ram m' m'' \<Longrightarrow> same_but_ram m m''"
  by (auto simp: same_but_ram_def)

lemma u_store_same: "same_but_ram m (u_store v k bs m)"
  by (induction bs arbitrary: k m)
    (auto simp: same_but_ram_refl u_w8_cell intro: same_but_ram_trans [OF same_but_ram_set])

end
