(* ===== verification/Lout.thy ===== *)
theory Lout
  imports User_Mem Bus_Io
begin

text \<open>
  The \<open>l.out\<close> loader of \<open>src/src/uexec.c\<close>: the header in its two dialects, the symbol
  lookup, the layout of the sections in segments, and the copy of the image into guest
  memory.  A file is its bytes.  The paths that end the program with a message
  (\<open>lout_bad\<close>) are the errors of a sum; \<open>LoutOverflow\<close> is the signed overflow that the
  arithmetic of the layout can run into, which C leaves undefined.
\<close>

datatype LoutErr =
    LoutShort nat
  | LoutMagic int
  | LoutDialect int int
  | LoutNegative nat int
  | LoutPastEnd int
  | LoutEmpty
  | LoutSegments nat int int
  | LoutOverflow
  | LoutPiece_range

subsection \<open>The header\<close>

record LoutHdr =
  lh_tbase :: int
  lh_flag :: int
  lh_ss :: "int list"
  lh_symrec :: int
  lh_native :: bool
  lh_entry_seg :: u8
  lh_entry_off :: u16

abbreviation (input) LOUT_MAGIC :: int where "LOUT_MAGIC \<equiv> 0x107"

definition LE16 :: "bytes \<Rightarrow> nat \<Rightarrow> int" where
  "LE16 b o' = uint (b ! o') + uint (b ! (o' + 1)) * 256"

definition BE16 :: "bytes \<Rightarrow> nat \<Rightarrow> int" where
  "BE16 b o' = uint (b ! o') * 256 + uint (b ! (o' + 1))"

text \<open>\<open>hi << 16 | lo\<close> in an \<open>int\<close>: a high half of 0x8000 and more gives a negative size.\<close>

definition int32_of :: "int \<Rightarrow> int \<Rightarrow> int" where
  "int32_of hi lo = sint (word_of_int (hi * 65536 + lo) :: u32)"

definition lout_symoff :: "LoutHdr \<Rightarrow> int" where
  "lout_symoff h =
     lh_tbase h + lh_ss h ! 0 + lh_ss h ! 1 + lh_ss h ! 3 + lh_ss h ! 4 + lh_ss h ! 6"

fun first_negative :: "nat \<Rightarrow> int list \<Rightarrow> LoutErr option" where
  "first_negative i [] = None"
| "first_negative i (s # ss) = (if s < 0 then Some (LoutNegative i s) else first_negative (i + 1) ss)"

definition lout_check :: "nat \<Rightarrow> LoutHdr \<Rightarrow> LoutErr + LoutHdr" where
  "lout_check len h =
     (case first_negative 0 (lh_ss h) of
        Some e \<Rightarrow> Inl e
      | None \<Rightarrow>
          (let end' = lout_symoff h + lh_ss h ! 7
           in if end' < 0 \<or> end' > int len then Inl (LoutPastEnd end') else Inr h))"

definition lout_parse :: "bytes \<Rightarrow> LoutErr + LoutHdr" where
  "lout_parse b =
     (if length b < 88 then Inl (LoutShort (length b))
      else if LE16 b 6 = 48 then
        (if LE16 b 0 \<noteq> LOUT_MAGIC then Inl (LoutMagic (LE16 b 0))
         else lout_check (length b)
           \<lparr>lh_tbase = 48, lh_flag = LE16 b 2,
            lh_ss = map (\<lambda>i. int32_of (LE16 b (8 + 4 * i)) (LE16 b (8 + 4 * i + 2))) [0..<9],
            lh_symrec = 22, lh_native = True,
            lh_entry_seg = word_of_int (LE16 b 44 div 256) AND 0x7F,
            lh_entry_off = word_of_int (LE16 b 46)\<rparr>)
      else if BE16 b 0 \<noteq> LOUT_MAGIC \<or> BE16 b 6 \<noteq> 88 then Inl (LoutDialect (BE16 b 0) (BE16 b 6))
      else lout_check (length b)
        \<lparr>lh_tbase = BE16 b 6, lh_flag = BE16 b 2,
         lh_ss = map (\<lambda>i. int32_of (BE16 b (8 + 8 * i)) (BE16 b (8 + 8 * i + 2))) [0..<9],
         lh_symrec = 32, lh_native = False,
         lh_entry_seg = b ! 80 AND 0x7F,
         lh_entry_off = word_of_int (BE16 b 82)\<rparr>)"

subsection \<open>Symbols\<close>

definition sym_addr :: "LoutHdr \<Rightarrow> bytes \<Rightarrow> nat \<Rightarrow> u8 \<times> u16" where
  "sym_addr h b o' =
     (if lh_native h
      then (b ! (o' + 19) AND 0x7F, word_of_int (LE16 b (o' + 20)))
      else (b ! (o' + 24) AND 0x7F, word_of_int (BE16 b (o' + 26))))"

text \<open>The 16-byte name field as a C string, and the match with an optional trailing \<open>_\<close>.\<close>

definition sym_name :: "bytes \<Rightarrow> nat \<Rightarrow> bytes" where
  "sym_name b o' = takeWhile (\<lambda>c. c \<noteq> 0) (take 16 (drop o' b))"

definition sym_matches :: "bytes \<Rightarrow> bytes \<Rightarrow> bool" where
  "sym_matches name nm \<longleftrightarrow>
     nm = name \<or> (length nm = length name + 1 \<and> take (length name) nm = name \<and> nm ! length name = 0x5F)"

definition find_symbol :: "LoutHdr \<Rightarrow> bytes \<Rightarrow> bytes \<Rightarrow> (u8 \<times> u16) option" where
  "find_symbol h b name =
     (let symbase = nat (lout_symoff h);
          n = nat (lh_ss h ! 7 div lh_symrec h)
      in map_option (sym_addr h b)
           (find (\<lambda>o'. sym_matches name (sym_name b o'))
              (map (\<lambda>k. symbase + k * nat (lh_symrec h)) [0..<n])))"

subsection \<open>Layout\<close>

record LoutPiece =
  lp_foff :: int
  lp_moff :: int
  lp_len :: int

record LoutGroup =
  lg_p :: "LoutPiece list"
  lg_span :: int
  lg_bss :: int

record LoutLayout =
  ly_g :: "LoutGroup list"
  ly_seg :: "int list"
  ly_base :: "int list"
  ly_last :: int

definition group_zero :: LoutGroup where
  "group_zero = \<lparr>lg_p = [], lg_span = 0, lg_bss = 0\<rparr>"

text \<open>The \<open>PIECE\<close> macro.\<close>

definition add_piece :: "int \<Rightarrow> int \<Rightarrow> int \<Rightarrow> LoutGroup \<Rightarrow> LoutGroup" where
  "add_piece fo mo ln g =
     (let g = (if ln > 0 then g\<lparr>lg_p := lg_p g @ [\<lparr>lp_foff = fo, lp_moff = mo, lp_len = ln\<rparr>]\<rparr> else g)
      in if mo + ln > lg_span g then g\<lparr>lg_span := mo + ln\<rparr> else g)"

definition set_bss :: "int \<Rightarrow> LoutGroup \<Rightarrow> LoutGroup" where
  "set_bss n g = g\<lparr>lg_bss := n\<rparr>"

definition lout_groups :: "LoutHdr \<Rightarrow> LoutGroup list" where
  "lout_groups h =
     (let si = lh_ss h ! 0; pi = lh_ss h ! 1; bi = lh_ss h ! 2;
          sd = lh_ss h ! 3; pd = lh_ss h ! 4; bd = lh_ss h ! 5;
          f_si = lh_tbase h; f_pi = f_si + si; f_sd = f_pi + pi; f_pd = f_sd + sd;
          sel = lh_flag h mod 4
      in if sel = 0 then
           [set_bss (bi + bd) (add_piece f_si 0 (si + pi + sd + pd) group_zero)]
         else if sel = 1 then
           [add_piece f_sd si sd (add_piece f_si 0 si group_zero),
            set_bss (bi + bd) (add_piece f_pd pi pd (add_piece f_pi 0 pi group_zero))]
         else if sel = 2 then
           [set_bss bi (add_piece f_si 0 (si + pi) group_zero),
            set_bss bd (add_piece f_sd 0 (sd + pd) group_zero)]
         else
           [add_piece f_si 0 si group_zero,
            set_bss bi (add_piece f_pi 0 pi group_zero),
            add_piece f_sd 0 sd group_zero,
            set_bss bd (add_piece f_pd 0 pd group_zero)])"

definition group_used :: "LoutGroup \<Rightarrow> bool" where
  "group_used g \<longleftrightarrow> lg_span g > 0 \<or> lg_bss g > 0"

definition int_ok :: "int \<Rightarrow> bool" where
  "int_ok x \<longleftrightarrow> - 0x80000000 \<le> x \<and> x < 0x80000000"

text \<open>The loop that numbers the segments: group \<open>i\<close>, at \<open>base\<close> of segment \<open>seg\<close>.\<close>

definition group_segs :: "int \<Rightarrow> LoutGroup \<Rightarrow> int" where
  "group_segs base g =
     (let total = base + lg_span g + lg_bss g; nseg = (total + 0xFFFF) div 0x10000
      in if nseg < 1 then 1 else nseg)"

fun place_groups :: "nat \<Rightarrow> int \<Rightarrow> int \<Rightarrow> LoutGroup list \<Rightarrow> LoutErr + ((int \<times> int) list \<times> int)" where
  "place_groups i base seg [] = Inr ([], seg)"
| "place_groups i base seg (g # gs) =
     (if \<not> int_ok (base + lg_span g + lg_bss g + 0xFFFF) then Inl LoutOverflow
      else let nseg = group_segs base g
           in if seg + nseg - 1 > 0x7F then Inl (LoutSegments i seg (seg + nseg - 1))
              else case place_groups (i + 1) 0 (seg + nseg) gs of
                     Inl e \<Rightarrow> Inl e
                   | Inr (ps, seg_n) \<Rightarrow> Inr ((seg, base) # ps, seg_n))"

definition lout_layout :: "LoutHdr \<Rightarrow> LoutErr + LoutLayout" where
  "lout_layout h =
     (let gs = filter group_used (lout_groups h)
      in if \<not> list_all (\<lambda>g. int_ok (lg_bss g)) (lout_groups h) then Inl LoutOverflow
         else if gs = [] then Inl LoutEmpty
         else case place_groups 0 (uint (lh_entry_off h)) (uint (lh_entry_seg h)) gs of
                Inl e \<Rightarrow> Inl e
              | Inr (ps, seg_n) \<Rightarrow>
                  Inr \<lparr>ly_g = gs, ly_seg = map fst ps, ly_base = map snd ps, ly_last = seg_n - 1\<rparr>)"

subsection \<open>Loading\<close>

definition load_piece :: "bytes \<Rightarrow> int \<Rightarrow> int \<Rightarrow> LoutPiece \<Rightarrow> Machine \<Rightarrow> Machine" where
  "load_piece b seg base pc =
     fold (\<lambda>i. let at = base + lp_moff pc + int i
               in gw8 (seg + at div 0x10000) (at mod 0x10000) (b ! nat (lp_foff pc + int i)))
       [0..<nat (lp_len pc)]"

fun load_groups :: "bytes \<Rightarrow> (LoutGroup \<times> int \<times> int) list \<Rightarrow> Machine \<Rightarrow> Machine" where
  "load_groups b [] m = m"
| "load_groups b ((g, seg, base) # gs) m = load_groups b gs (fold (load_piece b seg base) (lg_p g) m)"

definition lout_load :: "bytes \<Rightarrow> LoutLayout \<Rightarrow> Machine \<Rightarrow> Machine" where
  "lout_load b L = load_groups b (zip (ly_g L) (zip (ly_seg L) (ly_base L)))"

subsection \<open>The machine under a process\<close>

definition upd_proc :: "(Proc \<Rightarrow> Proc) \<Rightarrow> Machine \<Rightarrow> Machine" where
  "upd_proc f m = m\<lparr>m_proc := f (m_proc m)\<rparr>"

definition umach_new :: "int \<Rightarrow> Machine" where
  "umach_new maxseg =
     upd_proc (\<lambda>p. p\<lparr>p_inst_max := maxseg\<rparr>)
       (machine_new\<lparr>m_flat_mem := True, m_flat_maxseg := word_of_int maxseg\<rparr>)"

text \<open>
  \<open>seg_image\<close>: the machine, and the segment and entry of the symbol.  The text goes to
  0x200 when the symbol is in segment 0 or missing, else to offset 0 of its segment.
\<close>

definition seg_image :: "bytes \<Rightarrow> bytes \<Rightarrow> LoutErr + (Machine \<times> u8 \<times> u16)" where
  "seg_image b name =
     (case lout_parse b of
        Inl e \<Rightarrow> Inl e
      | Inr h \<Rightarrow>
          (let sym = find_symbol h b name;
               cseg = (case sym of None \<Rightarrow> 0 | Some (s, _) \<Rightarrow> s);
               textoff = (if cseg \<noteq> 0 then 0 else 0x200 :: u16);
               ent = (case sym of None \<Rightarrow> textoff | Some (_, e) \<Rightarrow> e);
               lh = h\<lparr>lh_entry_seg := cseg, lh_entry_off := textoff\<rparr>
           in case lout_layout lh of
                Inl e \<Rightarrow> Inl e
              | Inr L \<Rightarrow>
                  (let m = umach_new (ly_last L);
                       m = lout_load b L m;
                       m = gw16 0 0x0002 0xC000 m;
                       m = gw16 0 0x0004 0x0000 m
                   in Inr (m, cseg, ent))))"

end
