(* ===== verification/Lout_Props.thy ===== *)
theory Lout_Props
  imports Lout
begin

text \<open>
  The loader puts every byte of the image where the linker bound it, and nothing elsewhere:
  the layout numbers the segments of the non-empty section groups consecutively inside the
  7-bit space, and the copy of the pieces is exactly the copy of the sections.
\<close>

subsection \<open>Numbering the segments\<close>

lemma group_segs_bound:
  "base + lg_span g + lg_bss g \<le> group_segs base g * 65536" "1 \<le> group_segs base g"
  by (simp_all add: group_segs_def Let_def) linarith

text \<open>Segments run upwards from the first one, and those of a group end before the next group's.\<close>

lemma place_groups_Inr:
  assumes "place_groups i base seg gs = Inr (ps, seg')"
  shows "length ps = length gs \<and> seg \<le> seg' \<and> (gs \<noteq> [] \<longrightarrow> seg' \<le> 0x80)
    \<and> (\<forall>(g, s, b) \<in> set (zip gs ps). seg \<le> s \<and> (b = base \<or> b = 0) \<and> s + group_segs b g \<le> seg')
    \<and> sorted_wrt (\<lambda>(g, s, b) (g', s', b'). s + group_segs b g \<le> s') (zip gs ps)"
  using assms
proof (induction gs arbitrary: i base seg ps)
  case (Cons g gs)
  from Cons.prems obtain qs where q: "place_groups (i + 1) 0 (seg + group_segs base g) gs = Inr (qs, seg')"
      "ps = (seg, base) # qs" "seg + group_segs base g \<le> 0x80"
    by (auto simp: Let_def split: if_splits sum.splits prod.splits)
  have "1 \<le> group_segs base g" by (rule group_segs_bound)
  moreover have "seg' = seg + group_segs base g" if "gs = []" using q(1) that by simp
  ultimately show ?case using Cons.IH [OF q(1)] q(2,3)
    by (cases "gs = []") (fastforce split: prod.splits)+
qed simp

subsection \<open>Copies\<close>

text \<open>The cell of a linear address; and a piece with its linear destination: destination, file offset, length.\<close>

definition la :: "int \<Rightarrow> u32" where
  "la x = word_of_int x"

definition copy_run :: "bytes \<Rightarrow> int \<times> int \<times> int \<Rightarrow> Machine \<Rightarrow> Machine" where
  "copy_run b p =
     (case p of (dest, foff, len) \<Rightarrow>
        fold (\<lambda>i. set_ram (la (dest + int i)) (b ! nat (foff + int i))) [0..<nat len])"

definition run_of :: "int \<Rightarrow> int \<Rightarrow> LoutPiece \<Rightarrow> int \<times> int \<times> int" where
  "run_of seg base pc = (seg * 65536 + base + lp_moff pc, lp_foff pc, lp_len pc)"

definition runs_of :: "LoutLayout \<Rightarrow> (int \<times> int \<times> int) list" where
  "runs_of L = concat (map (\<lambda>(g, seg, base). map (run_of seg base) (lg_p g))
                 (zip (ly_g L) (zip (ly_seg L) (ly_base L))))"

definition run_ok :: "int \<times> int \<times> int \<Rightarrow> bool" where
  "run_ok p \<longleftrightarrow> (case p of (dest, foff, len) \<Rightarrow> 0 \<le> dest \<and> 0 \<le> len \<and> dest + len \<le> 0x800000)"

definition in_run :: "int \<times> int \<times> int \<Rightarrow> int \<Rightarrow> bool" where
  "in_run p x \<longleftrightarrow> (case p of (dest, foff, len) \<Rightarrow> dest \<le> x \<and> x < dest + len)"

lemma uint_word_lin: "0 \<le> x \<Longrightarrow> x < 0x1000000 \<Longrightarrow> uint (word_of_int x :: u32) = x"
  by (subst uint_word_of_int) simp

lemma word_lin_inject:
  "0 \<le> x \<Longrightarrow> x < 0x1000000 \<Longrightarrow> 0 \<le> y \<Longrightarrow> y < 0x1000000 \<Longrightarrow> la x = la y \<longleftrightarrow> x = y"
  by (metis la_def uint_word_lin)

lemma segp_linear:
  assumes "0 \<le> seg" "0 \<le> at" "seg * 65536 + at < 0x1000000"
  shows "segp (seg + at div 65536) (at mod 65536) = la (seg * 65536 + at)"
proof -
  define q r where "q = at div 65536" and "r = at mod 65536"
  have at: "at = q * 65536 + r" "0 \<le> r" "r < 65536" "0 \<le> q" using assms(2) by (simp_all add: q_def r_def)
  then have "0 \<le> seg + q" "seg + q < 256" using assms by linarith+
  then have m: "(seg + q) mod 256 = seg + q" "r mod 65536 = r" using at by simp_all
  have "segp (seg + q) r = word_of_int ((seg + q) * 65536 + r)" by (simp only: segp_def m)
  also have "(seg + q) * 65536 + r = seg * 65536 + at" using at(1) by simp
  finally show ?thesis by (simp only: q_def r_def la_def)
qed

lemma load_piece_run:
  assumes "0 \<le> seg" "0 \<le> base + lp_moff pc" "run_ok (run_of seg base pc)"
  shows "load_piece b seg base pc = copy_run b (run_of seg base pc)"
proof -
  have "gw8 (seg + (base + lp_moff pc + int i) div 0x10000) ((base + lp_moff pc + int i) mod 0x10000)
      = set_ram (la (seg * 65536 + base + lp_moff pc + int i))" if "i < nat (lp_len pc)" for i
    using segp_linear [of seg "base + lp_moff pc + int i"] assms that
    by (auto simp: gw8_def run_ok_def run_of_def algebra_simps)
  then show ?thesis
    by (auto simp: load_piece_def copy_run_def run_of_def Let_def intro!: fold_cong)
qed

definition group_ok :: "LoutGroup \<times> int \<times> int \<Rightarrow> bool" where
  "group_ok x \<longleftrightarrow> (case x of (g, seg, base) \<Rightarrow> 0 \<le> seg \<and>
     (\<forall>pc \<in> set (lg_p g). 0 \<le> base + lp_moff pc \<and> run_ok (run_of seg base pc)))"

lemma load_groups_runs:
  "(\<forall>x \<in> set gs. group_ok x) \<Longrightarrow>
    load_groups b gs m
      = fold (copy_run b) (concat (map (\<lambda>(g, seg, base). map (run_of seg base) (lg_p g)) gs)) m"
proof (induction b gs m rule: load_groups.induct)
  case (2 b g seg base gs m)
  have "fold (load_piece b seg base) (lg_p g) m = fold (copy_run b) (map (run_of seg base) (lg_p g)) m"
    using 2(2) by (auto simp: fold_map group_ok_def load_piece_run intro!: fold_cong)
  then show ?case using 2 by simp
qed simp

text \<open>A run writes its own cells and no other.\<close>

lemma copies_upto:
  fixes w :: "nat \<Rightarrow> u32"
  shows "(\<And>i. i < n \<Longrightarrow> a \<noteq> w i) \<Longrightarrow> m_ram (fold (\<lambda>i. set_ram (w i) (v i)) [0..<n] m) a = m_ram m a"
    and "inj_on w {..<n} \<Longrightarrow> i < n \<Longrightarrow> m_ram (fold (\<lambda>i. set_ram (w i) (v i)) [0..<n] m) (w i) = v i"
proof (induction n)
  case (Suc n)
  { case 1 then show ?case using Suc.IH(1) by simp }
  { case 2
    then have "inj_on w {..<n}" "i < n \<Longrightarrow> w i \<noteq> w n" by (auto simp: inj_on_def)
    then show ?case using Suc.IH(2) 2(2) by (cases "i = n") simp_all }
qed simp_all

lemma copy_run_other:
  "(\<And>x. in_run p x \<Longrightarrow> a \<noteq> la x) \<Longrightarrow> m_ram (copy_run b p m) a = m_ram m a"
  by (cases p) (simp add: copy_run_def in_run_def copies_upto(1))

lemma copy_run_read:
  assumes "run_ok (dest, foff, len)" "0 \<le> j" "j < len"
  shows "m_ram (copy_run b (dest, foff, len) m) (la (dest + j)) = b ! nat (foff + j)"
proof -
  have "inj_on (\<lambda>i. la (dest + int i)) {..<nat len}"
    using assms(1) by (auto simp: inj_on_def run_ok_def word_lin_inject)
  from copies_upto(2) [OF this, of "nat j" "\<lambda>i. b ! nat (foff + int i)" m] assms(2,3)
  show ?thesis by (simp add: copy_run_def)
qed

definition disjoint_runs :: "int \<times> int \<times> int \<Rightarrow> int \<times> int \<times> int \<Rightarrow> bool" where
  "disjoint_runs p q \<longleftrightarrow> (\<forall>x. \<not> (in_run p x \<and> in_run q x))"

lemma copies_other:
  "(\<And>p x. p \<in> set ps \<Longrightarrow> in_run p x \<Longrightarrow> a \<noteq> la x) \<Longrightarrow> m_ram (fold (copy_run b) ps m) a = m_ram m a"
proof (induction ps arbitrary: m)
  case (Cons p ps)
  have "m_ram (fold (copy_run b) ps (copy_run b p m)) a = m_ram (copy_run b p m) a"
    by (rule Cons.IH, rule Cons.prems) auto
  moreover have "m_ram (copy_run b p m) a = m_ram m a" by (rule copy_run_other, rule Cons.prems [of p]) simp_all
  ultimately show ?case by simp
qed simp

lemma copies_read:
  assumes "\<forall>p \<in> set ps. run_ok p" "sorted_wrt disjoint_runs ps"
    "(dest, foff, len) \<in> set ps" "0 \<le> j" "j < len"
  shows "m_ram (fold (copy_run b) ps m) (la (dest + j)) = b ! nat (foff + j)"
  using assms
proof (induction ps arbitrary: m)
  case (Cons p ps)
  show ?case
  proof (cases "p = (dest, foff, len)")
    case True
    have "m_ram (fold (copy_run b) ps (copy_run b p m)) (la (dest + j))
        = m_ram (copy_run b p m) (la (dest + j))"
    proof (rule copies_other)
      fix q x assume q: "q \<in> set ps" "in_run q x"
      then have "\<not> in_run p x" using Cons.prems(2) by (auto simp: disjoint_runs_def)
      then have "x \<noteq> dest + j" using True Cons.prems(4,5) by (auto simp: in_run_def)
      moreover have "0 \<le> x" "x < 0x1000000"
        using q Cons.prems(1) by (auto simp: run_ok_def in_run_def)
      moreover have "0 \<le> dest + j" "dest + j < 0x1000000"
        using Cons.prems(1,4,5) True by (auto simp: run_ok_def)
      ultimately show "la (dest + j) \<noteq> la x" by (simp add: word_lin_inject)
    qed
    then show ?thesis using Cons.prems True by (simp add: copy_run_read)
  next
    case False
    then show ?thesis using Cons.IH Cons.prems by auto
  qed
qed simp

subsection \<open>The sections as the linker placed them\<close>

text \<open>
  The four initialised sections, shared and private text, shared and private data: their
  group, their offset in it, their place in the file and their size, for each link mode.
\<close>

definition link_sections :: "LoutHdr \<Rightarrow> (nat \<times> int \<times> int \<times> int) list" where
  "link_sections h =
     (let si = lh_ss h ! 0; pi = lh_ss h ! 1; sd = lh_ss h ! 3; pd = lh_ss h ! 4;
          f_pi = lh_tbase h + si; f_sd = f_pi + pi; f_pd = f_sd + sd;
          at = (case nat (lh_flag h mod 4) of
                  0 \<Rightarrow> [(0, 0), (0, si), (0, si + pi), (0, si + pi + sd)]
                | Suc 0 \<Rightarrow> [(0, 0), (1, 0), (0, si), (1, pi)]
                | Suc (Suc 0) \<Rightarrow> [(0, 0), (0, si), (1, 0), (1, sd)]
                | _ \<Rightarrow> [(0, 0), (1, 0), (2, 0), (3, 0)])
      in map (\<lambda>((gi, mo), fo, ln). (gi, mo, fo, ln))
           (zip at [(lh_tbase h, si), (f_pi, pi), (f_sd, sd), (f_pd, pd)]))"

text \<open>
  The linear address of an offset in a group, from the sizes in the header alone.  A group with
  content takes the segments after those of the groups before it, as many as its content reaches
  into; an empty one takes none.  The first group with content is based at the offset of the entry
  point, every later one at offset 0 of its segment.
\<close>

definition link_sizes :: "LoutHdr \<Rightarrow> int list" where
  "link_sizes h =
     (let sz = (\<lambda>sections. sum_list (map (\<lambda>i. lh_ss h ! i) sections))
      in case nat (lh_flag h mod 4) of
           0 \<Rightarrow> [sz [0, 1, 2, 3, 4, 5]]
         | Suc 0 \<Rightarrow> [sz [0, 3], sz [1, 4, 2, 5]]
         | Suc (Suc 0) \<Rightarrow> [sz [0, 1, 2], sz [3, 4, 5]]
         | _ \<Rightarrow> [sz [0], sz [1, 2], sz [3], sz [4, 5]])"

definition base_at :: "int \<Rightarrow> int list \<Rightarrow> nat \<Rightarrow> int" where
  "base_at off sz k = (if sum_list (take k sz) = 0 then off else 0)"

definition segs_at :: "int \<Rightarrow> int list \<Rightarrow> nat \<Rightarrow> int" where
  "segs_at off sz k = (if sz ! k = 0 then 0 else (base_at off sz k + sz ! k + 0xFFFF) div 0x10000)"

definition seg_at :: "int \<Rightarrow> int \<Rightarrow> int list \<Rightarrow> nat \<Rightarrow> int" where
  "seg_at seg off sz k = seg + sum_list (map (segs_at off sz) [0..<k])"

definition link_addr :: "LoutHdr \<Rightarrow> nat \<Rightarrow> int \<Rightarrow> int" where
  "link_addr h gi mo =
     (let off = uint (lh_entry_off h)
      in seg_at (uint (lh_entry_seg h)) off (link_sizes h) gi * 65536 + base_at off (link_sizes h) gi + mo)"

definition sizes_ok :: "LoutHdr \<Rightarrow> bool" where
  "sizes_ok h \<longleftrightarrow> length (lh_ss h) = 9 \<and> (\<forall>i < 9. 0 \<le> lh_ss h ! i)"

lemma flag_cases:
  obtains "lh_flag h mod 4 = 0" | "lh_flag h mod 4 = 1" | "lh_flag h mod 4 = 2" | "lh_flag h mod 4 = 3"
  by linarith

lemma sizes_nonneg:
  assumes "sizes_ok h"
  shows "0 \<le> lh_ss h ! 0" "0 \<le> lh_ss h ! 1" "0 \<le> lh_ss h ! 2" "0 \<le> lh_ss h ! 3" "0 \<le> lh_ss h ! 4"
    "0 \<le> lh_ss h ! 5" "0 \<le> lh_ss h ! 6" "0 \<le> lh_ss h ! 7" "0 \<le> lh_ss h ! 8"
  using assms by (simp_all add: sizes_ok_def)

text \<open>The groups and the sections, link mode by link mode.\<close>

lemma lg_add_piece [simp]:
  "set (lg_p (add_piece fo mo ln g))
     = set (lg_p g) \<union> (if ln > 0 then {\<lparr>lp_foff = fo, lp_moff = mo, lp_len = ln\<rparr>} else {})"
  "lg_span (add_piece fo mo ln g) = max (lg_span g) (mo + ln)"
  "lg_bss (add_piece fo mo ln g) = lg_bss g"
  "lg_p (set_bss n g) = lg_p g" "lg_span (set_bss n g) = lg_span g" "lg_bss (set_bss n g) = n"
  "lg_p group_zero = []" "lg_span group_zero = 0" "lg_bss group_zero = 0"
  by (auto simp: add_piece_def set_bss_def group_zero_def Let_def)

lemma lg_p_add_piece:
  "lg_p (add_piece fo mo ln g)
     = lg_p g @ (if ln > 0 then [\<lparr>lp_foff = fo, lp_moff = mo, lp_len = ln\<rparr>] else [])"
  by (auto simp: add_piece_def Let_def)

lemma section_in_piece:
  assumes "sizes_ok h" "(gi, mo, fo, ln) \<in> set (link_sections h)" "0 < ln"
  shows "gi < length (lout_groups h) \<and> group_used (lout_groups h ! gi)
    \<and> (\<exists>pc \<in> set (lg_p (lout_groups h ! gi)).
         lp_moff pc \<le> mo \<and> mo + ln \<le> lp_moff pc + lp_len pc \<and> lp_foff pc + (mo - lp_moff pc) = fo)"
  using sizes_nonneg [OF assms(1)] assms(2,3)
  by (cases h rule: flag_cases)
    (auto simp: lout_groups_def link_sections_def group_used_def Let_def numeral_eq_Suc)

lemma link_sections_modes:
  "lh_flag h mod 4 = 0 \<Longrightarrow> link_sections h =
     [(0, 0, lh_tbase h, lh_ss h ! 0), (0, lh_ss h ! 0, lh_tbase h + lh_ss h ! 0, lh_ss h ! 1),
      (0, lh_ss h ! 0 + lh_ss h ! 1, lh_tbase h + lh_ss h ! 0 + lh_ss h ! 1, lh_ss h ! 3),
      (0, lh_ss h ! 0 + lh_ss h ! 1 + lh_ss h ! 3,
       lh_tbase h + lh_ss h ! 0 + lh_ss h ! 1 + lh_ss h ! 3, lh_ss h ! 4)]"
  "lh_flag h mod 4 = 1 \<Longrightarrow> link_sections h =
     [(0, 0, lh_tbase h, lh_ss h ! 0), (1, 0, lh_tbase h + lh_ss h ! 0, lh_ss h ! 1),
      (0, lh_ss h ! 0, lh_tbase h + lh_ss h ! 0 + lh_ss h ! 1, lh_ss h ! 3),
      (1, lh_ss h ! 1, lh_tbase h + lh_ss h ! 0 + lh_ss h ! 1 + lh_ss h ! 3, lh_ss h ! 4)]"
  "lh_flag h mod 4 = 2 \<Longrightarrow> link_sections h =
     [(0, 0, lh_tbase h, lh_ss h ! 0), (0, lh_ss h ! 0, lh_tbase h + lh_ss h ! 0, lh_ss h ! 1),
      (1, 0, lh_tbase h + lh_ss h ! 0 + lh_ss h ! 1, lh_ss h ! 3),
      (1, lh_ss h ! 3, lh_tbase h + lh_ss h ! 0 + lh_ss h ! 1 + lh_ss h ! 3, lh_ss h ! 4)]"
  "lh_flag h mod 4 = 3 \<Longrightarrow> link_sections h =
     [(0, 0, lh_tbase h, lh_ss h ! 0), (1, 0, lh_tbase h + lh_ss h ! 0, lh_ss h ! 1),
      (2, 0, lh_tbase h + lh_ss h ! 0 + lh_ss h ! 1, lh_ss h ! 3),
      (3, 0, lh_tbase h + lh_ss h ! 0 + lh_ss h ! 1 + lh_ss h ! 3, lh_ss h ! 4)]"
  by (simp_all add: link_sections_def Let_def numeral_eq_Suc)

lemma piece_in_section:
  assumes "sizes_ok h" "gi < length (lout_groups h)" "pc \<in> set (lg_p (lout_groups h ! gi))"
    "lp_moff pc \<le> x" "x < lp_moff pc + lp_len pc"
  shows "\<exists>(gj, mo, fo, ln) \<in> set (link_sections h). gj = gi \<and> mo \<le> x \<and> x < mo + ln"
proof (cases h rule: flag_cases)
  case 1
  have "gi = 0" "0 \<le> x" "x < lh_ss h ! 0 + lh_ss h ! 1 + lh_ss h ! 3 + lh_ss h ! 4"
    using assms(2-5) 1 by (auto simp: lout_groups_def Let_def split: if_splits)
  then show ?thesis by (simp add: link_sections_modes(1) [OF 1]) linarith
next
  case 2
  have "gi = 0 \<and> 0 \<le> x \<and> x < lh_ss h ! 0 + lh_ss h ! 3 \<or> gi = 1 \<and> 0 \<le> x \<and> x < lh_ss h ! 1 + lh_ss h ! 4"
    using assms(2-5) 2 sizes_nonneg [OF assms(1)]
    by (auto simp: lout_groups_def Let_def less_Suc_eq split: if_splits)
  then show ?thesis by (auto simp: link_sections_modes(2) [OF 2])
next
  case 3
  have "gi = 0 \<and> 0 \<le> x \<and> x < lh_ss h ! 0 + lh_ss h ! 1 \<or> gi = 1 \<and> 0 \<le> x \<and> x < lh_ss h ! 3 + lh_ss h ! 4"
    using assms(2-5) 3 by (auto simp: lout_groups_def Let_def less_Suc_eq split: if_splits)
  then show ?thesis by (auto simp: link_sections_modes(3) [OF 3])
next
  case 4
  have "gi = 0 \<and> 0 \<le> x \<and> x < lh_ss h ! 0 \<or> gi = 1 \<and> 0 \<le> x \<and> x < lh_ss h ! 1
      \<or> gi = 2 \<and> 0 \<le> x \<and> x < lh_ss h ! 3 \<or> gi = 3 \<and> 0 \<le> x \<and> x < lh_ss h ! 4"
    using assms(2-5) 4 by (auto simp: lout_groups_def Let_def less_Suc_eq numeral_eq_Suc split: if_splits)
  then show ?thesis by (auto simp: link_sections_modes(4) [OF 4])
qed

lemma pieces_sorted:
  assumes "sizes_ok h" "g \<in> set (lout_groups h)"
  shows "sorted_wrt (\<lambda>pc pc'. lp_moff pc + lp_len pc \<le> lp_moff pc') (lg_p g)"
    "\<forall>pc \<in> set (lg_p g). 0 \<le> lp_moff pc \<and> 0 < lp_len pc \<and> lp_moff pc + lp_len pc \<le> lg_span g"
    "0 \<le> lg_bss g"
proof -
  note s = sizes_nonneg [OF assms(1)]
  show "0 \<le> lg_bss g" using s assms(2)
    by (cases h rule: flag_cases) (auto simp: lout_groups_def Let_def)
  show "\<forall>pc \<in> set (lg_p g). 0 \<le> lp_moff pc \<and> 0 < lp_len pc \<and> lp_moff pc + lp_len pc \<le> lg_span g"
    using s assms(2) by (cases h rule: flag_cases) (auto simp: lout_groups_def Let_def split: if_splits)
  show "sorted_wrt (\<lambda>pc pc'. lp_moff pc + lp_len pc \<le> lp_moff pc') (lg_p g)"
    using s assms(2) by (cases h rule: flag_cases) (auto simp: lout_groups_def Let_def lg_p_add_piece)
qed

subsection \<open>The layout of a header\<close>

lemma lout_layout_Inr:
  assumes "lout_layout h = Inr L"
  obtains ps seg_n where
    "ly_g L = filter group_used (lout_groups h)" "ly_g L \<noteq> []"
    "place_groups 0 (uint (lh_entry_off h)) (uint (lh_entry_seg h)) (ly_g L) = Inr (ps, seg_n)"
    "zip (ly_g L) (zip (ly_seg L) (ly_base L)) = zip (ly_g L) ps"
    "ly_seg L = map fst ps" "ly_base L = map snd ps" "ly_last L = seg_n - 1"
  using assms by (auto simp: lout_layout_def Let_def zip_map_fst_snd split: if_splits sum.splits prod.splits)

lemma sorted_wrt_concat_map:
  "(\<And>x. x \<in> set xs \<Longrightarrow> sorted_wrt R (f x)) \<Longrightarrow> sorted_wrt (\<lambda>x y. \<forall>a \<in> set (f x). \<forall>b \<in> set (f y). R a b) xs
    \<Longrightarrow> sorted_wrt R (concat (map f xs))"
  by (induction xs) (auto simp: sorted_wrt_append)

lemma layout_runs:
  assumes "sizes_ok h" "lout_layout h = Inr L"
  shows "\<forall>x \<in> set (zip (ly_g L) (zip (ly_seg L) (ly_base L))). group_ok x"
    and "\<forall>p \<in> set (runs_of L). run_ok p" and "sorted_wrt disjoint_runs (runs_of L)"
proof -
  obtain ps seg_n where L: "ly_g L = filter group_used (lout_groups h)" "ly_g L \<noteq> []"
    "place_groups 0 (uint (lh_entry_off h)) (uint (lh_entry_seg h)) (ly_g L) = Inr (ps, seg_n)"
    "zip (ly_g L) (zip (ly_seg L) (ly_base L)) = zip (ly_g L) ps"
    using assms(2) by (rule lout_layout_Inr)
  note place = place_groups_Inr [OF L(3)]
  have seg_n: "seg_n \<le> 0x80" using place L(2) by simp
  have group: "0 \<le> s \<and> 0 \<le> b \<and> s + group_segs b g \<le> 0x80
      \<and> (\<forall>pc \<in> set (lg_p g). 0 \<le> lp_moff pc \<and> 0 < lp_len pc \<and> b + lp_moff pc + lp_len pc \<le> group_segs b g * 65536)
      \<and> sorted_wrt (\<lambda>pc pc'. lp_moff pc + lp_len pc \<le> lp_moff pc') (lg_p g)"
    if x: "(g, s, b) \<in> set (zip (ly_g L) ps)" for g s b
  proof -
    have "uint (lh_entry_seg h) \<le> s" "b = uint (lh_entry_off h) \<or> b = 0" "s + group_segs b g \<le> seg_n"
      using place x by auto
    moreover have "0 \<le> uint (lh_entry_seg h)" "0 \<le> uint (lh_entry_off h)" by simp_all
    moreover have g: "g \<in> set (lout_groups h)" using x L(1) by (auto dest: set_zip_leftD)
    moreover have "b + lp_moff pc + lp_len pc \<le> group_segs b g * 65536" if "pc \<in> set (lg_p g)" for pc
    proof -
      have "lp_moff pc + lp_len pc \<le> lg_span g" using pieces_sorted(2) [OF assms(1) g] that by blast
      with pieces_sorted(3) [OF assms(1) g] group_segs_bound(1) [of b g] show ?thesis by linarith
    qed
    ultimately show ?thesis
      using pieces_sorted(1,2) [OF assms(1) g] seg_n by (intro conjI ballI) (blast | linarith)+
  qed
  show ok: "\<forall>x \<in> set (zip (ly_g L) (zip (ly_seg L) (ly_base L))). group_ok x"
    using group by (fastforce simp: L(4) group_ok_def run_ok_def run_of_def)
  show "\<forall>p \<in> set (runs_of L). run_ok p"
    using ok by (auto simp: runs_of_def group_ok_def)
  show "sorted_wrt disjoint_runs (runs_of L)"
    unfolding runs_of_def L(4)
  proof (rule sorted_wrt_concat_map)
    fix x assume x: "x \<in> set (zip (ly_g L) ps)"
    obtain g s b where "x = (g, s, b)" by (cases x)
    with x group [of g s b] show "sorted_wrt disjoint_runs (case x of (g, seg, base) \<Rightarrow> map (run_of seg base) (lg_p g))"
      by (auto simp: sorted_wrt_map disjoint_runs_def in_run_def run_of_def elim!: sorted_wrt_mono_rel [rotated])
  next
    have "sorted_wrt (\<lambda>(g, s, b) (g', s', b'). s + group_segs b g \<le> s') (zip (ly_g L) ps)"
      using place by simp
    then show "sorted_wrt (\<lambda>x y. \<forall>p \<in> set (case x of (g, seg, base) \<Rightarrow> map (run_of seg base) (lg_p g)).
        \<forall>q \<in> set (case y of (g, seg, base) \<Rightarrow> map (run_of seg base) (lg_p g)). disjoint_runs p q) (zip (ly_g L) ps)"
    proof (rule sorted_wrt_mono_rel [rotated])
      fix x y assume xy: "x \<in> set (zip (ly_g L) ps)" "y \<in> set (zip (ly_g L) ps)"
        "(\<lambda>(g, s, b) (g', s', b'). s + group_segs b g \<le> s') x y"
      obtain g s b g' s' b' where e: "x = (g, s, b)" "y = (g', s', b')" by (cases x; cases y)
      have "s * 65536 + b + lp_moff pc + lp_len pc \<le> s' * 65536 + b' + lp_moff pc'"
        if "pc \<in> set (lg_p g)" "pc' \<in> set (lg_p g')" for pc pc'
        using xy group [of g s b] group [of g' s' b'] that e by fastforce
      then show "\<forall>p \<in> set (case x of (g, seg, base) \<Rightarrow> map (run_of seg base) (lg_p g)).
        \<forall>q \<in> set (case y of (g, seg, base) \<Rightarrow> map (run_of seg base) (lg_p g)). disjoint_runs p q"
        using e by (fastforce simp: disjoint_runs_def in_run_def run_of_def)
    qed
  qed
qed

subsection \<open>Loading\<close>

lemma first_negative_None: "first_negative i ss = None \<Longrightarrow> s \<in> set ss \<Longrightarrow> 0 \<le> s"
  by (induction i ss rule: first_negative.induct) (auto split: if_splits)

lemma lout_check_Inr:
  "lout_check len h = Inr h' \<Longrightarrow> length (lh_ss h) = 9 \<Longrightarrow>
    h' = h \<and> sizes_ok h \<and> lout_symoff h + lh_ss h ! 7 \<le> int len"
  by (auto simp: lout_check_def Let_def sizes_ok_def split: option.splits if_splits intro: first_negative_None)

text \<open>A header that parses has sizes that lie in the file.\<close>

lemma lout_parse_Inr:
  assumes "lout_parse b = Inr h"
  shows "sizes_ok h" "0 \<le> lh_tbase h"
    "lh_tbase h + lh_ss h ! 0 + lh_ss h ! 1 + lh_ss h ! 3 + lh_ss h ! 4 \<le> int (length b)"
proof -
  have "sizes_ok h \<and> 0 \<le> lh_tbase h \<and> lout_symoff h + lh_ss h ! 7 \<le> int (length b)"
    using assms by (auto simp: lout_parse_def split: if_splits dest!: lout_check_Inr)
  then show "sizes_ok h" "0 \<le> lh_tbase h"
    "lh_tbase h + lh_ss h ! 0 + lh_ss h ! 1 + lh_ss h ! 3 + lh_ss h ! 4 \<le> int (length b)"
    using sizes_nonneg [of h] by (simp_all add: lout_symoff_def)
qed

lemma section_in_file:
  assumes "lout_parse b = Inr h" "(gi, mo, fo, ln) \<in> set (link_sections h)"
  shows "0 \<le> fo" "fo + ln \<le> int (length b)"
  using assms(2) lout_parse_Inr [OF assms(1)] sizes_nonneg [OF lout_parse_Inr(1) [OF assms(1)]]
  by (cases h rule: flag_cases; auto simp: link_sections_modes)+

lemma filter_nth:
  assumes "n < length xs" "P (xs ! n)"
  shows "length (filter P (take n xs)) < length (filter P xs)"
    "filter P xs ! length (filter P (take n xs)) = xs ! n"
proof -
  have "filter P xs = filter P (take n xs) @ xs ! n # filter P (drop (Suc n) xs)"
    using assms by (metis append_take_drop_id Cons_nth_drop_Suc filter.simps(2) filter_append)
  then show "length (filter P (take n xs)) < length (filter P xs)"
    "filter P xs ! length (filter P (take n xs)) = xs ! n"
    by simp_all
qed

lemma filter_index:
  "n < length (filter P xs) \<Longrightarrow>
    \<exists>k < length xs. P (xs ! k) \<and> xs ! k = filter P xs ! n \<and> length (filter P (take k xs)) = n"
proof (induction xs arbitrary: n)
  case (Cons x xs)
  show ?case
  proof (cases "P x \<and> n = 0")
    case True
    then show ?thesis by (intro exI [of _ 0]) simp
  next
    case False
    then obtain k where "k < length xs" "P (xs ! k)" "xs ! k = filter P (x # xs) ! n"
        "length (filter P (take (Suc k) (x # xs))) = n"
      using Cons.IH [of "if P x then n - 1 else n"] Cons.prems by (cases n) (auto split: if_splits)
    then show ?thesis by (intro exI [of _ "Suc k"]) simp
  qed
qed simp

text \<open>The loop that numbers the segments computes the link address.\<close>

definition content :: "LoutGroup \<Rightarrow> int" where
  "content g = lg_span g + lg_bss g"

lemma groups_content:
  assumes "sizes_ok h"
  shows "map content (lout_groups h) = link_sizes h"
    "\<forall>g \<in> set (lout_groups h). 0 \<le> lg_span g \<and> 0 \<le> lg_bss g"
  using sizes_nonneg [OF assms]
  by (cases h rule: flag_cases;
      simp add: content_def lout_groups_def link_sizes_def Let_def numeral_eq_Suc max_def)+

lemma at_Cons:
  assumes "0 \<le> x" "\<forall>y \<in> set sz. 0 \<le> y"
  shows "base_at off (x # sz) (Suc k) = base_at (if x = 0 then off else 0) sz k"
    "segs_at off (x # sz) (Suc k) = segs_at (if x = 0 then off else 0) sz k"
    "seg_at seg off (x # sz) (Suc k) = seg_at (seg + segs_at off (x # sz) 0) (if x = 0 then off else 0) sz k"
proof -
  have "0 \<le> sum_list (take k sz)" for k
    by (rule sum_list_nonneg) (use assms(2) in \<open>auto dest: in_set_takeD\<close>)
  with assms(1) show base: "base_at off (x # sz) (Suc k) = base_at (if x = 0 then off else 0) sz k" for k
    by (auto simp: base_at_def add_nonneg_eq_0_iff)
  show segs: "segs_at off (x # sz) (Suc k) = segs_at (if x = 0 then off else 0) sz k" for k
    by (simp add: segs_at_def base)
  have "map (segs_at off (x # sz)) [0..<Suc k] = segs_at off (x # sz) 0 # map (segs_at (if x = 0 then off else 0) sz) [0..<k]"
    by (simp only: upt_conv_Cons [OF zero_less_Suc] list.map map_Suc_upt [symmetric] map_map o_def segs)
  then show "seg_at seg off (x # sz) (Suc k) = seg_at (seg + segs_at off (x # sz) 0) (if x = 0 then off else 0) sz k"
    by (simp only: seg_at_def sum_list.Cons add.assoc)
qed

lemma place_groups_at:
  assumes "place_groups i base seg (filter group_used gs) = Inr (ps, seg')"
    and "\<forall>g \<in> set gs. 0 \<le> lg_span g \<and> 0 \<le> lg_bss g" and "k < length gs" "group_used (gs ! k)" "0 \<le> base"
  shows "ps ! length (filter group_used (take k gs))
    = (seg_at seg base (map content gs) k, base_at base (map content gs) k)"
  using assms
proof (induction gs arbitrary: i base seg ps k)
  case (Cons g gs)
  have nn: "0 \<le> content g" "\<forall>y \<in> set (map content gs). 0 \<le> y" using Cons.prems(2) by (auto simp: content_def)
  have used: "group_used g \<longleftrightarrow> content g \<noteq> 0" using Cons.prems(2) by (auto simp: group_used_def content_def)
  show ?case
  proof (cases "group_used g")
    case True
    then obtain qs where q: "place_groups (i + 1) 0 (seg + group_segs base g) (filter group_used gs) = Inr (qs, seg')"
        "ps = (seg, base) # qs"
      using Cons.prems(1) by (auto simp: Let_def split: if_splits sum.splits prod.splits)
    show ?thesis
    proof (cases k)
      case 0
      with q(2) show ?thesis by (simp add: seg_at_def base_at_def)
    next
      case (Suc k')
      have "group_segs base g = segs_at base (content g # map content gs) 0"
        using True used Cons.prems(2,5)
        by (auto simp: segs_at_def base_at_def group_segs_def content_def Let_def add.assoc)
      then show ?thesis
        using Cons.IH [OF q(1), of k'] Cons.prems Suc True used q(2) by (simp add: at_Cons [OF nn])
    qed
  next
    case False
    then obtain k' where "k = Suc k'" using Cons.prems(4) by (cases k) auto
    moreover have c: "content g = 0" using False used by simp
    ultimately show ?thesis
      using False Cons.IH [of i base seg ps k'] Cons.prems
      by (simp add: at_Cons [OF nn, unfolded c] segs_at_def)
  qed
qed simp

lemma layout_place:
  assumes "sizes_ok h" "lout_layout h = Inr L" "gi < length (lout_groups h)" "group_used (lout_groups h ! gi)"
  defines "p \<equiv> length (filter group_used (take gi (lout_groups h)))"
  shows "ly_seg L ! p * 65536 + ly_base L ! p + mo = link_addr h gi mo"
proof -
  obtain ps seg_n where L: "ly_g L = filter group_used (lout_groups h)"
    "place_groups 0 (uint (lh_entry_off h)) (uint (lh_entry_seg h)) (ly_g L) = Inr (ps, seg_n)"
    "ly_seg L = map fst ps" "ly_base L = map snd ps"
    using assms(2) by (rule lout_layout_Inr)
  have "length ps = length (ly_g L)" using place_groups_Inr [OF L(2)] by simp
  then have "p < length ps"
    using filter_nth(1) [of gi "lout_groups h" group_used, OF assms(3,4)] by (simp add: p_def L(1))
  then show ?thesis
    using place_groups_at [OF L(2) [unfolded L(1)] groups_content(2) [OF assms(1)] assms(3,4)]
    unfolding p_def by (simp add: L(3,4) link_addr_def Let_def groups_content(1) [OF assms(1)])
qed

text \<open>The run of a piece of group \<open>gi\<close>.\<close>

lemma piece_run:
  assumes ok: "sizes_ok h" and "lout_layout h = Inr L" "gi < length (lout_groups h)" "group_used (lout_groups h ! gi)"
    "pc \<in> set (lg_p (lout_groups h ! gi))"
  shows "(link_addr h gi (lp_moff pc), lp_foff pc, lp_len pc) \<in> set (runs_of L)"
proof -
  obtain ps seg_n where L: "ly_g L = filter group_used (lout_groups h)"
    "place_groups 0 (uint (lh_entry_off h)) (uint (lh_entry_seg h)) (ly_g L) = Inr (ps, seg_n)"
    "ly_seg L = map fst ps" "ly_base L = map snd ps"
    using assms(2) by (rule lout_layout_Inr)
  have len: "length ps = length (ly_g L)" using place_groups_Inr [OF L(2)] by simp
  let ?p = "length (filter group_used (take gi (lout_groups h)))"
  note f = filter_nth [of gi "lout_groups h" group_used, OF assms(3,4)]
  have "(ly_g L ! ?p, ly_seg L ! ?p, ly_base L ! ?p) \<in> set (zip (ly_g L) (zip (ly_seg L) (ly_base L)))"
    using f(1) len L by (auto simp: set_zip intro!: exI [of _ ?p])
  moreover have "pc \<in> set (lg_p (ly_g L ! ?p))" using assms(5) f(2) L(1) by simp
  ultimately have "run_of (ly_seg L ! ?p) (ly_base L ! ?p) pc \<in> set (runs_of L)"
    unfolding runs_of_def by fastforce
  then show ?thesis by (simp only: run_of_def layout_place [OF assms(1-4)])
qed

lemma runs_in_sections:
  assumes "sizes_ok h" "lout_layout h = Inr L" "p \<in> set (runs_of L)" "in_run p x"
  shows "\<exists>(gi, mo, fo, ln) \<in> set (link_sections h). \<exists>j. 0 \<le> j \<and> j < ln \<and> x = link_addr h gi mo + j"
proof -
  obtain ps seg_n where L: "ly_g L = filter group_used (lout_groups h)"
    "place_groups 0 (uint (lh_entry_off h)) (uint (lh_entry_seg h)) (ly_g L) = Inr (ps, seg_n)"
    using assms(2) by (rule lout_layout_Inr)
  obtain n pc where n: "n < length (ly_g L)" "pc \<in> set (lg_p (ly_g L ! n))"
      "p = run_of (ly_seg L ! n) (ly_base L ! n) pc"
    using assms(3) by (auto simp: runs_of_def set_zip)
  obtain gi where gi: "gi < length (lout_groups h)" "lout_groups h ! gi = ly_g L ! n"
      "length (filter group_used (take gi (lout_groups h))) = n" "group_used (lout_groups h ! gi)"
    using n(1) L(1) filter_index [of n group_used "lout_groups h"] by auto
  have "lp_moff pc \<le> x - (ly_seg L ! n * 65536 + ly_base L ! n)"
    "x - (ly_seg L ! n * 65536 + ly_base L ! n) < lp_moff pc + lp_len pc"
    using assms(4) n(3) by (auto simp: in_run_def run_of_def)
  from piece_in_section [OF assms(1) gi(1) _ this] n(2) gi(2)
  obtain mo fo ln where s: "(gi, mo, fo, ln) \<in> set (link_sections h)"
      "mo \<le> x - (ly_seg L ! n * 65536 + ly_base L ! n)" "x - (ly_seg L ! n * 65536 + ly_base L ! n) < mo + ln"
    by auto
  then show ?thesis
    using layout_place [OF assms(1,2) gi(1,4), unfolded gi(3), of mo]
    by (intro bexI [of _ "(gi, mo, fo, ln)"])
      (auto intro!: exI [of _ "x - (ly_seg L ! n * 65536 + ly_base L ! n) - mo"])
qed

text \<open>C3: The loader.  When the header of a file parses and its layout succeeds, the image in memory is
  the one the linker bound: byte \<open>j\<close> of each of the four initialised sections, which lies
  inside the file, is at the address the link mode and the section sizes of the header give it
  -- the groups with content numbered upwards from the entry segment, the first at the entry offset
  and the others at offset 0 -- below the end of the 7-bit segment space; and loading changes no
  other cell and nothing else of the machine.\<close>

theorem image_loaded:
  assumes "lout_parse b = Inr h" "lout_layout h = Inr L"
  shows "(\<forall>(gi, mo, fo, ln) \<in> set (link_sections h). \<forall>j. 0 \<le> j \<and> j < ln \<longrightarrow>
        0 \<le> fo + j \<and> fo + j < int (length b)
        \<and> 0 \<le> link_addr h gi mo + j \<and> link_addr h gi mo + j < 0x800000
        \<and> m_ram (lout_load b L m) (la (link_addr h gi mo + j)) = b ! nat (fo + j))
    \<and> (\<forall>a. (\<forall>(gi, mo, fo, ln) \<in> set (link_sections h). \<forall>j. 0 \<le> j \<and> j < ln \<longrightarrow> a \<noteq> la (link_addr h gi mo + j))
        \<longrightarrow> m_ram (lout_load b L m) a = m_ram m a)
    \<and> same_but_ram m (lout_load b L m)"
proof (intro conjI)
  have ok: "sizes_ok h" by (rule lout_parse_Inr [OF assms(1)])
  note runs = layout_runs [OF ok assms(2)]
  have load: "lout_load b L m = fold (copy_run b) (runs_of L) m"
    unfolding lout_load_def runs_of_def by (rule load_groups_runs) (rule runs(1))
  show "\<forall>(gi, mo, fo, ln) \<in> set (link_sections h). \<forall>j. 0 \<le> j \<and> j < ln \<longrightarrow>
        0 \<le> fo + j \<and> fo + j < int (length b)
        \<and> 0 \<le> link_addr h gi mo + j \<and> link_addr h gi mo + j < 0x800000
        \<and> m_ram (lout_load b L m) (la (link_addr h gi mo + j)) = b ! nat (fo + j)"
  proof (clarify, intro conjI)
    fix gi mo fo ln j assume s: "(gi, mo, fo, ln) \<in> set (link_sections h)" "0 \<le> j" "j < (ln :: int)"
    show "0 \<le> fo + j" "fo + j < int (length b)" using section_in_file [OF assms(1) s(1)] s by simp_all
    obtain pc where pc: "gi < length (lout_groups h)" "group_used (lout_groups h ! gi)"
        "pc \<in> set (lg_p (lout_groups h ! gi))" "lp_moff pc \<le> mo" "mo + ln \<le> lp_moff pc + lp_len pc"
        "lp_foff pc + (mo - lp_moff pc) = fo"
      using section_in_piece [OF ok s(1)] s by auto
    note run = piece_run [OF ok assms(2) pc(1-3)]
    have eq: "link_addr h gi mo + j = link_addr h gi (lp_moff pc) + (mo - lp_moff pc + j)"
      by (simp add: link_addr_def Let_def)
    show "0 \<le> link_addr h gi mo + j" "link_addr h gi mo + j < 0x800000"
      using runs(2) run pc s unfolding eq by (auto simp: run_ok_def)
    show "m_ram (lout_load b L m) (la (link_addr h gi mo + j)) = b ! nat (fo + j)"
      using copies_read [OF runs(2,3) run, of "mo - lp_moff pc + j" b m] pc s
      unfolding load eq by (simp add: algebra_simps)
  qed
  show "\<forall>a. (\<forall>(gi, mo, fo, ln) \<in> set (link_sections h). \<forall>j. 0 \<le> j \<and> j < ln \<longrightarrow> a \<noteq> la (link_addr h gi mo + j))
        \<longrightarrow> m_ram (lout_load b L m) a = m_ram m a"
    unfolding load using runs_in_sections [OF ok assms(2)] by (intro allI impI copies_other) fast
  show "same_but_ram m (lout_load b L m)"
    unfolding load by (rule fold_keeps [where P = "same_but_ram m"])
      (auto simp: copy_run_def same_but_ram_refl split: prod.splits
        intro!: fold_keeps [where P = "same_but_ram m"] intro: same_but_ram_trans [OF _ same_but_ram_set])
qed

text \<open>
  The layout of the mode \<open>ld -n -i\<close> with no shared sections, in segment 3: four bytes of
  private text there and two of private data in segment 4.
\<close>

definition demo_file :: bytes where
  "demo_file =
     [0x07, 0x01, 0x03, 0, 0, 0, 48, 0,
      0, 0, 0, 0,  0, 0, 4, 0,  0, 0, 0, 0,  0, 0, 0, 0,  0, 0, 2, 0,  0, 0, 12, 0,  0, 0, 0, 0,
      0, 0, 0, 0,  0, 0, 0, 0,  0, 3, 0, 0]
     @ [0x7A, 0x00, 0x7A, 0x00, 0x50, 0x44] @ replicate 34 0"

lemma image_loaded_witness:
  "\<exists>h L. lout_parse demo_file = Inr h \<and> lout_layout h = Inr L \<and> ly_seg L = [3, 4]
     \<and> m_ram (lout_load demo_file L machine_zero) (la 0x40001) = 0x44"
proof -
  have "case lout_parse demo_file of Inl _ \<Rightarrow> False
    | Inr h \<Rightarrow> (case lout_layout h of Inl _ \<Rightarrow> False
        | Inr L \<Rightarrow> ly_seg L = [3, 4] \<and> link_addr h 3 0 = 0x40000
            \<and> (3, 0, 52, 2) \<in> set (link_sections h))"
    by code_simp
  then obtain h L where h: "lout_parse demo_file = Inr h" "lout_layout h = Inr L" "ly_seg L = [3, 4]"
      "link_addr h 3 0 = 0x40000" "(3, 0, 52, 2) \<in> set (link_sections h)"
    by (auto split: sum.splits)
  have "\<forall>j. 0 \<le> j \<and> j < (2 :: int) \<longrightarrow>
      m_ram (lout_load demo_file L machine_zero) (la (link_addr h 3 0 + j)) = demo_file ! nat (52 + j)"
    using image_loaded [OF h(1,2), of machine_zero] h(5) by blast
  from this [rule_format, of 1] have "m_ram (lout_load demo_file L machine_zero) (la 0x40001) = demo_file ! nat 53"
    using h(4) by simp
  also have "demo_file ! nat 53 = 0x44" by code_simp
  finally show ?thesis using h(1-3) by blast
qed

end
