(* ===== verification/Sys_Calls.thy ===== *)
theory Sys_Calls
  imports Lout
begin

text \<open>
  The COHERENT system calls of \<open>src/src/uexec.c\<close>, serviced on the host: argument
  decoding from the guest's stack, the descriptor table, directories synthesized as
  \<open>struct direct\<close> records, the \<open>stat\<close> buffer, credentials and the program break, and the
  policy for calls that are not implemented.

  A handler runs with the call number that \<open>sys_hook\<close> keeps in \<open>cur_num\<close>; \<open>cur_cpu\<close> and
  \<open>cur_sseg\<close> are the machine's own registers, which no call changes before it returns.  Where
  the source ends the program, \<open>p_fatal\<close> is set and the run ends.  Prints to stderr are left
  out.
\<close>

subsection \<open>Constants\<close>

abbreviation (input) cEPERM :: u16 where "cEPERM \<equiv> 1"
abbreviation (input) cENOENT :: u16 where "cENOENT \<equiv> 2"
abbreviation (input) cEINTR :: u16 where "cEINTR \<equiv> 4"
abbreviation (input) cEIO :: u16 where "cEIO \<equiv> 5"
abbreviation (input) cENXIO :: u16 where "cENXIO \<equiv> 6"
abbreviation (input) cEBADF :: u16 where "cEBADF \<equiv> 9"
abbreviation (input) cEAGAIN :: u16 where "cEAGAIN \<equiv> 11"
abbreviation (input) cENOMEM :: u16 where "cENOMEM \<equiv> 12"
abbreviation (input) cEACCES :: u16 where "cEACCES \<equiv> 13"
abbreviation (input) cEFAULT :: u16 where "cEFAULT \<equiv> 14"
abbreviation (input) cEEXIST :: u16 where "cEEXIST \<equiv> 17"
abbreviation (input) cEXDEV :: u16 where "cEXDEV \<equiv> 18"
abbreviation (input) cENOTDIR :: u16 where "cENOTDIR \<equiv> 20"
abbreviation (input) cEISDIR :: u16 where "cEISDIR \<equiv> 21"
abbreviation (input) cEINVAL :: u16 where "cEINVAL \<equiv> 22"
abbreviation (input) cEMFILE :: u16 where "cEMFILE \<equiv> 24"
abbreviation (input) cENOTTY :: u16 where "cENOTTY \<equiv> 25"
abbreviation (input) cENOSPC :: u16 where "cENOSPC \<equiv> 28"
abbreviation (input) cESPIPE :: u16 where "cESPIPE \<equiv> 29"
abbreviation (input) cEROFS :: u16 where "cEROFS \<equiv> 30"
abbreviation (input) cEMLINK :: u16 where "cEMLINK \<equiv> 31"
abbreviation (input) cEPIPE :: u16 where "cEPIPE \<equiv> 32"

abbreviation (input) mIFMT :: u16 where "mIFMT \<equiv> 0xF000"
abbreviation (input) mIFPIPE :: u16 where "mIFPIPE \<equiv> 0x1000"
abbreviation (input) mIFCHR :: u16 where "mIFCHR \<equiv> 0x2000"
abbreviation (input) mIFDIR :: u16 where "mIFDIR \<equiv> 0x4000"
abbreviation (input) mIFBLK :: u16 where "mIFBLK \<equiv> 0x6000"
abbreviation (input) mIFREG :: u16 where "mIFREG \<equiv> 0x8000"

abbreviation (input) ERRNO_OFF :: int where "ERRNO_OFF \<equiv> 0xFFFE"

definition coh_errno :: "HErr \<Rightarrow> u16" where
  "coh_errno e =
     (case e of
        EPERM \<Rightarrow> cEPERM | ENOENT \<Rightarrow> cENOENT | EINTR \<Rightarrow> cEINTR | ENXIO \<Rightarrow> cENXIO
      | ENODEV \<Rightarrow> cENXIO | EBADF \<Rightarrow> cEBADF | EAGAIN \<Rightarrow> cEAGAIN | ENOMEM \<Rightarrow> cENOMEM
      | EACCES \<Rightarrow> cEACCES | EFAULT \<Rightarrow> cEFAULT | EEXIST \<Rightarrow> cEEXIST | EXDEV \<Rightarrow> cEXDEV
      | ENOTDIR \<Rightarrow> cENOTDIR | EISDIR \<Rightarrow> cEISDIR | EINVAL \<Rightarrow> cEINVAL | EMFILE \<Rightarrow> cEMFILE
      | ENFILE \<Rightarrow> cEMFILE | ENOTTY \<Rightarrow> cENOTTY | ENOSPC \<Rightarrow> cENOSPC | ESPIPE \<Rightarrow> cESPIPE
      | EROFS \<Rightarrow> cEROFS | EMLINK \<Rightarrow> cEMLINK | EPIPE \<Rightarrow> cEPIPE | EOTHER \<Rightarrow> cEIO)"

datatype RetClass = rcINT | rcWIDE

definition class_of :: "u8 \<Rightarrow> RetClass" where
  "class_of num = (if num \<in> {17, 19, 45, 48, 72, 73} then rcWIDE else rcINT)"

subsection \<open>Returns\<close>

definition stack_seg :: "Machine \<Rightarrow> int" where
  "stack_seg m = uint (c_R (m_cpu m) 14 AND 0x7F)"

definition set_ret :: "u16 \<Rightarrow> u16 \<Rightarrow> Machine \<Rightarrow> Machine" where
  "set_ret r0 r1 m = m\<lparr>m_cpu := (m_cpu m)\<lparr>c_R := (c_R (m_cpu m))(0 := r0, 1 := r1)\<rparr>\<rparr>"

definition set_fatal :: "Fatal \<Rightarrow> Machine \<Rightarrow> Machine" where
  "set_fatal f = upd_proc (\<lambda>p. p\<lparr>p_fatal := Some f\<rparr>)"

definition ret_int :: "u8 \<Rightarrow> u16 \<Rightarrow> unit handler" where
  "ret_int num v =
     modm (\<lambda>m. if class_of num \<noteq> rcINT then set_fatal (HarnessBug ''INT helper'') m else set_ret v v m)"

definition ret_wide :: "u8 \<Rightarrow> u32 \<Rightarrow> unit handler" where
  "ret_wide num v =
     modm (\<lambda>m. if class_of num \<noteq> rcWIDE then set_fatal (HarnessBug ''LONG/PTR helper'') m
               else set_ret (ucast (drop_bit 16 v)) (ucast v) m)"

definition fail :: "u16 \<Rightarrow> unit handler" where
  "fail code =
     modm (\<lambda>m. let s = stack_seg m;
                   m = (if u_mapped m s then gw16 s ERRNO_OFF code m else m)
               in set_ret 0xFFFF 0xFFFF m)"

subsection \<open>Arguments\<close>

text \<open>\<open>ARGW\<close> and \<open>ARGL\<close>: above the 4-byte return address.\<close>

definition arg_w :: "int \<Rightarrow> Machine \<Rightarrow> u16" where
  "arg_w o' m = gr16 (stack_seg m) (uint (c_R (m_cpu m) 15) + 4 + o') m"

definition arg_l :: "int \<Rightarrow> Machine \<Rightarrow> u32" where
  "arg_l o' m = push_bit 16 (ucast (arg_w o' m)) OR ucast (arg_w (o' + 2) m)"

text \<open>\<open>snprintf\<close> into a buffer of \<open>n\<close> bytes keeps \<open>n - 1\<close>.\<close>

definition remap_path :: "bytes option \<Rightarrow> bytes \<Rightarrow> nat \<Rightarrow> bytes" where
  "remap_path root p n =
     take (n - 1) (case root of
                     Some r \<Rightarrow> if r \<noteq> [] \<and> p \<noteq> [] \<and> hd p = 0x2F then r @ p else p
                   | None \<Rightarrow> p)"

definition path_arg :: "u32 \<Rightarrow> Machine \<Rightarrow> bytes option" where
  "path_arg v m = map_option (\<lambda>raw. remap_path (p_root (m_proc m)) raw 2048) (u_str m v 2048)"

subsection \<open>The host\<close>

definition log_call :: "HostCall \<Rightarrow> Machine \<Rightarrow> Machine" where
  "log_call c = upd_proc (\<lambda>p. p\<lparr>p_calls := c # p_calls p\<rparr>)"

text \<open>One call: it enters the log, and the answer is read off the log.\<close>

definition host_call :: "(HostCall list \<Rightarrow> 'a) \<Rightarrow> HostCall \<Rightarrow> 'a handler" where
  "host_call ans c = do { modm (log_call c); asks (\<lambda>m. ans (p_calls (m_proc m))) }"

text \<open>\<open>if (f() < 0) fail_err(); else ...\<close>\<close>

definition or_errno :: "HErr + 'a \<Rightarrow> ('a \<Rightarrow> unit handler) \<Rightarrow> unit handler" where
  "or_errno r f = (case r of Inl e \<Rightarrow> fail (coh_errno e) | Inr v \<Rightarrow> f v)"

definition host_zero :: "Host \<Rightarrow> u8 \<Rightarrow> HostCall \<Rightarrow> unit handler" where
  "host_zero host num c = do { r \<leftarrow> host_call (h_int host) c; or_errno r (\<lambda>_. ret_int num 0) }"

subsection \<open>Descriptors\<close>

definition get_fd :: "int \<Rightarrow> Machine \<Rightarrow> GFile option" where
  "get_fd fd m =
     (let fs = p_files (m_proc m)
      in if fd < 0 \<or> fd \<ge> int (length fs) \<or> \<not> g_used (fs ! nat fd) then None else Some (fs ! nat fd))"

definition alloc_fd :: "Machine \<Rightarrow> nat option" where
  "alloc_fd m = (let fs = p_files (m_proc m) in find (\<lambda>i. \<not> g_used (fs ! i)) [0..<length fs])"

definition put_fd :: "nat \<Rightarrow> GFile \<Rightarrow> Machine \<Rightarrow> Machine" where
  "put_fd fd g = upd_proc (\<lambda>p. p\<lparr>p_files := (p_files p)[fd := g]\<rparr>)"

subsection \<open>Directories and \<open>stat\<close>\<close>

definition guest_ino :: "u64 \<Rightarrow> u16" where
  "guest_ino ino =
     (let h = ino * 2654435761 + drop_bit 32 ino;
          v = ucast (drop_bit 16 h) XOR ucast h
      in if v \<noteq> 0 then v else 1)"

definition host_dev :: "u64 \<Rightarrow> u16" where
  "host_dev d = push_bit 8 (ucast (d AND 0xFF)) OR ucast (drop_bit 8 d AND 0xFF)"

definition ino_of :: "Host \<Rightarrow> bytes \<Rightarrow> u16 handler" where
  "ino_of host p = do {
     r \<leftarrow> host_call (h_stat host) (HLstat p);
     State_Monad.return (case r of Inl _ \<Rightarrow> 1 | Inr st \<Rightarrow> guest_ino (st_ino st))
   }"

text \<open>\<open>dir_put\<close>: inode low byte first, then the name in 14 bytes.\<close>

definition dir_entry :: "u16 \<Rightarrow> bytes \<Rightarrow> bytes" where
  "dir_entry ino name =
     [ucast ino, ucast (drop_bit 8 ino)] @ take 14 name @ replicate (14 - length (take 14 name)) 0"

definition sub_path :: "bytes \<Rightarrow> bytes \<Rightarrow> bytes" where
  "sub_path path name = take 2047 (path @ [0x2F] @ name)"

abbreviation (input) dot :: bytes where "dot \<equiv> [0x2E]"
abbreviation (input) dotdot :: bytes where "dotdot \<equiv> [0x2E, 0x2E]"

fun dir_entries :: "Host \<Rightarrow> bytes \<Rightarrow> bytes list \<Rightarrow> bytes handler" where
  "dir_entries host path [] = State_Monad.return []"
| "dir_entries host path (name # names) =
     (if name = dot \<or> name = dotdot \<or> length name > 14 then dir_entries host path names
      else do {
        ino \<leftarrow> ino_of host (sub_path path name);
        rest \<leftarrow> dir_entries host path names;
        State_Monad.return (dir_entry ino name @ rest)
      })"

text \<open>\<open>opendir\<close> and the loop of \<open>readdir\<close> are one call that gives all names.\<close>

definition dir_image :: "Host \<Rightarrow> bytes \<Rightarrow> (HErr + bytes) handler" where
  "dir_image host path = do {
     d \<leftarrow> host_call (h_names host) (HReaddir path);
     case d of
       Inl e \<Rightarrow> State_Monad.return (Inl e)
     | Inr names \<Rightarrow> do {
         i1 \<leftarrow> ino_of host path;
         i2 \<leftarrow> ino_of host (sub_path path dotdot);
         rest \<leftarrow> dir_entries host path names;
         State_Monad.return (Inr (dir_entry i1 dot @ dir_entry i2 dotdot @ rest))
       }
   }"

definition be16_bytes :: "u16 \<Rightarrow> bytes" where
  "be16_bytes v = [ucast (drop_bit 8 v), ucast v]"

definition be32_bytes :: "u32 \<Rightarrow> bytes" where
  "be32_bytes v = [ucast (drop_bit 24 v), ucast (drop_bit 16 v), ucast (drop_bit 8 v), ucast v]"

text \<open>The guest's mode word and device number.\<close>

definition stat_mode :: "HStatus \<Rightarrow> u16" where
  "stat_mode st =
     (st_bits st AND 0xFFF)
     OR (case st_type st of
           FDir \<Rightarrow> mIFDIR | FChr \<Rightarrow> mIFCHR | FBlk \<Rightarrow> mIFBLK | FFifo \<Rightarrow> mIFPIPE | _ \<Rightarrow> mIFREG)"

definition stat_rdev :: "HStatus \<Rightarrow> u16" where
  "stat_rdev st =
     (if st_type st = FChr \<or> st_type st = FBlk
      then push_bit 8 (ucast (drop_bit 8 (st_rdev st) AND 0xFF)) OR ucast (st_rdev st AND 0xFF)
      else 0)"

text \<open>The 30 bytes of \<open>struct stat\<close>; uid and gid are the zeros of the clearing loop.\<close>

definition stat_bytes :: "HStatus \<Rightarrow> bytes" where
  "stat_bytes st =
     (let sz = (if st_size st > 0xFFFFFFFF then 0xFFFFFFFF else ucast (st_size st)) :: u32;
          mt = ucast (st_mtime st) :: u32
      in be16_bytes (host_dev (st_dev st)) @ be16_bytes (guest_ino (st_ino st))
         @ be16_bytes (stat_mode st) @ be16_bytes (ucast (st_nlink st))
         @ [0, 0, 0, 0] @ be16_bytes (stat_rdev st)
         @ be32_bytes sz @ be32_bytes mt @ be32_bytes mt @ be32_bytes mt)"

text \<open>\<open>u_range_ok\<close> and the store loop: the fault, or the bytes stored and then \<open>k\<close>.\<close>

definition deliver :: "u32 \<Rightarrow> bytes \<Rightarrow> unit handler \<Rightarrow> unit handler" where
  "deliver buf bs k = do {
     ok \<leftarrow> asks (\<lambda>m. u_range_ok m buf (int (length bs)));
     if ok then do { modm (u_store buf 0 bs); k } else fail cEFAULT
   }"

text \<open>\<open>path_arg\<close> with its EFAULT.\<close>

definition with_path :: "int \<Rightarrow> (bytes \<Rightarrow> unit handler) \<Rightarrow> unit handler" where
  "with_path o' f = do {
     p \<leftarrow> asks (\<lambda>m. path_arg (arg_l o' m) m);
     case p of None \<Rightarrow> fail cEFAULT | Some path \<Rightarrow> f path
   }"

definition with_fd :: "(int \<Rightarrow> GFile \<Rightarrow> unit handler) \<Rightarrow> unit handler" where
  "with_fd f = do {
     fd \<leftarrow> asks (\<lambda>m. uint (arg_w 0 m));
     g \<leftarrow> asks (get_fd fd);
     case g of None \<Rightarrow> fail cEBADF | Some g \<Rightarrow> f fd g
   }"

end
