(* ===== verification/Sys_Dispatch.thy ===== *)
theory Sys_Dispatch
  imports Sys_Calls
begin

text \<open>
  The service of each system call in \<open>sys_hook\<close> of \<open>src/src/uexec.c\<close>, in the order of the
  numbers, and the dispatch on the number with the policy for the calls that are not there.
\<close>

subsection \<open>Files\<close>

definition sys_exit :: "unit handler" where
  "sys_exit = do {
     code \<leftarrow> asks (arg_w 0);
     modm (upd_proc (\<lambda>p. p\<lparr>p_exited := True, p_code := uint code\<rparr>));
     modm (gw16 0 0x001E 0x0062)
   }"

text \<open>A directory hands out its image from \<open>pos\<close>; a plain file is read on the host.\<close>

definition dir_avail :: "GFile \<Rightarrow> bytes \<Rightarrow> int \<Rightarrow> nat" where
  "dir_avail g img nb =
     (let avail = int (length img) - g_pos g; avail = (if avail < 0 then 0 else avail)
      in nat (if avail < nb then avail else nb))"

definition sys_read :: "Host \<Rightarrow> u8 \<Rightarrow> unit handler" where
  "sys_read host num = with_fd (\<lambda>fd g. do {
     buf \<leftarrow> asks (arg_l 2);
     nb \<leftarrow> asks (\<lambda>m. uint (arg_w 6 m));
     case g_dir g of
       Some img \<Rightarrow> do {
         let n = dir_avail g img nb;
         let data = take n (drop (nat (g_pos g)) img);
         modm (put_fd (nat fd) (g\<lparr>g_pos := g_pos g + int n\<rparr>));
         deliver buf data (ret_int num (of_nat n))
       }
     | None \<Rightarrow> do {
         r \<leftarrow> host_call (h_read host) (HRead (g_fd g) (nat nb));
         or_errno r (\<lambda>data. deliver buf data (ret_int num (of_nat (length data))))
       }
   })"

definition sys_write :: "Host \<Rightarrow> u8 \<Rightarrow> unit handler" where
  "sys_write host num = do {
     g \<leftarrow> asks (\<lambda>m. get_fd (uint (arg_w 0 m)) m);
     case g of
       None \<Rightarrow> fail cEBADF
     | Some g \<Rightarrow>
         if g_dir g \<noteq> None then fail cEBADF
         else do {
           buf \<leftarrow> asks (arg_l 2);
           nb \<leftarrow> asks (\<lambda>m. unat (arg_w 6 m));
           ok \<leftarrow> asks (\<lambda>m. u_range_ok m buf (int nb));
           if \<not> ok then fail cEFAULT
           else do {
             data \<leftarrow> asks (u_read buf nb);
             r \<leftarrow> host_call (h_int host) (HWrite (g_fd g) data);
             or_errno r (\<lambda>n. ret_int num (word_of_int n))
           }
         }
   }"

definition open_flags :: "u16 \<Rightarrow> OpenFlags" where
  "open_flags oflag =
     \<lparr>of_mode = (if oflag AND 3 = 0 then O_RDONLY else if oflag AND 3 = 1 then O_WRONLY else O_RDWR),
      of_append = tst oflag 0x008, of_creat = tst oflag 0x100, of_trunc = tst oflag 0x200,
      of_excl = tst oflag 0x400\<rparr>"

text \<open>The path kept in a descriptor is cut to the 1024 bytes of its field.\<close>

definition path_field :: "bytes \<Rightarrow> bytes" where
  "path_field p = take 1023 p"

text \<open>The end of \<open>open\<close> and \<open>creat\<close>: a host descriptor gets the lowest free guest one.\<close>

definition install_fd :: "Host \<Rightarrow> u8 \<Rightarrow> bytes \<Rightarrow> int \<Rightarrow> unit handler" where
  "install_fd host num path hfd = do {
     fd \<leftarrow> asks alloc_fd;
     case fd of
       None \<Rightarrow> do { host_call (h_int host) (HClose hfd); fail cEMFILE }
     | Some fd \<Rightarrow> do {
         old \<leftarrow> asks (\<lambda>m. p_files (m_proc m) ! fd);
         modm (put_fd fd (old\<lparr>g_used := True, g_fd := hfd, g_dir := None, g_path := path_field path\<rparr>));
         ret_int num (of_nat fd)
       }
   }"

definition open_dir :: "Host \<Rightarrow> u8 \<Rightarrow> bytes \<Rightarrow> unit handler" where
  "open_dir host num path = do {
     d \<leftarrow> dir_image host path;
     or_errno d (\<lambda>img. do {
       fd \<leftarrow> asks alloc_fd;
       case fd of
         None \<Rightarrow> fail cEMFILE
       | Some fd \<Rightarrow> do {
           modm (put_fd fd \<lparr>g_used = True, g_fd = - 1, g_dir = Some img, g_pos = 0, g_path = path_field path\<rparr>);
           ret_int num (of_nat fd)
         }
     })
   }"

definition is_dir :: "HErr + HStatus \<Rightarrow> bool" where
  "is_dir r = (case r of Inl _ \<Rightarrow> False | Inr st \<Rightarrow> st_type st = FDir)"

definition sys_open :: "Host \<Rightarrow> u8 \<Rightarrow> unit handler" where
  "sys_open host num = with_path 0 (\<lambda>path. do {
     oflag \<leftarrow> asks (arg_w 4);
     perm \<leftarrow> asks (\<lambda>m. let p = arg_w 6 m AND 0x1FF in if p = 0 then 0x1B6 else p);
     st \<leftarrow> host_call (h_stat host) (HStat path);
     if is_dir st then
       (if oflag AND 3 \<noteq> 0 then fail cEISDIR else open_dir host num path)
     else do {
       r \<leftarrow> host_call (h_int host) (HOpen path (open_flags oflag) perm);
       or_errno r (install_fd host num path)
     }
   })"

definition sys_creat :: "Host \<Rightarrow> u8 \<Rightarrow> unit handler" where
  "sys_creat host num = with_path 0 (\<lambda>path. do {
     perm \<leftarrow> asks (\<lambda>m. arg_w 4 m AND 0x1FF);
     r \<leftarrow> host_call (h_int host)
            (HOpen path \<lparr>of_mode = O_RDWR, of_append = False, of_creat = True, of_trunc = True, of_excl = False\<rparr> perm);
     or_errno r (install_fd host num path)
   })"

definition sys_close :: "Host \<Rightarrow> u8 \<Rightarrow> unit handler" where
  "sys_close host num = with_fd (\<lambda>fd g. do {
     whenb (g_fd g \<ge> 0 \<and> fd > 2) (do { host_call (h_int host) (HClose (g_fd g)); skip });
     modm (put_fd (nat fd) gfile_zero);
     ret_int num 0
   })"

text \<open>The new position in a directory image; a negative one becomes 0.\<close>

definition dir_seek :: "GFile \<Rightarrow> bytes \<Rightarrow> int \<Rightarrow> int \<Rightarrow> int" where
  "dir_seek g img off whence =
     (let pos = (if whence = 0 then off else if whence = 1 then g_pos g + off else int (length img) + off)
      in if pos < 0 then 0 else pos)"

definition sys_lseek :: "Host \<Rightarrow> u8 \<Rightarrow> unit handler" where
  "sys_lseek host num = with_fd (\<lambda>fd g. do {
     off \<leftarrow> asks (\<lambda>m. sint (arg_l 2 m));
     whence \<leftarrow> asks (\<lambda>m. uint (arg_w 6 m));
     case g_dir g of
       Some img \<Rightarrow>
         if whence < 0 \<or> whence > 2 then fail cEINVAL
         else do {
           modm (put_fd (nat fd) (g\<lparr>g_pos := dir_seek g img off whence\<rparr>));
           ret_wide num (word_of_int (dir_seek g img off whence))
         }
     | None \<Rightarrow> do {
         r \<leftarrow> host_call (h_int host) (HLseek (g_fd g) off whence);
         or_errno r (\<lambda>pos. ret_wide num (word_of_int pos))
       }
   })"

definition sys_stat :: "Host \<Rightarrow> u8 \<Rightarrow> unit handler" where
  "sys_stat host num = with_path 0 (\<lambda>path. do {
     r \<leftarrow> host_call (h_stat host) (HStat path);
     or_errno r (\<lambda>st. do {
       sbp \<leftarrow> asks (arg_l 4);
       deliver sbp (stat_bytes st) (ret_int num 0)
     })
   })"

definition sys_fstat :: "Host \<Rightarrow> u8 \<Rightarrow> unit handler" where
  "sys_fstat host num = with_fd (\<lambda>fd g. do {
     r \<leftarrow> host_call (h_stat host) (if g_dir g \<noteq> None then HStat (g_path g) else HFstat (g_fd g));
     or_errno r (\<lambda>st. do {
       sbp \<leftarrow> asks (arg_l 2);
       deliver sbp (stat_bytes st) (ret_int num 0)
     })
   })"

abbreviation (input) tty_sgttyb :: bytes where "tty_sgttyb \<equiv> [16, 16, 0x08, 0x15, 0x04, 0x0C]"
abbreviation (input) tty_tchars :: bytes where "tty_tchars \<equiv> [0x7F, 0x1C, 0x11, 0x13, 0x04, 0xFF]"

definition is_tty :: "Host \<Rightarrow> GFile \<Rightarrow> bool handler" where
  "is_tty host g =
     (if g_fd g \<ge> 0 then do {
        r \<leftarrow> host_call (h_int host) (HIsatty (g_fd g));
        State_Monad.return (case r of Inl _ \<Rightarrow> False | Inr v \<Rightarrow> v \<noteq> 0)
      } else State_Monad.return False)"

definition sys_ioctl :: "Host \<Rightarrow> u8 \<Rightarrow> unit handler" where
  "sys_ioctl host num = with_fd (\<lambda>fd g. do {
     t \<leftarrow> is_tty host g;
     if \<not> t then fail cENOTTY
     else do {
       cmd \<leftarrow> asks (arg_w 2);
       p \<leftarrow> asks (arg_l 4);
       if cmd = 0x41 then deliver p tty_sgttyb (ret_int num 0)
       else if cmd = 0x43 then deliver p tty_tchars (ret_int num 0)
       else if cmd = 0x40 \<or> cmd = 0x42 \<or> cmd = 0x44 then ret_int num 0
       else fail cEINVAL
     }
   })"

subsection \<open>Names\<close>

definition sys_unlink :: "Host \<Rightarrow> u8 \<Rightarrow> unit handler" where
  "sys_unlink host num = with_path 0 (\<lambda>path. host_zero host num (HUnlink path))"

text \<open>What follows the last slash.\<close>

definition base_name :: "bytes \<Rightarrow> bytes" where
  "base_name p = rev (takeWhile (\<lambda>c. c \<noteq> 0x2F) (rev p))"

definition sys_link :: "Host \<Rightarrow> u8 \<Rightarrow> unit handler" where
  "sys_link host num = do {
     p1 \<leftarrow> asks (\<lambda>m. path_arg (arg_l 0 m) m);
     p2 \<leftarrow> asks (\<lambda>m. path_arg (arg_l 4 m) m);
     case (p1, p2) of
       (Some from, Some to) \<Rightarrow>
         if base_name to = dot \<or> base_name to = dotdot then do {
           sf \<leftarrow> host_call (h_stat host) (HStat from);
           if \<not> isl sf then do {
             stt \<leftarrow> host_call (h_stat host) (HStat to);
             if is_dir sf \<and> is_dir stt then ret_int num 0 else host_zero host num (HLink from to)
           } else host_zero host num (HLink from to)
         } else host_zero host num (HLink from to)
     | _ \<Rightarrow> fail cEFAULT
   }"

definition sys_mknod :: "Host \<Rightarrow> u8 \<Rightarrow> unit handler" where
  "sys_mknod host num = with_path 0 (\<lambda>path. do {
     mode \<leftarrow> asks (arg_w 4);
     uid \<leftarrow> asks (\<lambda>m. p_uid (m_proc m));
     let typ = mode AND mIFMT;
     let perm = mode AND 0x1FF;
     if typ \<noteq> mIFPIPE \<and> uid \<noteq> 0 then fail cEPERM
     else if typ = mIFCHR \<or> typ = mIFBLK then fail cEPERM
     else if typ = mIFDIR then host_zero host num (HMkdir path perm)
     else if typ = mIFPIPE then host_zero host num (HMkfifo path perm)
     else if typ = 0 \<or> typ = mIFREG then do {
       r \<leftarrow> host_call (h_int host)
              (HOpen path \<lparr>of_mode = O_WRONLY, of_append = False, of_creat = True, of_trunc = False, of_excl = True\<rparr> perm);
       or_errno r (\<lambda>f. do { host_call (h_int host) (HClose f); ret_int num 0 })
     }
     else fail (coh_errno EINVAL)
   })"

definition sys_chdir :: "Host \<Rightarrow> u8 \<Rightarrow> unit handler" where
  "sys_chdir host num = with_path 0 (\<lambda>path. host_zero host num (HChdir path))"

definition sys_chmod :: "Host \<Rightarrow> u8 \<Rightarrow> unit handler" where
  "sys_chmod host num = with_path 0 (\<lambda>path. do {
     mode \<leftarrow> asks (\<lambda>m. arg_w 4 m AND 0x1FF);
     host_zero host num (HChmod path mode)
   })"

definition sys_access :: "Host \<Rightarrow> u8 \<Rightarrow> unit handler" where
  "sys_access host num = with_path 0 (\<lambda>path. do {
     a \<leftarrow> asks (arg_w 4);
     host_zero host num (HAccess path (tst a 4) (tst a 2) (tst a 1))
   })"

text \<open>\<open>x = 0; for (k...) x = x << 8 | byte\<close>.\<close>

definition be_int :: "bytes \<Rightarrow> int" where
  "be_int bs = fold (\<lambda>b x. x * 256 + uint b) bs 0"

definition sys_utime :: "Host \<Rightarrow> u8 \<Rightarrow> unit handler" where
  "sys_utime host num = with_path 0 (\<lambda>path. do {
     now \<leftarrow> host_call (h_clock host) HNow;
     p \<leftarrow> asks (arg_l 4);
     if p = 0 then host_zero host num (HUtime path (uint (fst now)) (uint (fst now)))
     else do {
       ok \<leftarrow> asks (\<lambda>m. u_range_ok m p 8);
       if \<not> ok then fail cEFAULT
       else do {
         t \<leftarrow> asks (u_read p 8);
         host_zero host num (HUtime path (be_int (take 4 t)) (be_int (drop 4 t)))
       }
     }
   })"

subsection \<open>The process\<close>

definition sys_setuid :: "u8 \<Rightarrow> unit handler" where
  "sys_setuid num = do {
     uid \<leftarrow> asks (arg_w 0);
     cur \<leftarrow> asks (\<lambda>m. p_uid (m_proc m));
     if uid \<noteq> cur \<and> cur \<noteq> 0 then fail cEPERM
     else do { modm (upd_proc (\<lambda>p. p\<lparr>p_uid := uid\<rparr>)); ret_int num 0 }
   }"

definition sys_setgid :: "u8 \<Rightarrow> unit handler" where
  "sys_setgid num = do {
     gid \<leftarrow> asks (arg_w 0);
     cur \<leftarrow> asks (\<lambda>m. p_gid (m_proc m));
     uid \<leftarrow> asks (\<lambda>m. p_uid (m_proc m));
     if gid \<noteq> cur \<and> uid \<noteq> 0 then fail cEPERM
     else do { modm (upd_proc (\<lambda>p. p\<lparr>p_gid := gid\<rparr>)); ret_int num 0 }
   }"

definition sys_brk :: "u8 \<Rightarrow> unit handler" where
  "sys_brk num = do {
     want \<leftarrow> asks (arg_l 0);
     cur \<leftarrow> asks (\<lambda>m. p_brk (m_proc m));
     hi \<leftarrow> asks (\<lambda>m. p_heap_hi (m_proc m));
     if want = 0 then ret_wide num cur
     else if uint (drop_bit 24 want AND 0x7F) > hi then fail cENOMEM
     else do { modm (upd_proc (\<lambda>p. p\<lparr>p_brk := want\<rparr>)); ret_wide num want }
   }"

definition sys_getpid :: "Host \<Rightarrow> u8 \<Rightarrow> unit handler" where
  "sys_getpid host num = do {
     r \<leftarrow> host_call (h_int host) HGetpid;
     ret_int num (case r of Inl _ \<Rightarrow> 100 | Inr pid \<Rightarrow> word_of_int (pid smod 30000 + 100))
   }"

text \<open>\<open>struct timeb\<close>: the seconds, the milliseconds, and no time zone.\<close>

definition timeb_bytes :: "u32 \<times> u16 \<Rightarrow> bytes" where
  "timeb_bytes now = be32_bytes (fst now) @ be16_bytes (snd now) @ [0, 0, 0, 0]"

definition sys_ftime :: "Host \<Rightarrow> u8 \<Rightarrow> unit handler" where
  "sys_ftime host num = do {
     p \<leftarrow> asks (arg_l 0);
     if p = 0 then ret_int num 0
     else do {
       ok \<leftarrow> asks (\<lambda>m. u_range_ok m p 10);
       if \<not> ok then fail cEFAULT
       else do {
         now \<leftarrow> host_call (h_clock host) HNow;
         modm (u_store p 0 (timeb_bytes now));
         ret_int num 0
       }
     }
   }"

subsection \<open>Calls that are not implemented\<close>

definition default_accept :: "u8 \<Rightarrow> bool" where
  "default_accept n \<longleftrightarrow> n \<in> {2, 7, 11, 42, 27, 29, 37, 51}"

definition policy_ok :: "u8 \<Rightarrow> Machine \<Rightarrow> bool" where
  "policy_ok n m \<longleftrightarrow> p_accept_all (m_proc m) \<or> (unat n < 128 \<and> p_accept (m_proc m) ! unat n)"

definition warn_once :: "u8 \<Rightarrow> Proc \<Rightarrow> Proc" where
  "warn_once n p =
     (if unat n < 128 \<and> \<not> p_warned p ! unat n
      then p\<lparr>p_warned := (p_warned p)[unat n := True], p_n_warned := p_n_warned p + 1\<rparr> else p)"

definition sys_default :: "u8 \<Rightarrow> unit handler" where
  "sys_default num = do {
     ok \<leftarrow> asks (policy_ok num);
     if \<not> ok then modm (set_fatal (Unimplemented num))
     else do { modm (upd_proc (warn_once num)); fail cEINVAL }
   }"

subsection \<open>Dispatch\<close>

definition sys_call :: "Host \<Rightarrow> u8 \<Rightarrow> unit handler" where
  "sys_call host num =
     (if num = 1 then sys_exit
      else if num = 3 then sys_read host num
      else if num = 4 then sys_write host num
      else if num = 5 then sys_open host num
      else if num = 6 then sys_close host num
      else if num = 8 then sys_creat host num
      else if num = 9 then sys_link host num
      else if num = 10 then sys_unlink host num
      else if num = 12 then sys_chdir host num
      else if num = 14 then sys_mknod host num
      else if num = 15 then sys_chmod host num
      else if num = 16 then ret_int num 0
      else if num = 17 then sys_brk num
      else if num = 18 then sys_stat host num
      else if num = 19 then sys_lseek host num
      else if num = 20 then sys_getpid host num
      else if num = 23 then sys_setuid num
      else if num = 24 \<or> num = 57 then do { u \<leftarrow> asks (\<lambda>m. p_uid (m_proc m)); ret_int num u }
      else if num = 28 then sys_fstat host num
      else if num = 30 then sys_utime host num
      else if num = 33 then sys_access host num
      else if num = 35 then sys_ftime host num
      else if num = 36 then ret_int num 0
      else if num = 46 then sys_setgid num
      else if num = 47 \<or> num = 56 then do { g \<leftarrow> asks (\<lambda>m. p_gid (m_proc m)); ret_int num g }
      else if num = 48 then ret_wide num 0
      else if num = 54 then sys_ioctl host num
      else if num = 60 then ret_int num 0x12
      else sys_default num)"

definition sys_hook :: "Host \<Rightarrow> u8 \<Rightarrow> u32 \<Rightarrow> Machine \<Rightarrow> Machine" where
  "sys_hook host num pc m =
     (let sp = push_bit 24 (word_of_int (stack_seg m)) OR ucast (c_R (m_cpu m) 15) :: u32
      in if \<not> u_range_ok m sp 16 then set_fatal (StackUnmapped num) m
         else snd (run_state (sys_call host num) m))"

end
