(* ===== verification/Sys_Props.thy ===== *)
theory Sys_Props
  imports Sys_Dispatch
begin

text \<open>
  What a system call can do to the machine: it is confined to the two result registers, to
  the memory the process owns and to the process state, whatever the guest passes and
  whatever the host answers.
\<close>

subsection \<open>The frame of a call\<close>

text \<open>Cells of segments that are not installed.\<close>

definition uninstalled :: "Machine \<Rightarrow> u32 \<Rightarrow> bool" where
  "uninstalled m a \<longleftrightarrow> (p_inst_max (m_proc m) + 1) * 65536 \<le> uint a"

definition harness_bug :: "Machine \<Rightarrow> bool" where
  "harness_bug m \<longleftrightarrow> (\<exists>s. p_fatal (m_proc m) = Some (HarnessBug s))"

definition only_results :: "CPU \<Rightarrow> CPU \<Rightarrow> bool" where
  "only_results c c' \<longleftrightarrow> (\<exists>r. c' = c\<lparr>c_R := r\<rparr> \<and> (\<forall>i. i \<noteq> 0 \<and> i \<noteq> 1 \<longrightarrow> r i = c_R c i))"

definition proc_kept :: "Proc \<Rightarrow> Proc \<Rightarrow> bool" where
  "proc_kept p p' \<longleftrightarrow>
     p_inst_max p' = p_inst_max p \<and> p_heap_hi p' = p_heap_hi p \<and> p_root p' = p_root p
     \<and> p_accept p' = p_accept p \<and> p_accept_all p' = p_accept_all p
     \<and> length (p_files p') = length (p_files p) \<and> (p_exited p \<longrightarrow> p_exited p')
     \<and> (p_uid p \<noteq> 0 \<longrightarrow> p_uid p' = p_uid p \<and> p_gid p' = p_gid p)
     \<and> (\<exists>cs. p_calls p' = cs @ p_calls p)"

definition call_frame :: "Machine \<Rightarrow> Machine \<Rightarrow> bool" where
  "call_frame m m' \<longleftrightarrow>
     m' = m\<lparr>m_cpu := m_cpu m', m_ram := m_ram m', m_proc := m_proc m'\<rparr>
     \<and> only_results (m_cpu m) (m_cpu m') \<and> proc_kept (m_proc m) (m_proc m')
     \<and> (0 \<le> p_inst_max (m_proc m) \<and> p_inst_max (m_proc m) \<le> 0xFF \<longrightarrow>
          (\<forall>a. uninstalled m a \<longrightarrow> m_ram m' a = m_ram m a))
     \<and> (harness_bug m' \<longrightarrow> harness_bug m)"

lemma only_results_refl: "only_results c c"
  unfolding only_results_def by (rule exI [of _ "c_R c"]) simp

lemma only_results_trans: "only_results c c' \<Longrightarrow> only_results c' c'' \<Longrightarrow> only_results c c''"
  by (auto simp: only_results_def)

lemma proc_kept_refl: "proc_kept p p"
  by (simp add: proc_kept_def)

lemma proc_kept_trans: "proc_kept p p' \<Longrightarrow> proc_kept p' p'' \<Longrightarrow> proc_kept p p''"
  by (auto simp: proc_kept_def)

lemma machine_parts_trans:
  assumes "m' = m\<lparr>m_cpu := m_cpu m', m_ram := m_ram m', m_proc := m_proc m'\<rparr>"
    "m'' = m'\<lparr>m_cpu := m_cpu m'', m_ram := m_ram m'', m_proc := m_proc m''\<rparr>"
  shows "m'' = m\<lparr>m_cpu := m_cpu m'', m_ram := m_ram m'', m_proc := m_proc m''\<rparr>"
proof -
  obtain c r p c' r' p' where "m' = m\<lparr>m_cpu := c, m_ram := r, m_proc := p\<rparr>"
      "m'' = m'\<lparr>m_cpu := c', m_ram := r', m_proc := p'\<rparr>"
    using assms by blast
  then show ?thesis by simp
qed

interpretation call: step_relation call_frame
proof unfold_locales
  fix m m' m''
  show "call_frame m m"
    by (simp add: call_frame_def only_results_refl proc_kept_refl)
  assume a: "call_frame m m'" "call_frame m' m''"
  have i: "p_inst_max (m_proc m') = p_inst_max (m_proc m)" using a(1) by (simp add: call_frame_def proc_kept_def)
  show "call_frame m m''"
    unfolding call_frame_def
  proof (intro conjI impI allI)
    show "m'' = m\<lparr>m_cpu := m_cpu m'', m_ram := m_ram m'', m_proc := m_proc m''\<rparr>"
      using a machine_parts_trans unfolding call_frame_def by blast
    show "only_results (m_cpu m) (m_cpu m'')" "proc_kept (m_proc m) (m_proc m'')"
      using a only_results_trans proc_kept_trans unfolding call_frame_def by blast+
    show "harness_bug m'' \<Longrightarrow> harness_bug m" using a unfolding call_frame_def by blast
    fix b assume "0 \<le> p_inst_max (m_proc m) \<and> p_inst_max (m_proc m) \<le> 0xFF" "uninstalled m b"
    then show "m_ram m'' b = m_ram m b" using a i by (simp add: call_frame_def uninstalled_def)
  qed
qed

subsection \<open>The parts of a call\<close>

lemma frame_proc:
  assumes "\<And>p. proc_kept p (f p)" "\<And>p s. p_fatal (f p) = Some (HarnessBug s) \<Longrightarrow> p_fatal p = Some (HarnessBug s)"
  shows "call_frame m (upd_proc f m)"
  unfolding call_frame_def
proof (intro conjI impI allI)
  show "proc_kept (m_proc m) (m_proc (upd_proc f m))" using assms(1) [of "m_proc m"] by (simp add: upd_proc_def)
  assume "harness_bug (upd_proc f m)"
  then obtain s where "p_fatal (f (m_proc m)) = Some (HarnessBug s)"
    unfolding harness_bug_def upd_proc_def by auto
  from assms(2) [OF this] show "harness_bug m" unfolding harness_bug_def by blast
qed (simp_all add: upd_proc_def only_results_refl)

lemma only_results_set: "only_results c (c\<lparr>c_R := (c_R c)(0 := r0, 1 := r1)\<rparr>)"
  unfolding only_results_def by (rule exI [of _ "(c_R c)(0 := r0, 1 := r1)"]) simp

lemma frame_ret: "call_frame m (set_ret r0 r1 m)"
  by (simp add: call_frame_def set_ret_def only_results_set proc_kept_refl harness_bug_def)

text \<open>A store into a mapped segment stays below the installed limit.\<close>

lemma segp_installed:
  assumes "0 \<le> p_inst_max (m_proc m)" "p_inst_max (m_proc m) \<le> 0xFF" "0 \<le> s" "u_mapped m s"
  shows "\<not> uninstalled m (segp s off)"
proof -
  have s: "s \<le> p_inst_max (m_proc m)" using assms(4) by (simp add: u_mapped_def)
  then have "s < 256" using assms(2) by linarith
  then have "s mod 256 = s" using assms(3) by (rule mod_pos_pos_trivial [rotated])
  then have u: "uint (segp s off) = s * 65536 + off mod 65536" by (simp only: uint_segp)
  obtain r where r: "off mod 65536 = r" "r < 65536" by (simp add: pos_mod_bound)
  have "s * 65536 + r < (s + 1) * 65536" using r(2) by simp
  also have "\<dots> \<le> (p_inst_max (m_proc m) + 1) * 65536" using s by (intro mult_right_mono) simp_all
  finally have "s * 65536 + r < (p_inst_max (m_proc m) + 1) * 65536" .
  then have "uint (segp s off) < (p_inst_max (m_proc m) + 1) * 65536" by (simp only: u r(1))
  then show ?thesis by (simp add: uninstalled_def)
qed

lemma frame_store_cells:
  assumes "\<And>a. m_ram m' a \<noteq> m_ram m a \<Longrightarrow> \<exists>s off. a = segp s off \<and> 0 \<le> s \<and> u_mapped m s"
    and "same_but_ram m m'"
  shows "call_frame m m'"
proof -
  obtain r where r: "m' = m\<lparr>m_ram := r\<rparr>" using assms(2) by (auto simp: same_but_ram_def)
  show ?thesis
    unfolding call_frame_def
  proof (intro conjI impI allI)
    fix a assume "0 \<le> p_inst_max (m_proc m) \<and> p_inst_max (m_proc m) \<le> 0xFF" "uninstalled m a"
    then show "m_ram m' a = m_ram m a" using assms(1) segp_installed by blast
  qed (simp_all add: r only_results_refl proc_kept_refl harness_bug_def)
qed

lemma frame_gw16:
  assumes "0 \<le> s" "u_mapped m s"
  shows "call_frame m (gw16 s off v m)"
proof (rule frame_store_cells)
  show "same_but_ram m (gw16 s off v m)"
    by (auto simp: gw16_def gw8_def intro: same_but_ram_trans same_but_ram_set)
  show "\<exists>s off. a = segp s off \<and> 0 \<le> s \<and> u_mapped m s"
    if "m_ram (gw16 s off v m) a \<noteq> m_ram m a" for a
    using that assms by (auto simp: gw16_def gw8_def split: if_splits)
qed

lemma frame_store:
  assumes "u_range_ok m v (int (length bs))"
  shows "call_frame m (u_store v 0 bs m)"
proof (rule frame_store_cells)
  fix a assume "m_ram (u_store v 0 bs m) a \<noteq> m_ram m a"
  then obtain i where i: "i < length bs" "a = ucell v (int i)"
    using u_store_other [of bs a v 0 m] by auto
  then have "u_mapped m (fst (u_addr v (int i)))"
    using assms by (simp add: u_range_ok_iff)
  moreover have "0 \<le> fst (u_addr v (int i))"
    using lin_range [of v] by (simp add: u_addr_lin div_int_pos_iff)
  ultimately show "\<exists>s off. a = segp s off \<and> 0 \<le> s \<and> u_mapped m s"
    using i(2) by (auto simp: ucell_def)
qed (rule u_store_same)

lemma stack_seg_nonneg: "0 \<le> stack_seg m"
  by (simp add: stack_seg_def)

lemma frame_fail [frame_simps]: "state_io_rel call_frame (fail code)"
  unfolding fail_def Let_def
  by (rule call.io_modm)
    (auto intro: call.R_trans [OF frame_gw16 frame_ret] frame_ret simp: stack_seg_nonneg)

lemma frame_modm: "(\<And>m. call_frame m (f m)) \<Longrightarrow> state_io_rel call_frame (modm f)"
  by (rule call.io_modm)

lemma frame_set_fatal: "(\<And>s. f \<noteq> HarnessBug s) \<Longrightarrow> call_frame m (set_fatal f m)"
  unfolding set_fatal_def by (rule frame_proc) (auto simp: proc_kept_def)

text \<open>With the helper of the right class there is no harness bug to report.\<close>

lemma frame_ret_int: "class_of num = rcINT \<Longrightarrow> state_io_rel call_frame (ret_int num v)"
  by (simp add: ret_int_def frame_modm frame_ret)

lemma frame_ret_wide: "class_of num = rcWIDE \<Longrightarrow> state_io_rel call_frame (ret_wide num v)"
  by (simp add: ret_wide_def frame_modm frame_ret)

lemma frame_host_call [frame_simps]: "state_io_rel call_frame (host_call ans c)"
  unfolding host_call_def log_call_def
  by (intro call.io_bind call.io_read frame_modm frame_proc) (auto simp: proc_kept_def)

lemma frame_or_errno: "(\<And>v. state_io_rel call_frame (f v)) \<Longrightarrow> state_io_rel call_frame (or_errno r f)"
  by (cases r) (simp_all add: or_errno_def frame_fail)

lemma frame_host_zero: "class_of num = rcINT \<Longrightarrow> state_io_rel call_frame (host_zero host num c)"
  unfolding host_zero_def by (intro call.io_bind frame_host_call frame_or_errno frame_ret_int)

lemma frame_put_fd [frame_simps]: "state_io_rel call_frame (modm (put_fd fd g))"
  unfolding put_fd_def by (intro frame_modm frame_proc) (auto simp: proc_kept_def)

lemma frame_deliver: "state_io_rel call_frame k \<Longrightarrow> state_io_rel call_frame (deliver buf bs k)"
  using frame_fail [of cEFAULT]
  by (auto simp: deliver_def state_io_rel_def run_simps run_state_bind split: prod.splits
      intro: call.R_trans [OF frame_store])

lemma frame_with_path: "(\<And>p. state_io_rel call_frame (f p)) \<Longrightarrow> state_io_rel call_frame (with_path o' f)"
  unfolding with_path_def
  by (intro call.io_bind call.io_read) (auto split: option.split intro: frame_fail)

lemma frame_with_fd: "(\<And>fd g. state_io_rel call_frame (f fd g)) \<Longrightarrow> state_io_rel call_frame (with_fd f)"
  unfolding with_fd_def
  by (intro call.io_bind call.io_read) (auto split: option.split intro: frame_fail)

lemma frame_option:
  "state_io_rel call_frame f \<Longrightarrow> (\<And>x. state_io_rel call_frame (g x)) \<Longrightarrow>
    state_io_rel call_frame (case r of None \<Rightarrow> f | Some x \<Rightarrow> g x)"
  by (cases r) simp_all

lemma frame_sum:
  "(\<And>e. state_io_rel call_frame (f e)) \<Longrightarrow> (\<And>x. state_io_rel call_frame (g x)) \<Longrightarrow>
    state_io_rel call_frame (case r of Inl e \<Rightarrow> f e | Inr x \<Rightarrow> g x)"
  by (cases r) simp_all

lemmas frame_calls = call.io_bind call.io_return call.io_read call.io_if call.io_when frame_fail frame_ret_int
  frame_ret_wide frame_host_call frame_or_errno frame_host_zero frame_put_fd frame_deliver frame_with_path
  frame_with_fd frame_option frame_sum

lemma frame_ino_of: "state_io_rel call_frame (ino_of host p)"
  unfolding ino_of_def by (intro frame_calls)

lemma frame_dir_entries: "state_io_rel call_frame (dir_entries host path names)"
  by (induction host path names rule: dir_entries.induct) 
    (simp_all add: call.io_return call.io_bind frame_ino_of)

lemma frame_dir_image: "state_io_rel call_frame (dir_image host path)"
  unfolding dir_image_def by (intro frame_calls frame_ino_of frame_dir_entries)

lemma frame_gw16_0: "call_frame m (gw16 0 off v m)"
proof (cases "u_mapped m 0")
  case False
  have "same_but_ram m (gw16 0 off v m)"
    by (auto simp: gw16_def gw8_def intro: same_but_ram_trans same_but_ram_set)
  with False show ?thesis
    by (auto simp: call_frame_def same_but_ram_def u_mapped_def only_results_refl proc_kept_refl harness_bug_def)
qed (simp add: frame_gw16)

lemma frame_sys_exit: "state_io_rel call_frame sys_exit"
  unfolding sys_exit_def
  by (intro frame_calls frame_modm frame_gw16_0 frame_proc) (auto simp: proc_kept_def)

lemma frame_files:
  assumes "class_of num = rcINT"
  shows "state_io_rel call_frame (sys_read host num)" "state_io_rel call_frame (sys_write host num)"
    "state_io_rel call_frame (sys_open host num)" "state_io_rel call_frame (sys_creat host num)"
    "state_io_rel call_frame (sys_close host num)" "state_io_rel call_frame (sys_stat host num)"
    "state_io_rel call_frame (sys_fstat host num)" "state_io_rel call_frame (sys_ioctl host num)"
  unfolding sys_read_def sys_write_def sys_open_def sys_creat_def sys_close_def sys_stat_def sys_fstat_def
    sys_ioctl_def install_fd_def open_dir_def is_tty_def Let_def
  by (intro frame_calls frame_dir_image assms)+

lemma frame_names:
  assumes "class_of num = rcINT"
  shows "state_io_rel call_frame (sys_unlink host num)" "state_io_rel call_frame (sys_link host num)"
    "state_io_rel call_frame (sys_mknod host num)" "state_io_rel call_frame (sys_chdir host num)"
    "state_io_rel call_frame (sys_chmod host num)" "state_io_rel call_frame (sys_access host num)"
    "state_io_rel call_frame (sys_utime host num)"
  unfolding sys_unlink_def sys_link_def sys_mknod_def sys_chdir_def sys_chmod_def sys_access_def
    sys_utime_def Let_def prod.case
  by (intro frame_calls assms)+

lemma frame_lseek: "class_of num = rcWIDE \<Longrightarrow> state_io_rel call_frame (sys_lseek host num)"
  unfolding sys_lseek_def by (intro frame_calls)

text \<open>The credentials: an id is changed by root only.\<close>

lemma frame_proc_at:
  assumes "proc_kept (m_proc m) (f (m_proc m))" "p_fatal (f (m_proc m)) = p_fatal (m_proc m)"
  shows "call_frame m (upd_proc f m)"
  using assms by (simp add: call_frame_def upd_proc_def only_results_refl harness_bug_def)

lemma frame_then:
  assumes "call_frame m m'" "state_io_rel call_frame k"
  shows "call_frame m (snd (run_state k m'))"
  using call.R_trans [OF assms(1)] assms(2) by (simp add: state_io_rel_def)

lemma frame_setuid: "class_of num = rcINT \<Longrightarrow> state_io_rel call_frame (sys_setuid num)"
  using frame_fail [of cEPERM]
  by (auto simp: sys_setuid_def state_io_rel_def run_simps run_state_bind proc_kept_def
      intro!: frame_then frame_proc_at frame_ret_int)

lemma frame_setgid: "class_of num = rcINT \<Longrightarrow> state_io_rel call_frame (sys_setgid num)"
  using frame_fail [of cEPERM]
  by (auto simp: sys_setgid_def state_io_rel_def run_simps run_state_bind proc_kept_def
      intro!: frame_then frame_proc_at frame_ret_int)

lemma frame_brk: "class_of num = rcWIDE \<Longrightarrow> state_io_rel call_frame (sys_brk num)"
  unfolding sys_brk_def by (intro frame_calls frame_modm frame_proc) (auto simp: proc_kept_def)

lemma frame_getpid: "class_of num = rcINT \<Longrightarrow> state_io_rel call_frame (sys_getpid host num)"
  unfolding sys_getpid_def by (intro frame_calls)

lemma u_range_log [simp]: "u_range_ok (log_call c m) v n = u_range_ok m v n"
  by (simp add: u_range_ok_iff u_mapped_def log_call_def upd_proc_def)

lemma frame_log: "call_frame m (log_call c m)"
  unfolding log_call_def by (rule frame_proc) (auto simp: proc_kept_def)

lemma length_timeb [simp]: "length (timeb_bytes now) = 10"
  by (simp add: timeb_bytes_def be32_bytes_def be16_bytes_def)

lemma frame_ftime:
  assumes "class_of num = rcINT"
  shows "state_io_rel call_frame (sys_ftime host num)"
proof -
  have "call_frame m (u_store v 0 bs (log_call c m))" if "u_range_ok m v (int (length bs))" for m v bs c
    by (rule call.R_trans [OF frame_log frame_store]) (use that in simp)
  then show ?thesis
    using frame_fail [of cEFAULT] frame_ret_int [OF assms, of 0]
    by (auto simp: sys_ftime_def state_io_rel_def run_simps run_state_bind host_call_def
        intro!: frame_then frame_ret_int [OF assms])
qed

lemma frame_default: "state_io_rel call_frame (sys_default num)"
  unfolding sys_default_def
  by (intro frame_calls frame_modm frame_proc frame_set_fatal) (auto simp: proc_kept_def warn_once_def split: if_splits)

lemma class_INT: "num \<notin> {17, 19, 45, 48, 72, 73} \<Longrightarrow> class_of num = rcINT"
  by (simp add: class_of_def)

lemma frame_sys_call: "state_io_rel call_frame (sys_call host num)"
proof -
  have w: "class_of 17 = rcWIDE" "class_of 19 = rcWIDE" "class_of 48 = rcWIDE"
    by (simp_all add: class_of_def)
  show ?thesis
    unfolding sys_call_def
    by (intro call.io_if frame_sys_exit frame_files frame_names frame_setuid frame_setgid frame_getpid frame_ftime
        frame_default frame_ret_int call.io_bind call.io_read class_INT)
      (auto simp: w frame_brk frame_lseek frame_ret_wide)
qed

lemma frame_sys_hook: "call_frame m (sys_hook host num pc m)"
  using frame_sys_call [of host num]
  by (auto simp: sys_hook_def Let_def state_io_rel_def intro: frame_set_fatal)

text \<open>C4: Confinement of the system calls.  Whatever the call number, the guest's registers and
  memory and the host's answers: a call changes no register but R0 and R1 and nothing of the CPU
  besides, no cell of a segment that is not installed, and no device, MMU or other part of the
  machine; and it always returns through the helper of the width that the kernel's table
  declares, so the harness never reports a bug of its own.\<close>

theorem sys_call_confined:
  fixes host :: Host and num :: u8 and pc :: u32 and m :: Machine
  assumes "0 \<le> p_inst_max (m_proc m)" "p_inst_max (m_proc m) \<le> 0xFF" "p_fatal (m_proc m) = None"
  defines "m' \<equiv> sys_hook host num pc m"
  shows "m' = m\<lparr>m_cpu := m_cpu m', m_ram := m_ram m', m_proc := m_proc m'\<rparr>
    \<and> (\<exists>r. m_cpu m' = (m_cpu m)\<lparr>c_R := r\<rparr> \<and> (\<forall>i. i \<noteq> 0 \<and> i \<noteq> 1 \<longrightarrow> r i = c_R (m_cpu m) i))
    \<and> (\<forall>a. (p_inst_max (m_proc m) + 1) * 65536 \<le> uint a \<longrightarrow> m_ram m' a = m_ram m a)
    \<and> (\<forall>s. p_fatal (m_proc m') \<noteq> Some (HarnessBug s))"
proof -
  have f: "call_frame m m'" unfolding m'_def by (rule frame_sys_hook)
  then show ?thesis
    using assms(1-3) unfolding call_frame_def only_results_def uninstalled_def harness_bug_def by fastforce
qed

text \<open>A process with segments 0 and 1 that calls \<open>getuid\<close> with its stack in segment 0.\<close>

definition demo_host :: Host where
  "demo_host = \<lparr>h_int = \<lambda>_. Inl EOTHER, h_read = \<lambda>_. Inl EOTHER, h_stat = \<lambda>_. Inl EOTHER,
     h_names = \<lambda>_. Inl EOTHER, h_clock = \<lambda>_. (0, 0)\<rparr>"

definition demo_proc :: "u16 \<Rightarrow> Machine" where
  "demo_proc uid = (let m = machine_zero
     in m\<lparr>m_proc := (m_proc m)\<lparr>p_inst_max := 1, p_uid := uid\<rparr>,
          m_cpu := (m_cpu m)\<lparr>c_R := (c_R (m_cpu m))(15 := 0xCF00)\<rparr>\<rparr>)"

lemma sys_call_confined_witness:
  "c_R (m_cpu (sys_hook demo_host 24 0 (demo_proc 5))) 1 = 5
    \<and> m_ram (sys_hook demo_host 24 0 (demo_proc 5)) 0x20000 = m_ram (demo_proc 5) 0x20000"
proof -
  have "0 \<le> p_inst_max (m_proc (demo_proc 5)) \<and> p_inst_max (m_proc (demo_proc 5)) \<le> 0xFF
      \<and> p_fatal (m_proc (demo_proc 5)) = None \<and> (p_inst_max (m_proc (demo_proc 5)) + 1) * 65536 = 0x20000
      \<and> c_R (m_cpu (sys_hook demo_host 24 0 (demo_proc 5))) 1 = 5"
    by code_simp
  then show ?thesis using sys_call_confined [of "demo_proc 5" demo_host 24 0] by simp
qed

subsection \<open>Credentials\<close>

text \<open>
  A run of the process between two of its states: system calls, and in between whatever its own
  instructions do to the machine, which cannot reach the harness's variables.
\<close>

inductive proc_run :: "Host \<Rightarrow> Machine \<Rightarrow> Machine \<Rightarrow> bool" for host :: Host where
  run_start: "proc_run host m m"
| run_guest: "proc_run host m m' \<Longrightarrow> m_proc m'' = m_proc m' \<Longrightarrow> proc_run host m m''"
| run_call: "proc_run host m m' \<Longrightarrow> proc_run host m (sys_hook host num pc m')"

lemma proc_run_kept: "proc_run host m m' \<Longrightarrow> proc_kept (m_proc m) (m_proc m')"
proof (induction rule: proc_run.induct)
  case (run_call m m' num pc)
  then show ?case using frame_sys_hook [of m' host num pc] by (auto simp: call_frame_def intro: proc_kept_trans)
qed (simp_all add: proc_kept_refl)

text \<open>C16: Credentials.  A process that has given up root never changes its user or group id again,
  through any run of instructions and system calls, and an exit, once made, stays made: the
  rule of \<open>usetuid\<close> that the harness enforces without the host's help.\<close>

theorem credentials_final:
  assumes "proc_run host m m'" "p_uid (m_proc m) \<noteq> 0"
  shows "p_uid (m_proc m') = p_uid (m_proc m) \<and> p_gid (m_proc m') = p_gid (m_proc m)
    \<and> (p_exited (m_proc m) \<longrightarrow> p_exited (m_proc m'))"
  using proc_run_kept [OF assms(1)] assms(2) by (simp_all add: proc_kept_def)

lemma credentials_final_witness:
  "p_uid (m_proc (sys_hook demo_host 23 0 (demo_proc 5))) = 5"
proof -
  have "proc_run demo_host (demo_proc 5) (sys_hook demo_host 23 0 (demo_proc 5))"
    by (rule run_call, rule run_start)
  moreover have "p_uid (m_proc (demo_proc 5)) = 5" by code_simp
  ultimately show ?thesis using credentials_final [of demo_host "demo_proc 5"] by simp
qed

end
