(* ===== verification/Sys_Files.thy ===== *)
theory Sys_Files
  imports Sys_Props
begin

text \<open>
  The file calls: failures and their errno, what a read delivers, the descriptor that an open
  returns, and the directory images as the guest's library parses them.
\<close>

subsection \<open>Failures\<close>

text \<open>The state after the kernel's error return.\<close>

definition failed_with :: "u16 \<Rightarrow> Machine \<Rightarrow> Machine" where
  "failed_with code m = snd (run_state (fail code) m)"

lemma be16_halves: "be16 (ucast (drop_bit 8 v)) (ucast v) = v"
  unfolding be16_def
  by (rule bit_word_eqI) (auto simp: bit_simps)

lemma gr16_gw16: "gr16 s off (gw16 s off v m) = v"
proof -
  have "segp s off \<noteq> segp s (off + 1)"
    using mod_eq_dvd_iff [of off 65536 "off + 1"] by (simp add: segp_eq_iff)
  then show ?thesis by (simp add: gr16_def gw16_def gr8_def gw8_def be16_halves)
qed

lemma gw16_proc [simp]: "m_proc (gw16 s off v m) = m_proc m"
  by (simp add: gw16_def gw8_def)

lemma set_ret_sel [simp]:
  "m_proc (set_ret a b m) = m_proc m" "m_ram (set_ret a b m) = m_ram m"
  "c_R (m_cpu (set_ret a b m)) = (c_R (m_cpu m))(0 := a, 1 := b)"
  "gr16 s off (set_ret a b m) = gr16 s off m"
  by (simp_all add: set_ret_def gr16_def gr8_def)

lemma run_fail: "run_state (fail code) m = ((), failed_with code m)"
  by (simp add: failed_with_def fail_def run_simps)

text \<open>All that the error return changes: R0 and R1, and the two bytes of the errno word.\<close>

definition errno_cells :: "Machine \<Rightarrow> u16 \<Rightarrow> (u32 \<Rightarrow> u8) \<Rightarrow> u32 \<Rightarrow> u8" where
  "errno_cells m code r =
     r(word_of_int (stack_seg m * 65536 + 0xFFFE) := ucast (drop_bit 8 code),
       word_of_int (stack_seg m * 65536 + 0xFFFF) := ucast code)"

lemma failed_with:
  assumes "u_mapped m (stack_seg m)"
  shows "failed_with code m =
      m\<lparr>m_cpu := (m_cpu m)\<lparr>c_R := (c_R (m_cpu m))(0 := 0xFFFF, 1 := 0xFFFF)\<rparr>,
        m_ram := errno_cells m code (m_ram m)\<rparr>"
    "gr16 (stack_seg m) ERRNO_OFF (failed_with code m) = code"
proof -
  have "c_R (m_cpu m) 14 AND 0x7F \<le> 0x7F" by (rule word_and_le1)
  then have "stack_seg m \<le> 0x7F" "0 \<le> stack_seg m" by (simp_all add: stack_seg_def word_le_def)
  then have "stack_seg m mod 256 = stack_seg m" by simp
  then have segp: "segp (stack_seg m) ERRNO_OFF = word_of_int (stack_seg m * 65536 + 0xFFFE)"
    "segp (stack_seg m) (ERRNO_OFF + 1) = word_of_int (stack_seg m * 65536 + 0xFFFF)"
    by (simp_all add: segp_def)
  show "failed_with code m =
      m\<lparr>m_cpu := (m_cpu m)\<lparr>c_R := (c_R (m_cpu m))(0 := 0xFFFF, 1 := 0xFFFF)\<rparr>,
        m_ram := errno_cells m code (m_ram m)\<rparr>"
    using assms
    by (simp only: failed_with_def fail_def run_simps Let_def gw16_def gw8_def segp set_ret_def set_ram_def
        errno_cells_def if_True) simp
  show "gr16 (stack_seg m) ERRNO_OFF (failed_with code m) = code"
    using assms by (simp add: failed_with_def fail_def run_simps Let_def gr16_gw16)
qed

text \<open>The calls whose first argument is a descriptor, and those whose first is a path.\<close>

lemma bad_fd:
  assumes "get_fd (uint (arg_w 0 m)) m = None" "num \<in> {3, 4, 6, 19, 28, 54}"
  shows "run_state (sys_call host num) m = ((), failed_with cEBADF m)"
  using assms
  by (auto simp: sys_call_def sys_read_def sys_write_def sys_close_def sys_lseek_def sys_fstat_def sys_ioctl_def
      with_fd_def run_state_bind run_simps run_fail)

lemma bad_path:
  assumes "path_arg (arg_l 0 m) m = None" "num \<in> {5, 8, 9, 10, 12, 14, 15, 18, 30, 33}"
  shows "run_state (sys_call host num) m = ((), failed_with cEFAULT m)"
  using assms
  by (auto simp: sys_call_def sys_open_def sys_creat_def sys_link_def sys_unlink_def sys_chdir_def sys_mknod_def
      sys_chmod_def sys_stat_def sys_utime_def sys_access_def with_path_def run_state_bind run_simps run_fail)

text \<open>C19: Failures.  A call with a descriptor that is not open, and a call with a pathname pointer that
  leaves the process's memory or reaches no NUL within the bound, fails the way the kernel
  fails: -1 in both result registers and the errno word EBADF or EFAULT at the top of the stack
  segment.  The state after the call is the state before it with these two registers and these two
  bytes replaced: no other register, no flag, no other byte of memory, nothing of the process and
  nothing else of the machine changes, and the host is not asked.\<close>

theorem bad_argument_fails:
  fixes host :: Host and num :: u8 and pc :: u32
  assumes "u_range_ok m (push_bit 24 (word_of_int (stack_seg m)) OR ucast (c_R (m_cpu m) 15)) 16"
    and "u_mapped m (stack_seg m)"
    and "get_fd (uint (arg_w 0 m)) m = None \<and> num \<in> {3, 4, 6, 19, 28, 54} \<and> code = cEBADF
      \<or> path_arg (arg_l 0 m) m = None \<and> num \<in> {5, 8, 9, 10, 12, 14, 15, 18, 30, 33} \<and> code = cEFAULT"
  defines "m' \<equiv> sys_hook host num pc m"
  shows "m' = m\<lparr>m_cpu := (m_cpu m)\<lparr>c_R := (c_R (m_cpu m))(0 := 0xFFFF, 1 := 0xFFFF)\<rparr>,
        m_ram := (m_ram m)(word_of_int (stack_seg m * 65536 + 0xFFFE) := ucast (drop_bit 8 code),
                           word_of_int (stack_seg m * 65536 + 0xFFFF) := ucast code)\<rparr>
    \<and> gr16 (stack_seg m) ERRNO_OFF m' = code"
proof -
  have "m' = failed_with code m"
    using assms(3) bad_fd [of m num host] bad_path [of m num host] assms(1)
    unfolding m'_def sys_hook_def Let_def by auto
  then show ?thesis using failed_with [OF assms(2), of code] by (simp only: errno_cells_def)
qed

text \<open>\<open>close\<close> of a descriptor that was never opened, and \<open>unlink\<close> of a wild pointer.\<close>

lemma bad_argument_fails_witness:
  "c_R (m_cpu (sys_hook demo_host 6 0 (demo_proc 0))) 1 = 0xFFFF
    \<and> c_R (m_cpu (sys_hook demo_host 6 0 (demo_proc 0))) 2 = c_R (m_cpu (demo_proc 0)) 2
    \<and> gr16 0 ERRNO_OFF (sys_hook demo_host 6 0 (demo_proc 0)) = cEBADF"
proof -
  have "u_range_ok (demo_proc 0) (push_bit 24 (word_of_int (stack_seg (demo_proc 0))) OR ucast (c_R (m_cpu (demo_proc 0)) 15)) 16
      \<and> u_mapped (demo_proc 0) (stack_seg (demo_proc 0)) \<and> stack_seg (demo_proc 0) = 0
      \<and> get_fd (uint (arg_w 0 (demo_proc 0))) (demo_proc 0) = None"
    by code_simp
  then have h: "u_range_ok (demo_proc 0) (push_bit 24 (word_of_int (stack_seg (demo_proc 0))) OR ucast (c_R (m_cpu (demo_proc 0)) 15)) 16"
      "u_mapped (demo_proc 0) (stack_seg (demo_proc 0))" "stack_seg (demo_proc 0) = 0"
      "get_fd (uint (arg_w 0 (demo_proc 0))) (demo_proc 0) = None \<and> (6 :: u8) \<in> {3, 4, 6, 19, 28, 54} \<and> cEBADF = cEBADF"
    by blast+
  note fails = bad_argument_fails [OF h(1,2) disjI1 [OF h(4)], of demo_host 0, unfolded h(3)]
  show ?thesis
  proof (intro conjI)
    show "c_R (m_cpu (sys_hook demo_host 6 0 (demo_proc 0))) 1 = 0xFFFF"
      "c_R (m_cpu (sys_hook demo_host 6 0 (demo_proc 0))) 2 = c_R (m_cpu (demo_proc 0)) 2"
      by (subst conjunct1 [OF fails], simp)+
    show "gr16 0 ERRNO_OFF (sys_hook demo_host 6 0 (demo_proc 0)) = cEBADF" by (rule conjunct2 [OF fails])
  qed
qed

subsection \<open>Directories\<close>

text \<open>How the guest's library reads a directory: 16-byte records, the inode low byte first.\<close>

fun parse_dir :: "bytes \<Rightarrow> (u16 \<times> bytes) list" where
  "parse_dir bs =
     (if length bs < 16 then []
      else (be16 (bs ! 1) (bs ! 0), takeWhile (\<lambda>c. c \<noteq> 0) (take 14 (drop 2 bs))) # parse_dir (drop 16 bs))"

declare parse_dir.simps [simp del]

definition keeps :: "bytes \<Rightarrow> bool" where
  "keeps name \<longleftrightarrow> name \<noteq> dot \<and> name \<noteq> dotdot \<and> length name \<le> 14"

lemma length_dir_entry [simp]: "length (dir_entry ino name) = 16"
  by (simp add: dir_entry_def)

lemma parse_entry:
  assumes "0 \<notin> set name" "length name \<le> 14"
  shows "parse_dir (dir_entry ino name @ bs) = (ino, name) # parse_dir bs"
proof -
  have "takeWhile (\<lambda>c. c \<noteq> 0) (name @ replicate n 0) = name" for n
    using assms(1) by (induction name) auto
  then show ?thesis
    using assms(2) by (subst parse_dir.simps) (simp add: dir_entry_def be16_halves)
qed

lemma guest_ino_nonzero: "guest_ino i \<noteq> 0"
  by (simp add: guest_ino_def Let_def)

text \<open>Each inode looked up is nonzero: 0 would mark a free slot.\<close>

lemma run_ino_of:
  obtains i m' where "run_state (ino_of host p) m = (i, m')" "i \<noteq> 0"
proof
  show "run_state (ino_of host p) m = (fst (run_state (ino_of host p) m), snd (run_state (ino_of host p) m))" by simp
  show "fst (run_state (ino_of host p) m) \<noteq> 0"
    by (auto simp: ino_of_def host_call_def run_state_bind run_simps guest_ino_nonzero run_state_return split: sum.split)
qed

lemma parse_dir_entries:
  assumes "\<forall>n \<in> set names. 0 \<notin> set n"
  shows "\<exists>inos bs m'. run_state (dir_entries host path names) m = (bs, m')
    \<and> parse_dir bs = zip inos (filter keeps names) \<and> length inos = length (filter keeps names)
    \<and> 0 \<notin> set inos \<and> length bs = 16 * length inos"
  using assms
proof (induction names arbitrary: m)
  case (Cons n names)
  show ?case
  proof (cases "keeps n")
    case False
    then show ?thesis using Cons by (auto simp: keeps_def not_le)
  next
    case True
    obtain i m1 where i: "run_state (ino_of host (sub_path path n)) m = (i, m1)" "i \<noteq> 0" by (rule run_ino_of)
    obtain inos bs m2 where r: "run_state (dir_entries host path names) m1 = (bs, m2)"
        "parse_dir bs = zip inos (filter keeps names)" "length inos = length (filter keeps names)"
        "0 \<notin> set inos" "length bs = 16 * length inos"
      using Cons.IH [of m1] Cons.prems by auto
    have "run_state (dir_entries host path (n # names)) m = (dir_entry i n @ bs, m2)"
      using True i r(1) by (simp add: keeps_def run_state_bind run_state_return)
    moreover have "parse_dir (dir_entry i n @ bs) = (i, n) # parse_dir bs"
      using True Cons.prems by (simp add: parse_entry keeps_def)
    ultimately show ?thesis using True i(2) r(2-5)
      by (intro exI [of _ "i # inos"] exI [of _ "dir_entry i n @ bs"] exI [of _ m2]) simp
  qed
qed (auto simp: parse_dir.simps [of "[]"] run_state_return)

text \<open>C14: Directories round-trip.  When the host lists a directory, the image that the guest reads
  parses, record by record, as ``.'', ``..'' and then every name of the host's listing that a
  14-byte directory entry can hold, in the host's order and unchanged; no record carries the
  inode 0 that would mark it free; and the image is exactly its records.\<close>

theorem directory_round_trip:
  assumes "h_names host (HReaddir path # p_calls (m_proc m)) = Inr names" "\<forall>n \<in> set names. 0 \<notin> set n"
  shows "\<exists>img m' inos. run_state (dir_image host path) m = (Inr img, m')
    \<and> parse_dir img = zip inos (dot # dotdot # filter keeps names)
    \<and> length inos = 2 + length (filter keeps names) \<and> 0 \<notin> set inos \<and> length img = 16 * length inos"
proof -
  let ?m = "log_call (HReaddir path) m"
  obtain i1 m1 where i1: "run_state (ino_of host path) ?m = (i1, m1)" "i1 \<noteq> 0" by (rule run_ino_of)
  obtain i2 m2 where i2: "run_state (ino_of host (sub_path path dotdot)) m1 = (i2, m2)" "i2 \<noteq> 0" by (rule run_ino_of)
  obtain inos bs m3 where r: "run_state (dir_entries host path names) m2 = (bs, m3)"
      "parse_dir bs = zip inos (filter keeps names)" "length inos = length (filter keeps names)"
      "0 \<notin> set inos" "length bs = 16 * length inos"
    using parse_dir_entries [OF assms(2)] by metis
  have "run_state (dir_image host path) m = (Inr (dir_entry i1 dot @ dir_entry i2 dotdot @ bs), m3)"
    using assms(1) i1 i2 r(1)
    by (simp add: dir_image_def host_call_def run_state_bind run_simps run_state_return log_call_def upd_proc_def)
  then show ?thesis using i1(2) i2(2) r(2-5)
    by (intro exI [of _ "dir_entry i1 dot @ dir_entry i2 dotdot @ bs"] exI [of _ m3] exI [of _ "i1 # i2 # inos"])
      (simp add: parse_entry)
qed

definition listing_host :: Host where
  "listing_host = demo_host\<lparr>h_names := \<lambda>_. Inr [dot, [0x66, 0x31], replicate 15 0x61]\<rparr>"

lemma directory_round_trip_witness:
  "\<exists>img m' inos. run_state (dir_image listing_host [0x2F]) (demo_proc 0) = (Inr img, m')
     \<and> parse_dir img = zip inos [dot, dotdot, [0x66, 0x31]] \<and> length img = 48"
proof -
  have "h_names listing_host (HReaddir [0x2F] # p_calls (m_proc (demo_proc 0))) = Inr [dot, [0x66, 0x31], replicate 15 0x61]"
    by (simp add: listing_host_def)
  from directory_round_trip [OF this] show ?thesis by (auto simp: keeps_def)
qed

subsection \<open>Reading\<close>

text \<open>C18: What a read delivers.  A read from an open file whose answer fits the process's memory puts the
  bytes of the answer, all of them and in order, at the buffer the guest named, changes no
  other cell, and returns their number in R1 and R0; the host is asked once, for the
  descriptor's file and the count of the call.\<close>

theorem read_delivers:
  fixes pc :: u32
  assumes "u_range_ok m (push_bit 24 (word_of_int (stack_seg m)) OR ucast (c_R (m_cpu m) 15)) 16"
    and "get_fd (uint (arg_w 0 m)) m = Some g" "g_dir g = None"
    and "h_read host (HRead (g_fd g) (unat (arg_w 6 m)) # p_calls (m_proc m)) = Inr data"
    and "u_range_ok m (arg_l 2 m) (int (length data))" "p_inst_max (m_proc m) \<le> 0xFF"
  defines "m' \<equiv> sys_hook host 3 pc m"
  shows "(\<forall>i < length data. u_r8 (arg_l 2 m) (int i) m' = data ! i)
    \<and> (\<forall>a. (\<forall>i < length data. a \<noteq> ucell (arg_l 2 m) (int i)) \<longrightarrow> m_ram m' a = m_ram m a)
    \<and> c_R (m_cpu m') 0 = of_nat (length data) \<and> c_R (m_cpu m') 1 = of_nat (length data)
    \<and> p_calls (m_proc m') = HRead (g_fd g) (unat (arg_w 6 m)) # p_calls (m_proc m)"
proof -
  let ?l = "log_call (HRead (g_fd g) (unat (arg_w 6 m))) m"
  have log: "m_ram ?l = m_ram m" "p_calls (m_proc ?l) = HRead (g_fd g) (unat (arg_w 6 m)) # p_calls (m_proc m)"
    "arg_l 2 ?l = arg_l 2 m"
    by (simp_all add: log_call_def upd_proc_def arg_l_def arg_w_def gr16_def gr8_def stack_seg_def)
  have m': "m' = set_ret (of_nat (length data)) (of_nat (length data)) (u_store (arg_l 2 m) 0 data ?l)"
    using assms(1-5) log(2)
    by (simp add: m'_def sys_hook_def Let_def sys_call_def sys_read_def with_fd_def run_state_bind run_simps
        host_call_def or_errno_def deliver_def ret_int_def class_of_def)
  obtain r where r: "u_store (arg_l 2 m) 0 data ?l = ?l\<lparr>m_ram := r\<rparr>"
    using u_store_same [of ?l "arg_l 2 m" 0 data] by (auto simp: same_but_ram_def)
  have range: "lin (arg_l 2 m) + 0 + int (length data) \<le> 0x800000"
  proof (cases "data = []")
    case True
    then show ?thesis using lin_range [of "arg_l 2 m"] by simp
  next
    case False
    then have "u_mapped m (fst (u_addr (arg_l 2 m) (int (length data) - 1)))"
      using assms(5) by (simp add: u_range_ok_iff)
    then show ?thesis using assms(6) by (simp add: u_mapped_lin)
  qed
  have "u_r8 (arg_l 2 m) (int i) m' = data ! i" if "i < length data" for i
    using u_store_read [OF _ range that, of ?l] m' by (simp add: u_r8_cell)
  moreover have "m_ram m' a = m_ram m a" if "\<forall>i < length data. a \<noteq> ucell (arg_l 2 m) (int i)" for a
    using u_store_other [of data a "arg_l 2 m" 0 ?l] that m' log(1) by simp
  moreover have "p_calls (m_proc m') = HRead (g_fd g) (unat (arg_w 6 m)) # p_calls (m_proc m)"
    using m' r log(2) by simp
  ultimately show ?thesis using m' by simp
qed

text \<open>Five bytes asked of descriptor 3 into segment 1, three delivered.\<close>

definition read_proc :: Machine where
  "read_proc = (let m = demo_proc 0;
       m = put_fd 3 \<lparr>g_used = True, g_fd = 7, g_dir = None, g_pos = 0, g_path = []\<rparr> m;
       m = gw16 0 0xCF04 3 m; m = gw32 0 0xCF06 0x01000010 m
     in gw16 0 0xCF0A 5 m)"

definition read_host :: Host where
  "read_host = demo_host\<lparr>h_read := \<lambda>_. Inr [1, 2, 3]\<rparr>"

lemma read_delivers_witness:
  "u_r8 0x01000010 1 (sys_hook read_host 3 0 read_proc) = 2
    \<and> c_R (m_cpu (sys_hook read_host 3 0 read_proc)) 1 = 3"
proof -
  have h: "u_range_ok read_proc (push_bit 24 (word_of_int (stack_seg read_proc)) OR ucast (c_R (m_cpu read_proc) 15)) 16"
    "map_option g_fd (get_fd (uint (arg_w 0 read_proc)) read_proc) = Some 7"
    "map_option g_dir (get_fd (uint (arg_w 0 read_proc)) read_proc) = Some None"
    "u_range_ok read_proc (arg_l 2 read_proc) (int (length [1, 2, 3 :: u8]))"
    "p_inst_max (m_proc read_proc) \<le> 0xFF" "arg_l 2 read_proc = 0x01000010"
    by code_simp+
  obtain g where g: "get_fd (uint (arg_w 0 read_proc)) read_proc = Some g" "g_dir g = None" using h(2,3) by auto
  have "h_read read_host (HRead (g_fd g) (unat (arg_w 6 read_proc)) # p_calls (m_proc read_proc)) = Inr [1, 2, 3]"
    by (simp add: read_host_def)
  from read_delivers [OF h(1) g this h(4,5), of 0]
  have "\<forall>i < 3. u_r8 0x01000010 (int i) (sys_hook read_host 3 0 read_proc) = [1, 2, 3] ! i"
    "c_R (m_cpu (sys_hook read_host 3 0 read_proc)) 1 = of_nat 3"
    unfolding h(6) by simp_all
  from this(1) [rule_format, of 1] this(2) show ?thesis by simp
qed

subsection \<open>The lowest free descriptor\<close>

lemma alloc_lowest:
  assumes "fd < length (p_files (m_proc m))" "\<not> g_used (p_files (m_proc m) ! fd)"
    "\<And>i. i < fd \<Longrightarrow> g_used (p_files (m_proc m) ! i)"
  shows "alloc_fd m = Some fd"
  using assms by (auto simp: alloc_fd_def Let_def find_Some_iff intro!: exI [of _ fd])

lemma close_files:
  assumes "get_fd (uint (arg_w 0 m)) m = Some g"
  shows "p_files (m_proc (snd (run_state (sys_close host 6) m)))
    = (p_files (m_proc m))[unat (arg_w 0 m) := gfile_zero]"
  using assms
  by (simp add: sys_close_def with_fd_def run_state_bind run_simps host_call_def ret_int_def class_of_def
      put_fd_def upd_proc_def log_call_def)

lemma install_run:
  assumes "alloc_fd m = Some fd"
  shows "run_state (install_fd host 8 path hfd) m = ((), set_ret (of_nat fd) (of_nat fd)
    (put_fd fd ((p_files (m_proc m) ! fd)\<lparr>g_used := True, g_fd := hfd, g_dir := None, g_path := path_field path\<rparr>) m))"
  using assms by (simp add: install_fd_def run_state_bind run_simps ret_int_def class_of_def)

text \<open>What \<open>creat\<close> asks of the host: \<open>open(path, O_RDWR|O_CREAT|O_TRUNC, mode)\<close>.\<close>

abbreviation (input) creat_call :: "bytes \<Rightarrow> u16 \<Rightarrow> HostCall" where
  "creat_call path perm \<equiv>
     HOpen path \<lparr>of_mode = O_RDWR, of_append = False, of_creat = True, of_trunc = True, of_excl = False\<rparr> perm"

lemma log_call_calls: "p_calls (m_proc (log_call c m)) = c # p_calls (m_proc m)"
  by (simp add: log_call_def upd_proc_def)

lemma creat_run:
  assumes "path_arg (arg_l 0 m) m = Some path" "c = creat_call path (arg_w 4 m AND 0x1FF)"
    "h_int host (c # p_calls (m_proc m)) = Inr hfd"
  shows "run_state (sys_creat host 8) m = run_state (install_fd host 8 path hfd) (log_call c m)"
  using assms
  by (simp add: sys_creat_def with_path_def run_state_bind run_simps host_call_def or_errno_def log_call_calls)

text \<open>C17: The redirection idiom.  After a successful \<open>close(fd)\<close> with every lower descriptor in use, and
  anything the program then does on its own, a \<open>creat\<close> whose one host call, the
  \<open>open(path, O_RDWR|O_CREAT|O_TRUNC, mode)\<close> made at that moment, succeeds with the host descriptor
  \<open>hfd\<close> returns exactly \<open>fd\<close>, and \<open>fd\<close> is the new file.\<close>

theorem close_then_creat:
  fixes pc pc' :: u32
  assumes "u_range_ok m (push_bit 24 (word_of_int (stack_seg m)) OR ucast (c_R (m_cpu m) 15)) 16"
    and "get_fd (uint (arg_w 0 m)) m = Some g" "\<forall>i < unat (arg_w 0 m). g_used (p_files (m_proc m) ! i)"
    and "m_proc m2 = m_proc (sys_hook host 6 pc m)"
    and "u_range_ok m2 (push_bit 24 (word_of_int (stack_seg m2)) OR ucast (c_R (m_cpu m2) 15)) 16"
    and "path_arg (arg_l 0 m2) m2 = Some path"
    and "h_int host
          (HOpen path \<lparr>of_mode = O_RDWR, of_append = False, of_creat = True, of_trunc = True, of_excl = False\<rparr>
             (arg_w 4 m2 AND 0x1FF) # p_calls (m_proc m2)) = Inr hfd"
  defines "m' \<equiv> sys_hook host 8 pc' m2"
  shows "c_R (m_cpu m') 1 = arg_w 0 m
    \<and> get_fd (uint (arg_w 0 m)) m'
        = Some \<lparr>g_used = True, g_fd = hfd, g_dir = None, g_pos = 0, g_path = path_field path\<rparr>"
proof -
  let ?fd = "unat (arg_w 0 m)"
  have lt: "uint (arg_w 0 m) < int (length (p_files (m_proc m)))"
    using assms(2) by (simp add: get_fd_def Let_def split: if_splits)
  then have used: "?fd < length (p_files (m_proc m))"
    unfolding nat_uint_eq [symmetric] by (subst nat_less_iff) simp_all
  have "sys_hook host 6 pc m = snd (run_state (sys_close host 6) m)"
    using assms(1) by (simp add: sys_hook_def Let_def sys_call_def)
  then have files: "p_files (m_proc m2) = (p_files (m_proc m))[?fd := gfile_zero]"
    using close_files [OF assms(2)] assms(4) by simp
  let ?l = "log_call (creat_call path (arg_w 4 m2 AND 0x1FF)) m2"
  have c: "run_state (sys_creat host 8) m2 = run_state (install_fd host 8 path hfd) ?l"
    by (rule creat_run [OF assms(6) refl assms(7)])
  have l: "p_files (m_proc ?l) = (p_files (m_proc m))[?fd := gfile_zero]"
    by (simp add: log_call_def upd_proc_def files)
  have alloc: "alloc_fd ?l = Some ?fd"
    by (rule alloc_lowest) (use assms(3) used in \<open>simp_all add: l gfile_zero_def\<close>)
  have "m' = snd (run_state (sys_creat host 8) m2)"
    using assms(5) by (simp add: m'_def sys_hook_def Let_def sys_call_def)
  then have "m' = set_ret (of_nat ?fd) (of_nat ?fd)
      (put_fd ?fd ((p_files (m_proc ?l) ! ?fd)\<lparr>g_used := True, g_fd := hfd, g_dir := None, g_path := path_field path\<rparr>) ?l)"
    by (simp add: c install_run [OF alloc])
  then show ?thesis
    using used lt by (simp add: get_fd_def Let_def put_fd_def upd_proc_def l gfile_zero_def)
qed

text \<open>Standard output closed and reopened, on a host that can open one file, in one way.\<close>

definition creat_host :: Host where
  "creat_host = demo_host\<lparr>h_int := \<lambda>log.
     (case log of
        HOpen path flags perm # _ \<Rightarrow>
          if path = [0x2F, 0x78] \<and> of_creat flags \<and> of_trunc flags then Inr 9 else Inl ENOENT
      | _ \<Rightarrow> Inr 0)\<rparr>"

definition redirect_proc :: Machine where
  "redirect_proc = (let m = demo_proc 0;
       m = put_fd 0 (gfile_zero\<lparr>g_used := True\<rparr>) m;
       m = put_fd 1 (gfile_zero\<lparr>g_used := True, g_fd := 1\<rparr>) m
     in gw16 0 0xCF04 1 m)"

text \<open>The program then passes a path, \<open>/x\<close> at 1:0010.\<close>

definition redirect_then :: "Machine \<Rightarrow> Machine" where
  "redirect_then m = gw32 1 0x10 0x2F780000 (gw32 0 0xCF04 0x01000010 m)"

lemma close_then_creat_witness:
  "c_R (m_cpu (sys_hook creat_host 8 0 (redirect_then (sys_hook creat_host 6 0 redirect_proc)))) 1 = 1"
proof -
  let ?m2 = "redirect_then (sys_hook creat_host 6 0 redirect_proc)"
  have h: "u_range_ok redirect_proc (push_bit 24 (word_of_int (stack_seg redirect_proc)) OR ucast (c_R (m_cpu redirect_proc) 15)) 16"
    "get_fd (uint (arg_w 0 redirect_proc)) redirect_proc \<noteq> None" "arg_w 0 redirect_proc = 1"
    "g_used (p_files (m_proc redirect_proc) ! 0)"
    "u_range_ok ?m2 (push_bit 24 (word_of_int (stack_seg ?m2)) OR ucast (c_R (m_cpu ?m2) 15)) 16"
    "path_arg (arg_l 0 ?m2) ?m2 = Some [0x2F, 0x78]"
    by code_simp+
  obtain g where g: "get_fd (uint (arg_w 0 redirect_proc)) redirect_proc = Some g" using h(2) by auto
  have low: "\<forall>i < unat (arg_w 0 redirect_proc). g_used (p_files (m_proc redirect_proc) ! i)" using h(3,4) by simp
  have kept: "m_proc ?m2 = m_proc (sys_hook creat_host 6 0 redirect_proc)"
    by (simp add: redirect_then_def gw32_def)
  show ?thesis
    using close_then_creat [OF h(1) g low kept h(5,6), where hfd = 9 and pc' = 0] h(3)
    by (simp add: creat_host_def)
qed

end
