(* ===== verification/Cstr.thy ===== *)
theory Cstr
  imports Proc_State
begin

text \<open>
  The C string functions that the command line, the debugger and the user mode rely on, on
  strings as byte lists without their NUL: \<open>strtol\<close> and \<open>strtoull\<close>, \<open>strtok\<close>, \<open>strstr\<close>
  and \<open>strncmp\<close>.  A \<open>long\<close> has 64 bits.
\<close>

definition is_space :: "u8 \<Rightarrow> bool" where
  "is_space c \<longleftrightarrow> c = 0x20 \<or> (0x09 \<le> c \<and> c \<le> 0x0D)"

definition digit_val :: "u8 \<Rightarrow> nat" where
  "digit_val c =
     (if 0x30 \<le> c \<and> c \<le> 0x39 then unat c - 0x30
      else if 0x61 \<le> c \<and> c \<le> 0x7A then unat c - 0x61 + 10
      else if 0x41 \<le> c \<and> c \<le> 0x5A then unat c - 0x41 + 10
      else 99)"

definition is_digit :: "nat \<Rightarrow> u8 \<Rightarrow> bool" where
  "is_digit base c \<longleftrightarrow> digit_val c < base"

definition digits_val :: "nat \<Rightarrow> bytes \<Rightarrow> nat" where
  "digits_val base ds = fold (\<lambda>c n. n * base + digit_val c) ds 0"

text \<open>A prefix \<open>0x\<close> counts only before a digit.\<close>

definition has_0x :: "bytes \<Rightarrow> bool" where
  "has_0x s \<longleftrightarrow> length s \<ge> 3 \<and> s ! 0 = 0x30 \<and> (s ! 1 = 0x78 \<or> s ! 1 = 0x58) \<and> is_digit 16 (s ! 2)"

definition num_base :: "nat \<Rightarrow> bytes \<Rightarrow> nat \<times> bytes" where
  "num_base base s =
     (if (base = 0 \<or> base = 16) \<and> has_0x s then (16, drop 2 s)
      else if base = 0 then (if s \<noteq> [] \<and> hd s = 0x30 then (8, s) else (10, s))
      else (base, s))"

text \<open>Sign, magnitude and rest; \<open>None\<close> when \<open>endptr\<close> is the start.\<close>

definition strto :: "nat \<Rightarrow> bytes \<Rightarrow> (bool \<times> nat \<times> bytes) option" where
  "strto base s =
     (let t = dropWhile is_space s;
          (neg, t) = (case t of
                        c # cs \<Rightarrow> if c = 0x2D then (True, cs) else if c = 0x2B then (False, cs) else (False, t)
                      | [] \<Rightarrow> (False, t));
          (b, t) = num_base base t;
          ds = takeWhile (is_digit b) t
      in if ds = [] then None else Some (neg, digits_val b ds, dropWhile (is_digit b) t))"

definition strtol :: "nat \<Rightarrow> bytes \<Rightarrow> int \<times> bytes" where
  "strtol base s =
     (case strto base s of
        None \<Rightarrow> (0, s)
      | Some (neg, n, rest) \<Rightarrow>
          (if neg then max (- 0x8000000000000000) (- int n) else min 0x7FFFFFFFFFFFFFFF (int n), rest))"

definition strtoull :: "nat \<Rightarrow> bytes \<Rightarrow> u64 \<times> bytes" where
  "strtoull base s =
     (case strto base s of
        None \<Rightarrow> (0, s)
      | Some (neg, n, rest) \<Rightarrow>
          (if n \<ge> 0x10000000000000000 then 0xFFFFFFFFFFFFFFFF
           else if neg then - of_nat n else of_nat n, rest))"

text \<open>The non-empty pieces between separators.\<close>

fun strtok_from :: "u8 \<Rightarrow> bytes \<Rightarrow> bytes \<Rightarrow> bytes list" where
  "strtok_from sep cur [] = (if cur = [] then [] else [rev cur])"
| "strtok_from sep cur (c # cs) =
     (if c = sep then (if cur = [] then strtok_from sep [] cs else rev cur # strtok_from sep [] cs)
      else strtok_from sep (c # cur) cs)"

definition strtok :: "u8 \<Rightarrow> bytes \<Rightarrow> bytes list" where
  "strtok sep s = strtok_from sep [] s"

definition starts_with :: "bytes \<Rightarrow> bytes \<Rightarrow> bool" where
  "starts_with p s \<longleftrightarrow> take (length p) s = p"

fun strstr :: "bytes \<Rightarrow> bytes \<Rightarrow> bool" where
  "strstr [] p \<longleftrightarrow> p = []"
| "strstr (c # cs) p \<longleftrightarrow> starts_with p (c # cs) \<or> strstr cs p"

text \<open>A literal of the source as bytes.\<close>

definition cs :: "string \<Rightarrow> bytes" where
  "cs s = map (\<lambda>c. of_nat (of_char c)) s"

end
