(* ===== verification/User_Run.thy ===== *)
theory User_Run
  imports Sys_Dispatch Cstr Cpu_Step
begin

text \<open>
  The front ends of user mode in \<open>src/src/uexec.c\<close>: the run of the processor under a budget,
  the call of a function with integer or floating arguments, and the process with its
  argument frame, environment and accept policy.
\<close>

subsection \<open>\<open>urun\<close>\<close>

datatype UrunEnd = UHalted | UStopped | UFault | UBudget | UFatal

text \<open>
  At most \<open>budget\<close> instructions; the system-call hook may end the program inside a step.
  \<open>None\<close>: a step did not return.
\<close>

fun urun :: "nat \<Rightarrow> Cpu_Step.sys_hook \<Rightarrow> bool \<Rightarrow> Machine \<Rightarrow> (UrunEnd \<times> Machine) option" where
  "urun 0 hook stop m = Some (UBudget, m)"
| "urun (Suc n) hook stop m =
     (if c_halted (m_cpu m) then Some (UHalted, m)
      else if stop \<and> p_exited (m_proc m) then Some (UStopped, m)
      else if tst (c_irq_req (m_cpu m)) (IRQ_EPU OR IRQ_TRAP OR IRQ_SEGTRAP) then Some (UFault, m)
      else case cpu_step hook m of
             None \<Rightarrow> None
           | Some m \<Rightarrow> if p_fatal (m_proc m) \<noteq> None then Some (UFatal, m) else urun n hook stop m)"

subsection \<open>Calling a function\<close>

definition seg_reg_word :: "u8 \<Rightarrow> u16" where
  "seg_reg_word seg = push_bit 8 (ucast seg)"

definition seg_call_addr :: "u8 \<Rightarrow> u16" where
  "seg_call_addr seg = 0x8000 OR push_bit 8 (ucast seg)"

text \<open>LD R14,#seg0; LD R15,#0xE000; the pushes; CALL f; HALT.\<close>

definition call_stub :: "u16 list \<Rightarrow> u8 \<Rightarrow> u16 \<Rightarrow> u16 list" where
  "call_stub pushes cseg entry =
     [0x210E, seg_reg_word 0, 0x210F, 0xE000]
     @ concat (map (\<lambda>v. [0x2100, v, 0x93F0]) pushes)
     @ [0x5F00, seg_call_addr cseg, entry, 0x7A00]"

fun put_words :: "int \<Rightarrow> u16 list \<Rightarrow> Machine \<Rightarrow> Machine" where
  "put_words at [] m = m"
| "put_words at (w # ws) m = put_words (at + 2) ws (gw16 0 at w m)"

definition start_stub :: "u16 list \<Rightarrow> Machine \<Rightarrow> Machine" where
  "start_stub stub m = cpu_reset (gw16 0 0x0006 0x0040 (put_words 0x0040 stub m))"

datatype RunErr = RunLout LoutErr | RunHarness string | RunDiverges

text \<open>The integer arguments, the last one pushed first, with the two checks of the source.\<close>

fun int_args :: "nat \<Rightarrow> bytes list \<Rightarrow> u16 list option" where
  "int_args n [] = Some []"
| "int_args n (a # as) =
     (let (v, rest) = strtol 0 a
      in if strto 0 a = None \<or> rest \<noteq> [] \<or> n + 3 > 60 then None
         else map_option (\<lambda>ws. word_of_int v # ws) (int_args (n + 3) as))"

definition run_objint :: "bytes \<Rightarrow> bytes list \<Rightarrow> RunErr + (UrunEnd \<times> u16)" where
  "run_objint b args =
     (case seg_image b [0x66] of
        Inl e \<Rightarrow> Inl (RunLout e)
      | Inr (m, cseg, entry) \<Rightarrow>
          (case int_args 4 (rev args) of
             None \<Rightarrow> Inl (RunHarness ''argument'')
           | Some ws \<Rightarrow>
               (case urun 20000000 None False (start_stub (call_stub ws cseg entry) m) of
                  None \<Rightarrow> Inl RunDiverges
                | Some (why, m) \<Rightarrow> Inr (why, c_R (m_cpu m) 1))))"

text \<open>Eight bytes of each operand, big-endian in memory: the low word is pushed first, \<open>bb\<close> before \<open>a\<close>.\<close>

definition quad_pushes :: "u64 \<Rightarrow> u16 list" where
  "quad_pushes v = map (\<lambda>s. ucast (drop_bit (s * 16) v)) [0..<4]"

definition float_result :: "int \<Rightarrow> CPU \<Rightarrow> u64" where
  "float_result retbits c =
     (if retbits = 32 then push_bit 16 (ucast (c_R c 0)) OR ucast (c_R c 1)
      else push_bit 48 (ucast (c_R c 0)) OR push_bit 32 (ucast (c_R c 1))
           OR push_bit 16 (ucast (c_R c 2)) OR ucast (c_R c 3))"

definition run_floatobj :: "bytes \<Rightarrow> u64 \<Rightarrow> u64 \<Rightarrow> u64 \<Rightarrow> int \<Rightarrow> RunErr + (u64 \<times> bool)" where
  "run_floatobj b a bb want retbits =
     (case seg_image b [0x66] of
        Inl e \<Rightarrow> Inl (RunLout e)
      | Inr (m, cseg, entry) \<Rightarrow>
          (case urun 200000 None False
                  (start_stub (call_stub (quad_pushes bb @ quad_pushes a) cseg entry) m) of
             None \<Rightarrow> Inl RunDiverges
           | Some (why, m) \<Rightarrow> (let got = float_result retbits (m_cpu m) in Inr (got, got = want))))"

subsection \<open>The accept policy\<close>

definition sys_name :: "nat \<Rightarrow> bytes option" where
  "sys_name n =
     map_of (map (\<lambda>(k, s). (k, cs s))
       [(2, ''fork''), (7, ''wait''), (11, ''exec''), (14, ''mknod''), (21, ''mount''), (22, ''umount''),
        (23, ''setuid''), (25, ''stime''), (26, ''ptrace''), (27, ''alarm''), (29, ''pause''), (34, ''nice''),
        (37, ''kill''), (41, ''dup''), (42, ''pipe''), (43, ''times''), (44, ''profil''), (45, ''unique''),
        (46, ''setgid''), (51, ''acct''), (53, ''lock''), (61, ''chroot''), (62, ''setpgrp''), (63, ''getpgrp''),
        (66, ''fcntl''), (67, ''poll''), (72, ''alarm2''), (73, ''tick'')]) n"

abbreviation (input) blank :: "u8 \<Rightarrow> bool" where "blank c \<equiv> c = 0x20 \<or> c = 0x09"

definition sys_num_of :: "bytes \<Rightarrow> nat option" where
  "sys_num_of s =
     (let t = take 63 (takeWhile (\<lambda>c. \<not> blank c) (dropWhile (\<lambda>c. blank c) s))
      in case find (\<lambda>n. sys_name n = Some t) [0..<74] of
           Some n \<Rightarrow> Some n
         | None \<Rightarrow>
             (let (v, rest) = strtol 10 t
              in if strto 10 t \<noteq> None \<and> rest = [] \<and> v \<ge> 0 \<and> v < 74 then Some (nat v) else None))"

text \<open>The items of \<open>N2ACCEPT\<close>, in order; \<open>None\<close> is the harness error.\<close>

fun accept_items :: "bytes list \<Rightarrow> Proc \<Rightarrow> Proc option" where
  "accept_items [] p = Some p"
| "accept_items (f # fs) p =
     (let f = dropWhile (\<lambda>c. c = 0x20) f
      in if f = [] then accept_items fs p
         else if f = cs ''all'' then accept_items fs (p\<lparr>p_accept_all := True\<rparr>)
         else if f = cs ''none'' then accept_items fs (p\<lparr>p_accept := replicate 128 False\<rparr>)
         else case sys_num_of f of
                None \<Rightarrow> None
              | Some n \<Rightarrow> accept_items fs (p\<lparr>p_accept := (p_accept p)[n := True]\<rparr>))"

text \<open>The variables of the environment that the run reads.\<close>

record Env =
  e_strict :: "bytes option"
  e_accept :: "bytes option"
  e_env :: "bytes option"
  e_root :: "bytes option"
  e_budget :: "bytes option"

definition set_var :: "bytes option \<Rightarrow> bytes option" where
  "set_var v = (case v of None \<Rightarrow> None | Some s \<Rightarrow> if s = [] then None else Some s)"

definition policy_init :: "Env \<Rightarrow> Proc \<Rightarrow> Proc option" where
  "policy_init env p =
     (let p = p\<lparr>p_accept := map (\<lambda>n. default_accept (of_nat n)) [0..<128]\<rparr>;
          p = (case set_var (e_strict env) of
                 None \<Rightarrow> p
               | Some s \<Rightarrow> if s = cs ''0'' \<or> s = cs ''no'' \<or> s = cs ''off'' then p\<lparr>p_accept_all := True\<rparr>
                            else p\<lparr>p_accept := replicate 128 False\<rparr>)
      in case set_var (e_accept env) of
           None \<Rightarrow> Some p
         | Some a \<Rightarrow> accept_items (strtok 0x2C a) p)"

subsection \<open>The argument frame\<close>

abbreviation (input) USER_SP :: int where "USER_SP \<equiv> 0xCF00"
abbreviation (input) ARGDESC :: int where "ARGDESC \<equiv> 0xCF10"
abbreviation (input) POOL_BASE :: int where "POOL_BASE \<equiv> 0xD000"
abbreviation (input) POOL_LIMIT :: int where "POOL_LIMIT \<equiv> 0xFF00"

fun gw_bytes :: "int \<Rightarrow> bytes \<Rightarrow> Machine \<Rightarrow> Machine" where
  "gw_bytes at [] m = m"
| "gw_bytes at (b # bs) m = gw_bytes (at + 1) bs (gw8 0 at b m)"

text \<open>\<open>put_str\<close> at \<open>str_off\<close>: the machine and the next offset, \<open>None\<close> the overflow of the pool.\<close>

definition put_str :: "bytes \<Rightarrow> int \<Rightarrow> Machine \<Rightarrow> (Machine \<times> int) option" where
  "put_str s off m =
     (let l = int (length s)
      in if off + l + 1 > POOL_LIMIT then None
         else Some (gw8 0 (off + l) 0 (gw_bytes off s m), off + l + 1))"

fun put_args :: "int \<Rightarrow> bytes list \<Rightarrow> int \<Rightarrow> Machine \<Rightarrow> (Machine \<times> int) option" where
  "put_args arr [] off m = Some (m, off)"
| "put_args arr (s # ss) off m =
     (case put_str s off m of
        None \<Rightarrow> None
      | Some (m, off') \<Rightarrow> put_args (arr + 4) ss off' (gw32 0 arr (word_of_int off) m))"

definition arg_frame :: "bytes list \<Rightarrow> bytes list \<Rightarrow> Machine \<Rightarrow> Machine option" where
  "arg_frame argv envv m =
     (let nprog = int (length argv); nenv = int (length envv);
          argv_arr = ARGDESC; envp_arr = argv_arr + (nprog + 1) * 4;
          off = envp_arr + (nenv + 1) * 4;
          off = (if off < POOL_BASE then POOL_BASE else off)
      in if off > POOL_LIMIT then None
         else case put_args argv_arr argv off m of
                None \<Rightarrow> None
              | Some (m, off) \<Rightarrow>
                  (case put_args envp_arr envv off (gw32 0 (argv_arr + nprog * 4) 0 m) of
                     None \<Rightarrow> None
                   | Some (m, off) \<Rightarrow>
                       (let m = gw32 0 (envp_arr + nenv * 4) 0 m;
                            m = gw16 0 (USER_SP + 0) (word_of_int nprog) m;
                            m = gw32 0 (USER_SP + 2) (word_of_int argv_arr) m
                        in Some (gw32 0 (USER_SP + 6) (word_of_int envp_arr) m))))"

subsection \<open>\<open>-runexec\<close>\<close>

text \<open>The reset and the system-call entries of the program status area, and the two stubs.\<close>

definition psa_entries :: "Machine \<Rightarrow> Machine" where
  "psa_entries m =
     gw16 0 0x001E 0x0060 (gw16 0 0x001C 0x0000 (gw16 0 0x001A 0xC000
       (gw16 0 0x0006 0x0040 (gw16 0 0x0004 0x0000 (gw16 0 0x0002 0xC000 m)))))"

definition exec_stubs :: "u8 \<Rightarrow> u16 \<Rightarrow> Machine \<Rightarrow> Machine" where
  "exec_stubs entry_seg entry_off m =
     gw16 0 0x0062 0x7A00 (gw16 0 0x0060 0x7B00
       (put_words 0x0040 [0x210E, 0x0000, 0x210F, 0xCF00, 0x5E08,
          0x8000 OR push_bit 8 (ucast entry_seg), entry_off] m))"

definition std_name :: "nat \<Rightarrow> bytes" where
  "std_name i = cs (if i = 0 then ''/dev/stdin'' else if i = 1 then ''/dev/stdout'' else ''/dev/stderr'')"

definition std_files :: "GFile list \<Rightarrow> GFile list" where
  "std_files fs = fold (\<lambda>i fs. fs[i := (fs ! i)\<lparr>g_used := True, g_fd := int i, g_path := std_name i\<rparr>]) [0..<3] fs"

text \<open>The break starts behind the data and bss of the last group.\<close>

definition first_break :: "LoutLayout \<Rightarrow> u32" where
  "first_break L =
     (let g = last (ly_g L)
      in push_bit 24 (word_of_int (last (ly_seg L))) OR word_of_int (last (ly_base L) + lg_span g + lg_bss g))"

text \<open>The check of every piece against the file before it is copied.\<close>

definition pieces_in_file :: "nat \<Rightarrow> LoutLayout \<Rightarrow> bool" where
  "pieces_in_file len L \<longleftrightarrow>
     list_all (\<lambda>g. list_all (\<lambda>pc. lp_foff pc \<ge> 0 \<and> lp_foff pc + lp_len pc \<le> int len) (lg_p g)) (ly_g L)"

definition exec_machine :: "Env \<Rightarrow> bytes \<Rightarrow> bytes list \<Rightarrow> RunErr + Machine" where
  "exec_machine env b argv =
     (case lout_parse b of
        Inl e \<Rightarrow> Inl (RunLout e)
      | Inr h \<Rightarrow>
          (case lout_layout h of
             Inl e \<Rightarrow> Inl (RunLout e)
           | Inr L \<Rightarrow>
               if \<not> pieces_in_file (length b) L then Inl (RunLout LoutPiece_range)
               else
               (let heap_hi = (if ly_last L + 8 > 0xFF then 0xFF else ly_last L + 8);
                    m = psa_entries (lout_load b L (umach_new heap_hi));
                    envv = (case set_var (e_env env) of None \<Rightarrow> [] | Some e \<Rightarrow> take 64 (strtok 0x3A e))
                in case arg_frame argv envv m of
                     None \<Rightarrow> Inl (RunHarness ''argv/envp'')
                   | Some m \<Rightarrow>
                       (case policy_init env (m_proc m) of
                          None \<Rightarrow> Inl (RunHarness ''N2ACCEPT'')
                        | Some p \<Rightarrow>
                            (let m = exec_stubs (lh_entry_seg h) (lh_entry_off h) m;
                                 m = upd_proc (\<lambda>_. p\<lparr>p_files := std_files (p_files p), p_root := e_root env,
                                       p_uid := 0, p_gid := 0, p_brk := first_break L, p_heap_hi := heap_hi,
                                       p_exited := False, p_code := 0\<rparr>) m
                             in Inr (cpu_reset m))))))"

definition exec_budget :: "Env \<Rightarrow> nat" where
  "exec_budget env =
     (case set_var (e_budget env) of None \<Rightarrow> 8000000000 | Some s \<Rightarrow> unat (fst (strtoull 0 s)))"

text \<open>The exit status: 4 when the guest did not reach its exit.\<close>

definition exec_status :: "UrunEnd \<Rightarrow> Machine \<Rightarrow> int" where
  "exec_status why m =
     (if why = UFatal then 4
      else if \<not> p_exited (m_proc m) \<and> (why = UFault \<or> why = UBudget) then 4
      else p_code (m_proc m) mod 256)"

definition run_exec :: "Host \<Rightarrow> Env \<Rightarrow> bytes \<Rightarrow> bytes list \<Rightarrow> RunErr + int" where
  "run_exec host env b argv =
     (case exec_machine env b argv of
        Inl e \<Rightarrow> Inl e
      | Inr m \<Rightarrow>
          (case urun (exec_budget env) (Some (sys_hook host)) True m of
             None \<Rightarrow> Inl RunDiverges
           | Some (why, m) \<Rightarrow> Inr (exec_status why m)))"

end
