(* ===== verification/Exec_Frame.thy ===== *)
theory Exec_Frame
  imports User_Run
begin

text \<open>
  The argument frame that \<open>run_exec\<close> builds in segment 0, read back the way the startup
  code of the guest reads it: the count, the two pointer arrays with their NULLs, and every
  string behind its pointer.
\<close>

subsection \<open>Segment 0 as bytes\<close>

abbreviation (input) seg0 :: "Machine \<Rightarrow> int \<Rightarrow> u8" where "seg0 m x \<equiv> gr8 0 x m"

definition gr32 :: "int \<Rightarrow> int \<Rightarrow> Machine \<Rightarrow> u32" where
  "gr32 s off m = push_bit 16 (ucast (gr16 s off m)) OR ucast (gr16 s (off + 2) m)"

lemma seg0_gw8:
  assumes "0 \<le> x" "x < 65536" "0 \<le> a" "a < 65536"
  shows "seg0 (gw8 0 a v m) x = (if x = a then v else seg0 m x)"
  using assms by (simp add: gr8_def gw8_def segp_eq_iff)

text \<open>Outside the written range a store changes nothing.\<close>

lemma seg0_other:
  assumes "0 \<le> x" "x < 65536" "0 \<le> a"
  shows "a + 2 \<le> 65536 \<Longrightarrow> x < a \<or> a + 2 \<le> x \<Longrightarrow> seg0 (gw16 0 a w m) x = seg0 m x"
    and "a + 4 \<le> 65536 \<Longrightarrow> x < a \<or> a + 4 \<le> x \<Longrightarrow> seg0 (gw32 0 a v m) x = seg0 m x"
  using assms by (auto simp: gw32_def gw16_def seg0_gw8)

lemma seg0_bytes_other:
  assumes "0 \<le> x" "x < 65536" "0 \<le> a" "a + int (length bs) \<le> 65536" "x < a \<or> a + int (length bs) \<le> x"
  shows "seg0 (gw_bytes a bs m) x = seg0 m x"
  using assms
proof (induction bs arbitrary: a m)
  case (Cons b bs)
  have "seg0 (gw_bytes (a + 1) bs (gw8 0 a b m)) x = seg0 (gw8 0 a b m) x"
    by (rule Cons.IH) (use Cons.prems in auto)
  then show ?case using Cons.prems by (auto simp: seg0_gw8)
qed simp

lemma seg0_bytes:
  assumes "0 \<le> a" "a + int (length bs) \<le> 65536" "i < length bs"
  shows "seg0 (gw_bytes a bs m) (a + int i) = bs ! i"
  using assms
proof (induction bs arbitrary: a m i)
  case (Cons b bs)
  show ?case
  proof (cases i)
    case 0
    then show ?thesis using Cons.prems by (simp add: seg0_bytes_other seg0_gw8)
  next
    case (Suc j)
    then show ?thesis using Cons.IH [of "a + 1" j] Cons.prems by (simp add: algebra_simps)
  qed
qed simp

lemma gr32_gw32: "0 \<le> a \<Longrightarrow> a + 4 \<le> 65536 \<Longrightarrow> gr32 0 a (gw32 0 a v m) = v"
proof -
  assume "0 \<le> a" "a + 4 \<le> 65536"
  then have "gr16 0 a (gw32 0 a v m) = ucast (drop_bit 16 v)" "gr16 0 (a + 2) (gw32 0 a v m) = ucast v"
    by (simp_all add: gr16_def gw32_def gw16_def seg0_gw8 be16_def)
      (rule bit_word_eqI; auto simp: bit_simps)+
  then show ?thesis
    unfolding gr32_def by simp (rule bit_word_eqI, auto simp: bit_simps)
qed

lemma gr32_cong: "(\<And>i. i \<in> {0, 1, 2, 3} \<Longrightarrow> seg0 m (a + i) = seg0 m' (a + i)) \<Longrightarrow> gr32 0 a m = gr32 0 a m'"
proof -
  assume "\<And>i. i \<in> {0, 1, 2, 3} \<Longrightarrow> seg0 m (a + i) = seg0 m' (a + i)"
  from this [of 0] this [of 1] this [of 2] this [of 3] show ?thesis
    by (simp add: gr32_def gr16_def add.assoc)
qed

text \<open>A C string at an offset.\<close>

definition str_at :: "Machine \<Rightarrow> int \<Rightarrow> bytes \<Rightarrow> bool" where
  "str_at m p s \<longleftrightarrow> (\<forall>i < length s. seg0 m (p + int i) = s ! i) \<and> seg0 m (p + int (length s)) = 0"

lemma put_str_Some:
  assumes "put_str s off m = Some (m', off')" "0 \<le> off"
  shows "off' = off + int (length s) + 1" "off' \<le> POOL_LIMIT" "str_at m' off s"
    "\<And>x. 0 \<le> x \<Longrightarrow> x < 65536 \<Longrightarrow> x < off \<or> off' \<le> x \<Longrightarrow> seg0 m' x = seg0 m x"
  using assms by (auto simp: put_str_def Let_def str_at_def seg0_gw8 seg0_bytes seg0_bytes_other split: if_splits)

text \<open>What an array of pointers and the strings behind it look like.\<close>

definition args_at :: "Machine \<Rightarrow> int \<Rightarrow> bytes list \<Rightarrow> int \<Rightarrow> int \<Rightarrow> bool" where
  "args_at m arr ss lo' hi' \<longleftrightarrow>
     (\<forall>i < length ss. \<exists>p. lo' \<le> p \<and> p + int (length (ss ! i)) < hi'
        \<and> gr32 0 (arr + 4 * int i) m = word_of_int p \<and> str_at m p (ss ! i))"

lemma args_at_mono: "args_at m arr ss l h \<Longrightarrow> l' \<le> l \<Longrightarrow> h \<le> h' \<Longrightarrow> args_at m arr ss l' h'"
  unfolding args_at_def by (meson order_trans order_less_le_trans)

lemma args_at_kept:
  assumes "args_at m arr ss lo' hi'" "0 \<le> arr" "arr + 4 * int (length ss) \<le> 65536" "0 \<le> lo'" "hi' \<le> 65536"
    and "\<And>x. arr \<le> x \<Longrightarrow> x < arr + 4 * int (length ss) \<Longrightarrow> seg0 m' x = seg0 m x"
    and "\<And>x. lo' \<le> x \<Longrightarrow> x < hi' \<Longrightarrow> seg0 m' x = seg0 m x"
  shows "args_at m' arr ss lo' hi'"
  unfolding args_at_def
proof (intro allI impI)
  fix i assume i: "i < length ss"
  then obtain p where p: "lo' \<le> p" "p + int (length (ss ! i)) < hi'"
      "gr32 0 (arr + 4 * int i) m = word_of_int p" "str_at m p (ss ! i)"
    using assms(1) by (auto simp: args_at_def)
  have "gr32 0 (arr + 4 * int i) m' = gr32 0 (arr + 4 * int i) m"
    by (rule gr32_cong, rule assms(6)) (use i in auto)
  moreover have "str_at m' p (ss ! i)"
    using p assms(7) by (auto simp: str_at_def)
  ultimately show "\<exists>p. lo' \<le> p \<and> p + int (length (ss ! i)) < hi'
      \<and> gr32 0 (arr + 4 * int i) m' = word_of_int p \<and> str_at m' p (ss ! i)"
    using p by auto
qed

lemma put_args_Some:
  assumes "put_args arr ss off m = Some (m', off')" "0 \<le> arr" "arr + 4 * int (length ss) \<le> off" "off \<le> POOL_LIMIT"
  shows "args_at m' arr ss off off'" "off \<le> off'" "off' \<le> POOL_LIMIT"
    "\<And>x. 0 \<le> x \<Longrightarrow> x < 65536 \<Longrightarrow> x < arr \<or> arr + 4 * int (length ss) \<le> x \<Longrightarrow> x < off \<or> off' \<le> x
      \<Longrightarrow> seg0 m' x = seg0 m x"
proof -
  have "args_at m' arr ss off off' \<and> off \<le> off' \<and> off' \<le> POOL_LIMIT \<and>
    (\<forall>x. 0 \<le> x \<and> x < 65536 \<and> (x < arr \<or> arr + 4 * int (length ss) \<le> x) \<and> (x < off \<or> off' \<le> x)
      \<longrightarrow> seg0 m' x = seg0 m x)"
    using assms
  proof (induction ss arbitrary: arr off m)
    case (Cons s ss)
    from Cons.prems(1) obtain m1 o1 where p: "put_str s off m = Some (m1, o1)"
        "put_args (arr + 4) ss o1 (gw32 0 arr (word_of_int off) m1) = Some (m', off')"
      by (auto split: option.splits)
    let ?m2 = "gw32 0 arr (word_of_int off) m1"
    note s = put_str_Some [OF p(1)]
    have off: "0 \<le> off" "arr + 4 \<le> off" using Cons.prems by simp_all
    have o1: "o1 = off + int (length s) + 1" "o1 \<le> POOL_LIMIT" using s off by simp_all
    have ih: "args_at m' (arr + 4) ss o1 off'" "o1 \<le> off'" "off' \<le> POOL_LIMIT"
      "\<And>x. 0 \<le> x \<Longrightarrow> x < 65536 \<Longrightarrow> x < arr + 4 \<or> arr + 4 + 4 * int (length ss) \<le> x \<Longrightarrow> x < o1 \<or> off' \<le> x
        \<Longrightarrow> seg0 m' x = seg0 ?m2 x"
      using Cons.IH [OF p(2)] Cons.prems(2,3) o1 by auto
    have m2: "seg0 ?m2 x = seg0 m1 x" if "0 \<le> x" "x < 65536" "x < arr \<or> arr + 4 \<le> x" for x
      using seg0_other(2) [OF that(1,2) Cons.prems(2) _ that(3)] Cons.prems off by simp
    have first: "gr32 0 arr m' = word_of_int off" "str_at m' off s"
    proof -
      have "gr32 0 arr m' = gr32 0 arr ?m2"
        by (rule gr32_cong, rule ih(4)) (use Cons.prems off o1 in auto)
      then show "gr32 0 arr m' = word_of_int off" using Cons.prems off by (simp add: gr32_gw32)
      have "seg0 m' x = seg0 m1 x" if "off \<le> x" "x < o1" for x
        using ih(4) [of x] m2 [of x] that off o1 Cons.prems by auto
      then show "str_at m' off s" using s(3) off(1) o1 by (auto simp: str_at_def)
    qed
    have "args_at m' arr (s # ss) off off'"
      unfolding args_at_def
    proof (intro allI impI)
      fix i assume i: "i < length (s # ss)"
      show "\<exists>p. off \<le> p \<and> p + int (length ((s # ss) ! i)) < off'
          \<and> gr32 0 (arr + 4 * int i) m' = word_of_int p \<and> str_at m' p ((s # ss) ! i)"
      proof (cases i)
        case 0
        then show ?thesis using first ih(2) o1 by (intro exI [of _ off]) simp
      next
        case (Suc j)
        with i ih(1) obtain p where "o1 \<le> p" "p + int (length (ss ! j)) < off'"
            "gr32 0 (arr + 4 + 4 * int j) m' = word_of_int p" "str_at m' p (ss ! j)"
          by (auto simp: args_at_def)
        then show ?thesis using Suc o1 by (intro exI [of _ p]) (simp add: algebra_simps)
      qed
    qed
    moreover have "seg0 m' x = seg0 m x"
      if "0 \<le> x" "x < 65536" "x < arr \<or> arr + 4 * int (length (s # ss)) \<le> x" "x < off \<or> off' \<le> x" for x
    proof -
      have "seg0 m' x = seg0 ?m2 x" by (rule ih(4)) (use that ih(2) o1 in auto)
      also have "\<dots> = seg0 m1 x" by (rule m2) (use that in auto)
      also have "\<dots> = seg0 m x" by (rule s(4)) (use that off o1 ih(2) in auto)
      finally show ?thesis .
    qed
    ultimately show ?case using ih(2,3) o1 by auto
  qed (simp add: args_at_def)
  then show "args_at m' arr ss off off'" "off \<le> off'" "off' \<le> POOL_LIMIT"
    "\<And>x. 0 \<le> x \<Longrightarrow> x < 65536 \<Longrightarrow> x < arr \<or> arr + 4 * int (length ss) \<le> x \<Longrightarrow> x < off \<or> off' \<le> x
      \<Longrightarrow> seg0 m' x = seg0 m x"
    by auto
qed

subsection \<open>The whole frame\<close>

text \<open>The three cells of the stack the startup code pops, stored over \<open>m\<close>.\<close>

lemma stack_frame_words:
  assumes "m' = gw32 0 0xCF06 e (gw32 0 0xCF02 a (gw16 0 0xCF00 n m))"
  shows "gr16 0 0xCF00 m' = n" "gr32 0 0xCF02 m' = a" "gr32 0 0xCF06 m' = e"
    "\<And>x. 0 \<le> x \<Longrightarrow> x < 65536 \<Longrightarrow> x < 0xCF00 \<or> 0xCF0A \<le> x \<Longrightarrow> seg0 m' x = seg0 m x"
proof -
  show "gr16 0 0xCF00 m' = n"
    unfolding assms by (simp add: gr16_def seg0_other) (simp add: gw16_def seg0_gw8 be16_def, rule bit_word_eqI, auto simp: bit_simps)
  have "gr32 0 0xCF02 m' = gr32 0 0xCF02 (gw32 0 0xCF02 a (gw16 0 0xCF00 n m))"
    unfolding assms by (rule gr32_cong) (auto simp: seg0_other)
  then show "gr32 0 0xCF02 m' = a" by (simp add: gr32_gw32)
  show "gr32 0 0xCF06 m' = e" unfolding assms by (simp add: gr32_gw32)
  show "\<And>x. 0 \<le> x \<Longrightarrow> x < 65536 \<Longrightarrow> x < 0xCF00 \<or> 0xCF0A \<le> x \<Longrightarrow> seg0 m' x = seg0 m x"
    unfolding assms by (auto simp: seg0_other)
qed

text \<open>C15: The argument frame of a program run in user mode is what its startup code expects.  When
  \<open>-runexec\<close> builds the frame, the word at the stack pointer is the number of arguments, the two
  long words behind it point at the argument and the environment arrays, each array holds one
  pointer per string and ends with a NULL, every pointer leads to its string with a NUL behind
  it inside the pool, the argument strings below the environment strings, and no byte of
  segment 0 outside the frame and the pool is changed.
\<close>

theorem exec_frame_round_trip:
  assumes "arg_frame argv envv m = Some m'"
  defines "na \<equiv> int (length argv)" and "ne \<equiv> int (length envv)"
  shows "\<exists>mid. 0xD000 \<le> mid \<and> mid \<le> 0xFF00
    \<and> gr16 0 0xCF00 m' = word_of_int na
    \<and> gr32 0 0xCF02 m' = 0xCF10
    \<and> gr32 0 0xCF06 m' = word_of_int (0xCF10 + (na + 1) * 4)
    \<and> args_at m' 0xCF10 argv 0xD000 mid
    \<and> gr32 0 (0xCF10 + na * 4) m' = 0
    \<and> args_at m' (0xCF10 + (na + 1) * 4) envv mid 0xFF00
    \<and> gr32 0 (0xCF10 + (na + 1) * 4 + ne * 4) m' = 0
    \<and> (\<forall>x. 0 \<le> x \<and> x < 0xCF00 \<or> 0xFF00 \<le> x \<and> x < 0x10000 \<longrightarrow> gr8 0 x m' = gr8 0 x m)"
proof -
  define ea where "ea = 0xCF10 + (na + 1) * 4"
  define o0 where "o0 = (if ea + (ne + 1) * 4 < 0xD000 then 0xD000 else ea + (ne + 1) * 4)"
  have n: "0 \<le> na" "0 \<le> ne" by (simp_all add: na_def ne_def)
  obtain m1 o1 m3 o2 where o0: "o0 \<le> 0xFF00"
      and p1: "put_args 0xCF10 argv o0 m = Some (m1, o1)"
      and p2: "put_args ea envv o1 (gw32 0 (0xCF10 + na * 4) 0 m1) = Some (m3, o2)"
      and m': "m' = gw32 0 0xCF06 (word_of_int ea) (gw32 0 0xCF02 0xCF10 (gw16 0 0xCF00 (word_of_int na)
        (gw32 0 (ea + ne * 4) 0 m3)))"
    using assms(1) unfolding arg_frame_def Let_def na_def [symmetric] ne_def [symmetric]
      ea_def [symmetric] o0_def [symmetric]
    by (auto split: option.splits if_splits)
  let ?m2 = "gw32 0 (0xCF10 + na * 4) 0 m1" and ?m4 = "gw32 0 (ea + ne * 4) 0 m3"
  have le: "0xD000 \<le> o0" "ea + (ne + 1) * 4 \<le> o0" "ea = 0xCF10 + na * 4 + 4"
    by (simp_all add: o0_def ea_def)
  note s1 = put_args_Some [OF p1, folded na_def, simplified]
  have s1: "args_at m1 0xCF10 argv o0 o1" "o0 \<le> o1" "o1 \<le> 0xFF00"
    "\<And>x. 0 \<le> x \<Longrightarrow> x < 65536 \<Longrightarrow> x < 0xCF10 \<or> 0xCF10 + na * 4 \<le> x \<Longrightarrow> x < o0 \<or> o1 \<le> x \<Longrightarrow> seg0 m1 x = seg0 m x"
    using s1 o0 le n by auto
  have s2: "args_at m3 ea envv o1 o2" "o1 \<le> o2" "o2 \<le> 0xFF00"
    "\<And>x. 0 \<le> x \<Longrightarrow> x < 65536 \<Longrightarrow> x < ea \<or> ea + ne * 4 \<le> x \<Longrightarrow> x < o1 \<or> o2 \<le> x \<Longrightarrow> seg0 m3 x = seg0 ?m2 x"
    using put_args_Some [OF p2, folded ne_def] s1(2,3) le n by auto
  note fw = stack_frame_words [OF m']
  have w4: "seg0 ?m4 x = seg0 m3 x" if "0 \<le> x" "x < 65536" "x < ea + ne * 4 \<or> ea + ne * 4 + 4 \<le> x" for x
    by (rule seg0_other(2)) (use that le o0 n in auto)
  have w2: "seg0 ?m2 x = seg0 m1 x" if "0 \<le> x" "x < 65536" "x < 0xCF10 + na * 4 \<or> ea \<le> x" for x
    by (rule seg0_other(2)) (use that le o0 n in auto)
  have from3: "seg0 m' x = seg0 m3 x"
    if "0xCF0A \<le> x" "x < 65536" "x < ea + ne * 4 \<or> ea + ne * 4 + 4 \<le> x" for x
    using fw(4) [of x] w4 [of x] that by simp
  have from1: "seg0 m' x = seg0 m1 x"
    if "0xCF0A \<le> x" "x < 0xCF10 + na * 4 \<or> o0 \<le> x" "x < o1" for x
    using from3 [of x] s2(4) [of x] w2 [of x] that le n s1 by auto
  have "args_at m' 0xCF10 argv o0 o1"
    by (rule args_at_kept [OF s1(1), folded na_def]) (use le o0 n s1 from1 in auto)
  then have "args_at m' 0xCF10 argv 0xD000 o1" by (rule args_at_mono) (use le in auto)
  moreover have "args_at m' ea envv o1 o2"
    by (rule args_at_kept [OF s2(1), folded ne_def]) (use le o0 n s1 s2 from3 in auto)
  then have "args_at m' ea envv o1 0xFF00" by (rule args_at_mono) (use s2 in auto)
  moreover have "gr32 0 (0xCF10 + na * 4) m' = gr32 0 (0xCF10 + na * 4) ?m2"
    by (rule gr32_cong) (use from3 s2(4) le o0 n s1 in auto)
  moreover have "gr32 0 (ea + ne * 4) m' = gr32 0 (ea + ne * 4) ?m4"
    by (rule gr32_cong, rule fw(4)) (use le o0 n in auto)
  moreover have "seg0 m' x = seg0 m x" if "0 \<le> x \<and> x < 0xCF00 \<or> 0xFF00 \<le> x \<and> x < 0x10000" for x
    using fw(4) [of x] w4 [of x] s2(4) [of x] w2 [of x] s1(4) [of x] that le o0 n s1 s2 by auto
  moreover have "gr32 0 (0xCF10 + na * 4) ?m2 = 0" "gr32 0 (ea + ne * 4) ?m4 = 0"
    by (rule gr32_gw32; use le o0 n in simp)+
  ultimately show ?thesis
    using fw(1-3) le o0 s1(2,3) s2(2,3) unfolding ea_def [symmetric]
    by (intro exI [of _ o1] conjI allI impI) (assumption | simp)+
qed

text \<open>The command \<open>ab c\<close> with one variable of the environment.\<close>

lemma exec_frame_round_trip_witness:
  "\<exists>m'. arg_frame [[0x61, 0x62], [0x63]] [[0x78]] (umach_new 1) = Some m'
     \<and> gr16 0 0xCF00 m' = 2 \<and> gr32 0 0xCF06 m' = 0xCF1C
     \<and> (\<exists>p. gr32 0 0xCF10 m' = word_of_int p \<and> str_at m' p [0x61, 0x62]) \<and> gr8 0 0xFFFF m' = gr8 0 0xFFFF (umach_new 1)"
proof -
  obtain m' where m': "arg_frame [[0x61, 0x62], [0x63]] [[0x78]] (umach_new 1) = Some m'"
    by (auto simp: arg_frame_def put_str_def)
  note f = exec_frame_round_trip [OF m']
  then have "gr16 0 0xCF00 m' = 2 \<and> gr32 0 0xCF06 m' = 0xCF1C" "gr8 0 0xFFFF m' = gr8 0 0xFFFF (umach_new 1)" by auto
  moreover have "\<exists>p. gr32 0 0xCF10 m' = word_of_int p \<and> str_at m' p [0x61, 0x62]"
  proof -
    from f obtain mid where "args_at m' 0xCF10 [[0x61, 0x62], [0x63]] 0xD000 mid" by blast
    then show ?thesis unfolding args_at_def by (elim allE [of _ 0]) auto
  qed
  ultimately show ?thesis using m' by blast
qed

end
