(* ===== verification/Handler_Frame.thy ===== *)
theory Handler_Frame
  imports Run_Loop Bus_Frame
begin

text \<open>
  One instruction cycle of \<open>src/src/cpu.c\<close> as far as the machine around the CPU is concerned:
  whatever the handlers compute, they reach the machine only through the MMU, the bus and the
  breakpoint test.  A relation that does not look at the CPU holds from before to after
  \<open>cpu_step\<close> once it holds of these.
\<close>

lemma brk_hit_armed: "fst (brk_hit stop pc bs) \<Longrightarrow> stop"
  by (induction stop pc bs rule: brk_hit.induct) (auto simp: Let_def split: if_splits prod.splits)

locale machine_relation = bus_relation +
  assumes R_cpu: "R m (m\<lparr>m_cpu := c\<rparr>)"
    and R_break: "m_stop_at_break m \<Longrightarrow>
      R m (m\<lparr>m_stop := True, m_stop_why := ''breakpoint (--stop-on=break)''\<rparr>)"
begin

lemma h_modc: "state_io_rel R (modc f)"
  by (rule io_modc) (rule R_cpu)

lemma h_modm: "(\<And>m. core (f m) = core m) \<Longrightarrow> state_io_rel R (modm f)"
  by (rule io_modm) (rule R_core)

lemma h_option:
  assumes "state_io_rel R f" "\<And>y. state_io_rel R (g y)"
  shows "state_io_rel R (case x of None \<Rightarrow> f | Some y \<Rightarrow> g y)"
  using assms by (cases x) simp_all

lemma h_prod: "(\<And>a b. state_io_rel R (g a b)) \<Longrightarrow> state_io_rel R (case x of (a, b) \<Rightarrow> g a b)"
  by (cases x) simp

lemmas base_rules = io_return io_read io_if io_when io_for io_bind h_modc h_option h_prod

subsection \<open>Memory\<close>

lemma h_translate: "state_io_rel R (translate a wr fe)"
proof -
  have "R m (snd (run_state (translate a wr fe) m))" for m
  proof -
    obtain p f u where t: "mmu_translate (ucast (drop_bit 16 a) AND 0x7F) (ucast a) wr
        (\<not> SYSMODE (m_cpu m)) fe (m_mmu m) = (p, f, u)" by (metis prod_cases3)
    have "R m (m\<lparr>m_mmu := u\<rparr>)" by (rule R_core) (simp add: core_simps)
    moreover from this have "R m (m\<lparr>m_mmu := u, m_cpu := (m_cpu m)\<lparr>c_fault := True\<rparr>\<rparr>)"
      using R_trans [OF _ R_cpu [of "m\<lparr>m_mmu := u\<rparr>"]] by simp
    ultimately show ?thesis by (simp add: translate_def t Let_def)
  qed
  then show ?thesis by (simp add: state_io_rel_def)
qed

lemma h_memory:
  "state_io_rel R (ifetch16 a)" "state_io_rel R (mem_r16 a)" "state_io_rel R (mem_w16 a x)"
  "state_io_rel R (mem_r8 a)" "state_io_rel R (mem_w8 a v)"
  unfolding ifetch16_def mem_r16_def mem_w16_def mem_r8_def mem_w8_def
  by (intro base_rules h_translate h_modm core_phys_write)+

lemma h_memory_w: "state_io_rel R (mem_read_w a w)" "state_io_rel R (mem_write_w a y w)"
  unfolding mem_read_w_def mem_write_w_def by (intro base_rules h_memory)+

lemma h_stack: "state_io_rel R (push_word x)" "state_io_rel R pop_word"
  unfolding push_word_def pop_word_def by (intro base_rules h_memory)+

lemma h_small: "state_io_rel R check_priv" "state_io_rel R (count_down r)" "state_io_rel R (repeat_if b)"
  unfolding check_priv_def count_down_def repeat_if_def by (intro base_rules)+

lemma h_io: "state_io_rel R (do_io_read port b s)" "state_io_rel R (do_io_write port x b s)"
  by (simp_all add: do_io_read_def do_io_write_def state_io_rel_def modm_def R_io_read R_io_write)

lemmas h_rules = base_rules h_memory h_memory_w h_stack h_small h_io

subsection \<open>The handlers\<close>

lemma h_branch: "state_io_rel R (exec_branch w)"
  unfolding exec_branch_def exec_ret_def call_to_def
  by (cases "cw_br_mode w"; simp only: BranchMode.case; intro h_rules)

lemma h_exec_stack: "state_io_rel R (exec_stack w)"
  unfolding exec_stack_def stack_predec_def stack_postinc_def store_long_def load_long_def Let_def
  by (cases "cw_stk_mode w"; simp only: StackMode.case; intro h_rules)

lemma h_mul: "state_io_rel R (exec_mul w)"
  unfolding exec_mul_def Let_def by (cases "cw_src2 w"; simp only: SrcSel.case; intro h_rules)

lemma h_div: "state_io_rel R (exec_div w)"
proof -
  have "state_io_rel R (note_div_overflow k a b)" for k a b
    unfolding note_div_overflow_def by (intro h_rules h_modm) (simp add: core_simps)
  moreover have "state_io_rel R (div_operand w width)" for width
    unfolding div_operand_def Let_def by (cases "cw_src2 w"; simp only: SrcSel.case; intro h_rules)
  ultimately show ?thesis unfolding exec_div_def Let_def case_prod_beta by (intro h_rules)
qed

lemma h_blocks:
  "state_io_rel R (exec_ldm w)" "state_io_rel R (exec_exchange w)" "state_io_rel R (exec_translate w)"
  "state_io_rel R (exec_block_transfer w)" "state_io_rel R (exec_block_compare w)"
  "state_io_rel R (exec_block_string w)" "state_io_rel R (exec_unified w)"
  unfolding exec_ldm_def exec_exchange_def exec_translate_def exec_block_transfer_def
    exec_block_compare_def exec_block_string_def exec_unified_def block_match_def Let_def
  by (intro h_rules)+

lemma h_control:
  "state_io_rel R (exec_fcwop w)" "state_io_rel R (exec_io w)" "state_io_rel R (exec_block_io w)"
  "state_io_rel R (exec_multiproc w)" "state_io_rel R exec_halt" "state_io_rel R exec_ldctl"
  "state_io_rel R (exec_ldps w)" "state_io_rel R exec_iret"
  unfolding exec_fcwop_def exec_io_def exec_block_io_def exec_multiproc_def exec_halt_def exec_ldctl_def
    exec_ldps_def exec_iret_def Let_def
  by (cases "cw_fcw_op w"; simp only: FcwOpKind.case; intro h_rules)
    (intro h_rules | (cases "cw_mp_op w"; simp only: MPOpKind.case; intro h_rules))+

lemma h_execute: "state_io_rel R (execute w)"
  unfolding execute_def
  by (cases "cw_exec w"; simp only: InstrClass.case;
      intro h_branch h_exec_stack h_mul h_div h_blocks h_control h_modc)

subsection \<open>Interrupts and the cycle\<close>

lemma h_interrupts: "state_io_rel R (handle_interrupts None)"
proof -
  have "state_io_rel R (take_interrupt None v i k)" for v i k
    unfolding take_interrupt_def call_hook_def option.case push_frame_def fetch_vector_def by (intro h_rules)
  then show ?thesis unfolding handle_interrupts_def by (intro h_rules)
qed

lemma h_fetch: "state_io_rel R fetch_instruction"
proof -
  have "state_io_rel R (fetch_words is p)" for "is" p
    by (induction "is" arbitrary: p) (auto intro!: h_rules simp: Let_def)
  then show ?thesis unfolding fetch_instruction_def Let_def by (intro h_rules)
qed

lemma h_dbg: "state_io_rel R dbg_pc_hit"
proof -
  have "R m (snd (run_state dbg_pc_hit m))" for m
  proof -
    obtain hit bs where h: "brk_hit (m_stop_at_break m) (c_instr_start (m_cpu m)) (m_brks m) = (hit, bs)"
      by fastforce
    then have armed: "hit \<Longrightarrow> m_stop_at_break m" using brk_hit_armed by (metis fst_conv)
    have "R m (m\<lparr>m_brks := bs\<rparr>)" by (rule R_core) (simp add: core_simps)
    moreover have "R m (m\<lparr>m_brks := bs, m_stop := True, m_stop_why := ''breakpoint (--stop-on=break)''\<rparr>)" if hit
      using R_trans [OF calculation R_break [of "m\<lparr>m_brks := bs\<rparr>"]] armed that by simp
    ultimately show ?thesis by (simp add: dbg_pc_hit_def h Let_def)
  qed
  then show ?thesis by (simp add: state_io_rel_def)
qed

lemma h_run_once: "state_io_rel R (run_once w)"
  unfolding run_once_def consume_warning_def
  by (intro h_rules h_execute h_modm) (simp add: core_simps)

lemma h_begin: "state_io_rel R (cpu_begin None)"
  unfolding cpu_begin_def Let_def
  by (intro h_rules h_interrupts h_fetch h_dbg h_run_once)

lemma h_repeat_pass: "state_io_rel R (repeat_pass w)"
  unfolding repeat_pass_def by (intro h_rules h_run_once)

theorem step_kept:
  assumes "cpu_step None m = Some m'"
  shows "R m m'"
proof -
  obtain r s where run: "run_state (cpu_begin None) m = (r, s)" by fastforce
  have s: "R m s" using h_begin run unfolding state_io_rel_def by (metis snd_conv)
  show ?thesis
  proof (cases r)
    case None
    then show ?thesis using assms run s by (simp add: cpu_step_def)
  next
    case (Some w)
    then obtain q where q: "while_option (\<lambda>(ret, m). \<not> ret \<and> c_repeat_pending (m_cpu m))
        (\<lambda>(ret, m). run_state (repeat_pass w) m) (False, s) = Some (q, m')"
      using assms run by (auto simp: cpu_step_def repeat_loop_def)
    have "(\<lambda>(ret, m'). R m m') (q, m')"
    proof (rule while_option_rule [OF _ q])
      fix x :: "bool \<times> Machine"
      assume "(\<lambda>(ret, m'). R m m') x"
      then have "R m (snd (run_state (repeat_pass w) (snd x)))"
        using h_repeat_pass [of w] R_trans by (auto simp: state_io_rel_def)
      then show "(\<lambda>(ret, m'). R m m') ((\<lambda>(ret, m). run_state (repeat_pass w) m) x)"
        by (simp add: case_prod_beta)
    qed (use s in simp)
    then show ?thesis by simp
  qed
qed

end

end
