(* ===== verification/Stop_Inv.thy ===== *)
theory Stop_Inv
  imports Handler_Frame
begin

text \<open>
  The stop channels of the run loop of \<open>src/src/bus.c\<close>: a run ends only through a channel
  that the configuration arms, through the console key or on a dead guest, and the reason that
  it leaves says which.
\<close>

definition armed :: "Machine \<Rightarrow> string \<Rightarrow> bool" where
  "armed m why \<longleftrightarrow>
     why = ''Ctrl-] at the console'' \<or> why = ''the guest halted with no interrupt pending''
     \<or> why = ''the guest printed the stop mark'' \<and> m_stop_mark m \<noteq> None
     \<or> why = ''the guest rang the stop doorbell'' \<and> m_stop_port m \<noteq> 0
     \<or> why = ''breakpoint (--stop-on=break)'' \<and> m_stop_at_break m
     \<or> why = ''instruction budget (--max) exhausted'' \<and> m_insn_limit m \<noteq> 0
     \<or> why = ''scripted input consumed, guest blocked at a prompt'' \<and> q_idle_quiet (m_scr m) \<noteq> 0
     \<or> why = park_why \<and> m_park_watch m"

lemma armed_config: "stop_config m' = stop_config m \<Longrightarrow> armed m' = armed m"
  by (auto simp: armed_def stop_config_def fun_eq_iff)

subsection \<open>Steps\<close>

text \<open>The stop fields are as they were, or name an armed channel; the configuration stays.\<close>

definition stop_step :: "Machine \<Rightarrow> Machine \<Rightarrow> bool" where
  "stop_step m m' \<longleftrightarrow>
     stop_config m' = stop_config m \<and> m_max_reached m' = m_max_reached m
     \<and> (m_stop m' = m_stop m \<and> m_stop_why m' = m_stop_why m \<or> armed m (m_stop_why m'))"

lemma stop_step_stop:
  "armed m why \<Longrightarrow> stop_step m (m\<lparr>m_stop := b, m_stop_why := why\<rparr>)"
  by (simp add: stop_step_def stop_config_def)

lemma stop_step_core: "core m' = core m \<Longrightarrow> stop_step m m'"
  by (simp add: stop_step_def core_def)

interpretation stop: machine_relation stop_step
proof unfold_locales
  fix m m' m'' :: Machine and c
  show "stop_step m m" by (simp add: stop_step_def)
  show "stop_step m m' \<Longrightarrow> stop_step m' m'' \<Longrightarrow> stop_step m m''"
    using armed_config [of m' m] by (auto simp: stop_step_def)
  show "stop_step m (m\<lparr>m_cpu := c\<rparr>)" by (simp add: stop_step_def stop_config_def)
qed (simp_all only: stop_step_core, simp_all add: stop_step_stop armed_def)

lemma stop_step_field: "stop_config m' = stop_config m \<Longrightarrow> m_max_reached m' = m_max_reached m \<Longrightarrow>
    m_stop m' = m_stop m \<Longrightarrow> m_stop_why m' = m_stop_why m \<Longrightarrow> stop_step m m'"
  by (simp add: stop_step_def)

subsection \<open>The run loop\<close>

lemma stop_feed: "stop_step m (feed_console m)"
proof -
  have "stop_step m (console_key m)"
  proof -
    obtain ch m1 where p: "host_poll 0 m = (ch, m1)" by fastforce
    then have c: "core m1 = core m"
      by (auto simp: host_poll_def core_simps split: list.splits)
    have "stop_step m1 (if ch = 0x1D then m1\<lparr>m_stop := True, m_stop_why := ''Ctrl-] at the console''\<rparr>
        else if ch \<ge> 0 then scc_rx_console (word_of_int ch) m1 else m1)"
      by (simp add: stop_step_stop armed_def stop_step_core core_simps)
    then show ?thesis
      using stop.R_trans [OF stop_step_core [OF c]] by (simp add: console_key_def p)
  qed
  moreover have "core (feed_byte m) = core m"
    by (simp add: feed_byte_def Let_def core_simps)
  ultimately show ?thesis by (simp add: feed_console_def stop.R_refl stop_step_core)
qed

lemma stop_before: "stop_step m (before_step m)"
proof -
  have c: "core (ct3_count m) = core m" for m by (simp add: ct3_count_def Let_def core_simps)
  have a: "stop_step m (aggregate_vi m)" for m
    by (rule stop_step_field) (auto simp: aggregate_vi_def stop_config_def split: option.split prod.split)
  define m1 where "m1 = feed_console m"
  define m2 where "m2 = (let m = (if m_any_wire m1 \<and> m_tick_counter m1 AND 0x3F = 0 then scc_wire_service m1 else m1)
    in ct3_count (m\<lparr>m_tick_counter := m_tick_counter m + 1\<rparr>))"
  have "core m2 = core m1" by (simp add: m2_def Let_def c core_simps)
  then have "stop_step m m2"
    using stop_feed [of m] stop_step_core stop.R_trans unfolding m1_def [symmetric] by blast
  then have "stop_step m (aggregate_vi m2)" using a stop.R_trans by blast
  then show ?thesis by (simp only: before_step_def m2_def m1_def Let_def)
qed

text \<open>How a run can stand: going on with no reason, over for an armed one, or, once a signal has come
  (\<open>sig\<close>), on its way out or over with no reason.\<close>

definition run_ok :: "bool \<Rightarrow> Machine \<Rightarrow> RunLoop \<Rightarrow> bool" where
  "run_ok sig m l \<longleftrightarrow>
     stop_config (l_m l) = stop_config m
     \<and> (m_max_reached (l_m l) \<longrightarrow> m_stop_why (l_m l) = ''instruction budget (--max) exhausted'' \<and> l_over l)
     \<and> (armed m (m_stop_why (l_m l))
         \<or> m_stop_why (l_m l) = [] \<and> (sig \<or> \<not> m_stop (l_m l) \<and> \<not> l_over l))"

lemma run_ok_after:
  assumes "run_ok sig m l" "stop_step (l_m l) m'" "\<not> l_over l"
  shows "run_ok sig m (after_step l m')"
proof -
  define m1 where "m1 = (if c_serviced (m_cpu m') = IRQ_VI \<and> m_last_vi_disk m' then m'\<lparr>m_disk_vi := False\<rparr> else m')"
  have "core m1 = core m'" by (simp add: m1_def core_simps)
  then have "stop_step (l_m l) m1" using assms(2) by (blast intro: stop.R_then)
  then have k: "stop_config m1 = stop_config m" "\<not> m_max_reached m1"
      "armed m (m_stop_why m1) \<or> m_stop_why m1 = [] \<and> (sig \<or> \<not> m_stop m1)"
    using assms armed_config [of "l_m l" m] by (auto simp: run_ok_def stop_step_def)
  have halted: "run_ok sig m (l\<lparr>l_m := stop_because ''the guest halted with no interrupt pending'' m1, l_idle := i, l_over := True\<rparr>)" for i
    using k(1,2) by (simp add: run_ok_def stop_because_def armed_def stop_config_def)
  obtain fired q m2 where s: "park_step (l_park l) m1 = (fired, q, m2)" by (metis prod_cases3)
  then have m2: "stop_config m2 = stop_config m1" "m_max_reached m2 = m_max_reached m1" "m_stop m2 = m_stop m1"
      "m_stop_why m2 = (if fired then park_why else m_stop_why m1)"
    by (auto simp: park_step_def Let_def stop_config_def split: if_splits)
  have parked: "run_ok sig m (l\<lparr>l_m := m2, l_idle := i, l_park := q, l_over := fired\<rparr>)" if "m_park_watch m1" for i
    using k m2 that by (auto simp: run_ok_def armed_def stop_config_def)
  have "run_ok sig m (l\<lparr>l_m := m1, l_idle := i\<rparr>)" for i
    using k assms(3) by (auto simp: run_ok_def)
  with halted parked show ?thesis
    unfolding after_step_def Let_def m1_def [symmetric] by (simp add: s)
qed

lemma run_ok_iteration:
  assumes "run_ok sig m l" "\<not> l_over l" "run_iteration None l = Some l'"
  shows "run_ok sig m l'"
proof -
  have nm: "\<not> m_max_reached (l_m l)" and cfg: "stop_config (l_m l) = stop_config m"
    using assms(1,2) by (auto simp: run_ok_def)
  consider (stop) "m_stop (l_m l)" "l' = l\<lparr>l_over := True\<rparr>"
    | (max) "m_insn_limit (l_m l) \<noteq> 0" "l' = l\<lparr>l_m := (stop_because ''instruction budget (--max) exhausted'' (l_m l))
          \<lparr>m_max_reached := True\<rparr>, l_over := True\<rparr>"
    | (idle) "idle_exit (l_m l)" "l' = l\<lparr>l_m := stop_because ''scripted input consumed, guest blocked at a prompt'' (l_m l),
          l_over := True\<rparr>"
    | (step) m' where "cpu_step None (before_step (l_m l)) = Some m'" "l' = after_step l m'"
    using assms(3) by (auto simp: run_iteration_def Let_def split: if_splits)
  then show ?thesis
  proof cases
    case stop
    then show ?thesis using assms(1) nm by (simp add: run_ok_def)
  next
    case max
    then show ?thesis using cfg by (simp add: run_ok_def armed_def stop_because_def stop_config_def)
  next
    case idle
    then show ?thesis
      using nm cfg by (simp add: run_ok_def armed_def stop_because_def stop_config_def idle_exit_def Let_def)
  next
    case step
    have "stop_step (l_m l) m'"
      using stop.R_trans [OF stop_before stop.step_kept [OF step(1)]] .
    then show ?thesis unfolding step(2) by (rule run_ok_after [OF assms(1) _ assms(2)])
  qed
qed

lemma run_ok_signal: "run_ok sig m l \<Longrightarrow> run_ok True m (l\<lparr>l_m := on_sigint (l_m l)\<rparr>)"
  by (auto simp: run_ok_def on_sigint_def stop_config_def)

lemma run_ok_run:
  "run_signalled ss None l = Some l' \<Longrightarrow> run_ok sig m l \<Longrightarrow> run_ok (sig \<or> True \<in> set ss) m l'"
proof (induction ss arbitrary: l sig)
  case (Cons s ss)
  have more: "run_ok sig m l \<Longrightarrow> run_ok (sig \<or> b) m l" for sig b l by (auto simp: run_ok_def)
  show ?case
  proof (cases "l_over l")
    case True
    with Cons.prems show ?thesis using more [of sig l' "True \<in> set (s # ss)"] by simp
  next
    case False
    define k where "k = (if s then l\<lparr>l_m := on_sigint (l_m l)\<rparr> else l)"
    have k: "run_ok (sig \<or> s) m k" "\<not> l_over k"
      using Cons.prems(2) False run_ok_signal by (auto simp: k_def)
    obtain l1 where l1: "run_iteration None k = Some l1" "run_signalled ss None l1 = Some l'"
      using Cons.prems(1) False by (auto simp: k_def split: option.splits)
    from Cons.IH [OF l1(2) run_ok_iteration [OF k l1(1)]] show ?thesis by (auto simp: disj_assoc)
  qed
qed simp

text \<open>A disarmed channel cannot fire.  Whatever the guest executes and the host delivers, a run that
  starts with nothing stopped goes on with no reason recorded, or has a recorded reason, and the
  reason is that of an armed channel - the instruction budget, the idle exit, the doorbell port, the stop
  mark, a breakpoint, the park watch - or the console key, or a guest that halted with nothing
  to wake it.  In particular a run over always says why.\<close>

theorem stops_only_when_armed:
  assumes "\<not> m_stop m" "m_stop_why m = []" "\<not> m_max_reached m" "machine_run n None (machine_start m) = Some l"
  shows "if m_stop_why (l_m l) = [] then \<not> l_over l \<and> \<not> m_stop (l_m l) else armed m (m_stop_why (l_m l))"
proof -
  have "run_ok False m (machine_start m)"
    using assms(1-3) by (simp add: run_ok_def machine_start_def cpu_reset_def stop_config_def Let_def)
  from run_ok_run [OF assms(4) [folded run_unsignalled] this] show ?thesis
    by (auto simp: run_ok_def armed_def park_why_def)
qed

text \<open>A machine that is resumed past its budget stops at once, and says so.\<close>

definition spent_machine :: Machine where
  "spent_machine = machine_zero\<lparr>m_cpu := cpu_zero\<lparr>c_insns := 100\<rparr>, m_insn_limit := 50\<rparr>"

lemma stops_only_when_armed_witness:
  "\<exists>l. machine_run 1 None (machine_start spent_machine) = Some l \<and> l_over l
     \<and> m_stop_why (l_m l) \<noteq> [] \<and> armed spent_machine (m_stop_why (l_m l))"
proof -
  obtain l where l: "machine_run 1 None (machine_start spent_machine) = Some l" "l_over l"
    by (simp add: spent_machine_def machine_start_def cpu_reset_def run_iteration_def machine_zero_def
        cpu_zero_def Let_def)
  have "\<not> m_stop spent_machine" "m_stop_why spent_machine = []" "\<not> m_max_reached spent_machine"
    by (simp_all add: spent_machine_def machine_zero_def)
  from stops_only_when_armed [OF this l(1)] l show ?thesis by (auto split: if_splits)
qed

end
