(* ===== verification/Wire.thy ===== *)
theory Wire
  imports Cstr Scc
begin

text \<open>
  The host endpoints of the serial ports (\<open>src/src/wire.c\<close>): the table of endpoints with
  their receive buffers, connecting, polling for a byte and sending one.  The socket calls are
  the host's: what \<open>recv\<close> hands out, how each \<open>send\<close> and \<open>connect\<close> ends, is data of the state, used up
  call by call.  The last part relates the endpoints to the list of poll answers that the machine
  model has in their place.
\<close>

subsection \<open>State\<close>

record WireEnd =
  we_fd :: int
  we_trace :: bool
  we_buf :: bytes
  we_len :: nat
  we_pos :: nat

abbreviation (input) WIRE_MAX :: nat where "WIRE_MAX \<equiv> 6"
abbreviation (input) WIRE_BUF :: nat where "WIRE_BUF \<equiv> 8192"

datatype SendAns = SendOk | SendIntr | SendErr

datatype ConnAns = NoSocket | Refused | Connected int

text \<open>
  \<open>w_in fd\<close> are the answers \<open>recv\<close> will give on a descriptor: a chunk of bytes, or the empty
  chunk for nothing ready or the peer gone; with none left, there is nothing.  \<open>w_out\<close> are the
  bytes that a \<open>send\<close> took, and \<open>w_closed\<close> the descriptors that were closed.
\<close>

record Wires =
  w_init :: bool
  w_end :: "nat \<Rightarrow> WireEnd"
  w_in :: "int \<Rightarrow> bytes list"
  w_send :: "int \<Rightarrow> SendAns list"
  w_conn :: "ConnAns list"
  w_out :: "(int \<times> u8) list"
  w_closed :: "int list"

definition upd_end :: "nat \<Rightarrow> (WireEnd \<Rightarrow> WireEnd) \<Rightarrow> Wires \<Rightarrow> Wires" where
  "upd_end i f W = W\<lparr>w_end := (w_end W)(i := f (w_end W i))\<rparr>"

text \<open>The descriptors become -1, ``closed'', at the first use; the result is the index of the port.\<close>

definition wires_init :: "Wires \<Rightarrow> Wires" where
  "wires_init W =
     (if w_init W then W
      else W\<lparr>w_end := (\<lambda>i. if i < WIRE_MAX then (w_end W i)\<lparr>we_fd := -1\<rparr> else w_end W i), w_init := True\<rparr>)"

definition end_of :: "int \<Rightarrow> Wires \<Rightarrow> nat option \<times> Wires" where
  "end_of port W =
     (let W = wires_init W
      in (if port < 0 \<or> port \<ge> int WIRE_MAX then None else Some (nat port), W))"

subsection \<open>Opening and closing\<close>

text \<open>At most \<open>n\<close> attempts; \<open>None\<close> when they are used up or no socket can be made.\<close>

fun connect_loop :: "nat \<Rightarrow> ConnAns list \<Rightarrow> int option \<times> ConnAns list" where
  "connect_loop 0 as = (None, as)"
| "connect_loop (Suc n) [] = (None, [])"
| "connect_loop (Suc n) (a # as) =
     (case a of
        NoSocket \<Rightarrow> (None, as)
      | Connected fd \<Rightarrow> (Some fd, as)
      | Refused \<Rightarrow> connect_loop n as)"

abbreviation (input) SUN_PATH :: nat where "SUN_PATH \<equiv> 108"

definition wire_path :: "bytes \<Rightarrow> bytes" where
  "wire_path spec = (if starts_with (cs ''unix:'') spec then drop 5 spec else spec)"

definition wire_open_n :: "int \<Rightarrow> bytes \<Rightarrow> bool \<Rightarrow> Wires \<Rightarrow> int \<times> Wires" where
  "wire_open_n port spec trace W =
     (let (e, W) = end_of port W
      in case e of
           None \<Rightarrow> (- 1, W)
         | Some i \<Rightarrow>
             if length (wire_path spec) \<ge> SUN_PATH then (- 1, W)
             else (let (r, as) = connect_loop 50 (w_conn W); W = W\<lparr>w_conn := as\<rparr>
                   in case r of
                        None \<Rightarrow> (- 1, W)
                      | Some fd \<Rightarrow> (0, upd_end i (\<lambda>e. e\<lparr>we_fd := fd, we_trace := trace\<rparr>) W)))"

definition close_end :: "nat \<Rightarrow> Wires \<Rightarrow> Wires" where
  "close_end i W =
     (if we_fd (w_end W i) \<ge> 0
      then upd_end i (\<lambda>e. e\<lparr>we_fd := -1\<rparr>) (W\<lparr>w_closed := w_closed W @ [we_fd (w_end W i)]\<rparr>) else W)"

definition wire_close :: "Wires \<Rightarrow> Wires" where
  "wire_close W = fold close_end [0..<WIRE_MAX] (wires_init W)"

subsection \<open>Bytes\<close>

text \<open>A \<open>recv\<close> of at most a buffer; what does not fit of a chunk is the next answer.\<close>

definition wire_recv :: "int \<Rightarrow> Wires \<Rightarrow> bytes \<times> Wires" where
  "wire_recv fd W =
     (case w_in W fd of
        [] \<Rightarrow> ([], W)
      | c # q \<Rightarrow> (take WIRE_BUF c,
                  W\<lparr>w_in := (w_in W)(fd := (if length c \<le> WIRE_BUF then q else drop WIRE_BUF c # q))\<rparr>))"

definition take_byte :: "nat \<Rightarrow> Wires \<Rightarrow> int \<times> Wires" where
  "take_byte i W =
     (let e = w_end W i
      in (uint (we_buf e ! we_pos e), upd_end i (\<lambda>e. e\<lparr>we_pos := we_pos e + 1\<rparr>) W))"

definition wire_poll_char_n :: "int \<Rightarrow> Wires \<Rightarrow> int \<times> Wires" where
  "wire_poll_char_n port W =
     (let (e, W) = end_of port W
      in case e of
           None \<Rightarrow> (- 1, W)
         | Some i \<Rightarrow>
             if we_fd (w_end W i) < 0 then (- 1, W)
             else if we_pos (w_end W i) \<ge> we_len (w_end W i)
             then (let (bs, W) = wire_recv (we_fd (w_end W i)) W
                   in if bs = [] then (- 1, W)
                      else take_byte i (upd_end i (\<lambda>e. e\<lparr>we_buf := bs @ drop (length bs) (we_buf e),
                             we_len := length bs, we_pos := 0\<rparr>) W))
             else take_byte i W)"

text \<open>\<open>while (send(...) < 0 && errno == EINTR);\<close>: was the byte taken?\<close>

fun send_loop :: "SendAns list \<Rightarrow> bool \<times> SendAns list" where
  "send_loop [] = (True, [])"
| "send_loop (a # as) =
     (case a of SendOk \<Rightarrow> (True, as) | SendErr \<Rightarrow> (False, as) | SendIntr \<Rightarrow> send_loop as)"

definition wire_put_char_n :: "int \<Rightarrow> int \<Rightarrow> Wires \<Rightarrow> Wires" where
  "wire_put_char_n port ch W =
     (let b = word_of_int ch :: u8; (e, W) = end_of port W
      in case e of
           None \<Rightarrow> W
         | Some i \<Rightarrow>
             (let fd = we_fd (w_end W i)
              in if fd < 0 then W
                 else (let (taken, as) = send_loop (w_send W fd); W = W\<lparr>w_send := (w_send W)(fd := as)\<rparr>
                       in if taken then W\<lparr>w_out := w_out W @ [(fd, b)]\<rparr> else W)))"

definition wire_open :: "bytes \<Rightarrow> bool \<Rightarrow> Wires \<Rightarrow> int \<times> Wires" where
  "wire_open = wire_open_n 1"

definition wire_poll_char :: "Wires \<Rightarrow> int \<times> Wires" where
  "wire_poll_char = wire_poll_char_n 1"

definition wire_put_char :: "int \<Rightarrow> Wires \<Rightarrow> Wires" where
  "wire_put_char = wire_put_char_n 1"

text \<open>The self-test's pair of sockets: the emulator's end and the host's, if \<open>socketpair\<close> gives them.\<close>

definition wire_test_pair :: "int \<Rightarrow> (int \<times> int) option \<Rightarrow> Wires \<Rightarrow> int option \<times> Wires" where
  "wire_test_pair port sv W =
     (let (e, W) = end_of port W
      in case (e, sv) of
           (Some i, Some (s0, s1)) \<Rightarrow>
             (Some s1, upd_end i (\<lambda>e. e\<lparr>we_fd := s0, we_trace := False, we_len := 0, we_pos := 0\<rparr>) (close_end i W))
         | _ \<Rightarrow> (None, W))"

subsection \<open>Well-formed endpoints\<close>

text \<open>The static table before its first use.\<close>

definition wires_zero :: Wires where
  "wires_zero =
     \<lparr>w_init = False, w_end = (\<lambda>_. \<lparr>we_fd = 0, we_trace = False, we_buf = replicate WIRE_BUF 0, we_len = 0, we_pos = 0\<rparr>),
      w_in = (\<lambda>_. []), w_send = (\<lambda>_. []), w_conn = [], w_out = [], w_closed = []\<rparr>"

definition end_ok :: "WireEnd \<Rightarrow> bool" where
  "end_ok e \<longleftrightarrow> we_pos e \<le> we_len e \<and> we_len e \<le> length (we_buf e) \<and> length (we_buf e) = WIRE_BUF"

text \<open>Buffers in bounds, and no descriptor shared by two open endpoints.\<close>

definition wires_ok :: "Wires \<Rightarrow> bool" where
  "wires_ok W \<longleftrightarrow> (\<forall>i < WIRE_MAX. end_ok (w_end W i))
     \<and> (w_init W \<longrightarrow> (\<forall>i < WIRE_MAX. \<forall>j < WIRE_MAX. i \<noteq> j \<longrightarrow> 0 \<le> we_fd (w_end W i)
           \<longrightarrow> we_fd (w_end W i) \<noteq> we_fd (w_end W j)))"

lemma wires_ok_zero: "wires_ok wires_zero"
  by (simp add: wires_ok_def wires_zero_def end_ok_def)

lemma wires_ok_init: "wires_ok W \<Longrightarrow> wires_ok (wires_init W) \<and> w_init (wires_init W)"
  by (auto simp: wires_ok_def wires_init_def end_ok_def)

lemma wires_ok_end: "wires_ok W \<Longrightarrow> i < WIRE_MAX \<Longrightarrow> end_ok (w_end W i)"
  by (simp add: wires_ok_def)

text \<open>An update of one endpoint that keeps its descriptor.\<close>

lemma wires_ok_upd:
  assumes "wires_ok W" "\<And>e. end_ok e \<Longrightarrow> end_ok (f e)" "\<And>e. we_fd (f e) = we_fd e"
  shows "wires_ok (upd_end i f W)"
  using assms by (auto simp: wires_ok_def upd_end_def)

end
