(* ===== verification/Wire_Props.thy ===== *)
theory Wire_Props
  imports Wire Bus_Frame
begin

text \<open>
  The endpoints of \<open>src/src/wire.c\<close> against what the machine model assumes of them: polling
  refines the list of answers \<open>m_host_rx\<close>, byte for byte and port by port, through every
  history of opening, polling, sending and closing.
\<close>

subsection \<open>Histories\<close>

text \<open>A \<open>connect\<close> gives a descriptor that no open endpoint has.\<close>

definition fresh_conns :: "Wires \<Rightarrow> bool" where
  "fresh_conns W \<longleftrightarrow>
     (\<forall>fd. Connected fd \<in> set (w_conn W) \<longrightarrow> 0 \<le> fd \<and> (\<forall>i < WIRE_MAX. we_fd (w_end (wires_init W) i) \<noteq> fd))"

inductive wire_run :: "Wires \<Rightarrow> Wires \<Rightarrow> bool" for W0 :: Wires where
  wire_start: "wire_run W0 W0"
| wire_opens: "wire_run W0 W \<Longrightarrow> fresh_conns W \<Longrightarrow> wire_run W0 (snd (wire_open_n port spec trace W))"
| wire_polls: "wire_run W0 W \<Longrightarrow> wire_run W0 (snd (wire_poll_char_n port W))"
| wire_puts: "wire_run W0 W \<Longrightarrow> wire_run W0 (wire_put_char_n port ch W)"
| wire_closes: "wire_run W0 W \<Longrightarrow> wire_run W0 (wire_close W)"

lemma end_of_cases:
  obtains "end_of port W = (None, wires_init W)"
  | i where "i < WIRE_MAX" "port = int i" "end_of (int i) W = (Some i, wires_init W)"
  by (cases "port < 0 \<or> port \<ge> int WIRE_MAX")
     (simp_all add: end_of_def Let_def that(1), metis that(2) end_of_def not_less not_le nat_less_iff int_nat_eq zero_le_numeral)

lemma wires_ok_cong:
  "wires_ok W \<Longrightarrow> w_end W' = w_end W \<Longrightarrow> w_init W' = w_init W \<Longrightarrow> wires_ok W'"
  by (simp add: wires_ok_def)

lemma connect_loop_fd: "connect_loop n as = (Some fd, as') \<Longrightarrow> Connected fd \<in> set as"
  by (induction n as rule: connect_loop.induct) (auto split: ConnAns.splits)

lemma wire_recv_frame:
  "w_end (snd (wire_recv fd W)) = w_end W" "w_init (snd (wire_recv fd W)) = w_init W"
  "length (fst (wire_recv fd W)) \<le> WIRE_BUF"
  by (auto simp: wire_recv_def split: list.splits)

lemma wires_ok_recv_end:
  assumes "wires_ok W" "length bs \<le> WIRE_BUF"
  shows "wires_ok (upd_end i (\<lambda>e. e\<lparr>we_buf := bs @ drop (length bs) (we_buf e), we_len := length bs, we_pos := 0\<rparr>) W)"
  by (rule wires_ok_upd [OF assms(1)]) (use assms(2) in \<open>auto simp: end_ok_def\<close>)

lemma wires_ok_take_byte:
  assumes "wires_ok W" "we_pos (w_end W i) < we_len (w_end W i)"
  shows "wires_ok (snd (take_byte i W))"
  using assms by (auto simp: take_byte_def wires_ok_def upd_end_def end_ok_def Let_def)

lemma poll_ok: "wires_ok W \<Longrightarrow> wires_ok (snd (wire_poll_char_n port W))"
proof -
  assume W: "wires_ok W"
  show ?thesis
  proof (rule end_of_cases [of port W])
    assume "end_of port W = (None, wires_init W)"
    then show ?thesis using wires_ok_init [OF W] by (simp add: wire_poll_char_n_def)
  next
    fix i assume i: "i < WIRE_MAX" "port = int i" "end_of (int i) W = (Some i, wires_init W)"
    let ?V = "wires_init W"
    have V: "wires_ok ?V" using wires_ok_init [OF W] by simp
    obtain bs U where r: "wire_recv (we_fd (w_end ?V i)) ?V = (bs, U)" by fastforce
    then have U: "wires_ok U" "length bs \<le> WIRE_BUF"
      using wires_ok_cong [OF V, of U] wire_recv_frame [of "we_fd (w_end ?V i)" ?V] by auto
    have f: "wires_ok (snd (take_byte i (upd_end i (\<lambda>e. e\<lparr>we_buf := bs @ drop (length bs) (we_buf e),
        we_len := length bs, we_pos := 0\<rparr>) U)))" if "bs \<noteq> []"
      by (rule wires_ok_take_byte [OF wires_ok_recv_end [OF U]]) (use that in \<open>simp add: upd_end_def\<close>)
    show ?thesis
      using V U f wires_ok_take_byte [OF V, of i] by (auto simp: wire_poll_char_n_def i r)
  qed
qed

text \<open>A descriptor that no other open endpoint has, or the mark of a closed one.\<close>

lemma wires_ok_fd:
  assumes "wires_ok W" "\<And>e. end_ok e \<Longrightarrow> end_ok (f e)" "\<And>e. we_fd (f e) = fd"
    and "\<And>j. j < WIRE_MAX \<Longrightarrow> 0 \<le> fd \<Longrightarrow> we_fd (w_end W j) \<noteq> fd"
  shows "wires_ok (upd_end i f W)"
  unfolding wires_ok_def
proof (intro conjI allI impI)
  fix j assume "j < WIRE_MAX"
  then show "end_ok (w_end (upd_end i f W) j)"
    using assms(2) wires_ok_end [OF assms(1)] by (simp add: upd_end_def)
next
  fix j k assume jk: "j < WIRE_MAX" "k < WIRE_MAX" "j \<noteq> k" and w: "w_init (upd_end i f W)"
    and nonneg: "0 \<le> we_fd (w_end (upd_end i f W) j)"
  have fd: "we_fd (w_end (upd_end i f W) l) = (if l = i then fd else we_fd (w_end W l))" for l
    by (simp add: upd_end_def assms(3))
  have "w_init W" using w by (simp add: upd_end_def)
  then have old: "0 \<le> we_fd (w_end W j) \<Longrightarrow> we_fd (w_end W j) \<noteq> we_fd (w_end W k)"
    using assms(1) jk unfolding wires_ok_def by blast
  show "we_fd (w_end (upd_end i f W) j) \<noteq> we_fd (w_end (upd_end i f W) k)"
    using nonneg old assms(4) [OF jk(1)] assms(4) [OF jk(2)] jk(3) unfolding fd by (auto split: if_splits)
qed

lemma wire_run_ok: "wire_run W0 W \<Longrightarrow> wires_ok W0 \<Longrightarrow> wires_ok W"
proof (induction rule: wire_run.induct)
  case (wire_opens W port spec trace)
  then have W: "wires_ok (wires_init W)" "w_init (wires_init W)" using wires_ok_init by blast+
  show ?case
  proof (rule end_of_cases [of port W])
    assume "end_of port W = (None, wires_init W)"
    then show ?thesis using W by (simp add: wire_open_n_def)
  next
    fix i assume i: "i < WIRE_MAX" "port = int i" "end_of (int i) W = (Some i, wires_init W)"
    obtain r as where c: "connect_loop 50 (w_conn (wires_init W)) = (r, as)" by fastforce
    have same: "w_conn (wires_init W) = w_conn W" by (simp add: wires_init_def)
    have "wires_ok (upd_end i (\<lambda>e. e\<lparr>we_fd := fd, we_trace := trace\<rparr>) ((wires_init W)\<lparr>w_conn := as\<rparr>))"
      if "r = Some fd" for fd
    proof -
      have fd: "0 \<le> fd" "we_fd (w_end (wires_init W) j) \<noteq> fd" if "j < WIRE_MAX" for j
        using wire_opens.hyps(2) connect_loop_fd [OF c [unfolded \<open>r = Some fd\<close>]] same that
        by (auto simp: fresh_conns_def)
      have "wires_ok ((wires_init W)\<lparr>w_conn := as\<rparr>)" by (rule wires_ok_cong [OF W(1)]) simp_all
      then show ?thesis by (rule wires_ok_fd) (auto simp: end_ok_def dest: fd(2))
    qed
    moreover have "wires_ok ((wires_init W)\<lparr>w_conn := as\<rparr>)" by (rule wires_ok_cong [OF W(1)]) simp_all
    ultimately show ?thesis using W c by (cases r) (simp_all add: wire_open_n_def i Let_def)
  qed
next
  case (wire_puts W port ch)
  then have W: "wires_ok (wires_init W)" using wires_ok_init by blast
  have p: "w_end (wire_put_char_n port ch W) = w_end (wires_init W) \<and> w_init (wire_put_char_n port ch W) = w_init (wires_init W)"
    by (rule end_of_cases [of port W])
      (simp_all add: wire_put_char_n_def Let_def case_prod_beta)
  show ?case by (rule wires_ok_cong [OF W]) (simp_all add: p)
next
  case (wire_closes W)
  have "wires_ok (close_end i V)" if "wires_ok V" for i V
  proof -
    have "wires_ok (V\<lparr>w_closed := cl\<rparr>)" for cl by (rule wires_ok_cong [OF that]) simp_all
    then have "wires_ok (upd_end i (\<lambda>e. e\<lparr>we_fd := -1\<rparr>) (V\<lparr>w_closed := cl\<rparr>))" for cl
      by (rule wires_ok_fd [where fd = "- 1"]) (simp_all add: end_ok_def)
    with that show ?thesis by (simp add: close_end_def)
  qed
  moreover have "wires_ok (wires_init W)" using wire_closes wires_ok_init by blast
  ultimately show ?case unfolding wire_close_def by (rule fold_keeps)
qed (simp_all add: poll_ok)

subsection \<open>What is waiting\<close>

definition chunk_answers :: "bytes \<Rightarrow> int list" where
  "chunk_answers c = (if c = [] then [- 1] else map uint c)"

definition waiting :: "WireEnd \<Rightarrow> bytes" where
  "waiting e = take (we_len e - we_pos e) (drop (we_pos e) (we_buf e))"

text \<open>The answers to come on a port: its buffer, then the chunks of its descriptor.\<close>

definition host_view :: "Wires \<Rightarrow> nat \<Rightarrow> int list" where
  "host_view W p =
     (let e = w_end (wires_init W) p
      in if p < WIRE_MAX \<and> 0 \<le> we_fd e
         then map uint (waiting e) @ concat (map chunk_answers (w_in W (we_fd e))) else [])"

lemma wires_init_same: "wires_init (wires_init W) = wires_init W" "w_in (wires_init W) = w_in W"
  by (simp_all add: wires_init_def)

lemma host_view_init: "host_view (wires_init W) = host_view W"
  by (simp add: host_view_def fun_eq_iff wires_init_same Let_def)

lemma host_view_inited: "w_init W \<Longrightarrow> host_view W p = (if p < WIRE_MAX \<and> 0 \<le> we_fd (w_end W p)
    then map uint (waiting (w_end W p)) @ concat (map chunk_answers (w_in W (we_fd (w_end W p)))) else [])"
  by (simp add: host_view_def wires_init_def Let_def)

text \<open>One byte out of a buffer that has one.\<close>

lemma take_byte_view:
  assumes "wires_ok W" "w_init W" "i < WIRE_MAX" "0 \<le> we_fd (w_end W i)"
    and "we_pos (w_end W i) < we_len (w_end W i)"
  shows "host_view W i = fst (take_byte i W) # host_view (snd (take_byte i W)) i"
    and "q \<noteq> i \<Longrightarrow> host_view (snd (take_byte i W)) q = host_view W q"
proof -
  let ?e = "w_end W i"
  have ok: "we_pos ?e < length (we_buf ?e)" using assms(5) wires_ok_end [OF assms(1,3)] by (simp add: end_ok_def)
  have "waiting ?e = we_buf ?e ! we_pos ?e # waiting (?e\<lparr>we_pos := we_pos ?e + 1\<rparr>)"
  proof -
    have "drop (we_pos ?e) (we_buf ?e) = we_buf ?e ! we_pos ?e # drop (Suc (we_pos ?e)) (we_buf ?e)"
      using ok by (rule Cons_nth_drop_Suc [symmetric])
    moreover have "we_len ?e - we_pos ?e = Suc (we_len ?e - (we_pos ?e + 1))" using assms(5) by simp
    ultimately show ?thesis by (simp add: waiting_def)
  qed
  then show "host_view W i = fst (take_byte i W) # host_view (snd (take_byte i W)) i"
    using assms by (simp add: host_view_inited take_byte_def upd_end_def Let_def)
  show "q \<noteq> i \<Longrightarrow> host_view (snd (take_byte i W)) q = host_view W q"
    using assms(2) by (simp add: host_view_inited take_byte_def upd_end_def Let_def)
qed

lemma chunk_split: "c \<noteq> [] \<Longrightarrow> 0 < n \<Longrightarrow>
    map uint (take n c) @ concat (map chunk_answers (if length c \<le> n then q else drop n c # q))
      = concat (map chunk_answers (c # q))"
  by (auto simp: chunk_answers_def simp flip: map_append append_assoc)

lemma poll_view:
  assumes "wires_ok W" "i < WIRE_MAX" "wire_poll_char_n (int i) W = (x, W')"
  shows "host_view W' = (host_view W)(i := tl (host_view W i)) \<and> x = (if host_view W i = [] then - 1 else hd (host_view W i))"
proof -
  let ?V = "wires_init W"
  have V: "wires_ok ?V" "w_init ?V" "host_view ?V = host_view W"
    using wires_ok_init [OF assms(1)] host_view_init by simp_all
  have e: "end_of (int i) W = (Some i, ?V)" using assms(2) by (simp add: end_of_def)
  let ?fd = "we_fd (w_end ?V i)"
  consider (closed) "?fd < 0" | (buffered) "0 \<le> ?fd" "we_pos (w_end ?V i) < we_len (w_end ?V i)"
    | (recv) "0 \<le> ?fd" "we_len (w_end ?V i) \<le> we_pos (w_end ?V i)" by linarith
  then show ?thesis
  proof cases
    case closed
    then have "host_view ?V i = []" using V(2) by (simp add: host_view_inited)
    then show ?thesis using assms(3) closed V(3) by (auto simp: wire_poll_char_n_def e fun_eq_iff)
  next
    case buffered
    then have "take_byte i ?V = (x, W')" using assms(3) by (simp add: wire_poll_char_n_def e)
    then show ?thesis
      using take_byte_view [OF V(1,2) assms(2) buffered] unfolding V(3) by (auto simp: fun_eq_iff)
  next
    case recv
    have empty: "waiting (w_end ?V i) = []" using recv by (simp add: waiting_def)
    show ?thesis
    proof (cases "w_in ?V ?fd")
      case Nil
      then have "x = - 1" "W' = ?V" using assms(3) recv by (simp_all add: wire_poll_char_n_def e wire_recv_def)
      moreover have "host_view ?V i = []" using Nil V(2) empty by (simp add: host_view_inited)
      ultimately show ?thesis using V(3) by (auto simp: fun_eq_iff)
    next
      case (Cons c q)
      let ?q = "if length c \<le> WIRE_BUF then q else drop WIRE_BUF c # q"
      define U where "U = ?V\<lparr>w_in := (w_in ?V)(?fd := ?q)\<rparr>"
      have r: "wire_recv ?fd ?V = (take WIRE_BUF c, U)" by (simp add: wire_recv_def Cons U_def)
      have U: "w_init U" "w_end U = w_end ?V" using V(2) by (simp_all add: U_def)
      have distinct: "we_fd (w_end ?V p) \<noteq> ?fd" if "p < WIRE_MAX" "p \<noteq> i" for p
        using V(1,2) that assms(2) recv(1) unfolding wires_ok_def by metis
      have others: "host_view U p = host_view ?V p" if "p \<noteq> i" for p
        using distinct [of p] that V(2) U by (simp add: host_view_inited U_def)
      show ?thesis
      proof (cases "c = []")
        case True
        then have "x = - 1" "W' = U" using assms(3) recv r by (simp_all add: wire_poll_char_n_def e)
        moreover have "host_view ?V i = - 1 # host_view U i"
          using Cons True V(2) U empty recv(1) assms(2) by (simp add: host_view_inited chunk_answers_def U_def)
        ultimately show ?thesis using others unfolding V(3) by (auto simp: fun_eq_iff)
      next
        case False
        let ?bs = "take WIRE_BUF c"
        let ?f = "\<lambda>e. e\<lparr>we_buf := ?bs @ drop (length ?bs) (we_buf e), we_len := length ?bs, we_pos := 0\<rparr>"
        define T where "T = upd_end i ?f U"
        have "wires_ok U" by (rule wires_ok_cong [OF V(1)]) (simp_all add: U_def)
        then have ok: "wires_ok T" unfolding T_def by (rule wires_ok_recv_end) simp
        have T: "w_init T" "w_end T i = ?f (w_end ?V i)" "w_in T = w_in U" "\<And>p. p \<noteq> i \<Longrightarrow> w_end T p = w_end ?V p"
          using U by (simp_all add: T_def upd_end_def)
        have "take_byte i T = (x, W')" using assms(3) recv r False by (simp add: wire_poll_char_n_def e T_def)
        moreover have "0 \<le> we_fd (w_end T i)" "we_pos (w_end T i) < we_len (w_end T i)"
          using recv(1) False T(2) by simp_all
        ultimately have step: "host_view T i = x # host_view W' i" "\<And>p. p \<noteq> i \<Longrightarrow> host_view W' p = host_view T p"
          using take_byte_view [OF ok T(1) assms(2), of] by auto
        have "host_view T i = host_view ?V i"
        proof -
          have "host_view T i = map uint ?bs @ concat (map chunk_answers ?q)"
            using T recv(1) assms(2) by (simp add: host_view_inited waiting_def U_def min_def)
          also have "\<dots> = concat (map chunk_answers (c # q))" by (rule chunk_split [OF False]) simp
          also have "\<dots> = host_view ?V i" using V(2) empty recv(1) assms(2) Cons by (simp add: host_view_inited)
          finally show ?thesis .
        qed
        moreover have others_T: "host_view T p = host_view ?V p" if "p \<noteq> i" for p
        proof -
          have "host_view T p = host_view U p"
            using T(1,3) T(4) [OF that] U by (simp add: host_view_inited)
          then show ?thesis using others [OF that] by simp
        qed
        ultimately have "host_view W i = x # host_view W' i" using step(1) V(3) by simp
        moreover have "host_view W' p = host_view W p" if "p \<noteq> i" for p
          using step(2) [OF that] others_T [OF that] V(3) by simp
        ultimately show ?thesis by (auto simp: fun_eq_iff)
      qed
    qed
  qed
qed

subsection \<open>Sources of bytes\<close>

text \<open>The answers to a sequence of polls of ports, and what is left.\<close>

fun poll_run :: "(nat \<Rightarrow> 's \<Rightarrow> int \<times> 's) \<Rightarrow> nat list \<Rightarrow> 's \<Rightarrow> int list \<times> 's" where
  "poll_run poll [] s = ([], s)"
| "poll_run poll (p # ps) s =
     (let (x, s) = poll p s; (xs, s) = poll_run poll ps s in (x # xs, s))"

definition answer :: "int list \<Rightarrow> int" where
  "answer q = (case q of [] \<Rightarrow> - 1 | x # _ \<Rightarrow> x)"

text \<open>The answers as lists, one for each port.\<close>

definition poll_lists :: "nat \<Rightarrow> (nat \<Rightarrow> int list) \<Rightarrow> int \<times> (nat \<Rightarrow> int list)" where
  "poll_lists p v = (answer (v p), v(p := tl (v p)))"

text \<open>What the serial ports ask of the host: a poll takes the next answer of its port and no other.\<close>

locale poll_source =
  fixes ok :: "'s \<Rightarrow> bool" and view :: "'s \<Rightarrow> nat \<Rightarrow> int list" and poll :: "nat \<Rightarrow> 's \<Rightarrow> int \<times> 's"
  assumes ok_poll: "ok s \<Longrightarrow> ok (snd (poll p s))"
    and poll_answer: "ok s \<Longrightarrow> p < WIRE_MAX \<Longrightarrow> fst (poll p s) = answer (view s p)"
    and poll_rest: "ok s \<Longrightarrow> p < WIRE_MAX \<Longrightarrow> view (snd (poll p s)) = (view s)(p := tl (view s p))"
begin

text \<open>Two sources with the same view answer a sequence of polls alike.\<close>

lemma poll_run_step:
  assumes "ok s" "p < WIRE_MAX"
  shows "poll_run poll (p # ps) s =
    (answer (view s p) # fst (poll_run poll ps (snd (poll p s))), snd (poll_run poll ps (snd (poll p s))))"
  using poll_answer [OF assms] by (simp add: case_prod_beta Let_def)

lemma poll_run_view:
  assumes "ok s" "list_all (\<lambda>p. p < WIRE_MAX) ps"
  shows "fst (poll_run poll ps s) = fst (poll_run poll_lists ps (view s))
    \<and> view (snd (poll_run poll ps s)) = snd (poll_run poll_lists ps (view s))"
  using assms
proof (induction ps arbitrary: s)
  case (Cons p ps)
  then have p: "p < WIRE_MAX" "list_all (\<lambda>p. p < WIRE_MAX) ps" by simp_all
  from Cons.IH [OF ok_poll [OF Cons.prems(1), of p] p(2)] show ?case
    unfolding poll_run_step [OF Cons.prems(1) p(1)] poll_rest [OF Cons.prems(1) p(1)]
    by (simp only: poll_run.simps poll_lists_def [of p] case_prod_beta Let_def fst_conv snd_conv)
qed simp

end

interpretation machine_polls: poll_source "\<lambda>_. True" m_host_rx host_poll
  by unfold_locales (auto simp: host_poll_def answer_def split: list.splits)

interpretation wire_polls: poll_source wires_ok host_view "\<lambda>p. wire_poll_char_n (int p)"
proof
  fix W p
  assume W: "wires_ok W" and p: "p < WIRE_MAX"
  from poll_view [OF W p] show "fst (wire_poll_char_n (int p) W) = answer (host_view W p)"
    "host_view (snd (wire_poll_char_n (int p) W)) = (host_view W)(p := tl (host_view W p))"
    by (metis answer_def hd_Cons_tl list.case prod.collapse)+
qed (rule poll_ok)

text \<open>The machine keeps everything else.\<close>

lemma host_polls_frame: "\<exists>rx. snd (poll_run host_poll ps m) = m\<lparr>m_host_rx := rx\<rparr>"
proof (induction ps arbitrary: m)
  case Nil
  show ?case by (rule exI [of _ "m_host_rx m"]) simp
next
  case (Cons p ps)
  obtain rx where rx: "snd (host_poll p m) = m\<lparr>m_host_rx := rx\<rparr>"
  proof (cases "m_host_rx m p")
    case Nil
    then have "snd (host_poll p m) = m\<lparr>m_host_rx := m_host_rx m\<rparr>" by (simp add: host_poll_def)
    then show ?thesis by (rule that)
  qed (simp add: host_poll_def that)
  obtain rx' where "snd (poll_run host_poll ps (snd (host_poll p m))) = (snd (host_poll p m))\<lparr>m_host_rx := rx'\<rparr>"
    using Cons.IH by blast
  then show ?case unfolding rx by (intro exI [of _ rx']) (simp add: case_prod_beta Let_def rx)
qed

text \<open>C8: The wires refine what the machine assumes of its host.  After any history of the endpoints
  from the start of the program - ports opened on fresh sockets, polled, written and closed -
  any sequence of polls of the real endpoints, with their 8K buffers refilled by \<open>recv\<close>, gives exactly the
  answers that the machine model takes from its lists, and leaves every port with
  the answers that the model leaves it: no byte is lost, repeated, reordered or handed to
  another port.\<close>

theorem wire_refines_host_poll:
  assumes "wire_run (wires_zero\<lparr>w_in := rx, w_conn := conns, w_send := tx\<rparr>) W"
    and "list_all (\<lambda>p. p < WIRE_MAX) ps" "m_host_rx m = host_view W"
    and "poll_run (\<lambda>p. wire_poll_char_n (int p)) ps W = (xs, W')"
  shows "poll_run host_poll ps m = (xs, m\<lparr>m_host_rx := host_view W'\<rparr>)"
proof -
  have "wires_ok (wires_zero\<lparr>w_in := rx, w_conn := conns, w_send := tx\<rparr>)"
    by (rule wires_ok_cong [OF wires_ok_zero]) simp_all
  then have "wires_ok W" using wire_run_ok assms(1) by blast
  note w = wire_polls.poll_run_view [OF this assms(2)]
    and m = machine_polls.poll_run_view [OF TrueI assms(2), of m]
  have "fst (poll_run host_poll ps m) = xs" "m_host_rx (snd (poll_run host_poll ps m)) = host_view W'"
    using w m assms(4) by (simp_all add: assms(3))
  moreover obtain rx where "snd (poll_run host_poll ps m) = m\<lparr>m_host_rx := rx\<rparr>"
    using host_polls_frame by blast
  ultimately show ?thesis by (simp add: prod_eq_iff)
qed

text \<open>Port 1 connected, two chunks and a pause on its socket.\<close>

definition wired :: Wires where
  "wired = wires_zero\<lparr>w_in := (\<lambda>_. [])(5 := [[0x41, 0x42], [], [0x43]]), w_conn := [Refused, Connected 5]\<rparr>"

lemma wire_refines_host_poll_witness:
  "\<exists>W W'. wire_open_n 1 (cs ''unix:/tmp/w'') False wired = (0, W)
     \<and> poll_run (\<lambda>p. wire_poll_char_n (int p)) [1, 2, 1, 1, 1] W = ([0x41, - 1, 0x42, - 1, 0x43], W')
     \<and> poll_run host_poll [1, 2, 1, 1, 1] (machine_zero\<lparr>m_host_rx := host_view W\<rparr>)
         = ([0x41, - 1, 0x42, - 1, 0x43], machine_zero\<lparr>m_host_rx := host_view W'\<rparr>)"
proof -
  obtain W where W: "wire_open_n 1 (cs ''unix:/tmp/w'') False wired = (0, W)" "host_view W 1 = [0x41, 0x42, - 1, 0x43]"
      "host_view W 2 = []"
  proof -
    have "connect_loop 50 [Refused, Connected 5] = (Some 5, [])" "length (wire_path (cs ''unix:/tmp/w'')) < SUN_PATH"
      by code_simp+
    then have "fst (wire_open_n 1 (cs ''unix:/tmp/w'') False wired) = 0
      \<and> host_view (snd (wire_open_n 1 (cs ''unix:/tmp/w'') False wired)) 1 = [0x41, 0x42, - 1, 0x43]
      \<and> host_view (snd (wire_open_n 1 (cs ''unix:/tmp/w'') False wired)) 2 = []"
      by (simp add: wire_open_n_def end_of_def wires_init_def wired_def wires_zero_def host_view_def waiting_def
          chunk_answers_def upd_end_def Let_def)
    then show ?thesis using that by (metis prod.collapse)
  qed
  have "fresh_conns wired"
    by (simp add: fresh_conns_def wired_def wires_init_def wires_zero_def)
  then have run: "wire_run (wires_zero\<lparr>w_in := (\<lambda>_. [])(5 := [[0x41, 0x42], [], [0x43]]),
      w_conn := [Refused, Connected 5], w_send := w_send wires_zero\<rparr>) W"
    using wire_opens [OF wire_start, of wired 1 "cs ''unix:/tmp/w''" False] W(1) by (simp add: wired_def)
  obtain xs W' where p: "poll_run (\<lambda>p. wire_poll_char_n (int p)) [1, 2, 1, 1, 1] W = (xs, W')" by fastforce
  have "poll_run host_poll [1, 2, 1, 1, 1] (machine_zero\<lparr>m_host_rx := host_view W\<rparr>)
      = (xs, (machine_zero\<lparr>m_host_rx := host_view W\<rparr>)\<lparr>m_host_rx := host_view W'\<rparr>)"
    by (rule wire_refines_host_poll [OF run _ _ p]) simp_all
  moreover from this have "xs = [0x41, - 1, 0x42, - 1, 0x43]" using W(2,3) by (simp add: host_poll_def)
  ultimately show ?thesis using W p by auto
qed

end
