(* ===== verification/Run_Live.thy ===== *)
theory Run_Live
  imports Run_Loop
begin

text \<open>
  The end of a run whose guest is dead (\<open>machine_run\<close> in \<open>src/src/bus.c\<close>): halted, with no
  interrupt source left that could wake it.
\<close>

text \<open>Halted, nothing requested, no line asserted, and no device or host input that could assert one.\<close>

definition dead :: "Machine \<Rightarrow> bool" where
  "dead m \<longleftrightarrow>
     (let c = m_cpu m
      in c_halted c \<and> c_irq_req c = 0 \<and> \<not> c_nmi_line c \<and> \<not> c_segt_line c \<and> \<not> c_nvi_line c
         \<and> vi_source m = None \<and> \<not> m_ct3_running m \<and> \<not> m_any_wire m
         \<and> q_pos (m_scr m) \<ge> length (q_inq (m_scr m)) \<and> m_host_rx m 0 = [])"

definition same_regs :: "CPU \<Rightarrow> CPU \<Rightarrow> bool" where
  "same_regs c d \<longleftrightarrow> c_R c = c_R d \<and> c_pc c = c_pc d \<and> c_fcw c = c_fcw d \<and> c_insns c = c_insns d"

lemma scc_chan_cong:
  "scc_chan_of (m\<lparr>m_cpu := c\<rparr>) = scc_chan_of m" "scc_chan_of (m\<lparr>m_tick_counter := t\<rparr>) = scc_chan_of m"
  by (simp_all add: scc_chan_of_def scc_port_def fun_eq_iff)

lemma vi_source_cong [simp]:
  "vi_source (m\<lparr>m_cpu := c\<rparr>) = vi_source m" "vi_source (m\<lparr>m_tick_counter := t\<rparr>) = vi_source m"
  by (simp_all add: vi_source_def ct3_int_def scc_vector_src_def scc_vector_chip_def lr_scc_vi_def scc_chan_cong Let_def)

lemma dead_before:
  assumes "dead m"
  shows "before_step m =
    m\<lparr>m_tick_counter := m_tick_counter m + 1, m_cpu := (m_cpu m)\<lparr>c_vi_line := False\<rparr>\<rparr>"
proof -
  have "feed_console m = m"
    using assms by (simp add: dead_def Let_def feed_console_def feed_ready_def console_key_def host_poll_def)
  with assms show ?thesis
    by (simp add: before_step_def dead_def Let_def ct3_count_def aggregate_vi_def)
qed

text \<open>An iteration changes the tick counter and the line state; the idle count goes up by one.\<close>

lemma dead_step:
  assumes "dead m"
  shows "\<exists>m' c. cpu_step None (before_step m) = Some m' \<and> dead m' \<and> m_cpu m' = c
    \<and> same_regs c (m_cpu m) \<and> c_halted c \<and> \<not> c_vi_line c \<and> c_serviced c = 0"
proof -
  let ?c = "(m_cpu m)\<lparr>c_vi_line := False, c_serviced := 0\<rparr>"
  let ?m = "m\<lparr>m_tick_counter := m_tick_counter m + 1, m_cpu := ?c\<rparr>"
  have "cpu_step None (before_step m) = Some ?m"
    using assms by (simp add: dead_before cpu_step_def cpu_begin_def handle_interrupts_def run_state_bind
        run_handler sample_lines_def select_irq_def dead_def Let_def)
  moreover have "dead ?m" "same_regs ?c (m_cpu m)" "c_halted ?c"
    using assms by (simp_all add: dead_def same_regs_def Let_def)
  ultimately show ?thesis by (intro exI [of _ ?m] exI [of _ ?c]) simp
qed

lemma disk_vi_none: "vi_source m = None \<Longrightarrow> \<not> m_disk_vi m"
  by (auto simp: vi_source_def Let_def split: if_splits)

definition idle_wait :: "CPU \<Rightarrow> RunLoop \<Rightarrow> bool" where
  "idle_wait c l \<longleftrightarrow> dead (l_m l) \<and> same_regs (m_cpu (l_m l)) c \<and> l_idle l \<le> 2000000"

lemma idle_wait_iteration:
  assumes "idle_wait c l" "\<not> l_over l"
  shows "\<exists>l'. run_iteration None l = Some l' \<and> same_regs (m_cpu (l_m l')) c
    \<and> (l_over l' \<or> idle_wait c l' \<and> l_idle l' = l_idle l + 1)"
proof -
  let ?m = "l_m l"
  have regs: "same_regs (m_cpu ?m) c" and idle: "l_idle l \<le> 2000000" and dead: "dead ?m"
    using assms(1) by (simp_all add: idle_wait_def)
  show ?thesis
  proof (cases "m_stop ?m \<or> m_insn_limit ?m \<noteq> 0 \<and> c_insns (m_cpu ?m) \<ge> m_insn_limit ?m \<or> idle_exit ?m")
    case True
    with regs show ?thesis by (auto simp: run_iteration_def Let_def stop_because_def)
  next
    case False
    obtain n d where d: "cpu_step None (before_step ?m) = Some n" "dead n" "m_cpu n = d"
        "same_regs d (m_cpu ?m)" "c_halted d" "\<not> c_vi_line d" "c_serviced d = 0"
      using dead_step [OF dead] by blast
    have it: "run_iteration None l = Some (after_step l n)"
      using False d(1) by (auto simp: run_iteration_def Let_def)
    have v: "\<not> m_disk_vi n" using d(2) by (intro disk_vi_none) (simp add: dead_def Let_def)
    have r: "same_regs d c" using d(4) regs by (simp add: same_regs_def)
    have a: "after_step l n =
        (if l_idle l + 1 > 2000000
         then l\<lparr>l_m := stop_because ''the guest halted with no interrupt pending'' n,
                l_idle := l_idle l + 1, l_over := True\<rparr>
         else if m_park_watch n
         then (let (fired, p, m) = park_step (l_park l) n
               in l\<lparr>l_m := m, l_idle := l_idle l + 1, l_park := p, l_over := fired\<rparr>)
         else l\<lparr>l_m := n, l_idle := l_idle l + 1\<rparr>)"
      using d v by (simp add: after_step_def Let_def)
    obtain fired p m2 where p: "park_step (l_park l) n = (fired, p, m2)" by (metis prod_cases3)
    then have p2: "m_cpu m2 = m_cpu n" "\<not> fired \<Longrightarrow> m2 = n"
      by (auto simp: park_step_def Let_def split: if_splits)
    show ?thesis
      using d(2,3) r p2 unfolding it a
      by (auto simp: p stop_because_def idle_wait_def not_less)
  qed
qed

lemma idle_wait_ends:
  "idle_wait c l \<Longrightarrow> n = 2000001 - unat (l_idle l) \<Longrightarrow>
     \<exists>l'. machine_run n None l = Some l' \<and> l_over l' \<and> same_regs (m_cpu (l_m l')) c"
proof (induction n arbitrary: l)
  case 0
  then have "unat (l_idle l) \<le> 2000000" by (simp add: idle_wait_def word_le_nat_alt)
  with 0 show ?case by simp
next
  case (Suc n)
  show ?case
  proof (cases "l_over l")
    case True
    then show ?thesis using Suc.prems(1) by (simp add: idle_wait_def)
  next
    case False
    then obtain l1 where l1: "run_iteration None l = Some l1" "same_regs (m_cpu (l_m l1)) c"
        "l_over l1 \<or> idle_wait c l1 \<and> l_idle l1 = l_idle l + 1"
      using idle_wait_iteration [OF Suc.prems(1)] by blast
    show ?thesis
    proof (cases "l_over l1")
      case True
      then have "machine_run n None l1 = Some l1" by (cases n) simp_all
      with True l1 False show ?thesis by simp
    next
      case over: False
      then have w: "idle_wait c l1" "l_idle l1 = l_idle l + 1" using l1(3) by auto
      have "unat (l_idle l) \<le> 2000000" using Suc.prems(1) by (simp add: idle_wait_def word_le_nat_alt)
      then have "unat (l_idle l1) = Suc (unat (l_idle l))"
        unfolding w(2) by (simp add: unat_word_ariths)
      then have "n = 2000001 - unat (l_idle l1)" using Suc.prems(2) by simp
      then show ?thesis using Suc.IH [OF w(1)] l1(1) False by simp
    qed
  qed
qed

text \<open>C9: A dead guest ends its run.  When the guest is halted and no interrupt is requested, asserted or
  still to come from a device or the host, the run loop leaves within 2000001 iterations of it,
  and the guest's registers and instruction count are what they were when it halted.\<close>

theorem dead_guest_ends:
  assumes "dead (l_m l)" "l_idle l \<le> 2000000"
  shows "\<exists>l'. machine_run (2000001 - unat (l_idle l)) None l = Some l' \<and> l_over l'
    \<and> same_regs (m_cpu (l_m l')) (m_cpu (l_m l))"
proof (rule idle_wait_ends [OF _ refl])
  show "idle_wait (m_cpu (l_m l)) l" using assms by (simp add: idle_wait_def same_regs_def)
qed

text \<open>A machine that booted into a HALT and has waited half the time.\<close>

definition halted_run :: RunLoop where
  "halted_run =
     \<lparr>l_m = machine_new\<lparr>m_cpu := (m_cpu machine_new)\<lparr>c_halted := True, c_pc := 0x000106\<rparr>\<rparr>,
      l_idle = 1000000, l_park = park_init PARK_LOOPS, l_over = False\<rparr>"

lemma dead_guest_ends_witness:
  "\<exists>l'. machine_run (2000001 - unat (l_idle halted_run)) None halted_run = Some l' \<and> l_over l'
    \<and> same_regs (m_cpu (l_m l')) (m_cpu (l_m halted_run))"
proof (rule dead_guest_ends)
  show "l_idle halted_run \<le> 2000000" by (simp add: halted_run_def)
  show "dead (l_m halted_run)" by code_simp
qed

end
