(* ===== verification/Park_Props.thy ===== *)
theory Park_Props
  imports Run_Loop
begin

text \<open>
  The park watch of the run loop (\<open>park_step\<close> in \<open>src/src/bus.c\<close>) on the sequence of machines
  that the iterations leave: when exactly it calls a guest parked.
\<close>

subsection \<open>The watch on a trace\<close>

fun park_fires :: "ParkWatch \<Rightarrow> Machine list \<Rightarrow> bool" where
  "park_fires p [] \<longleftrightarrow> False"
| "park_fires p (m # ms) \<longleftrightarrow> fst (park_step p m) \<or> park_fires (fst (snd (park_step p m))) ms"

abbreviation (input) halt :: "Machine \<Rightarrow> bool" where "halt m \<equiv> c_halted (m_cpu m)"

text \<open>What must stand still: registers, PC, FCW, and the position in output and input.\<close>

definition signature :: "Machine \<Rightarrow> (nib \<Rightarrow> u16) \<times> u32 \<times> u16 \<times> u64 \<times> nat \<times> u32" where
  "signature m = (c_R (m_cpu m), c_pc (m_cpu m), c_fcw (m_cpu m), q_last_tx_insn (m_scr m), q_pos (m_scr m),
     q_prompt_seq (m_scr m))"

definition stored :: "ParkWatch \<Rightarrow> (nib \<Rightarrow> u16) \<times> u32 \<times> u16 \<times> u64 \<times> nat \<times> u32" where
  "stored p = (p_R p, p_pc p, p_fcw p, p_tx p, p_inq p, p_seq p)"

text \<open>Every return to the halt is with signature \<open>s\<close>, and no excursion is longer than \<open>PARK_AWAKE\<close>.\<close>

fun parked :: "(nib \<Rightarrow> u16) \<times> u32 \<times> u16 \<times> u64 \<times> nat \<times> u32 \<Rightarrow> nat \<Rightarrow> bool \<Rightarrow> Machine list \<Rightarrow> bool" where
  "parked s k prev [] \<longleftrightarrow> True"
| "parked s k prev (m # ms) \<longleftrightarrow>
     (if halt m then (prev \<or> signature m = s) \<and> parked s 0 True ms
      else k < 100000 \<and> parked s (k + 1) False ms)"

fun track :: "Machine \<Rightarrow> nat \<times> bool \<Rightarrow> nat \<times> bool" where
  "track m (k, prev) = (if halt m then (0, True) else (k + 1, False))"

lemma parked_snoc:
  "parked s k prev (ms @ [m]) \<longleftrightarrow> parked s k prev ms
     \<and> (let (k', prev') = fold track ms (k, prev)
         in if halt m then prev' \<or> signature m = s else k' < 100000)"
  by (induction ms arbitrary: k prev) auto

lemma park_same_iff: "park_same p m \<longleftrightarrow> p_valid p \<and> signature m = stored p"
proof -
  have "list_all (\<lambda>r. c_R c r = p_R p r) (map of_nat [0..<16]) \<longleftrightarrow> c_R c = p_R p" for c
  proof
    assume "list_all (\<lambda>r. c_R c r = p_R p r) (map of_nat [0..<16])"
    then have all: "\<forall>i < 16. c_R c (of_nat i) = p_R p (of_nat i)" by (simp add: list_all_iff)
    show "c_R c = p_R p"
    proof
      fix r :: nib
      have "unat r < 16" using unsigned_less [of r, where 'a = nat] by simp
      with all have "c_R c (of_nat (unat r)) = p_R p (of_nat (unat r))" by blast
      then show "c_R c r = p_R p r" by simp
    qed
  qed (simp add: list_all_iff)
  then show ?thesis by (auto simp: park_same_def signature_def stored_def Let_def)
qed

subsection \<open>One step\<close>

lemma park_awake_step:
  assumes "\<not> halt m"
  shows "fst (park_step p m) = False" "p_budget (fst (snd (park_step p m))) = p_budget p"
    "p_was_halted (fst (snd (park_step p m))) = False"
    "p_valid p \<Longrightarrow> unat (p_awake p) \<le> 100000 \<Longrightarrow>
       (if unat (p_awake p) < 100000
        then fst (snd (park_step p m)) = p\<lparr>p_awake := p_awake p + 1, p_was_halted := False\<rparr>
          \<and> unat (p_awake p + 1) = unat (p_awake p) + 1
        else \<not> p_valid (fst (snd (park_step p m))))"
    "\<not> p_valid p \<Longrightarrow> \<not> p_valid (fst (snd (park_step p m)))"
proof -
  show "fst (park_step p m) = False" "p_budget (fst (snd (park_step p m))) = p_budget p"
    "p_was_halted (fst (snd (park_step p m))) = False"
    "\<not> p_valid p \<Longrightarrow> \<not> p_valid (fst (snd (park_step p m)))"
    using assms by (auto simp: park_step_def park_reset_def park_init_def Let_def)
  assume v: "p_valid p" "unat (p_awake p) \<le> 100000"
  then have n: "unat (p_awake p + 1) = unat (p_awake p) + 1" by (simp add: unat_word_ariths)
  have "p_awake p + 1 > 100000 \<longleftrightarrow> unat (p_awake p) + 1 > 100000"
    unfolding word_less_nat_alt n by simp
  then have c: "p_awake p + 1 > 100000 \<longleftrightarrow> \<not> unat (p_awake p) < 100000" by auto
  show "if unat (p_awake p) < 100000
        then fst (snd (park_step p m)) = p\<lparr>p_awake := p_awake p + 1, p_was_halted := False\<rparr>
          \<and> unat (p_awake p + 1) = unat (p_awake p) + 1
        else \<not> p_valid (fst (snd (park_step p m)))"
    using assms c n by (simp add: park_step_def park_reset_def park_init_def Let_def)
qed

definition resigns :: "ParkWatch \<Rightarrow> Machine \<Rightarrow> bool" where
  "resigns p m \<longleftrightarrow> \<not> p_was_halted p \<and> \<not> (p_valid p \<and> signature m = stored p)"

text \<open>A halted iteration renews the signature or counts on.\<close>

lemma park_halt_step:
  assumes "halt m" "p_was_halted p \<longrightarrow> p_valid p"
  shows "\<exists>q. park_step p m = (p_loops q > p_budget p, q, snd (snd (park_step p m)))
    \<and> p_valid q \<and> p_was_halted q \<and> p_awake q = 0 \<and> p_budget q = p_budget p
    \<and> p_loops q = (if resigns p m then 0 else p_loops p) + 1
    \<and> stored q = (if resigns p m then signature m else stored p)"
  using assms
  by (auto simp: park_step_def park_same_iff park_sign_def resigns_def stored_def signature_def Let_def)

subsection \<open>Completeness\<close>

definition halts :: "Machine list \<Rightarrow> nat" where
  "halts ms = length (filter (\<lambda>m. halt m) ms)"

lemma halts_simps [simp]:
  "halts [] = 0" "halts (m # ms) = (if halt m then 1 else 0) + halts ms" "halts (xs @ ys) = halts xs + halts ys"
  by (simp_all add: halts_def)

text \<open>The state of a watch that has not fired, and counts on from where it is.\<close>

definition watching :: "u64 \<Rightarrow> ParkWatch \<Rightarrow> bool" where
  "watching b p \<longleftrightarrow> p_budget p = b \<and> (p_was_halted p \<longrightarrow> p_valid p)
     \<and> (p_valid p \<longrightarrow> unat (p_awake p) \<le> 100000 \<and> p_loops p \<le> b)"

lemma loops_next: "l \<le> b \<Longrightarrow> b \<noteq> - 1 \<Longrightarrow> unat (l + 1) = unat l + 1" for l b :: u64
proof -
  assume "l \<le> b" "b \<noteq> - 1"
  then have "l < - 1" using word_order.not_eq_extremum [of b] by (meson le_less_trans)
  then have "unat l < unat (- 1 :: u64)" by (simp only: word_less_nat_alt)
  then show ?thesis by (simp add: unat_word_ariths unsigned_minus_1_eq_mask mask_eq_exp_minus_1)
qed

lemma watching_step:
  assumes "watching b p" "\<not> fst (park_step p m)"
  shows "watching b (fst (snd (park_step p m)))"
proof (cases "halt m")
  case True
  obtain q where q: "park_step p m = (p_loops q > p_budget p, q, snd (snd (park_step p m)))"
      "p_valid q" "p_was_halted q" "p_awake q = 0" "p_budget q = p_budget p"
    using park_halt_step [OF True, of p] assms(1) unfolding watching_def by blast
  then have "\<not> p_loops q > b" using assms unfolding watching_def by (metis fst_conv)
  then show ?thesis using q assms(1) unfolding watching_def by (metis fst_conv snd_conv not_less unat_0 le0)
next
  case False
  note a = park_awake_step [OF False, of p]
  show ?thesis
  proof (cases "p_valid p \<and> unat (p_awake p) < 100000")
    case True
    with a(4) assms(1) show ?thesis by (auto simp: watching_def)
  next
    case f: False
    then have "\<not> p_valid (fst (snd (park_step p m)))" using a(4,5) assms(1) by (auto simp: watching_def)
    with a assms(1) show ?thesis by (simp add: watching_def)
  qed
qed

text \<open>A parked stretch that is long enough is caught.\<close>

lemma parked_caught:
  assumes "watching b p" "p_valid p" "b \<noteq> - 1" "parked (stored p) (unat (p_awake p)) (p_was_halted p) ms"
    and "unat (p_loops p) + halts ms > unat b"
  shows "park_fires p ms"
  using assms
proof (induction ms arbitrary: p)
  case Nil
  then show ?case by (simp add: watching_def word_le_nat_alt)
next
  case (Cons m ms)
  let ?q = "fst (snd (park_step p m))"
  show ?case
  proof (cases "fst (park_step p m)")
    case False
    have w: "watching b ?q" by (rule watching_step [OF Cons.prems(1) False])
    show ?thesis
    proof (cases "halt m")
      case True
      have nr: "\<not> resigns p m" using Cons.prems(2,4) True by (auto simp: resigns_def)
      obtain q where q: "park_step p m = (p_loops q > p_budget p, q, snd (snd (park_step p m)))"
          "p_valid q" "p_was_halted q" "p_awake q = 0" "p_loops q = p_loops p + 1" "stored q = stored p"
        using park_halt_step [OF True, of p] Cons.prems(2) unfolding if_not_P [OF nr] by blast
      then have qq: "?q = q" by (metis fst_conv snd_conv)
      have l: "unat (p_loops q) = unat (p_loops p) + 1"
        using Cons.prems(1-3) loops_next unfolding watching_def q(5) by blast
      have "park_fires q ms"
      proof (rule Cons.IH [OF _ q(2) Cons.prems(3)])
        show "watching b q" using w by (simp only: qq)
        show "parked (stored q) (unat (p_awake q)) (p_was_halted q) ms"
          using Cons.prems(4) True q(3,4,6) by simp
        show "unat b < unat (p_loops q) + halts ms" using Cons.prems(5) True l by simp
      qed
      then show ?thesis by (simp only: park_fires.simps qq simp_thms)
    next
      case f: False
      then have k: "unat (p_awake p) < 100000" using Cons.prems(4) by simp
      with park_awake_step(4) [OF f, of p] Cons.prems(1,2)
      have q: "?q = p\<lparr>p_awake := p_awake p + 1, p_was_halted := False\<rparr>"
        "unat (p_awake p + 1) = unat (p_awake p) + 1" by (auto simp: watching_def)
      have "park_fires ?q ms"
      proof (rule Cons.IH [OF w _ Cons.prems(3)])
        show "p_valid ?q" "unat b < unat (p_loops ?q) + halts ms"
          using Cons.prems(2,5) f by (simp_all add: q(1))
        show "parked (stored ?q) (unat (p_awake ?q)) (p_was_halted ?q) ms"
          using Cons.prems(4) f q(2) by (simp add: q(1) stored_def)
      qed
      then show ?thesis by simp
    qed
  qed simp
qed

subsection \<open>Soundness\<close>

text \<open>A stretch that begins where the guest halts: the same signature at every halt.\<close>

definition stretch :: "Machine list \<Rightarrow> Machine list \<Rightarrow> bool" where
  "stretch pre mid \<longleftrightarrow> mid \<noteq> [] \<and> halt (hd mid) \<and> (pre = [] \<or> \<not> halt (last pre))
     \<and> parked (signature (hd mid)) 0 False mid"

text \<open>What a watch that has not fired knows of the trace behind it.\<close>

definition knows :: "Machine list \<Rightarrow> ParkWatch \<Rightarrow> bool" where
  "knows hist p \<longleftrightarrow> (p_was_halted p \<longleftrightarrow> hist \<noteq> [] \<and> halt (last hist))
     \<and> (p_valid p \<longrightarrow>
         (\<exists>pre mid. hist = pre @ mid \<and> stretch pre mid \<and> signature (hd mid) = stored p
            \<and> halts mid = unat (p_loops p) \<and> fold track mid (0, False) = (unat (p_awake p), p_was_halted p)))"

lemma stretch_snoc:
  assumes "stretch pre mid" "fold track mid (0, False) = (k, prev)"
    and "if halt m then prev \<or> signature m = signature (hd mid) else k < 100000"
  shows "stretch pre (mid @ [m])"
  using assms by (simp add: stretch_def parked_snoc)

lemma knows_halt:
  assumes "knows hist p" "watching b p" "b \<noteq> - 1" "halt m"
  shows "knows (hist @ [m]) (fst (snd (park_step p m)))"
proof -
  have h: "p_was_halted p \<longrightarrow> p_valid p" using assms(2) by (simp add: watching_def)
  obtain q where q: "park_step p m = (p_loops q > p_budget p, q, snd (snd (park_step p m)))"
      "p_valid q" "p_was_halted q" "p_awake q = 0"
      "p_loops q = (if resigns p m then 0 else p_loops p) + 1"
      "stored q = (if resigns p m then signature m else stored p)"
    using park_halt_step [OF assms(4) h] by blast
  then have qq: "fst (snd (park_step p m)) = q" by (metis fst_conv snd_conv)
  have "\<exists>pre mid. hist @ [m] = pre @ mid \<and> stretch pre mid \<and> signature (hd mid) = stored q
      \<and> halts mid = unat (p_loops q) \<and> fold track mid (0, False) = (unat (p_awake q), p_was_halted q)"
  proof (cases "resigns p m")
    case True
    then have "\<not> p_was_halted p" by (simp add: resigns_def)
    then have "hist = [] \<or> \<not> halt (last hist)" using assms(1) unfolding knows_def by blast
    then have "stretch hist [m]" using assms(4) by (simp add: stretch_def)
    then show ?thesis using True q assms(4) by (intro exI [of _ hist] exI [of _ "[m]"]) simp
  next
    case False
    then have v: "p_valid p" and s: "p_was_halted p \<or> signature m = stored p"
      using h by (auto simp: resigns_def)
    then obtain pre mid where k: "hist = pre @ mid" "stretch pre mid" "signature (hd mid) = stored p"
        "halts mid = unat (p_loops p)" "fold track mid (0, False) = (unat (p_awake p), p_was_halted p)"
      using assms(1) unfolding knows_def by blast
    have "stretch pre (mid @ [m])" using stretch_snoc [OF k(2,5)] s k(3) assms(4) by simp
    moreover have "unat (p_loops q) = unat (p_loops p) + 1"
      using loops_next [of "p_loops p" b] assms(2,3) v False by (simp add: q(5) watching_def)
    moreover have "mid \<noteq> []" using k(2) by (simp add: stretch_def)
    ultimately show ?thesis
      using k False q assms(4) by (intro exI [of _ pre] exI [of _ "mid @ [m]"]) simp
  qed
  then show ?thesis using assms(4) q(3) by (simp add: knows_def qq)
qed

lemma knows_awake:
  assumes "knows hist p" "watching b p" "\<not> halt m"
  shows "knows (hist @ [m]) (fst (snd (park_step p m)))"
proof (cases "p_valid p \<and> unat (p_awake p) < 100000")
  case True
  then obtain pre mid where k: "hist = pre @ mid" "stretch pre mid" "signature (hd mid) = stored p"
      "halts mid = unat (p_loops p)" "fold track mid (0, False) = (unat (p_awake p), p_was_halted p)"
    using assms(1) unfolding knows_def by blast
  have q: "fst (snd (park_step p m)) = p\<lparr>p_awake := p_awake p + 1, p_was_halted := False\<rparr>"
      "unat (p_awake p + 1) = unat (p_awake p) + 1"
    using park_awake_step(4) [OF assms(3), of p] True by auto
  have "stretch pre (mid @ [m])" using stretch_snoc [OF k(2,5)] True assms(3) by simp
  moreover have "mid \<noteq> []" using k(2) by (simp add: stretch_def)
  ultimately have "\<exists>pre mid. hist @ [m] = pre @ mid \<and> stretch pre mid \<and> signature (hd mid) = stored p
      \<and> halts mid = unat (p_loops p) \<and> fold track mid (0, False) = (unat (p_awake p + 1), False)"
    using k assms(3) q(2) by (intro exI [of _ pre] exI [of _ "mid @ [m]"]) simp
  then show ?thesis using assms(3) by (simp add: knows_def q(1) stored_def)
next
  case False
  then have "\<not> p_valid (fst (snd (park_step p m)))"
    using park_awake_step(4,5) [OF assms(3), of p] assms(2) by (auto simp: watching_def)
  then show ?thesis using park_awake_step(3) [OF assms(3), of p] assms(3) by (simp add: knows_def)
qed

lemma fires_parked:
  assumes "park_fires p ms" "knows hist p" "watching b p" "b \<noteq> - 1"
  shows "\<exists>pre mid post. hist @ ms = pre @ mid @ post \<and> stretch pre mid \<and> halts mid > unat b"
  using assms
proof (induction ms arbitrary: p hist)
  case (Cons m ms)
  let ?q = "fst (snd (park_step p m))"
  show ?case
  proof (cases "fst (park_step p m)")
    case True
    then have h: "halt m" using park_awake_step(1) by blast
    have "p_was_halted p \<longrightarrow> p_valid p" using Cons.prems(3) by (simp add: watching_def)
    from park_halt_step [OF h this] obtain q where
      "park_step p m = (p_loops q > p_budget p, q, snd (snd (park_step p m)))" "p_valid q" by blast
    then have q: "?q = q" "p_valid q" "p_loops q > b"
      using True Cons.prems(3) unfolding watching_def by (metis fst_conv snd_conv)+
    have "knows (hist @ [m]) q" using knows_halt [OF Cons.prems(2-4) h] by (simp only: q(1))
    then obtain pre mid where "hist @ [m] = pre @ mid" "stretch pre mid" "halts mid = unat (p_loops q)"
      using q(2) unfolding knows_def by blast
    then have "hist @ m # ms = pre @ mid @ ms \<and> stretch pre mid \<and> halts mid > unat b"
      using q(3) by (simp add: word_less_nat_alt)
    then show ?thesis by blast
  next
    case False
    then have f: "park_fires ?q ms" using Cons.prems(1) by simp
    have "knows (hist @ [m]) ?q" using knows_halt knows_awake Cons.prems(2-4) by blast
    from Cons.IH [OF f this watching_step [OF Cons.prems(3) False] Cons.prems(4)]
    show ?thesis by simp
  qed
qed simp

subsection \<open>Exactness\<close>

lemma park_fires_more: "park_fires p ms \<Longrightarrow> park_fires p (ms @ post)"
  by (induction ms arbitrary: p) auto

lemma stretch_caught:
  assumes "watching b p" "\<not> p_was_halted p" "b \<noteq> - 1" "mid \<noteq> []" "halt (hd mid)"
    "parked (signature (hd mid)) 0 False mid" "halts mid > unat b"
  shows "park_fires p (mid @ post)"
proof -
  obtain m ms where mid: "mid = m # ms" using assms(4) by (cases mid) auto
  have h: "halt m" using assms(5) by (simp add: mid)
  have w: "p_was_halted p \<longrightarrow> p_valid p" using assms(2) by simp
  obtain q where q: "park_step p m = (p_loops q > p_budget p, q, snd (snd (park_step p m)))"
      "p_valid q" "p_was_halted q" "p_awake q = 0"
      "p_loops q = (if resigns p m then 0 else p_loops p) + 1"
      "stored q = (if resigns p m then signature m else stored p)"
    using park_halt_step [OF h w] by blast
  then have qq: "fst (snd (park_step p m)) = q" by (metis fst_conv snd_conv)
  have s: "stored q = signature m" using q(6) assms(2) by (auto simp: resigns_def split: if_splits)
  show ?thesis
  proof (cases "fst (park_step p m)")
    case False
    have "watching b q" using watching_step [OF assms(1) False] by (simp only: qq)
    moreover have "parked (stored q) (unat (p_awake q)) (p_was_halted q) ms"
      using assms(6) h q(3,4) s by (simp add: mid)
    moreover have "1 \<le> unat (p_loops q)"
      using q(5) loops_next [of "p_loops p" b] loops_next [of 0 b] assms(1,3)
      by (auto simp: watching_def resigns_def split: if_splits)
    moreover have "unat b < unat (p_loops q) + halts ms" using assms(7) h calculation(3) by (simp add: mid)
    ultimately have "park_fires q ms" using parked_caught [OF _ q(2) assms(3)] by blast
    then show ?thesis by (simp add: mid qq park_fires_more)
  qed (simp add: mid)
qed

lemma park_after:
  assumes "watching b p" "\<not> park_fires p pre"
  shows "\<exists>q. watching b q \<and> p_was_halted q = (if pre = [] then p_was_halted p else halt (last pre))
    \<and> (\<forall>rest. park_fires p (pre @ rest) = park_fires q rest)"
  using assms
proof (induction pre arbitrary: p)
  case (Cons m pre)
  let ?q = "fst (snd (park_step p m))"
  have n: "\<not> fst (park_step p m)" "\<not> park_fires ?q pre" using Cons.prems(2) by simp_all
  from Cons.IH [OF watching_step [OF Cons.prems(1) n(1)] n(2)] obtain r where
    r: "watching b r" "p_was_halted r = (if pre = [] then p_was_halted ?q else halt (last pre))"
      "\<forall>rest. park_fires ?q (pre @ rest) = park_fires r rest" by blast
  have "p_was_halted ?q = halt m"
  proof (cases "halt m")
    case True
    have "p_was_halted p \<longrightarrow> p_valid p" using Cons.prems(1) by (simp add: watching_def)
    from park_halt_step [OF True this] True show ?thesis by (metis fst_conv snd_conv)
  qed (use park_awake_step(3) in simp)
  then show ?case using r n(1) by (intro exI [of _ r]) simp
qed auto

text \<open>C10: The park watch calls a guest parked exactly when it is.  On any sequence of machines that the
  iterations leave, a watch with budget \<open>b\<close> fires if and only if the sequence has a stretch that
  begins where the guest halts, has more than \<open>b\<close> halted iterations, comes back to the halt each time with
  the same registers, program counter, flag word and console positions, and has no waking longer
  than \<open>PARK_AWAKE\<close> iterations.  So a guest that is running, or whose state moves between its
  halts, is never called parked, and one that hangs always is.\<close>

theorem park_watch_exact:
  assumes "b \<noteq> - 1"
  shows "park_fires (park_init b) ms \<longleftrightarrow>
    (\<exists>pre mid post. ms = pre @ mid @ post \<and> stretch pre mid \<and> unat b < halts mid)"
proof
  have w: "watching b (park_init b)" by (simp add: watching_def park_init_def)
  assume "park_fires (park_init b) ms"
  moreover have "knows [] (park_init b)" by (simp add: knows_def park_init_def)
  ultimately show "\<exists>pre mid post. ms = pre @ mid @ post \<and> stretch pre mid \<and> unat b < halts mid"
    using fires_parked [of "park_init b" ms "[]" b] w assms by simp
next
  have w: "watching b (park_init b)" by (simp add: watching_def park_init_def)
  assume "\<exists>pre mid post. ms = pre @ mid @ post \<and> stretch pre mid \<and> unat b < halts mid"
  then obtain pre mid post where ms: "ms = pre @ mid @ post" and st: "stretch pre mid" "unat b < halts mid"
    by blast
  show "park_fires (park_init b) ms"
  proof (cases "park_fires (park_init b) pre")
    case True
    then show ?thesis by (simp only: ms park_fires_more)
  next
    case False
    from park_after [OF w this] obtain q where q: "watching b q"
        "p_was_halted q = (if pre = [] then p_was_halted (park_init b) else halt (last pre))"
        "\<forall>rest. park_fires (park_init b) (pre @ rest) = park_fires q rest" by blast
    have "\<not> p_was_halted q" using q(2) st(1) by (auto simp: stretch_def park_init_def)
    from stretch_caught [OF q(1) this assms _ _ _ st(2)] st(1) have "park_fires q (mid @ post)"
      by (simp add: stretch_def)
    then show ?thesis using q(3) by (simp only: ms)
  qed
qed

text \<open>A hung guest that the tick wakes once.\<close>

definition hung :: "bool \<Rightarrow> Machine" where
  "hung b = machine_zero\<lparr>m_cpu := cpu_zero\<lparr>c_halted := b\<rparr>\<rparr>"

lemma park_watch_exact_witness: "park_fires (park_init 2) [hung False, hung True, hung False, hung True, hung True]"
proof -
  have "stretch [hung False] [hung True, hung False, hung True, hung True]"
    "unat (2 :: u64) < halts [hung True, hung False, hung True, hung True]"
    by (simp_all add: stretch_def hung_def signature_def)
  then have "\<exists>pre mid post. [hung False, hung True, hung False, hung True, hung True] = pre @ mid @ post
      \<and> stretch pre mid \<and> unat (2 :: u64) < halts mid"
    by (intro exI [of _ "[hung False]"] exI [of _ "[hung True, hung False, hung True, hung True]"]
        exI [of _ "[]"]) simp
  moreover have "(2 :: u64) \<noteq> - 1" by simp
  ultimately show ?thesis using park_watch_exact by blast
qed

end
