(* ===== verification/Debug.thy ===== *)
theory Debug
  imports Cstr Cpu_Step
begin

text \<open>
  Breakpoints and memory windows (\<open>src/src/debug.c\<close>): the parsers of \<open>--break\<close> and
  \<open>--dump\<close> and the content of a window.  The breakpoint test itself is with the instruction
  cycle, which calls it.  What is printed is the result of the functions here.
\<close>

subsection \<open>Specifications\<close>

text \<open>\<open>reg\<close> is -1 for an absolute window; the specification is kept to be printed.\<close>

record Win =
  wn_reg :: int
  wn_seg :: u8
  wn_off :: u16
  wn_len :: int
  wn_spec :: bytes

abbreviation (input) DBG_MAXBRK :: nat where "DBG_MAXBRK \<equiv> 8"
abbreviation (input) DBG_MAXDUMP :: nat where "DBG_MAXDUMP \<equiv> 8"
abbreviation (input) DBG_MAXLEN :: int where "DBG_MAXLEN \<equiv> 4096"

definition parse_seg :: "u64 \<Rightarrow> u8" where
  "parse_seg v = ucast ((if v > 0x7F then drop_bit 8 v else v) AND 0x7F)"

text \<open>Is \<open>*e\<close> this character?\<close>

definition at_char :: "u8 \<Rightarrow> bytes \<Rightarrow> bool" where
  "at_char c e \<longleftrightarrow> e \<noteq> [] \<and> hd e = c"

text \<open>\<open>(int)\<close> of a long.\<close>

definition to_int32 :: "int \<Rightarrow> int" where
  "to_int32 x = sint (word_of_int x :: 32 word)"

text \<open>The table with the breakpoint; \<open>None\<close> is the error return.\<close>

definition dbg_add_break :: "bytes \<Rightarrow> Brk list \<Rightarrow> Brk list option" where
  "dbg_add_break spec bs =
     (if length bs \<ge> DBG_MAXBRK then None
      else
        (let (sg, e) = strtoull 16 spec
         in if e = spec \<or> \<not> at_char 0x3A e then None
            else
              (let (of', e) = strtoull 16 (tl e);
                   (n, e) = (if at_char 0x2F e then strtol 10 (tl e) else (1, e))
               in if e \<noteq> [] then None
                  else Some (bs @ [\<lparr>b_pc = push_bit 16 (ucast (parse_seg sg)) OR ucast (ucast of' :: u16),
                                    b_want = n, b_seen = 0\<rparr>]))))"

text \<open>Register or -1, segment, offset or displacement, and the rest of the specification.\<close>

definition dump_base :: "bytes \<Rightarrow> (int \<times> u64 \<times> u16 \<times> bytes) option" where
  "dump_base p =
     (if length p \<ge> 2 \<and> (p ! 0 = 0x72 \<or> p ! 0 = 0x52) \<and> (p ! 1 = 0x72 \<or> p ! 1 = 0x52)
      then (let (r, e) = strtol 10 (drop 2 p); reg = to_int32 r
            in if e = drop 2 p \<or> reg < 0 \<or> reg > 14 \<or> odd reg \<or> \<not> at_char 0x3A e then None
               else (let (disp, e) = strtol 16 (tl e) in Some (reg, 0, word_of_int disp, e)))
      else (let (sg, e) = strtoull 16 p
            in if e = p \<or> \<not> at_char 0x3A e then None
               else (let (of', e) = strtoull 16 (tl e) in Some (- 1, sg, ucast of', e))))"

definition dbg_add_dump :: "bytes \<Rightarrow> Win list \<Rightarrow> Win list option" where
  "dbg_add_dump spec ws =
     (if length ws \<ge> DBG_MAXDUMP then None
      else case dump_base spec of
             None \<Rightarrow> None
           | Some (reg, sg, off, e) \<Rightarrow>
               if \<not> at_char 0x2B e then None
               else (let (len, e) = strtol 10 (tl e)
                     in if e \<noteq> [] \<or> len \<le> 0 \<or> len > DBG_MAXLEN then None
                        else Some (ws @ [\<lparr>wn_reg = reg, wn_seg = (if reg < 0 then parse_seg sg else 0),
                                          wn_off = off, wn_len = len, wn_spec = spec\<rparr>])))"

subsection \<open>Windows\<close>

definition peek_phys :: "Machine \<Rightarrow> u8 \<Rightarrow> u16 \<Rightarrow> u32" where
  "peek_phys m sn off = fst (mmu_translate sn off False (\<not> SYSMODE (m_cpu m)) False (m_mmu m))"

definition win_addr :: "CPU \<Rightarrow> Win \<Rightarrow> u8 \<times> u16" where
  "win_addr c w =
     (if wn_reg w < 0 then (wn_seg w, wn_off w)
      else (parse_seg (ucast (c_R c (word_of_int (wn_reg w)))),
            c_R c (word_of_int (wn_reg w + 1)) + wn_off w))"

text \<open>A record of the output: segment, offset, physical address, data, and any fault.\<close>

record DumpLine =
  dl_seg :: u8
  dl_off :: u16
  dl_phys :: u32
  dl_data :: bytes
  dl_fault :: bool

definition dump_window :: "Machine \<Rightarrow> Win \<Rightarrow> DumpLine" where
  "dump_window m w =
     (let (seg, off) = win_addr (m_cpu m) w;
          bs = map (\<lambda>k. peek8 m seg (off + of_nat k)) [0..<nat (wn_len w)]
      in \<lparr>dl_seg = seg, dl_off = off, dl_phys = peek_phys m seg off, dl_data = map fst bs,
          dl_fault = list_ex snd bs\<rparr>)"

definition dump_windows :: "Machine \<Rightarrow> Win list \<Rightarrow> DumpLine list" where
  "dump_windows m ws = map (dump_window m) ws"

text \<open>The end of the run, \<open>dbg_finish\<close>: one line for each window.\<close>

definition dbg_finish :: "Machine \<Rightarrow> Win list \<Rightarrow> DumpLine list" where
  "dbg_finish m ws = (if ws = [] then [] else dump_windows m ws)"

subsection \<open>Printed addresses\<close>

text \<open>\<open>%02X\<close> of a byte and \<open>%04X\<close> of a word, the form of every address that the emulator prints.\<close>

definition hex_digit :: "nat \<Rightarrow> u8" where
  "hex_digit n = of_nat (if n < 10 then 0x30 + n else 0x37 + n)"

definition hex2 :: "u8 \<Rightarrow> bytes" where
  "hex2 x = map hex_digit [unat x div 16, unat x mod 16]"

definition hex4 :: "u16 \<Rightarrow> bytes" where
  "hex4 x = map hex_digit [unat x div 4096, unat x div 256 mod 16, unat x div 16 mod 16, unat x mod 16]"

lemma hex_digit_facts:
  assumes "n < 16"
  shows "digit_val (hex_digit n) = n" "\<not> is_space (hex_digit n)" "hex_digit n \<noteq> 0x2D" "hex_digit n \<noteq> 0x2B"
    "hex_digit n \<noteq> 0x78" "hex_digit n \<noteq> 0x58"
proof -
  have "\<forall>n \<in> {0..<16 :: nat}. digit_val (hex_digit n) = n \<and> \<not> is_space (hex_digit n) \<and> hex_digit n \<noteq> 0x2D
      \<and> hex_digit n \<noteq> 0x2B \<and> hex_digit n \<noteq> 0x78 \<and> hex_digit n \<noteq> 0x58"
    by code_simp
  with assms show "digit_val (hex_digit n) = n" "\<not> is_space (hex_digit n)" "hex_digit n \<noteq> 0x2D"
    "hex_digit n \<noteq> 0x2B" "hex_digit n \<noteq> 0x78" "hex_digit n \<noteq> 0x58"
    by (meson atLeastLessThan_iff zero_le)+
qed

text \<open>\<open>strtoul\<close> reads the digits up to a character that is none.\<close>

lemma strto_plain:
  assumes "\<not> is_space c" "c \<noteq> 0x2D" "c \<noteq> 0x2B" "\<not> has_0x (c # t)" "is_digit 16 c"
  shows "strto 16 (c # t) =
    Some (False, digits_val 16 (takeWhile (is_digit 16) (c # t)), dropWhile (is_digit 16) (c # t))"
  using assms by (simp add: strto_def num_base_def Let_def)

lemma digits_hex:
  assumes "\<forall>d \<in> set ds. d < 16"
  shows "takeWhile (is_digit 16) (map hex_digit ds @ rest) = map hex_digit ds @ takeWhile (is_digit 16) rest"
    "dropWhile (is_digit 16) (map hex_digit ds @ rest) = dropWhile (is_digit 16) rest"
  using assms by (induction ds) (simp_all add: is_digit_def hex_digit_facts(1))

lemma digits_val_hex:
  assumes "\<forall>d \<in> set ds. d < 16"
  shows "digits_val 16 (map hex_digit ds) = fold (\<lambda>d n. n * 16 + d) ds 0"
proof -
  have "fold (\<lambda>c n. n * 16 + digit_val c) (map hex_digit ds) a = fold (\<lambda>d n. n * 16 + d) ds a" for a
    using assms by (induction ds arbitrary: a) (simp_all add: hex_digit_facts(1))
  then show ?thesis by (simp add: digits_val_def)
qed

lemma strto_hex:
  assumes ds: "ds \<noteq> []" "\<forall>d \<in> set ds. d < 16"
    and rest: "rest = [] \<or> \<not> is_digit 16 (hd rest) \<and> hd rest \<noteq> 0x78 \<and> hd rest \<noteq> 0x58"
  shows "strto 16 (map hex_digit ds @ rest) = Some (False, fold (\<lambda>d n. n * 16 + d) ds 0, rest)"
proof -
  obtain d es where d: "ds = d # es" "d < 16" using ds by (cases ds) auto
  note f = hex_digit_facts [OF d(2)]
  have no0x: "\<not> has_0x (hex_digit d # map hex_digit es @ rest)"
  proof (cases es)
    case Nil
    then show ?thesis using rest by (cases rest) (auto simp: has_0x_def)
  next
    case (Cons e fs)
    then have "e < 16" using ds(2) d by simp
    then show ?thesis using hex_digit_facts(5,6) [of e] by (simp add: has_0x_def Cons)
  qed
  have r: "takeWhile (is_digit 16) rest = []" "dropWhile (is_digit 16) rest = rest"
    using rest by (cases rest; simp)+
  have dig: "is_digit 16 (hex_digit d)" using f(1) d(2) by (simp add: is_digit_def)
  have "strto 16 (map hex_digit ds @ rest) =
    Some (False, digits_val 16 (takeWhile (is_digit 16) (map hex_digit ds @ rest)),
      dropWhile (is_digit 16) (map hex_digit ds @ rest))"
    using strto_plain [OF f(2,3,4) no0x dig] by (simp only: d(1) list.map append_Cons)
  also have "\<dots> = Some (False, fold (\<lambda>d n. n * 16 + d) ds 0, rest)"
    by (simp only: digits_hex [OF ds(2)] r append_Nil2 digits_val_hex [OF ds(2)])
  finally show ?thesis .
qed

lemma strtoull_hex:
  assumes "ds \<noteq> []" "\<forall>d \<in> set ds. d < 16"
    and "rest = [] \<or> \<not> is_digit 16 (hd rest) \<and> hd rest \<noteq> 0x78 \<and> hd rest \<noteq> 0x58"
    and "fold (\<lambda>d n. n * 16 + d) ds 0 < 0x10000"
  shows "strtoull 16 (map hex_digit ds @ rest) = (of_nat (fold (\<lambda>d n. n * 16 + d) ds 0), rest)"
  using assms(4) by (simp add: strtoull_def strto_hex [OF assms(1-3)])

lemma colon_rest: "\<not> is_digit 16 0x3A" by code_simp

lemma of_nat_unat_ucast: "(of_nat (unat x) :: u64) = ucast (x :: 'a :: len word)"
  by (rule of_nat_unat)

lemma strtoull_hex2: "strtoull 16 (hex2 x @ 0x3A # r) = (ucast x, 0x3A # r)"
proof -
  let ?ds = "[unat x div 16, unat x mod 16]"
  have b: "unat x < 256" using unsigned_less [of x, where 'a = nat] by simp
  then have l: "?ds \<noteq> []" "\<forall>d \<in> set ?ds. d < 16" by auto
  have v: "fold (\<lambda>d n. n * 16 + d) ?ds 0 = unat x" by (simp only: fold_simps mult_0 add_0 div_mult_mod_eq)
  have r: "0x3A # r = [] \<or> \<not> is_digit 16 (hd (0x3A # r)) \<and> hd (0x3A # r) \<noteq> 0x78 \<and> hd (0x3A # r) \<noteq> 0x58"
    using colon_rest by simp
  have "strtoull 16 (map hex_digit ?ds @ 0x3A # r) = (of_nat (unat x), 0x3A # r)"
    by (rule strtoull_hex [OF l r, unfolded v]) (use b in linarith)
  then show ?thesis by (simp only: hex2_def of_nat_unat_ucast)
qed

lemma hex_fold:
  assumes "n < 65536"
  shows "fold (\<lambda>d n. n * 16 + d) [n div 4096, n div 256 mod 16, n div 16 mod 16, n mod 16] 0 = (n :: nat)"
proof -
  have "n div 4096 = n div 16 div 16 div 16" "n div 256 = n div 16 div 16"
    by (simp_all flip: div_mult2_eq)
  then show ?thesis by (simp only: fold_simps mult_0 add_0 div_mult_mod_eq)
qed

lemma strtoull_hex4:
  assumes "r = [] \<or> hd r = 0x3A"
  shows "strtoull 16 (hex4 x @ r) = (ucast x, r)"
proof -
  let ?ds = "[unat x div 4096, unat x div 256 mod 16, unat x div 16 mod 16, unat x mod 16]"
  have b: "unat x < 65536" using unsigned_less [of x, where 'a = nat] by simp
  have l: "?ds \<noteq> []" "\<forall>d \<in> set ?ds. d < 16" using b by auto
  have "r = [] \<or> \<not> is_digit 16 (hd r) \<and> hd r \<noteq> 0x78 \<and> hd r \<noteq> 0x58"
    using assms colon_rest by auto
  then have "strtoull 16 (map hex_digit ?ds @ r) = (of_nat (unat x), r)"
    by (rule strtoull_hex [OF l, unfolded hex_fold [OF b]]) (use b in simp)
  then show ?thesis by (simp only: hex4_def of_nat_unat_ucast)
qed

subsection \<open>A breakpoint record and a breakpoint\<close>

text \<open>The address that a breakpoint record prints, \<open>%02X:%04X\<close>.\<close>

definition brk_pc_text :: "CPU \<Rightarrow> bytes" where
  "brk_pc_text c =
     hex2 (ucast (drop_bit 16 (c_instr_start c) AND 0x7F)) @ 0x3A # hex4 (ucast (c_instr_start c))"

definition pc_break :: "u32 \<Rightarrow> Brk" where
  "pc_break pc = \<lparr>b_pc = pc, b_want = 1, b_seen = 0\<rparr>"

lemma dbg_add_break_at:
  assumes "length bs < 8" "strtoull 16 (t @ 0x3A # hex4 off) = (v, 0x3A # hex4 off)" "t \<noteq> []"
  shows "dbg_add_break (t @ 0x3A # hex4 off) bs =
    Some (bs @ [pc_break (push_bit 16 (ucast (parse_seg v)) OR ucast off)])"
proof -
  have h: "strtoull 16 (hex4 off) = (ucast off, [])"
    using strtoull_hex4 [of "[]" off] by simp
  have c: "(ucast (ucast off :: u64) :: u16) = off" by (rule bit_word_eqI) (simp add: bit_unsigned_iff)
  show ?thesis
    using assms by (simp add: dbg_add_break_def at_char_def h c pc_break_def)
qed

lemma mask_bits: "(0x7F :: 'a :: len word) = mask 7" "(0x7FFFFF :: 'a :: len word) = mask 23"
  by (simp_all add: mask_eq_exp_minus_1)

lemma bit_0x8000: "bit (0x8000 :: int) n \<longleftrightarrow> n = 15"
proof -
  have "(0x8000 :: int) = push_bit 15 1" by simp
  then show ?thesis by (simp only: bit_push_bit_iff bit_1_iff) auto
qed

lemma parse_seg_number: "parse_seg (ucast (ucast (x AND 0x7F) :: u8)) = ucast (x AND 0x7F :: u32)"
proof -
  have "(ucast (ucast (x AND 0x7F) :: u8) :: u64) AND 0x7F = ucast (ucast (x AND 0x7F) :: u8)"
    by (rule bit_word_eqI) (auto simp: mask_bits bit_simps)
  moreover from this have "\<not> (ucast (ucast (x AND 0x7F) :: u8) :: u64) > 0x7F"
    by (metis not_less word_and_le1)
  ultimately show ?thesis
    by (simp add: parse_seg_def) (rule bit_word_eqI, auto simp: mask_bits bit_simps)
qed

lemma parse_seg_word: "parse_seg (ucast (0x8000 OR push_bit 8 (ucast x) :: u16)) = ucast (x AND 0x7F :: u32)"
proof -
  let ?v = "ucast (0x8000 OR push_bit 8 (ucast x) :: u16) :: u64"
  have "bit ?v 15" by (auto simp: bit_simps bit_0x8000)
  then have "take_bit 7 ?v \<noteq> ?v" by (auto simp: bit_eq_iff [of "take_bit 7 _"] bit_take_bit_iff intro!: exI [of _ 15])
  then have "\<not> ?v < 2 ^ 7" using less_mask_eq [of ?v 7] by (auto simp: take_bit_eq_mask mask_bits)
  then have "?v > 0x7F" by (simp only: not_less) (rule less_le_trans, simp_all)
  then show ?thesis
    by (simp only: parse_seg_def if_True) (rule bit_word_eqI, auto simp: mask_bits bit_simps bit_0x8000)
qed

text \<open>C33: The address of a breakpoint record is the specification of a breakpoint at that address.
  A segment can also be given as a Z8001 segment word, the form in which the guest prints a
  program counter: \<open>32:3EAC\<close> and \<open>B200:3EAC\<close> set the same breakpoint.\<close>

theorem pc_spec_round_trip:
  assumes "length bs < 8" "c_instr_start c AND 0x7FFFFF = c_instr_start c"
  shows "dbg_add_break (brk_pc_text c) bs = Some (bs @ [pc_break (c_instr_start c)])
    \<and> dbg_add_break (hex4 (0x8000 OR push_bit 8 (ucast (drop_bit 16 (c_instr_start c)))) @
        0x3A # hex4 (ucast (c_instr_start c))) bs = Some (bs @ [pc_break (c_instr_start c)])"
proof -
  define pc where "pc = c_instr_start c"
  let ?t2 = "hex2 (ucast (drop_bit 16 pc AND 0x7F))"
    and ?t4 = "hex4 (0x8000 OR push_bit 8 (ucast (drop_bit 16 pc)))"
  have "pc AND 0x7FFFFF = pc" using assms(2) by (simp add: pc_def)
  then have b: "bit pc n \<Longrightarrow> n < 23" for n
    by (metis bit_and_iff bit_mask_iff mask_bits(2))
  have pc: "push_bit 16 (ucast (ucast (drop_bit 16 pc AND 0x7F) :: u8)) OR ucast (ucast pc :: u16) = pc"
    by (intro bit_word_eqI) (auto simp: mask_bits bit_simps dest: b)
  have "dbg_add_break (?t2 @ 0x3A # hex4 (ucast pc)) bs = Some (bs @ [pc_break pc])"
    using dbg_add_break_at [OF assms(1) strtoull_hex2] by (simp add: hex2_def parse_seg_number pc)
  moreover have "dbg_add_break (?t4 @ 0x3A # hex4 (ucast pc)) bs = Some (bs @ [pc_break pc])"
    using dbg_add_break_at [OF assms(1) strtoull_hex4] by (simp add: hex4_def parse_seg_word pc)
  ultimately show ?thesis by (simp only: brk_pc_text_def pc_def)
qed

lemma pc_spec_round_trip_witness:
  "dbg_add_break (brk_pc_text (cpu_zero\<lparr>c_instr_start := 0x323EAC\<rparr>)) [] = Some [pc_break 0x323EAC]
    \<and> dbg_add_break (hex4 (0x8000 OR push_bit 8 (ucast (drop_bit 16 (0x323EAC :: u32)))) @
        0x3A # hex4 (ucast (0x323EAC :: u32))) [] = Some [pc_break 0x323EAC]"
  using pc_spec_round_trip [of "[]" "cpu_zero\<lparr>c_instr_start := 0x323EAC\<rparr>"] by simp

end
