(* ===== verification/Main_Opts.thy ===== *)
theory Main_Opts
  imports Debug Wire Run_Loop
begin

text \<open>
  The command line (\<open>src/src/main.c\<close>): the user-mode forms, the options, and the start of a
  machine from them: ROM, disks, clock, stop channels, scripted input and wires.  The files, the
  host's clock and the sockets are data of the start environment.
\<close>

subsection \<open>Options\<close>

record Opts =
  o_fw :: bytes
  o_disk :: bytes
  o_floppy :: "bytes option"
  o_input :: "bytes option"
  o_rtcseed :: bytes
  o_wire :: "bytes option"
  o_inmark :: "bytes option"
  o_wireN :: "nat \<Rightarrow> bytes option"
  o_lr_scc :: bool
  o_rx_overrun :: bool
  o_rtc_ips :: u64
  o_trace :: bool
  o_dosel :: bool
  o_wtrace :: bool
  o_max :: u64
  o_idle :: u64
  o_stopport :: u64
  o_stopon :: bytes
  o_stopmark :: "bytes option"
  o_idle_asked :: bool
  o_require_stop :: bool
  o_brks :: "Brk list"
  o_wins :: "Win list"

definition opts_default :: Opts where
  "opts_default =
     \<lparr>o_fw = cs ''../rom'', o_disk = cs ''../disk/hdd.bin'', o_floppy = None, o_input = None,
      o_rtcseed = cs ''host'', o_wire = None, o_inmark = None, o_wireN = \<lambda>_. None, o_lr_scc = False,
      o_rx_overrun = False, o_rtc_ips = 0, o_trace = False, o_dosel = False, o_wtrace = False,
      o_max = 0, o_idle = 40000000, o_stopport = 0x0FFE, o_stopon = cs ''port,park'',
      o_stopmark = None, o_idle_asked = False, o_require_stop = False, o_brks = [], o_wins = []\<rparr>"

text \<open>The value of an option and the arguments after it, from the argument at hand onwards.\<close>

definition opt_value :: "bytes \<Rightarrow> bytes list \<Rightarrow> (bytes \<times> bytes list) option" where
  "opt_value name args =
     (case args of
        [] \<Rightarrow> None
      | a # rest \<Rightarrow>
          if \<not> starts_with name a then None
          else (case drop (length name) a of
                  c # v \<Rightarrow> if c = 0x3D then Some (v, rest) else None
                | [] \<Rightarrow> (case rest of v # rest' \<Rightarrow> Some (v, rest') | [] \<Rightarrow> None)))"

text \<open>\<open>strtoull(v,0,0)\<close>.\<close>

definition num_value :: "bytes \<Rightarrow> u64" where
  "num_value v = fst (strtoull 0 v)"

text \<open>An option: one with a value, whose parse may fail, a flag, or a request for the usage text.\<close>

datatype OptEntry =
    OptVal bytes "bytes \<Rightarrow> Opts \<Rightarrow> Opts option"
  | OptFlag bytes "Opts \<Rightarrow> Opts"
  | OptHelp bytes

definition opt_break :: "bytes \<Rightarrow> Opts \<Rightarrow> Opts option" where
  "opt_break v c = map_option (\<lambda>bs. c\<lparr>o_brks := bs\<rparr>) (dbg_add_break v (o_brks c))"

definition opt_dump :: "bytes \<Rightarrow> Opts \<Rightarrow> Opts option" where
  "opt_dump v c = map_option (\<lambda>ws. c\<lparr>o_wins := ws\<rparr>) (dbg_add_dump v (o_wins c))"

text \<open>\<open>--wireN\<close> for a port of the serial port table.\<close>

definition opt_wireN :: "nat \<Rightarrow> OptEntry" where
  "opt_wireN p =
     OptVal (cs ''--wire'' @ [0x30 + of_nat p]) (\<lambda>v c. Some (c\<lparr>o_wireN := (o_wireN c)(p := Some v)\<rparr>))"

text \<open>In the order in which the source tries them.\<close>

definition opt_table :: "OptEntry list" where
  "opt_table =
     [OptVal (cs ''--rtc-ips'') (\<lambda>v c. Some (c\<lparr>o_rtc_ips := num_value v\<rparr>)),
      OptVal (cs ''--rtc'') (\<lambda>v c. Some (c\<lparr>o_rtcseed := v\<rparr>)),
      OptVal (cs ''--firmware'') (\<lambda>v c. Some (c\<lparr>o_fw := v\<rparr>)),
      OptVal (cs ''--disk'') (\<lambda>v c. Some (c\<lparr>o_disk := v\<rparr>)),
      OptVal (cs ''--floppy'') (\<lambda>v c. Some (c\<lparr>o_floppy := Some v\<rparr>)),
      OptVal (cs ''--max'') (\<lambda>v c. Some (c\<lparr>o_max := num_value v\<rparr>)),
      OptVal (cs ''--input-mark'') (\<lambda>v c. Some (c\<lparr>o_inmark := Some v\<rparr>)),
      OptVal (cs ''--input'') (\<lambda>v c. Some (c\<lparr>o_input := Some v\<rparr>)),
      OptVal (cs ''--idle'') (\<lambda>v c. Some (c\<lparr>o_idle := num_value v, o_idle_asked := True\<rparr>)),
      OptVal (cs ''--stop-port'') (\<lambda>v c. Some (c\<lparr>o_stopport := num_value v\<rparr>)),
      OptVal (cs ''--stop-on'') (\<lambda>v c. Some (c\<lparr>o_stopon := v\<rparr>)),
      OptVal (cs ''--stop-mark'') (\<lambda>v c. Some (c\<lparr>o_stopmark := Some v\<rparr>)),
      OptVal (cs ''--break'') opt_break,
      OptVal (cs ''--dump'') opt_dump,
      OptFlag (cs ''--require-stop'') (\<lambda>c. c\<lparr>o_require_stop := True\<rparr>),
      OptVal (cs ''--wire'') (\<lambda>v c. Some (c\<lparr>o_wire := Some v\<rparr>)),
      OptFlag (cs ''--wire-trace'') (\<lambda>c. c\<lparr>o_wtrace := True\<rparr>),
      OptFlag (cs ''--lr-scc'') (\<lambda>c. c\<lparr>o_lr_scc := True\<rparr>),
      OptFlag (cs ''--rx-overrun'') (\<lambda>c. c\<lparr>o_rx_overrun := True\<rparr>),
      OptFlag (cs ''--trace'') (\<lambda>c. c\<lparr>o_trace := True\<rparr>),
      OptFlag (cs ''--selftest'') (\<lambda>c. c\<lparr>o_dosel := True\<rparr>),
      OptHelp (cs ''--help''), OptHelp (cs ''-h''),
      opt_wireN 1, opt_wireN 2, opt_wireN 3, opt_wireN 4, opt_wireN 5]"

text \<open>The first entry that applies; an exit status, or the options and the arguments left.\<close>

fun match_opt :: "OptEntry list \<Rightarrow> bytes list \<Rightarrow> Opts \<Rightarrow> nat + (Opts \<times> bytes list)" where
  "match_opt [] args c = Inl 2"
| "match_opt (OptVal name f # es) args c =
     (case opt_value name args of
        Some (v, rest) \<Rightarrow> (case f v c of None \<Rightarrow> Inl 2 | Some c' \<Rightarrow> Inr (c', rest))
      | None \<Rightarrow> match_opt es args c)"
| "match_opt (OptFlag name f # es) args c =
     (if hd args = name then Inr (f c, tl args) else match_opt es args c)"
| "match_opt (OptHelp name # es) args c = (if hd args = name then Inl 0 else match_opt es args c)"

lemma opt_value_rest: "opt_value name args = Some (v, rest) \<Longrightarrow> length rest < length args"
  by (auto simp: opt_value_def split: list.splits if_splits)

lemma match_opt_rest: "match_opt es args c = Inr (c', rest) \<Longrightarrow> args \<noteq> [] \<Longrightarrow> length rest < length args"
  by (induction es args c rule: match_opt.induct)
    (auto dest: opt_value_rest split: option.splits if_splits)

function parse_args :: "bytes list \<Rightarrow> Opts \<Rightarrow> nat + Opts" where
  "parse_args [] c = Inr c"
| "parse_args (a # args) c =
     (case match_opt opt_table (a # args) c of
        Inl rc \<Rightarrow> Inl rc
      | Inr (c', rest) \<Rightarrow> parse_args rest c')"
  by pat_completeness auto
termination
  by (relation "measure (length \<circ> fst)") (auto dest: match_opt_rest)

subsection \<open>The clock\<close>

text \<open>\<open>%d\<close>, a literal character and \<open>%c\<close> of \<open>sscanf\<close>.\<close>

definition scan_int :: "bytes \<Rightarrow> (int \<times> bytes) option" where
  "scan_int s =
     (case strto 10 s of
        None \<Rightarrow> None
      | Some _ \<Rightarrow> (let (v, rest) = strtol 10 s in Some (to_int32 v, rest)))"

definition scan_lit :: "u8 \<Rightarrow> bytes \<Rightarrow> bytes option" where
  "scan_lit c s = (if at_char c s then Some (tl s) else None)"

definition scan_char :: "bytes \<Rightarrow> bytes option" where
  "scan_char s = (if s = [] then None else Some (tl s))"

type_synonym date_time = "int \<times> int \<times> int \<times> int \<times> int \<times> int"

text \<open>\<open>%d-%d-%d%c%d:%d:%d\<close> with all seven conversions.\<close>

definition scan_date :: "bytes \<Rightarrow> date_time option" where
  "scan_date s =
     do {
       (y, s) \<leftarrow> scan_int s;
       s \<leftarrow> scan_lit 0x2D s;
       (mo, s) \<leftarrow> scan_int s;
       s \<leftarrow> scan_lit 0x2D s;
       (d, s) \<leftarrow> scan_int s;
       s \<leftarrow> scan_char s;
       (h, s) \<leftarrow> scan_int s;
       s \<leftarrow> scan_lit 0x3A s;
       (mi, s) \<leftarrow> scan_int s;
       s \<leftarrow> scan_lit 0x3A s;
       (sec, s) \<leftarrow> scan_int s;
       Some (y, mo, d, h, mi, sec)
     }"

definition set_date :: "date_time \<Rightarrow> Machine \<Rightarrow> Machine" where
  "set_date dt m = (let (y, mo, d, h, mi, s) = dt in rtc_set_time y mo d h mi s m)"

text \<open>\<open>now\<close> is the host's local time; \<open>None\<close> is the exit with status 2.\<close>

definition seed_rtc :: "date_time \<Rightarrow> Opts \<Rightarrow> Machine \<Rightarrow> Machine option" where
  "seed_rtc now c m =
     (let m = (if o_rtc_ips c \<noteq> 0 then upd_rtc (\<lambda>r. r\<lparr>r_ips := o_rtc_ips c\<rparr>) m else m)
      in if o_rtcseed c = cs ''none'' \<or> o_rtcseed c = cs ''off''
         then Some (upd_rtc (\<lambda>r. r\<lparr>r_present := False\<rparr>) m)
         else if o_rtcseed c = cs ''host'' then Some (set_date now m)
         else map_option (\<lambda>dt. set_date dt m) (scan_date (o_rtcseed c)))"

subsection \<open>The stop channels\<close>

record Channels =
  ch_idle :: bool
  ch_port :: bool
  ch_break :: bool
  ch_mark :: bool
  ch_park :: bool

definition mark_asked :: "Opts \<Rightarrow> bool" where
  "mark_asked c \<longleftrightarrow> o_stopmark c \<noteq> None \<and> o_stopmark c \<noteq> Some []"

text \<open>\<open>None\<close> is the exit with status 2.\<close>

definition stop_channels :: "Opts \<Rightarrow> Channels option" where
  "stop_channels c =
     (let has = (\<lambda>w. strstr (o_stopon c) (cs w));
          ch = (if o_stopon c = cs ''none''
                then Some \<lparr>ch_idle = False, ch_port = False, ch_break = False, ch_mark = False, ch_park = False\<rparr>
                else if o_stopon c = cs ''all''
                then Some \<lparr>ch_idle = True, ch_port = True, ch_break = True, ch_mark = True, ch_park = True\<rparr>
                else (let ch = \<lparr>ch_idle = has ''idle'' \<or> o_idle_asked c, ch_port = has ''port'',
                                ch_break = has ''break'', ch_mark = has ''mark'' \<or> mark_asked c,
                                ch_park = has ''park''\<rparr>
                      in if \<not> ch_idle ch \<and> \<not> ch_port ch \<and> \<not> ch_break ch \<and> \<not> ch_mark ch \<and> \<not> ch_park ch
                         then None else Some ch))
      in case ch of
           None \<Rightarrow> None
         | Some ch \<Rightarrow> if ch_mark ch \<and> \<not> mark_asked c \<and> has ''mark'' then None else Some ch)"

definition arm_channels :: "Opts \<Rightarrow> Channels \<Rightarrow> Machine \<Rightarrow> Machine" where
  "arm_channels c ch m =
     upd_scr (\<lambda>q. q\<lparr>q_idle_quiet := (if ch_idle ch then o_idle c else 0)\<rparr>)
       (m\<lparr>m_stop_at_break := ch_break ch,
          m_stop_port := (if ch_port ch then ucast (o_stopport c) else 0),
          m_stop_mark := (if ch_mark ch \<and> mark_asked c then o_stopmark c else None),
          m_park_watch := ch_park ch\<rparr>)"

subsection \<open>The scripted input\<close>

abbreviation (input) INQ_SIZE :: nat where "INQ_SIZE \<equiv> 8192"

definition queue_byte :: "bool \<Rightarrow> u8 \<Rightarrow> Script \<Rightarrow> Script" where
  "queue_byte now c q = q\<lparr>q_now := q_now q @ [now], q_inq := q_inq q @ [c]\<rparr>"

text \<open>What the letter after a backslash stands for.\<close>

definition escape :: "u8 \<Rightarrow> u8" where
  "escape c = (if c = 0x72 then 0x0D else if c = 0x6E then 0x0A else if c = 0x74 then 0x09 else c)"

text \<open>The loop over the script; \<open>now\<close> marks the next byte as type-ahead.\<close>

function feed_script :: "bytes \<Rightarrow> bool \<Rightarrow> Script \<Rightarrow> Script" where
  "feed_script [] now q = q"
| "feed_script (c # s) now q =
     (if length (q_inq q) \<ge> INQ_SIZE then q
      else if c = 0x5C \<and> s \<noteq> []
      then (let e = hd s; s = tl s
            in if e = 0x67 then feed_script s now (q\<lparr>q_gateoff := int (length (q_inq q))\<rparr>)
               else if e = 0x69 then feed_script s True q
               else feed_script s False (queue_byte now (escape e) q))
      else feed_script s False (queue_byte now c q))"
  by pat_completeness auto
termination by (relation "measure (length \<circ> fst)") auto

definition set_input :: "Opts \<Rightarrow> Machine \<Rightarrow> Machine" where
  "set_input c m =
     upd_scr (\<lambda>q. let q = q\<lparr>q_gateoff := -1,
                            q_mark := (if o_inmark c = Some [] then None else o_inmark c)\<rparr>
                  in case o_input c of None \<Rightarrow> q | Some s \<Rightarrow> feed_script s False q) m"

subsection \<open>The wires\<close>

abbreviation (input) SCC_PORTS :: nat where "SCC_PORTS \<equiv> 6"

text \<open>An exit status, or the machine and the endpoints.\<close>

fun attach_wires :: "nat list \<Rightarrow> Opts \<Rightarrow> Machine \<Rightarrow> Wires \<Rightarrow> nat + (Machine \<times> Wires)" where
  "attach_wires [] c m W = Inr (m, W)"
| "attach_wires (p # ps) c m W =
     (case o_wireN c p of
        None \<Rightarrow> attach_wires ps c m W
      | Some path \<Rightarrow>
          if m_wire_port_on m p then Inl 2
          else (let (r, W) = wire_open_n (int p) path (o_wtrace c) W
                in if r \<noteq> 0 then Inl 1
                   else attach_wires ps c (m\<lparr>m_wire_port_on := (m_wire_port_on m)(p := True)\<rparr>) W))"

definition set_wires :: "Opts \<Rightarrow> Machine \<Rightarrow> Wires \<Rightarrow> nat + (Machine \<times> Wires)" where
  "set_wires c m W =
     (let r = (case o_wire c of
                 None \<Rightarrow> Inr (m, W)
               | Some path \<Rightarrow>
                   (let (r, W) = wire_open path (o_wtrace c) W
                    in if r \<noteq> 0 then Inl 1
                       else Inr (m\<lparr>m_wire_port_on := (m_wire_port_on m)(1 := True)\<rparr>, W)))
      in case r of
           Inl rc \<Rightarrow> Inl rc
         | Inr (m, W) \<Rightarrow>
             (let lr = o_lr_scc c \<or> list_ex (\<lambda>p. o_wireN c p \<noteq> None) [2..<SCC_PORTS];
                  m = m\<lparr>m_lr_scc := lr, m_rx_overrun_on := o_rx_overrun c\<rparr>
              in case attach_wires [1..<SCC_PORTS] c m W of
                   Inl rc \<Rightarrow> Inl rc
                 | Inr (m, W) \<Rightarrow>
                     Inr (if list_ex (m_wire_port_on m) [0..<SCC_PORTS] then m\<lparr>m_any_wire := True\<rparr> else m, W)))"

subsection \<open>The machine of the options\<close>

text \<open>
  What the host has: the contents of the two ROM files of a directory, an image file with whether
  it opens for writing, the local time, and the sockets.
\<close>

record Start =
  st_rom :: "bytes \<Rightarrow> (bytes \<times> bytes) option"
  st_image :: "bytes \<Rightarrow> (bool \<times> bytes) option"
  st_now :: date_time
  st_wires :: Wires

definition load_media :: "Start \<Rightarrow> Opts \<Rightarrow> Machine option" where
  "load_media e c =
     do {
       (h, l) \<leftarrow> st_rom e (o_fw c);
       m \<leftarrow> machine_load_rom h l machine_new;
       (w, f) \<leftarrow> st_image e (o_disk c);
       let m = machine_attach_disk w f m;
       case o_floppy c of
         None \<Rightarrow> Some m
       | Some path \<Rightarrow> map_option (\<lambda>(w, f). machine_attach_floppy w f m) (st_image e path)
     }"

text \<open>An exit status, or the machine that is to run.\<close>

definition configure :: "Start \<Rightarrow> Opts \<Rightarrow> nat + (Machine \<times> Wires)" where
  "configure e c =
     (case load_media e c of
        None \<Rightarrow> Inl 1
      | Some m \<Rightarrow>
          (case seed_rtc (st_now e) c m of
             None \<Rightarrow> Inl 2
           | Some m \<Rightarrow>
               (case stop_channels c of
                  None \<Rightarrow> Inl 2
                | Some ch \<Rightarrow>
                    (let m = m\<lparr>m_insn_limit := o_max c, m_brks := o_brks c\<rparr>;
                         m = set_input c (arm_channels c ch m)
                     in set_wires c m (st_wires e)))))"

definition main_status :: "Opts \<Rightarrow> Machine \<Rightarrow> nat" where
  "main_status c m = (if o_require_stop c \<and> m_max_reached m then 3 else 0)"

subsection \<open>The user-mode forms\<close>

datatype UserMode =
    ModeObjint bytes "bytes list"
  | ModeExec bytes "bytes list"
  | ModeFloat bytes u64 u64 u64 int

text \<open>On the arguments after the program's name.\<close>

definition uexec_dispatch :: "bytes list \<Rightarrow> UserMode option" where
  "uexec_dispatch args =
     (case args of
        mode # path # rest \<Rightarrow>
          if mode = cs ''-runobjint'' then Some (ModeObjint path rest)
          else if mode = cs ''-runexec'' \<or> mode = cs ''--exec'' then Some (ModeExec path rest)
          else if mode = cs ''-runobj''
          then (let (a, b, want) =
                      (if length rest \<ge> 3 then (num_value (rest ! 0), num_value (rest ! 1), num_value (rest ! 2))
                       else (0x3FF8000000000000, 0x4004000000000000, 0x4010000000000000));
                    bits = (if length rest \<ge> 4 then to_int32 (fst (strtol 0 (rest ! 3))) else 64)
                in Some (ModeFloat path a b want bits))
          else None
      | _ \<Rightarrow> None)"

subsection \<open>The program\<close>

datatype MainEnd =
    MainUser UserMode
  | MainSelftest
  | MainExit nat
  | MainEnded Machine "DumpLine list" nat
  | MainRunning RunLoop

text \<open>
  The program cut off after as many iterations of the run loop as the list is long, with a signal
  before those it marks; \<open>None\<close> when a step did not return.  An ended run has its machine, the windows dumped at the end and the exit status.  The runs of
  user mode are with its front ends.
\<close>

definition main_upto :: "bool list \<Rightarrow> Start \<Rightarrow> bytes list \<Rightarrow> MainEnd option" where
  "main_upto sigs e args =
     (case uexec_dispatch args of
        Some u \<Rightarrow> Some (MainUser u)
      | None \<Rightarrow>
          (case parse_args args opts_default of
             Inl rc \<Rightarrow> Some (MainExit rc)
           | Inr c \<Rightarrow>
               if o_dosel c then Some MainSelftest
               else (case configure e c of
                       Inl rc \<Rightarrow> Some (MainExit rc)
                     | Inr (m, W) \<Rightarrow>
                         map_option
                           (\<lambda>l. if l_over l
                                then MainEnded (l_m l) (dbg_finish (l_m l) (o_wins c)) (main_status c (l_m l))
                                else MainRunning l)
                           (run_signalled sigs None (machine_start m)))))"

end
