(* ===== verification/Main_Props.thy ===== *)
theory Main_Props
  imports Main_Opts Stop_Inv Mmu_Lemmas
begin

text \<open>
  Properties of the command line (\<open>src/src/main.c\<close>): the two forms of an option, the scripted
  input, and what ends the run of a machine that the options configure.
\<close>

subsection \<open>Options\<close>

text \<open>An option name has no equals sign, so it is a proper beginning of no other form.\<close>

lemma opt_value_forms:
  assumes "0x3D \<notin> set name" "0x3D \<notin> set n"
  shows "opt_value n ((name @ 0x3D # v) # rest) = (if n = name then Some (v, rest) else None)"
    "opt_value n (name # v # rest) = (if n = name then Some (v, rest) else None)"
proof -
  have a: "starts_with n (name @ 0x3D # v) \<longleftrightarrow> starts_with n name"
  proof (cases "length n \<le> length name")
    case False
    then have "take (length n) (name @ 0x3D # v) = name @ take (length n - length name) (0x3D # v)"
      "0x3D \<in> set (take (length n - length name) (0x3D # v))"
      by (auto simp: take_Cons')
    then have "take (length n) (name @ 0x3D # v) \<noteq> n" using assms(2) by (metis Un_iff set_append)
    with False show ?thesis by (auto simp: starts_with_def)
  qed (simp add: starts_with_def)
  have b: "name = n \<or> (\<exists>c t. drop (length n) name = c # t \<and> c \<noteq> 0x3D \<and> length n < length name)"
    if "starts_with n name"
  proof (cases "drop (length n) name")
    case Nil
    with that show ?thesis by (auto simp: starts_with_def)
  next
    case (Cons c t)
    then have "c \<in> set name" by (metis in_set_dropD list.set_intros(1))
    moreover have "length n < length name" using Cons by (metis drop_eq_Nil list.distinct(1) not_le)
    ultimately show ?thesis using Cons assms(1) by auto
  qed
  show "opt_value n ((name @ 0x3D # v) # rest) = (if n = name then Some (v, rest) else None)"
    using a b by (auto simp: opt_value_def starts_with_def)
  show "opt_value n (name # v # rest) = (if n = name then Some (v, rest) else None)"
    using b by (auto simp: opt_value_def starts_with_def)
qed

text \<open>The names with a value that a table has, and whether the table keeps the names apart.\<close>

fun value_names :: "OptEntry list \<Rightarrow> bytes list" where
  "value_names [] = []"
| "value_names (OptVal n f # es) = n # value_names es"
| "value_names (e # es) = value_names es"

fun other_names :: "OptEntry list \<Rightarrow> bytes list" where
  "other_names [] = []"
| "other_names (OptVal n f # es) = other_names es"
| "other_names (OptFlag n f # es) = n # other_names es"
| "other_names (OptHelp n # es) = n # other_names es"

definition names_apart :: "OptEntry list \<Rightarrow> bool" where
  "names_apart es \<longleftrightarrow>
     list_all (\<lambda>n. \<not> List.member n 0x3D) (value_names es @ other_names es)
     \<and> list_all (\<lambda>n. \<not> List.member (other_names es) n) (value_names es)"

lemma match_opt_forms:
  assumes "0x3D \<notin> set name" "name \<notin> set (other_names es)"
    and "\<forall>n \<in> set (value_names es @ other_names es). 0x3D \<notin> set n"
  shows "match_opt es ((name @ 0x3D # v) # rest) c = match_opt es (name # v # rest) c"
  using assms
proof (induction es)
  case (Cons e es)
  then show ?case by (cases e) (auto simp: opt_value_forms)
qed simp

text \<open>The two forms of an option are the same.  For every option that takes a value and every value,
  the empty one and one that looks like an option included, \<open>name=value\<close> and \<open>name\<close> \<open>value\<close> at the
  same place of a command line are parsed alike: same options and same errors.\<close>

theorem option_forms_agree:
  assumes "name \<in> set (value_names opt_table)"
  shows "parse_args ((name @ 0x3D # v) # rest) c = parse_args (name # v # rest) c"
proof -
  have "names_apart opt_table" by code_simp
  then have n: "\<forall>n \<in> set (value_names opt_table @ other_names opt_table). 0x3D \<notin> set n"
      "\<forall>n \<in> set (value_names opt_table). n \<notin> set (other_names opt_table)"
    by (simp_all add: names_apart_def list_all_iff)
  then have "match_opt opt_table ((name @ 0x3D # v) # rest) c = match_opt opt_table (name # v # rest) c"
    using assms by (intro match_opt_forms) auto
  then show ?thesis by (simp only: parse_args.simps)
qed

lemma option_forms_agree_witness:
  "parse_args [cs ''--rtc-ips'' @ 0x3D # cs ''-h'', cs ''--trace''] opts_default
     = parse_args [cs ''--rtc-ips'', cs ''-h'', cs ''--trace''] opts_default"
proof (rule option_forms_agree)
  have "List.member (value_names opt_table) (cs ''--rtc-ips'')" by code_simp
  then show "cs ''--rtc-ips'' \<in> set (value_names opt_table)" by simp
qed

subsection \<open>The scripted input\<close>

text \<open>What a script can ask for: a paced byte, a byte of type-ahead, the end of the prompt gate.\<close>

datatype Key = Paced u8 | Ahead u8 | Gate

definition key_char :: "u8 \<Rightarrow> bytes" where
  "key_char c =
     (if c = 0x5C then [0x5C, 0x5C] else if c = 0x0D then [0x5C, 0x72] else if c = 0x0A then [0x5C, 0x6E]
      else if c = 0x09 then [0x5C, 0x74] else [c])"

fun key_text :: "Key \<Rightarrow> bytes" where
  "key_text (Paced c) = key_char c"
| "key_text (Ahead c) = [0x5C, 0x69] @ key_char c"
| "key_text Gate = [0x5C, 0x67]"

definition key_bytes :: "Key list \<Rightarrow> bytes" where
  "key_bytes ks = concat (map (\<lambda>k. case k of Paced c \<Rightarrow> [c] | Ahead c \<Rightarrow> [c] | Gate \<Rightarrow> []) ks)"

fun queue_key :: "Key \<Rightarrow> Script \<Rightarrow> Script" where
  "queue_key (Paced c) q = queue_byte False c q"
| "queue_key (Ahead c) q = queue_byte True c q"
| "queue_key Gate q = q\<lparr>q_gateoff := int (length (q_inq q))\<rparr>"

lemma feed_char:
  assumes "length (q_inq q) < INQ_SIZE"
  shows "feed_script (key_char c @ s) now q = feed_script s False (queue_byte now c q)"
  using assms by (simp add: key_char_def escape_def Let_def)

lemma feed_key:
  assumes "length (q_inq q) < INQ_SIZE"
  shows "feed_script (key_text k @ s) False q = feed_script s False (queue_key k q)"
proof (cases k)
  case (Ahead c)
  have "feed_script (key_text k @ s) False q = feed_script (key_char c @ s) True q"
    using assms by (simp add: Ahead Let_def)
  with assms show ?thesis by (simp add: Ahead feed_char)
qed (use assms in \<open>simp_all add: feed_char Let_def\<close>)

lemma queue_key_bytes: "q_inq (queue_key k q) = q_inq q @ key_bytes [k]"
  by (cases k) (simp_all add: queue_byte_def key_bytes_def)

text \<open>C22: The script language says what it means.  A script that spells out a list of keys - backslash,
  carriage return, newline and tab escaped, \<open>\i\<close> before a type-ahead byte, \<open>\g\<close> for the gate - and
  queues fewer bytes than the queue holds is read back as exactly those keys: each byte in
  order with its own type-ahead mark, and the gate off from the place of the last \<open>\g\<close>.\<close>

theorem input_script_round_trip:
  assumes "length (q_inq q) + length (key_bytes ks) < INQ_SIZE"
  shows "feed_script (concat (map key_text ks)) False q = fold queue_key ks q
    \<and> q_inq (fold queue_key ks q) = q_inq q @ key_bytes ks"
  using assms
proof (induction ks arbitrary: q)
  case (Cons k ks)
  have b: "key_bytes (k # ks) = key_bytes [k] @ key_bytes ks" by (simp add: key_bytes_def)
  have "length (q_inq (queue_key k q)) + length (key_bytes ks) < INQ_SIZE"
    using Cons.prems by (simp add: b queue_key_bytes)
  note IH = Cons.IH [OF this]
  have "length (q_inq q) < INQ_SIZE" using Cons.prems by simp
  with IH show ?case by (simp add: feed_key queue_key_bytes b)
qed (simp add: key_bytes_def)

lemma input_script_round_trip_witness:
  "feed_script [0x61, 0x5C, 0x72, 0x5C, 0x67, 0x5C, 0x69, 0x5C, 0x5C] False script_zero
     = fold queue_key [Paced 0x61, Paced 0x0D, Gate, Ahead 0x5C] script_zero
   \<and> q_inq (fold queue_key [Paced 0x61, Paced 0x0D, Gate, Ahead 0x5C] script_zero) = [0x61, 0x0D, 0x5C]"
proof -
  have "concat (map key_text [Paced 0x61, Paced 0x0D, Gate, Ahead 0x5C])
      = [0x61, 0x5C, 0x72, 0x5C, 0x67, 0x5C, 0x69, 0x5C, 0x5C]"
    "q_inq script_zero @ key_bytes [Paced 0x61, Paced 0x0D, Gate, Ahead 0x5C] = [0x61, 0x0D, 0x5C]"
    "length (q_inq script_zero) + length (key_bytes [Paced 0x61, Paced 0x0D, Gate, Ahead 0x5C]) < INQ_SIZE"
    by code_simp+
  with input_script_round_trip [of script_zero "[Paced 0x61, Paced 0x0D, Gate, Ahead 0x5C]"]
  show ?thesis by metis
qed

subsection \<open>The end of a run\<close>

definition stop_state :: "Machine \<Rightarrow> bool \<times> string \<times> bool" where
  "stop_state m = (m_stop m, m_stop_why m, m_max_reached m)"

lemma attach_wires_stop:
  "attach_wires ps c m W = Inr (m', W') \<Longrightarrow> stop_config m' = stop_config m \<and> stop_state m' = stop_state m"
proof (induction ps c m W arbitrary: m' W' rule: attach_wires.induct)
  case (2 p ps c m W)
  then show ?case
    by (auto simp: stop_config_def stop_state_def split: option.splits if_splits prod.splits)
qed simp

lemma set_wires_stop:
  assumes "set_wires c m W = Inr (m', W')"
  shows "stop_config m' = stop_config m \<and> stop_state m' = stop_state m"
  using assms
  by (auto simp: set_wires_def Let_def stop_config_def stop_state_def
      dest!: attach_wires_stop split: option.splits if_splits prod.splits sum.splits)

lemma start_stop:
  "load_media e c = Some m \<Longrightarrow> stop_state m = (False, [], False)"
  "seed_rtc now c m = Some m' \<Longrightarrow> stop_state m' = stop_state m"
  by (auto simp: load_media_def machine_load_rom_def machine_new_def machine_zero_def stop_state_def Let_def
      upd_rtc_def rtc_set_time_def machine_attach_disk_def machine_attach_floppy_def seed_rtc_def set_date_def
      bind_eq_Some_conv split: option.splits if_splits prod.splits)

lemma feed_script_idle: "q_idle_quiet (feed_script s now q) = q_idle_quiet q"
  by (induction s now q rule: feed_script.induct) (simp_all add: queue_byte_def Let_def)

lemma configure_channels:
  assumes "configure e c = Inr (m, W)"
  shows "\<exists>ch. stop_channels c = Some ch \<and> stop_state m = (False, [], False)
    \<and> stop_config m = (if ch_port ch then ucast (o_stopport c) else 0,
         if ch_mark ch \<and> mark_asked c then o_stopmark c else None, ch_park ch,
         if ch_idle ch then o_idle c else 0, o_max c, ch_break ch)"
proof -
  obtain m0 m1 ch where m0: "load_media e c = Some m0" and m1: "seed_rtc (st_now e) c m0 = Some m1"
    and ch: "stop_channels c = Some ch"
    and w: "set_wires c (set_input c (arm_channels c ch (m1\<lparr>m_insn_limit := o_max c, m_brks := o_brks c\<rparr>)))
        (st_wires e) = Inr (m, W)"
    using assms by (auto simp: configure_def Let_def split: option.splits)
  define m2 where "m2 = set_input c (arm_channels c ch (m1\<lparr>m_insn_limit := o_max c, m_brks := o_brks c\<rparr>))"
  have "stop_state m2 = stop_state m1"
    by (simp add: m2_def stop_state_def set_input_def arm_channels_def upd_scr_def)
  moreover have "stop_config m2 = (if ch_port ch then ucast (o_stopport c) else 0,
         if ch_mark ch \<and> mark_asked c then o_stopmark c else None, ch_park ch,
         if ch_idle ch then o_idle c else 0, o_max c, ch_break ch)"
    by (simp add: m2_def stop_config_def set_input_def arm_channels_def upd_scr_def feed_script_idle Let_def
        split: option.split)
  ultimately show ?thesis
    using ch set_wires_stop [OF w] start_stop(1) [OF m0] start_stop(2) [OF m1] by (simp add: m2_def)
qed

text \<open>The reasons for which a run may end under these options.\<close>

definition may_end :: "Opts \<Rightarrow> Channels \<Rightarrow> string \<Rightarrow> bool" where
  "may_end c ch why \<longleftrightarrow>
     why = ''Ctrl-] at the console'' \<or> why = ''the guest halted with no interrupt pending''
     \<or> why = ''instruction budget (--max) exhausted'' \<and> o_max c \<noteq> 0
     \<or> why = ''scripted input consumed, guest blocked at a prompt'' \<and> ch_idle ch
     \<or> why = ''the guest rang the stop doorbell'' \<and> ch_port ch
     \<or> why = ''breakpoint (--stop-on=break)'' \<and> ch_break ch
     \<or> why = ''the guest printed the stop mark'' \<and> ch_mark ch \<and> mark_asked c
     \<or> why = park_why \<and> ch_park ch"

lemma run_from_start:
  assumes "stop_state m = (False, [], False)" "run_signalled ss None (machine_start m) = Some l" "l_over l"
  shows "(armed m (m_stop_why (l_m l)) \<or> m_stop_why (l_m l) = [] \<and> True \<in> set ss)
    \<and> (m_max_reached (l_m l) \<longrightarrow> m_stop_why (l_m l) = ''instruction budget (--max) exhausted'')"
proof -
  have "run_ok False m (machine_start m)"
    using assms(1) by (simp add: run_ok_def machine_start_def cpu_reset_def stop_config_def stop_state_def Let_def)
  from run_ok_run [OF assms(2) this] assms(3) show ?thesis by (auto simp: run_ok_def)
qed

lemma armed_may_end:
  assumes "stop_config m = (if ch_port ch then ucast (o_stopport c) else 0,
         if ch_mark ch \<and> mark_asked c then o_stopmark c else None, ch_park ch,
         if ch_idle ch then o_idle c else 0, o_max c, ch_break ch)"
    and "armed m why"
  shows "may_end c ch why"
proof -
  have "m_stop_port m \<noteq> 0 \<longrightarrow> ch_port ch" "m_stop_mark m \<noteq> None \<longrightarrow> ch_mark ch \<and> mark_asked c"
    "m_park_watch m \<longrightarrow> ch_park ch" "q_idle_quiet (m_scr m) \<noteq> 0 \<longrightarrow> ch_idle ch"
    "m_insn_limit m = o_max c" "m_stop_at_break m \<longrightarrow> ch_break ch"
    using assms(1) by (simp_all add: stop_config_def)
  with assms(2) show ?thesis unfolding armed_def may_end_def by argo
qed

text \<open>C7: Every ended run has a reason that the command line explains.  Whatever the guest, the host and the
  disks do, and whenever signals come, when the program of these arguments ends a run, the reason it
  records is the console key, a guest that halted for good, or a channel that the options selected: the
  budget only under \<open>--max\<close>, the others only when \<open>--stop-on\<close> names them (or \<open>--idle\<close> or \<open>--stop-mark\<close>
  arms its own; without \<open>--stop-on\<close> the code's default is port and park).  It records none only when
  the process was sent the signal that \<open>on_sigint\<close> handles.  The exit status is 0 or 3, and 3 says that
  \<open>--require-stop\<close> was given and that the budget ended the run.\<close>

theorem run_ends_as_asked:
  assumes "main_upto sigs e args = Some (MainEnded m ds st)"
  shows "\<exists>c ch. parse_args args opts_default = Inr c \<and> stop_channels c = Some ch
    \<and> (may_end c ch (m_stop_why m) \<or> m_stop_why m = [] \<and> True \<in> set sigs)
    \<and> (st = 0 \<or> st = 3)
    \<and> (st = 3 \<longrightarrow> o_require_stop c \<and> m_stop_why m = ''instruction budget (--max) exhausted'')"
proof -
  obtain c m0 W l where c: "parse_args args opts_default = Inr c" and m0: "configure e c = Inr (m0, W)"
    and l: "run_signalled sigs None (machine_start m0) = Some l" "l_over l" "m = l_m l" "st = main_status c m"
    using assms by (auto simp: main_upto_def split: option.splits sum.splits if_splits)
  obtain ch where ch: "stop_channels c = Some ch" "stop_state m0 = (False, [], False)"
      "stop_config m0 = (if ch_port ch then ucast (o_stopport c) else 0,
         if ch_mark ch \<and> mark_asked c then o_stopmark c else None, ch_park ch,
         if ch_idle ch then o_idle c else 0, o_max c, ch_break ch)"
    using configure_channels [OF m0] by blast
  note fin = run_from_start [OF ch(2) l(1,2)]
  show ?thesis
    using c ch(1) armed_may_end [OF ch(3)] fin l(3,4) by (auto simp: main_status_def split: if_splits)
qed

text \<open>A machine whose ROM has a HALT after the reset vector, run for one instruction.\<close>

lemma cs_eq_iff: "cs s = cs t \<longleftrightarrow> s = t"
proof -
  have u: "unat (of_nat (of_char c) :: u8) = of_char c" for c
    using nat_of_char_less_256 [of c] by (simp add: unsigned_of_nat take_bit_nat_eq_self)
  have "inj (\<lambda>c. of_nat (of_char c) :: u8)"
    by (rule injI) (metis u of_char_eq_iff)
  then show ?thesis by (simp add: cs_def inj_map_eq_map)
qed

lemma cs_equals: "0x3D \<in> set (cs s) \<longleftrightarrow> CHR 0x3D \<in> set s"
proof -
  have "cs [CHR 0x3D] = [0x3D]" by code_simp
  then have "0x3D \<in> set (cs s) \<longleftrightarrow> (\<exists>c \<in> set s. cs [CHR 0x3D] = cs [c])"
    by (auto simp: cs_def)
  then show ?thesis by (auto simp only: cs_eq_iff)
qed

lemma halt_number: "num_value (cs ''1'') = 1"
proof -
  have "cs ''1'' = [0x31]" by code_simp
  then show ?thesis
    by (simp add: num_value_def strtoull_def strto_def num_base_def has_0x_def digits_val_def is_digit_def
        digit_val_def is_space_def Let_def)
qed

definition halt_args :: "bytes list" where
  "halt_args = [cs ''--max'' @ 0x3D # cs ''1'', cs ''--require-stop'', cs ''--rtc'', cs ''none'']"

definition halt_opts :: Opts where
  "halt_opts = opts_default\<lparr>o_max := 1, o_require_stop := True, o_rtcseed := cs ''none''\<rparr>"

lemma halt_parse: "parse_args halt_args opts_default = Inr halt_opts"
  by (simp add: halt_args_def halt_opts_def opt_table_def opt_value_forms cs_equals cs_eq_iff halt_number)

definition halt_rom :: "Machine \<Rightarrow> Machine" where
  "halt_rom m = m\<lparr>m_rom := (\<lambda>a. if unat a < 10
       then (if even (unat a) then [0, 0x40, 0, 0, 0x7A] ! (unat a div 2) else [0, 0, 0, 8, 0] ! (unat a div 2))
       else m_rom m a)\<rparr>"

definition halt_start :: Start where
  "halt_start =
     \<lparr>st_rom = \<lambda>_. Some ([0, 0x40, 0, 0, 0x7A], [0, 0, 0, 8, 0]), st_image = \<lambda>_. Some (False, []),
      st_now = (1985, 6, 1, 12, 0, 0), st_wires = wires_zero\<rparr>"

definition halt_base :: "RTC \<Rightarrow> Machine" where
  "halt_base r =
     machine_zero\<lparr>m_rom := m_rom (halt_rom machine_zero), m_hdc_cmdblk := 0x080000, m_cio1_reset := True,
       m_cio2_reset := True, m_rtc := r, m_mmu := mmu_zero, m_insn_limit := 1,
       m_disk := \<lparr>dk_file = [], dk_writable = False, dk_sectors = 0, dk_cyls = 612, dk_heads = 4, dk_spt = 17,
                  dk_present = True\<rparr>,
       m_scr := script_zero\<lparr>q_gateoff := -1\<rparr>, m_stop_port := 0x0FFE, m_park_watch := True\<rparr>"

definition halt_config :: Machine where
  "halt_config =
     (let ch = \<lparr>ch_idle = False, ch_port = True, ch_break = False, ch_mark = False, ch_park = True\<rparr>;
          m = upd_rtc (\<lambda>r. r\<lparr>r_present := False\<rparr>) (machine_attach_disk False [] (halt_rom machine_new))
      in (set_input halt_opts (arm_channels halt_opts ch (m\<lparr>m_insn_limit := 1, m_brks := []\<rparr>)))
           \<lparr>m_lr_scc := False, m_rx_overrun_on := False\<rparr>)"

lemma halt_channels: "stop_channels halt_opts =
    Some \<lparr>ch_idle = False, ch_port = True, ch_break = False, ch_mark = False, ch_park = True\<rparr>"
  by code_simp

lemma halt_seed: "seed_rtc now halt_opts m = Some (upd_rtc (\<lambda>r. r\<lparr>r_present := False\<rparr>) m)"
  by (simp add: seed_rtc_def halt_opts_def opts_default_def Let_def)

lemma halt_load: "load_media halt_start halt_opts = Some (machine_attach_disk False [] (halt_rom machine_new))"
  by (simp add: load_media_def halt_start_def halt_opts_def opts_default_def machine_load_rom_def halt_rom_def
      Let_def cong: if_cong)

lemma no_wires: "m_wire_port_on machine_new p = False" "m_any_wire machine_new = False"
  by (simp_all add: machine_new_def machine_zero_def upd_rtc_def rtc_set_time_def Let_def)


lemma wires_none: "attach_wires ps halt_opts m W = Inr (m, W)"
  by (induction ps) (simp_all add: halt_opts_def opts_default_def)

lemma halt_fields: "o_wire halt_opts = None" "o_lr_scc halt_opts = False" "o_rx_overrun halt_opts = False"
  "o_wireN halt_opts p = None" "o_max halt_opts = 1" "o_brks halt_opts = []" "st_wires halt_start = wires_zero"
  by (simp_all add: halt_opts_def opts_default_def halt_start_def)

lemma halt_ports: "m_wire_port_on halt_config p = False"
  by (simp add: halt_config_def set_input_def arm_channels_def upd_scr_def
      upd_rtc_def machine_attach_disk_def halt_rom_def no_wires Let_def)

lemma halt_configure: "configure halt_start halt_opts = Inr (halt_config, wires_zero)"
  using halt_ports
  by (simp add: configure_def halt_load halt_seed halt_channels set_wires_def halt_fields wires_none Let_def
     list_ex_iff halt_config_def)



lemma halt_config_base: "halt_config = (halt_base (m_rtc halt_config))\<lparr>m_mmu := mmu_reset mmu_zero\<rparr>"
  by (simp add: halt_config_def halt_base_def machine_new_def rtc_set_time_def upd_rtc_def machine_zero_def
      Let_def set_input_def arm_channels_def upd_scr_def machine_attach_disk_def halt_rom_def halt_opts_def
      opts_default_def mark_asked_def script_zero_def cong: if_cong)

lemma reset_twice: "machine_start (m\<lparr>m_mmu := mmu_reset u\<rparr>) = machine_start (m\<lparr>m_mmu := u\<rparr>)"
  by (simp add: machine_start_def mmu_reset_eq)

lemma halt_runs: "map_option (\<lambda>l. (l_over l, m_max_reached (l_m l)))
    (machine_run 2 None (machine_start ((halt_base r)\<lparr>m_mmu := mmu_zero\<rparr>))) = Some (True, True)"
  by code_simp

lemma run_ends_as_asked_witness:
  "\<exists>m ds st. main_upto [False, False] halt_start halt_args = Some (MainEnded m ds st)
    \<and> m_stop_why m = ''instruction budget (--max) exhausted'' \<and> st = 3"
proof -
  have "map_option (\<lambda>l. (l_over l, m_max_reached (l_m l))) (machine_run 2 None (machine_start halt_config))
      = Some (True, True)"
    using halt_runs halt_config_base reset_twice by metis
  then obtain l where l: "run_signalled [False, False] None (machine_start halt_config) = Some l" "l_over l"
      "m_max_reached (l_m l)"
    using run_unsignalled [of 2 None "machine_start halt_config"] by (auto simp: numeral_eq_Suc)
  have "uexec_dispatch halt_args = None" by code_simp
  then have e: "main_upto [False, False] halt_start halt_args = Some (MainEnded (l_m l) (dbg_finish (l_m l) []) (main_status halt_opts (l_m l)))"
    using l by (simp add: main_upto_def halt_parse halt_configure) (simp add: halt_opts_def opts_default_def)
  have "main_status halt_opts (l_m l) = 3"
    using l(3) by (simp add: main_status_def halt_opts_def)
  with run_ends_as_asked [OF e] e show ?thesis by auto
qed

end
