(* ===== verification/Spec2Isabelle.thy ===== *)
theory Spec2Isabelle
  imports Alu_Props Mmu_Props Decode_Props Phys_Props Scc_Props Scc_History Cpu_Reg_Props Trap_Props Cpu_Mode
    Run_Loop Address_Inv Repeat_Props Rtc_Seed Lout_Props Sys_Files Exec_Frame Stop_Inv
    Wire_Props Run_Live Park_Props Main_Props
begin

text \<open>
  A model of the Commodore 900 emulator and its correctness.

  \<^bold>\<open>The program.\<close>  The emulator runs the Commodore 900, a Z8001 machine: a processor
  (\<open>src/src/cpu.c\<close>) that decodes its instructions from a table (\<open>decode.c\<close>), computes in a
  bit-serial arithmetic unit (\<open>alu.c\<close>) and reaches memory through a memory-management unit
  (\<open>mmu.c\<close>); and a bus (\<open>bus.c\<close>) with ROM and RAM, three serial controllers, a disk
  controller, a clock module, the CIO chips that aggregate interrupts, and the run loop.
  \<open>main.c\<close> builds a machine from the command line and runs it, \<open>debug.c\<close> has its breakpoints
  and memory windows, \<open>wire.c\<close> the sockets behind its serial ports.  Apart from all that,
  \<open>uexec.c\<close> runs a linked \<open>l.out\<close> program on the same processor as a process, without ROM or
  devices, and services its COHERENT system calls on the host.  All state is in one record
  \<open>Machine\<close> (\<open>emu.h\<close>), which every handler takes and returns; here a handler is a function in the
  state monad over it (type \<open>handler\<close>).

  \<^bold>\<open>Conventions.\<close>  C integers are words of their width, and a cast is \<open>ucast\<close>; int and long values
  of the host code are \<open>int\<close>, cut to 32 bits where the code assigns to an \<open>int\<close>.  An array is a
  function of its index, a buffer that grows is a list, a string is its bytes without the NUL.
  Every early return and error is a branch: \<open>None\<close> or \<open>Inl\<close> with the reason.  Names are those of
  the source.  A piece of a long C function that has a name of its own here is used by the
  definition of the whole function, in the order of the source.

  \<^bold>\<open>Theories and sources.\<close>
  \<^item> Shared: \<open>Prelude\<close> (words, loops, the locales of a named part of a state), \<open>Emu_Types\<close>
    (declarations of \<open>emu.h\<close>), \<open>Proc_State\<close> and \<open>Machine\<close> (the state, handlers and the
    locale of step relations), \<open>Cstr\<close> (the C string functions that the sources call).
  \<^item> \<open>alu.c\<close>: \<open>Alu\<close> has the code, with its loops over bits; \<open>Alu_Arith\<close>, \<open>Alu_Shift\<close> and
    \<open>Alu_Misc\<close> relate the loops to arithmetic; \<open>Alu_Props\<close> states each operation.
  \<^item> \<open>mmu.c\<close>: \<open>Mmu\<close>, \<open>Mmu_Lemmas\<close> (invariant, operations, reachable states), \<open>Mmu_Props\<close>.
  \<^item> \<open>decode.c\<close>: \<open>Decode\<close> builds the table and looks instructions up; \<open>Decode_Lemmas\<close> and
    \<open>Decode_Props\<close> check lengths and well-formedness over all of it.
  \<^item> \<open>bus.c\<close>: \<open>Phys_Mem\<close>, \<open>Phys_Props\<close> (memory); \<open>Scc\<close>, \<open>Scc_Props\<close>, \<open>Scc_History\<close>
    (serial controllers, stop mark, histories of the receivers); \<open>Hdc\<close> (disk controller); \<open>Rtc\<close>, \<open>Rtc_Props\<close>, \<open>Rtc_Seed\<close> (clock module);
    \<open>Bus_Io\<close> (I/O space, CIO chips, \<open>machine_new\<close>, ROM loading); \<open>Run_Loop\<close> (park watch,
    scripted input, tick, interrupt aggregation, \<open>machine_run\<close>, and \<open>run_signalled\<close>, the same loop
    when the handler \<open>on_sigint\<close> of \<open>main.c\<close> interrupts it).
  \<^item> \<open>cpu.c\<close>: \<open>Cpu_Regs\<close>, \<open>Cpu_Reg_Props\<close> (registers, flags, stack banks); \<open>Cpu_Mem\<close> (accesses
    and operands); \<open>Cpu_Exec\<close> (one handler per instruction class); \<open>Cpu_Step\<close> (interrupts,
    \<open>cpu_reset\<close>, fetch, repeat loop, \<open>cpu_step\<close>).  Properties: \<open>Trap_Props\<close>, \<open>Cpu_Mode\<close>,
    \<open>Address_Inv\<close>, \<open>Repeat_Props\<close>.
  \<^item> \<open>uexec.c\<close>: \<open>User_Mem\<close> (guest memory of a process), \<open>Lout\<close> and \<open>Lout_Props\<close> (loader),
    \<open>Sys_Calls\<close> and \<open>Sys_Dispatch\<close> (\<open>sys_hook\<close>), \<open>User_Run\<close> (the three user modes);
    \<open>Sys_Props\<close>, \<open>Sys_Files\<close>, \<open>Exec_Frame\<close>.
  \<^item> \<open>debug.c\<close>: \<open>Debug\<close>, with the breakpoint test in \<open>Cpu_Step\<close>.  \<open>wire.c\<close>: \<open>Wire\<close>, \<open>Wire_Props\<close>.
    \<open>main.c\<close>: \<open>Main_Opts\<close>, \<open>Main_Props\<close>.
  \<^item> The composed system: \<open>Bus_Frame\<close> (what the devices leave alone), \<open>Handler_Frame\<close> (what an
    instruction cycle leaves alone), \<open>Stop_Inv\<close>, \<open>Run_Live\<close> and \<open>Park_Props\<close> (how a run ends).

  \<^bold>\<open>Interfaces.\<close>  \<open>lens\<close>, \<open>lens_pair\<close> and \<open>lens_swap\<close> are the laws of a register or of a byte of a
  descriptor; they are interpreted for the byte, word, long and quad registers, the stack
  banks and the MMU descriptor.  \<open>step_relation\<close> is a relation that sequencing keeps, so that a
  fact of every handler follows from facts of its steps; \<open>bus_relation\<close> extends it to the device
  operations and \<open>machine_relation\<close> to whole instruction cycles.  They are interpreted for
  the address invariant, the privilege of a normal-mode program, the count register of a
  block instruction, the CPU as the bus leaves it, the confinement of a system call, the
  state that a trap looks at, and the stop channels.  \<open>poll_source\<close> is what the serial ports ask
  of the host, interpreted for the lists of the machine model and for the sockets.

  \<^bold>\<open>What the lemmas show.\<close>
  \<^item> Arithmetic: results and flags of the arithmetic unit are those of integer arithmetic at every
    width; a comparison makes the condition codes order signed and unsigned numbers.
  \<^item> Memory: translation and protection of the MMU as arithmetic, the fast path equal to the
    full check, and the invariant of all reachable states; reading back physical stores.
  \<^item> Processor: every decoded control word is well formed; an interrupt and \<open>IRET\<close> restore
    the program on an untranslated, clean, even segmented system stack; normal mode cannot leave its confinement; addresses stay well formed in every
    run; repeated instructions end within as many passes as their count register
    says, except those that count with their own pointer, of
    which one is shown to run for ever.
  \<^item> Devices: over any history, what the guest has read from a port is what arrived there less what
    is still waiting, when the overrun option is off; the stop mark fires exactly on its text; the clock
    refines a calendar and its seed is the encoding of a civil date, with the weekday that counting
    days from 1 January 1901 gives.
  \<^item> Host: a buffered socket endpoint refines the list of poll answers in the machine model.
  \<^item> Runs: a run ends only for a reason that the command line selected or on a signal, and a guest that nothing
    can wake ends it within a stated number of iterations; the park watch fires exactly on the
    guests that it means to catch.
  \<^item> Processes: the loader puts every section at the link address that mode and sizes in
    the header give (\<open>link_addr\<close>, independent of the layout code) and touches nothing else; a
    system call is confined to the memory, results and descriptors of its process; the argument
    frame and directory images read back as the guest's library parses them.

  \<^bold>\<open>Loops, bounds and fuel.\<close>  \<open>machine_run n\<close> is the endless loop of the source cut off after \<open>n\<close>
  iterations, and \<open>run_signalled\<close> after as many as its list of signal marks is long; statements hold for
  every \<open>n\<close>, and the one on a dead guest names an \<open>n\<close> that is enough.  The
  repeat loop of \<open>cpu_step\<close> is \<open>while_option\<close>, so that not returning is a value; \<open>urun\<close> has
  the code's own budget.  \<open>parse_args\<close>, \<open>feed_script\<close> and the string scans are total, with
  measures.  The connection attempts of \<open>wire_open_n\<close> are the 50 of the source.  The ghost field \<open>m_ub\<close>
  records an access of the disk transfer outside the RAM array, which C leaves undefined.

  \<^bold>\<open>The host.\<close>  The keyboard and the sockets are, for the machine, a list of poll answers for each
  port and a log of the characters sent; \<open>Wire_Props\<close> justifies this for the sockets.  For system
  calls the host is an oracle on the log of the calls made so far (\<open>Host\<close>), so that it may
  answer in any way and change with time.  Files are byte lists.

  \<^bold>\<open>Not modelled.\<close>  What is printed (progress and instruction traces, banners, \<open>rtc_report\<close>,
  usage), terminal set-up and the installation of the signal handler; \<open>hostfs.h\<close>, which maps POSIX names to Windows ones; the
  self-tests (\<open>selftest\<close> of \<open>main.c\<close>, \<open>park_selftest\<close>, \<open>stop_mark_selftest\<close>,
  \<open>lout_layout_selftest\<close>), which drive functions that are modelled; the environment
  switches that only log; the Windows branches of \<open>wire.c\<close>; \<open>tools/disk.py\<close>, which is not part of
  the emulator.
\<close>

end
